(* ===== verification/Prelude.thy ===== *)
theory Prelude
  imports Complex_Main "HOL-Library.Multiset" "HOL-Library.AList" "HOL-Library.Log_Nat"
begin

text \<open>
  What the components share: JavaScript strings as lists of UTF-16 code units, numbers with
  \<open>NaN\<close> and the infinities, JSON values, thrown errors, \<open>trim\<close> and the whitespace regular
  expressions, stable sorting with a comparator, insertion-ordered sets and maps, and the
  locales that state the interfaces several components rely on.
\<close>

named_theorems js_defs \<open>definitions of the string, number and collection helpers\<close>
named_theorems wf_intros \<open>preservation of well-formedness by the operations\<close>

section \<open>Strings\<close>

text \<open>
  A JavaScript string is a sequence of 16-bit code units, here naturals below 65536;
  \<open>js\<close> turns an ASCII literal into one. \<open>length\<close> is JavaScript's \<open>length\<close>,
  \<open>take\<close>/\<open>drop\<close> are \<open>slice\<close>.
\<close>

type_synonym code_unit = nat
type_synonym jstr = "code_unit list"

definition js :: "string \<Rightarrow> jstr" where
  "js s = map of_char s"

lemma js_Nil [simp]: "js [] = []"
  by (simp add: js_def)

lemma js_Cons: "js (c # cs) = of_char c # js cs"
  by (simp add: js_def)

lemma length_js [simp]: "length (js s) = length s"
  by (simp add: js_def)

lemma js_inject [simp]: "js s = js t \<longleftrightarrow> s = t"
  by (simp add: js_def inj_map_eq_map inj_def)

lemma js_append: "js (s @ t) = js s @ js t"
  by (simp add: js_def)

lemma js_eq_Nil_iff [simp]: "js s = [] \<longleftrightarrow> s = []" "[] = js s \<longleftrightarrow> s = []"
  by (auto simp: js_def)

definition wf_jstr :: "jstr \<Rightarrow> bool" where
  "wf_jstr s \<longleftrightarrow> (\<forall>c \<in> set s. c < 65536)"

text \<open>
  The characters \<open>trim\<close> strips and \<open>\s\<close> matches: WhiteSpace and LineTerminator of the
  ECMAScript grammar.
\<close>

definition is_ws :: "code_unit \<Rightarrow> bool" where
  "is_ws c \<longleftrightarrow> (9 \<le> c \<and> c \<le> 13) \<or> c = 32 \<or> c = 160 \<or> c = 5760 \<or> (8192 \<le> c \<and> c \<le> 8202)
     \<or> c = 8232 \<or> c = 8233 \<or> c = 8239 \<or> c = 8287 \<or> c = 12288 \<or> c = 65279"

definition js_trim_end :: "jstr \<Rightarrow> jstr" where
  "js_trim_end s = rev (dropWhile is_ws (rev s))"

definition js_trim :: "jstr \<Rightarrow> jstr" where
  "js_trim s = js_trim_end (dropWhile is_ws s)"

lemma hd_dropWhile_not: "dropWhile P xs \<noteq> [] \<Longrightarrow> \<not> P (hd (dropWhile P xs))"
  by (rule hd_dropWhile)

lemma js_trim_end_last: "js_trim_end s \<noteq> [] \<Longrightarrow> \<not> is_ws (last (js_trim_end s))"
  by (simp add: js_trim_end_def last_rev hd_dropWhile)

lemma js_trim_end_prefix: "\<exists>zs. s = js_trim_end s @ zs \<and> (\<forall>c \<in> set zs. is_ws c)"
proof -
  have "rev s = takeWhile is_ws (rev s) @ dropWhile is_ws (rev s)" by simp
  then have "s = rev (dropWhile is_ws (rev s)) @ rev (takeWhile is_ws (rev s))"
    by (metis rev_append rev_rev_ident)
  then show ?thesis
    by (intro exI [of _ "rev (takeWhile is_ws (rev s))"])
      (auto simp: js_trim_end_def dest: set_takeWhileD)
qed

lemma js_trim_end_hd: "js_trim_end s \<noteq> [] \<Longrightarrow> hd (js_trim_end s) = hd s"
  by (metis hd_append2 js_trim_end_prefix)

lemma js_trim_end_id: "s = [] \<or> \<not> is_ws (last s) \<Longrightarrow> js_trim_end s = s"
  by (cases s rule: rev_cases) (auto simp: js_trim_end_def)

lemma js_trim_last: "js_trim s \<noteq> [] \<Longrightarrow> \<not> is_ws (last (js_trim s))"
  by (simp add: js_trim_def js_trim_end_last)

lemma js_trim_hd: "js_trim s \<noteq> [] \<Longrightarrow> \<not> is_ws (hd (js_trim s))"
proof -
  assume ne: "js_trim s \<noteq> []"
  then have "dropWhile is_ws s \<noteq> []"
    by (metis js_trim_def js_trim_end_def dropWhile.simps(1) rev.simps(1))
  with ne show ?thesis
    by (simp add: js_trim_def js_trim_end_hd hd_dropWhile)
qed

definition trimmed :: "jstr \<Rightarrow> bool" where
  "trimmed s \<longleftrightarrow> s = [] \<or> (\<not> is_ws (hd s) \<and> \<not> is_ws (last s))"

lemma trimmed_js_trim [simp, intro]: "trimmed (js_trim s)"
  by (auto simp: trimmed_def js_trim_hd js_trim_last)

lemma js_trim_trimmed: "trimmed s \<Longrightarrow> js_trim s = s"
  by (cases s) (auto simp: trimmed_def js_trim_def js_trim_end_id)

lemma js_trim_idem [simp]: "js_trim (js_trim s) = js_trim s"
  by (simp add: js_trim_trimmed)

lemma length_js_trim: "length (js_trim s) \<le> length s"
proof -
  have "length (js_trim_end t) \<le> length t" for t
    by (metis js_trim_end_prefix length_append le_add1)
  then show ?thesis
    by (metis js_trim_def length_dropWhile_le order_trans)
qed

lemma js_trim_Nil_iff: "js_trim s = [] \<longleftrightarrow> (\<forall>c \<in> set s. is_ws c)"
proof
  assume "\<forall>c \<in> set s. is_ws c"
  then have "dropWhile is_ws s = []" by simp
  then show "js_trim s = []" by (simp only: js_trim_def js_trim_end_def) simp
next
  assume "js_trim s = []"
  then have "\<forall>c \<in> set (dropWhile is_ws s). is_ws c"
    by (metis append_Nil js_trim_def js_trim_end_prefix)
  moreover have "dropWhile is_ws s \<noteq> [] \<Longrightarrow> \<not> is_ws (hd (dropWhile is_ws s))"
    by (rule hd_dropWhile)
  ultimately have "dropWhile is_ws s = []"
    by (cases "dropWhile is_ws s") auto
  then show "\<forall>c \<in> set s. is_ws c" by simp
qed

text \<open>The two replacements \<open>s.replace(/\s+/g, " ")\<close>: every run of whitespace becomes one space.\<close>

function collapse_ws :: "jstr \<Rightarrow> jstr" where
  "collapse_ws [] = []"
| "collapse_ws (c # cs) =
     (if is_ws c then 32 # collapse_ws (dropWhile is_ws cs) else c # collapse_ws cs)"
  by pat_completeness auto
termination
  by (relation "measure length") (auto simp: le_imp_less_Suc length_dropWhile_le)


lemma collapse_ws_Nil_iff [simp]: "collapse_ws s = [] \<longleftrightarrow> s = []"
  by (cases s) auto

text \<open>A string whose only whitespace is single spaces: what \<open>collapse_ws\<close> produces.\<close>

fun single_spaced :: "jstr \<Rightarrow> bool" where
  "single_spaced [] = True"
| "single_spaced [c] = (is_ws c \<longrightarrow> c = 32)"
| "single_spaced (c # d # cs) =
     ((is_ws c \<longrightarrow> c = 32 \<and> \<not> is_ws d) \<and> single_spaced (d # cs))"

lemma single_spaced_Cons:
  "single_spaced (c # cs) \<longleftrightarrow>
     (is_ws c \<longrightarrow> c = 32 \<and> (cs = [] \<or> \<not> is_ws (hd cs))) \<and> single_spaced cs"
  by (cases cs) auto

lemma is_ws_space [simp]: "is_ws 32"
  by (simp add: is_ws_def)

lemma collapse_ws_hd: "s \<noteq> [] \<Longrightarrow> is_ws (hd (collapse_ws s)) \<longleftrightarrow> is_ws (hd s)"
  by (cases s) auto

lemma single_spaced_collapse_ws [simp, intro]: "single_spaced (collapse_ws s)"
proof (induction s rule: collapse_ws.induct)
  case (2 c cs)
  show ?case
  proof (cases "is_ws c")
    case True
    have "dropWhile is_ws cs = [] \<or> \<not> is_ws (hd (collapse_ws (dropWhile is_ws cs)))"
      using collapse_ws_hd hd_dropWhile by blast
    with True "2.IH"(1) show ?thesis
      by (auto simp: single_spaced_Cons simp del: dropWhile_eq_Nil_conv)
  next
    case False
    with "2.IH"(2) show ?thesis by (simp add: single_spaced_Cons)
  qed
qed simp

lemma collapse_ws_single_spaced: "single_spaced s \<Longrightarrow> collapse_ws s = s"
proof (induction s)
  case (Cons c cs)
  have "is_ws c \<Longrightarrow> dropWhile is_ws cs = cs"
    using Cons.prems by (cases cs) auto
  with Cons show ?case by (auto simp: single_spaced_Cons)
qed simp

lemma collapse_ws_idem [simp]: "collapse_ws (collapse_ws s) = collapse_ws s"
  by (simp add: collapse_ws_single_spaced)

lemma last_collapse_ws: "s \<noteq> [] \<Longrightarrow> \<not> is_ws (last s) \<Longrightarrow> last (collapse_ws s) = last s"
proof (induction s rule: collapse_ws.induct)
  case (2 c cs)
  show ?case
  proof (cases "is_ws c")
    case True
    with "2.prems" have ne: "cs \<noteq> []" and lst: "\<not> is_ws (last cs)" by (auto split: if_splits)
    then have dne: "dropWhile is_ws cs \<noteq> []" by (meson dropWhile_eq_Nil_conv last_in_set)
    have "last (dropWhile is_ws cs) = last cs"
      by (metis dne last_appendR takeWhile_dropWhile_id)
    with True "2.IH"(1) ne lst dne show ?thesis
      by (simp del: dropWhile_eq_Nil_conv)
  next
    case False
    with "2" show ?thesis by (cases "cs = []") auto
  qed
qed simp

lemma trimmed_collapse_ws: "trimmed s \<Longrightarrow> trimmed (collapse_ws s)"
  by (cases "s = []") (auto simp: trimmed_def collapse_ws_hd last_collapse_ws)

text \<open>\<open>name.trim().replace(/\s+/g, " ")\<close>, the normal form of category and tag names.\<close>

definition normal_name :: "jstr \<Rightarrow> jstr" where
  "normal_name s = collapse_ws (js_trim s)"

lemma normal_name_trimmed [simp, intro]: "trimmed (normal_name s)"
  by (simp add: normal_name_def trimmed_collapse_ws)

lemma normal_name_single_spaced [simp, intro]: "single_spaced (normal_name s)"
  by (simp add: normal_name_def)

lemma normal_name_idem [simp]: "normal_name (normal_name s) = normal_name s"
  by (metis normal_name_def normal_name_trimmed js_trim_trimmed collapse_ws_idem)

lemma normal_name_Nil_iff: "normal_name s = [] \<longleftrightarrow> (\<forall>c \<in> set s. is_ws c)"
  by (simp add: normal_name_def js_trim_Nil_iff)

text \<open>\<open>startsWith\<close>, \<open>includes\<close>, \<open>split\<close> with a one-character separator.\<close>

fun starts_with :: "jstr \<Rightarrow> jstr \<Rightarrow> bool" where
  "starts_with s [] = True"
| "starts_with [] (p # ps) = False"
| "starts_with (c # cs) (p # ps) = (c = p \<and> starts_with cs ps)"

lemma starts_with_iff: "starts_with s p \<longleftrightarrow> (\<exists>r. s = p @ r)"
  by (induction s p rule: starts_with.induct) auto

lemma starts_with_append [simp]: "starts_with (p @ r) p"
  by (auto simp: starts_with_iff)

fun js_includes :: "jstr \<Rightarrow> jstr \<Rightarrow> bool" where
  "js_includes [] p = (p = [])"
| "js_includes (c # cs) p = (starts_with (c # cs) p \<or> js_includes cs p)"

lemma js_includes_iff: "js_includes s p \<longleftrightarrow> (\<exists>a b. s = a @ p @ b)"
proof (induction s)
  case (Cons c cs)
  show ?case
  proof
    assume "js_includes (c # cs) p"
    with Cons.IH show "\<exists>a b. c # cs = a @ p @ b"
      by (metis append_Cons append_Nil js_includes.simps(2) starts_with_iff)
  next
    assume "\<exists>a b. c # cs = a @ p @ b"
    then obtain a b where ab: "c # cs = a @ p @ b" by blast
    show "js_includes (c # cs) p"
    proof (cases a)
      case Nil
      with ab have "starts_with (c # cs) p" by (simp add: starts_with_iff)
      then show ?thesis by simp
    next
      case (Cons x xs)
      with ab Cons.IH show ?thesis by auto
    qed
  qed
qed auto

fun split_on :: "code_unit \<Rightarrow> jstr \<Rightarrow> jstr list" where
  "split_on d [] = [[]]"
| "split_on d (c # cs) =
     (if c = d then [] # split_on d cs
      else (case split_on d cs of [] \<Rightarrow> [[c]] | w # ws \<Rightarrow> (c # w) # ws))"

fun join_with :: "jstr \<Rightarrow> jstr list \<Rightarrow> jstr" where
  "join_with sep [] = []"
| "join_with sep [w] = w"
| "join_with sep (w # v # ws) = w @ sep @ join_with sep (v # ws)"

lemma split_on_not_Nil [simp]: "split_on d s \<noteq> []"
  by (induction s) (auto split: list.splits)

lemma split_on_no_sep: "d \<notin> set s \<Longrightarrow> split_on d s = [s]"
  by (induction s) auto

lemma split_on_append: "d \<notin> set w \<Longrightarrow> split_on d (w @ d # rest) = w # split_on d rest"
  by (induction w) auto

lemma split_join: "(\<forall>w \<in> set ws. d \<notin> set w) \<Longrightarrow> ws \<noteq> [] \<Longrightarrow> split_on d (join_with [d] ws) = ws"
  by (induction "[d]" ws rule: join_with.induct) (auto simp: split_on_no_sep split_on_append)


section \<open>Numbers\<close>

text \<open>
  A number is \<open>NaN\<close>, an infinity or a finite value. Finite values are rationals; where the
  code makes a number from digits (\<open>parseInt\<close>, \<open>Number\<close>) the value is rounded to the
  nearest double, ties to even, and overflows to the infinity. The two zeros are one value.
\<close>

datatype jsnum = NaN | PosInf | NegInf | Fin rat

abbreviation jint :: "int \<Rightarrow> jsnum" where
  "jint n \<equiv> Fin (of_int n)"

fun num_is_finite :: "jsnum \<Rightarrow> bool" where
  "num_is_finite (Fin q) = True"
| "num_is_finite _ = False"

fun num_less :: "jsnum \<Rightarrow> jsnum \<Rightarrow> bool" where
  "num_less (Fin a) (Fin b) = (a < b)"
| "num_less NegInf (Fin b) = True"
| "num_less NegInf PosInf = True"
| "num_less (Fin a) PosInf = True"
| "num_less _ _ = False"

definition num_max :: "jsnum \<Rightarrow> jsnum \<Rightarrow> jsnum" where
  "num_max a b = (if a = NaN \<or> b = NaN then NaN else if num_less a b then b else a)"

definition num_min :: "jsnum \<Rightarrow> jsnum \<Rightarrow> jsnum" where
  "num_min a b = (if a = NaN \<or> b = NaN then NaN else if num_less b a then b else a)"

fun num_trunc :: "jsnum \<Rightarrow> jsnum" where
  "num_trunc (Fin q) = jint (if 0 \<le> q then \<lfloor>q\<rfloor> else \<lceil>q\<rceil>)"
| "num_trunc x = x"

definition trunc_int :: "jsnum \<Rightarrow> int option" where
  "trunc_int x = (case x of Fin q \<Rightarrow> Some (if 0 \<le> q then \<lfloor>q\<rfloor> else \<lceil>q\<rceil>) | _ \<Rightarrow> None)"

lemma num_trunc_jint [simp]: "num_trunc (jint n) = jint n"
  by simp

lemma num_max_jint [simp]: "num_max (jint a) (jint b) = jint (max a b)"
  by (simp add: num_max_def max_def)

lemma num_min_jint [simp]: "num_min (jint a) (jint b) = jint (min a b)"
  by (simp add: num_min_def min_def)

text \<open>\<open>Math.min(hi, Math.max(lo, Math.trunc(x)))\<close> of a finite \<open>x\<close> is an integer in the range.\<close>

lemma clamp_trunc_range:
  assumes "num_is_finite x" and "lo \<le> hi"
  shows "\<exists>n. num_min (jint hi) (num_max (jint lo) (num_trunc x)) = jint n \<and> lo \<le> n \<and> n \<le> hi"
proof -
  from assms(1) obtain q where "x = Fin q" by (cases x) auto
  then obtain m where m: "num_trunc x = jint m" by simp
  show ?thesis
    unfolding m num_max_jint num_min_jint using assms(2)
    by (intro exI [of _ "min hi (max lo m)"]) auto
qed

text \<open>
  Numbers are totally ordered with \<open>NaN\<close> last, which agrees with \<open><\<close> wherever the code
  compares numbers that are not \<open>NaN\<close>; \<open>num_compare\<close> is the sign of a difference, all that
  a comparator's result is read for.
\<close>

fun num_rank :: "jsnum \<Rightarrow> nat" where
  "num_rank NegInf = 0"
| "num_rank (Fin q) = 1"
| "num_rank PosInf = 2"
| "num_rank NaN = 3"

fun num_le :: "jsnum \<Rightarrow> jsnum \<Rightarrow> bool" where
  "num_le (Fin a) (Fin b) = (a \<le> b)"
| "num_le x y = (num_rank x \<le> num_rank y)"

instantiation jsnum :: linorder
begin

definition less_eq_jsnum :: "jsnum \<Rightarrow> jsnum \<Rightarrow> bool" where
  "less_eq_jsnum x y = num_le x y"

definition less_jsnum :: "jsnum \<Rightarrow> jsnum \<Rightarrow> bool" where
  "less_jsnum x y = (num_le x y \<and> \<not> num_le y x)"

instance
proof
  fix x y z :: jsnum
  show "x < y \<longleftrightarrow> x \<le> y \<and> \<not> y \<le> x" by (simp add: less_eq_jsnum_def less_jsnum_def)
  show "x \<le> x" by (cases x) (simp_all add: less_eq_jsnum_def)
  show "x \<le> y \<Longrightarrow> y \<le> z \<Longrightarrow> x \<le> z"
    by (cases x; cases y; cases z) (simp_all add: less_eq_jsnum_def)
  show "x \<le> y \<Longrightarrow> y \<le> x \<Longrightarrow> x = y"
    by (cases x; cases y) (simp_all add: less_eq_jsnum_def)
  show "x \<le> y \<or> y \<le> x" by (cases x; cases y) (auto simp: less_eq_jsnum_def)
qed

end

lemma num_less_iff: "x \<noteq> NaN \<Longrightarrow> y \<noteq> NaN \<Longrightarrow> num_less x y \<longleftrightarrow> x < y"
  by (cases x; cases y) (auto simp: less_jsnum_def)

lemma jint_le_iff [simp]: "jint a \<le> jint b \<longleftrightarrow> a \<le> b"
  by (simp add: less_eq_jsnum_def)

definition num_compare :: "jsnum \<Rightarrow> jsnum \<Rightarrow> int" where
  "num_compare x y = (if x < y then -1 else if x = y then 0 else 1)"

lemma num_compare_le [simp]: "num_compare x y \<le> 0 \<longleftrightarrow> x \<le> y"
  by (auto simp: num_compare_def)

definition is_digit :: "code_unit \<Rightarrow> bool" where
  "is_digit c \<longleftrightarrow> 48 \<le> c \<and> c \<le> 57"

definition digits_value :: "jstr \<Rightarrow> nat" where
  "digits_value ds = foldl (\<lambda>n c. 10 * n + (c - 48)) 0 ds"

text \<open>The decimal text of a natural and of an integer, as \<open>String(n)\<close> prints it below \<open>10^21\<close>.\<close>

function nat_str :: "nat \<Rightarrow> jstr" where
  "nat_str n = (if n < 10 then [48 + n] else nat_str (n div 10) @ [48 + n mod 10])"
  by pat_completeness auto
termination
  by (relation "measure id") auto

declare nat_str.simps [simp del]

definition int_str :: "int \<Rightarrow> jstr" where
  "int_str z = (if z < 0 then 45 # nat_str (nat (- z)) else nat_str (nat z))"

lemma digits_value_snoc: "digits_value (ds @ [c]) = 10 * digits_value ds + (c - 48)"
  by (simp add: digits_value_def)

lemma digits_value_nat_str [simp]: "digits_value (nat_str n) = n"
proof (induction n rule: nat_str.induct)
  case (1 n)
  show ?case
    by (cases "n < 10") (simp_all add: nat_str.simps [of n] digits_value_snoc "1.IH",
        simp add: digits_value_def)
qed

lemma nat_str_digits: "c \<in> set (nat_str n) \<Longrightarrow> is_digit c"
proof (induction n arbitrary: c rule: nat_str.induct)
  case (1 n)
  have d: "is_digit (48 + n mod 10)" by (simp add: is_digit_def)
  show ?case
  proof (cases "n < 10")
    case True
    with "1.prems" show ?thesis by (simp add: nat_str.simps [of n] is_digit_def)
  next
    case False
    with "1.prems" consider "c \<in> set (nat_str (n div 10))" | "c = 48 + n mod 10"
      by (auto simp: nat_str.simps [of n])
    then show ?thesis using False d by cases (auto intro: "1.IH")
  qed
qed

lemma nat_str_not_Nil [simp]: "nat_str n \<noteq> []"
  by (simp add: nat_str.simps [of n])

lemma nat_str_inject [simp]: "nat_str m = nat_str n \<longleftrightarrow> m = n"
  by (metis digits_value_nat_str)

definition round_double :: "nat \<Rightarrow> jsnum" where
  "round_double n =
     (if n < 2 ^ 53 then jint (int n)
      else
        let m = 2 ^ (floorlog 2 n - 53);
            q = n div m;
            r = n mod m;
            q' = (if 2 * r < m \<or> (2 * r = m \<and> even q) then q else Suc q)
        in if q' * m < 2 ^ 1024 then jint (int (q' * m)) else PosInf)"

lemma round_double_small: "n < 2 ^ 53 \<Longrightarrow> round_double n = jint (int n)"
  by (simp add: round_double_def)

fun num_neg :: "jsnum \<Rightarrow> jsnum" where
  "num_neg NaN = NaN"
| "num_neg PosInf = NegInf"
| "num_neg NegInf = PosInf"
| "num_neg (Fin q) = Fin (- q)"

text \<open>
  \<open>Number.parseInt(s, 10)\<close>: leading whitespace and one sign are skipped, the longest run of
  digits is read, and no digit at all gives \<open>NaN\<close>.
\<close>

definition parse_digits :: "jstr \<Rightarrow> jsnum" where
  "parse_digits u =
     (let ds = takeWhile is_digit u
      in if ds = [] then NaN else round_double (digits_value ds))"

fun parse_signed :: "jstr \<Rightarrow> jsnum" where
  "parse_signed (c # u) =
     (if c = 45 then num_neg (parse_digits u)
      else if c = 43 then parse_digits u
      else parse_digits (c # u))"
| "parse_signed [] = NaN"

definition parse_int :: "jstr \<Rightarrow> jsnum" where
  "parse_int s = parse_signed (dropWhile is_ws s)"

lemma is_digit_not_ws: "is_digit c \<Longrightarrow> \<not> is_ws c"
  by (auto simp: is_digit_def is_ws_def)

lemma parse_int_digits:
  assumes "ds \<noteq> []" and "\<forall>c \<in> set ds. is_digit c"
  shows "parse_int ds = round_double (digits_value ds)"
proof -
  obtain c cs where ds: "ds = c # cs" using assms(1) by (cases ds) auto
  have c: "is_digit c" using assms(2) ds by simp
  have "dropWhile is_ws ds = ds" using ds is_digit_not_ws [OF c] by simp
  moreover have "takeWhile is_digit ds = ds" using assms(2) by (simp add: takeWhile_eq_all_conv)
  moreover have "c \<noteq> 45" and "c \<noteq> 43" using c by (auto simp: is_digit_def)
  ultimately show ?thesis using ds by (simp add: parse_int_def parse_digits_def)
qed

lemma parse_digits_nat_str: "n < 2 ^ 53 \<Longrightarrow> parse_digits (nat_str n) = jint (int n)"
proof -
  assume "n < 2 ^ 53"
  moreover have "takeWhile is_digit (nat_str n) = nat_str n"
    by (simp add: takeWhile_eq_all_conv nat_str_digits)
  ultimately show ?thesis
    unfolding parse_digits_def Let_def by (simp only: nat_str_not_Nil if_False
        digits_value_nat_str round_double_small)
qed

lemma parse_int_nat_str: "n < 2 ^ 53 \<Longrightarrow> parse_int (nat_str n) = jint (int n)"
  by (simp add: parse_int_digits nat_str_digits round_double_small)

lemma parse_int_int_str:
  assumes "\<bar>z\<bar> < 2 ^ 53"
  shows "parse_int (int_str z) = jint z"
proof (cases "z < 0")
  case True
  then have z: "nat (- z) < 2 ^ 53" using assms by simp
  have "parse_digits (nat_str (nat (- z))) = jint (- z)"
    using True z by (simp add: parse_digits_nat_str)
  with True show ?thesis
    by (simp add: int_str_def parse_int_def is_ws_def)
next
  case False
  then have "nat z < 2 ^ 53" using assms by simp
  with False show ?thesis by (simp add: int_str_def parse_int_nat_str)
qed

section \<open>JSON values, thrown errors\<close>

text \<open>
  What \<open>response.json()\<close> yields and what the code passes to \<open>JSON.stringify\<close>. Objects are
  key/value lists with distinct keys; a property read of an absent key is \<open>undefined\<close>
  (\<open>None\<close>).
\<close>

datatype json =
    JNull
  | JBool bool
  | JNum jsnum
  | JStr jstr
  | JArr "json list"
  | JObj "(jstr \<times> json) list"

fun jprop :: "json \<Rightarrow> jstr \<Rightarrow> json option" where
  "jprop (JObj kvs) k = map_of kvs k"
| "jprop _ k = None"

fun is_object :: "json \<Rightarrow> bool" where
  "is_object (JArr _) = True"
| "is_object (JObj _) = True"
| "is_object _ = False"

definition is_jstr :: "json option \<Rightarrow> bool" where
  "is_jstr v = (case v of Some (JStr _) \<Rightarrow> True | _ \<Rightarrow> False)"

definition is_jnum :: "json option \<Rightarrow> bool" where
  "is_jnum v = (case v of Some (JNum _) \<Rightarrow> True | _ \<Rightarrow> False)"

definition is_jbool :: "json option \<Rightarrow> bool" where
  "is_jbool v = (case v of Some (JBool _) \<Rightarrow> True | _ \<Rightarrow> False)"

lemmas js_type_tests = is_jstr_def is_jnum_def is_jbool_def

text \<open>
  What a call can throw: the error classes of \<open>api/client.ts\<close> and \<open>api/messages.ts\<close>, any
  other \<open>Error\<close> with its message, or a value that is no \<open>Error\<close> at all.
\<close>

datatype js_error =
    ApiRequestError jstr int "jstr option"
  | TelegramNotConnectedError
  | TelegramConnectionChangedError
  | PlainError jstr
  | NonError

fun error_message :: "js_error \<Rightarrow> jstr option" where
  "error_message (ApiRequestError m _ _) = Some m"
| "error_message TelegramNotConnectedError = Some (js ''Telegram is not connected. Delete locally only?'')"
| "error_message TelegramConnectionChangedError =
     Some (js ''This message belongs to a previous Telegram connection.'')"
| "error_message (PlainError m) = Some m"
| "error_message NonError = None"

text \<open>
  What a call does besides returning: the \<open>API_UNAUTHORIZED_EVENT\<close> that \<open>requestJson\<close>
  dispatches (with the path it carries) and the calls of \<open>notifyOrganizationChanged\<close>. An
  asynchronous call is modelled by the effects in their order and the value or error it
  settles with.
\<close>

datatype organization_resource = Categories | Tags

datatype effect = ApiUnauthorized jstr | OrganizationChanged organization_resource

type_synonym 'a promise = "effect list \<times> (js_error + 'a)"

text \<open>\<open>const x = await p; ...\<close>: an error of \<open>p\<close> ends the function.\<close>

definition await :: "'a promise \<Rightarrow> ('a \<Rightarrow> 'b promise) \<Rightarrow> 'b promise" where
  "await p k =
     (case p of
        (es, Inl e) \<Rightarrow> (es, Inl e)
      | (es, Inr x) \<Rightarrow> (es @ fst (k x), snd (k x)))"

definition throw :: "js_error \<Rightarrow> 'a promise" where
  "throw e = ([], Inl e)"

definition return_value :: "'a \<Rightarrow> 'a promise" where
  "return_value x = ([], Inr x)"

definition emit :: "effect \<Rightarrow> unit promise" where
  "emit e = ([e], Inr ())"

lemma await_throw [simp]: "await (throw e) k = throw e"
  by (simp add: await_def throw_def)

lemma await_return [simp]: "await (return_value x) k = k x"
  by (simp add: await_def return_value_def)

lemma await_Inl [simp]: "await (es, Inl e) k = (es, Inl e)"
  by (simp add: await_def)

lemma await_Inr [simp]: "await (es, Inr x) k = (es @ fst (k x), snd (k x))"
  by (simp add: await_def)

lemma snd_await: "snd (await p k) = (case snd p of Inl e \<Rightarrow> Inl e | Inr x \<Rightarrow> snd (k x))"
  by (cases p) (auto simp: await_def split: sum.splits)

lemma fst_await: "fst (await p k) = fst p @ (case snd p of Inl e \<Rightarrow> [] | Inr x \<Rightarrow> fst (k x))"
  by (cases p) (auto simp: await_def split: sum.splits)

lemmas promise_defs = throw_def return_value_def emit_def

text \<open>The \<open>toErrorMessage(error, fallback)\<close> every page repeats.\<close>

definition error_text :: "js_error \<Rightarrow> jstr \<Rightarrow> jstr" where
  "error_text e fallback =
     (case error_message e of
        Some m \<Rightarrow> if js_trim m \<noteq> [] then m else fallback
      | None \<Rightarrow> fallback)"

lemma error_text_not_blank: "js_trim fallback \<noteq> [] \<Longrightarrow> js_trim (error_text e fallback) \<noteq> []"
  by (simp add: error_text_def split: option.splits)


section \<open>Collections\<close>

text \<open>\<open>[...new Set(xs)]\<close>: the first occurrence of each element, in order.\<close>

primrec js_unique :: "'a list \<Rightarrow> 'a list" where
  "js_unique [] = []"
| "js_unique (x # xs) = x # filter (\<lambda>y. y \<noteq> x) (js_unique xs)"

lemma set_js_unique [simp]: "set (js_unique xs) = set xs"
  by (induction xs) auto

lemma distinct_js_unique [simp, intro]: "distinct (js_unique xs)"
  by (induction xs) auto

lemma js_unique_distinct: "distinct xs \<Longrightarrow> js_unique xs = xs"
  by (induction xs) (auto simp: filter_id_conv)

lemma js_unique_Nil_iff [simp]: "js_unique xs = [] \<longleftrightarrow> xs = []"
  by (cases xs) auto

lemma length_js_unique: "length (js_unique xs) \<le> length xs"
  by (induction xs) (auto intro: le_trans [OF length_filter_le])

lemma length_filter_remove1:
  "q \<in> set xs \<Longrightarrow> length (filter P (remove1 q xs)) + (if P q then 1 else 0) = length (filter P xs)"
  by (induction xs) auto

text \<open>
  \<open>Array.prototype.sort\<close> with a comparator: the stable sort (ECMAScript 2019 and later). An
  element goes before the first one it does not compare greater than.
\<close>

fun insert_cmp :: "('a \<Rightarrow> 'a \<Rightarrow> int) \<Rightarrow> 'a \<Rightarrow> 'a list \<Rightarrow> 'a list" where
  "insert_cmp cmp x [] = [x]"
| "insert_cmp cmp x (y # ys) = (if cmp x y \<le> 0 then x # y # ys else y # insert_cmp cmp x ys)"

definition js_sort :: "('a \<Rightarrow> 'a \<Rightarrow> int) \<Rightarrow> 'a list \<Rightarrow> 'a list" where
  "js_sort cmp xs = foldr (insert_cmp cmp) xs []"

lemma js_sort_Nil [simp]: "js_sort cmp [] = []"
  by (simp add: js_sort_def)

lemma js_sort_Cons [simp]: "js_sort cmp (x # xs) = insert_cmp cmp x (js_sort cmp xs)"
  by (simp add: js_sort_def)

lemma mset_insert_cmp [simp]: "mset (insert_cmp cmp x ys) = add_mset x (mset ys)"
  by (induction ys) auto

lemma mset_js_sort [simp]: "mset (js_sort cmp xs) = mset xs"
  by (induction xs) auto

lemma set_js_sort [simp]: "set (js_sort cmp xs) = set xs"
  by (metis mset_js_sort set_mset_mset)

lemma length_js_sort [simp]: "length (js_sort cmp xs) = length xs"
  by (metis mset_js_sort size_mset)

lemma distinct_map_js_sort [simp]: "distinct (map f (js_sort cmp xs)) \<longleftrightarrow> distinct (map f xs)"
  by (metis mset_js_sort mset_map mset_eq_imp_distinct_iff)

lemma js_sort_sorted: "sorted_wrt (\<lambda>x y. cmp x y \<le> 0) xs \<Longrightarrow> js_sort cmp xs = xs"
proof (induction xs)
  case (Cons x xs)
  then show ?case by (cases xs) auto
qed simp

text \<open>What \<open>sort\<close> needs of a comparator: a total preorder.\<close>

locale js_comparator =
  fixes cmp :: "'a \<Rightarrow> 'a \<Rightarrow> int"
  assumes cmp_total: "cmp x y \<le> 0 \<or> cmp y x \<le> 0"
    and cmp_trans: "cmp x y \<le> 0 \<Longrightarrow> cmp y z \<le> 0 \<Longrightarrow> cmp x z \<le> 0"
begin

lemma sorted_insert_cmp:
  "sorted_wrt (\<lambda>x y. cmp x y \<le> 0) ys \<Longrightarrow> sorted_wrt (\<lambda>x y. cmp x y \<le> 0) (insert_cmp cmp x ys)"
proof (induction ys)
  case (Cons y ys)
  have set_ins: "set (insert_cmp cmp x ys) = insert x (set ys)"
    by (metis mset_insert_cmp set_mset_add_mset_insert set_mset_mset)
  show ?case
    using Cons cmp_total [of x y] set_ins by (auto intro: cmp_trans)
qed simp

lemma sorted_js_sort: "sorted_wrt (\<lambda>x y. cmp x y \<le> 0) (js_sort cmp xs)"
  by (induction xs) (auto intro: sorted_insert_cmp)

lemma js_sort_idem: "js_sort cmp (js_sort cmp xs) = js_sort cmp xs"
  by (rule js_sort_sorted [OF sorted_js_sort])

end

text \<open>
  The keyed collections of the pages (\<open>new Map()\<close> filled in a loop): a store whose last
  write for a key wins. \<open>put_all\<close> is the loop \<open>for (const x of xs) m.set(key(x), x)\<close>.
\<close>

definition put_all :: "('k \<Rightarrow> 'v \<Rightarrow> 'm \<Rightarrow> 'm) \<Rightarrow> ('v \<Rightarrow> 'k) \<Rightarrow> 'v list \<Rightarrow> 'm \<Rightarrow> 'm" where
  "put_all put key xs m = foldl (\<lambda>acc x. put (key x) x acc) m xs"

locale keyed_map =
  fixes get :: "'m \<Rightarrow> 'k \<Rightarrow> 'v option"
    and put :: "'k \<Rightarrow> 'v \<Rightarrow> 'm \<Rightarrow> 'm"
    and keys_of :: "'m \<Rightarrow> 'k list"
  assumes get_put: "get (put k v m) k' = (if k' = k then Some v else get m k')"
    and keys_put: "set (keys_of (put k v m)) = insert k (set (keys_of m))"
    and distinct_put: "distinct (keys_of m) \<Longrightarrow> distinct (keys_of (put k v m))"
begin

lemma get_put_all:
  "get (put_all put key xs m) k =
     (case map_of (rev (map (\<lambda>x. (key x, x)) xs)) k of Some v \<Rightarrow> Some v | None \<Rightarrow> get m k)"
  unfolding put_all_def
  by (induction xs rule: rev_induct) (auto simp: get_put)

lemma keys_put_all: "set (keys_of (put_all put key xs m)) = set (keys_of m) \<union> key ` set xs"
  unfolding put_all_def by (induction xs rule: rev_induct) (auto simp: keys_put)

lemma distinct_put_all: "distinct (keys_of m) \<Longrightarrow> distinct (keys_of (put_all put key xs m))"
  unfolding put_all_def by (induction xs rule: rev_induct) (auto simp: distinct_put)

end

text \<open>
  JavaScript's \<open>Map\<close> is an association list in insertion order; \<open>set\<close> overwrites a
  present key in place, which is \<open>AList.update\<close>.
\<close>

interpretation js_map: keyed_map "map_of :: ('k \<times> 'v) list \<Rightarrow> 'k \<Rightarrow> 'v option" AList.update "map fst"
proof unfold_locales
  fix k k' :: 'k and v :: 'v and m :: "('k \<times> 'v) list"
  show "map_of (AList.update k v m) k' = (if k' = k then Some v else map_of m k')"
    by (simp add: update_conv')
  show "set (map fst (AList.update k v m)) = insert k (set (map fst m))"
    by (simp add: dom_update)
  show "distinct (map fst m) \<Longrightarrow> distinct (map fst (AList.update k v m))"
    by (rule distinct_update)
qed

section \<open>Requests of which the latest wins\<close>

text \<open>
  The discipline of every component that talks to the server: a counter is bumped when a
  request starts (and by whatever supersedes it), the request keeps the number it drew, and
  its response is applied only while that number is still the counter. \<open>step\<close> is one event
  of the component, \<open>ticket\<close> the number a response carries, \<open>view\<close> what a response may
  write.
\<close>

locale latest_wins =
  fixes version :: "'s \<Rightarrow> nat"
    and step :: "'s \<Rightarrow> 'e \<Rightarrow> 's"
    and ticket :: "'e \<Rightarrow> nat option"
    and view :: "'s \<Rightarrow> 'v"
  assumes version_mono: "version s \<le> version (step s e)"
    and stale_ignored: "ticket e = Some v \<Longrightarrow> v \<noteq> version s \<Longrightarrow> view (step s e) = view s"
begin

lemma run_version_mono: "version s \<le> version (foldl step s es)"
  by (induction es rule: rev_induct) (auto intro: le_trans version_mono)

lemma superseded_forever:
  assumes "ticket e = Some v" and "v < version s"
  shows "view (step (foldl step s es) e) = view (foldl step s es)"
proof (rule stale_ignored [OF assms(1)])
  show "v \<noteq> version (foldl step s es)"
    using run_version_mono [of s es] assms(2) by linarith
qed

lemma stale_run_ignored:
  assumes "\<forall>e \<in> set es. \<exists>v. ticket e = Some v \<and> v < version s"
  shows "view (foldl step s es) = view s"
  using assms
proof (induction es rule: rev_induct)
  case (snoc e es)
  then obtain v where "ticket e = Some v" and "v < version s" by auto
  then have "view (step (foldl step s es) e) = view (foldl step s es)"
    by (rule superseded_forever)
  with snoc show ?case by simp
qed simp

end

end
