(* ===== verification/Uri.thy ===== *)
theory Uri
  imports Prelude
begin

text \<open>
  The standard functions on text that \<open>api/client.ts\<close>, \<open>api/session.ts\<close>,
  \<open>lib/message-content.ts\<close> and \<open>lib/password-validation.ts\<close> use: code points of UTF-16
  text, UTF-8, \<open>encodeURIComponent\<close> and \<open>decodeURIComponent\<close>; with them the whole of
  \<open>lib/password-validation.ts\<close>. The main lemma is that decoding undoes encoding.
\<close>

section \<open>Code points and UTF-8\<close>

definition high_surrogate :: "code_unit \<Rightarrow> bool" where
  "high_surrogate c \<longleftrightarrow> 55296 \<le> c \<and> c < 56320"

definition low_surrogate :: "code_unit \<Rightarrow> bool" where
  "low_surrogate c \<longleftrightarrow> 56320 \<le> c \<and> c < 57344"

text \<open>Surrogate pairs are joined; an unpaired surrogate stays as it is.\<close>

fun code_points :: "jstr \<Rightarrow> nat list" where
  "code_points [] = []"
| "code_points [c] = [c]"
| "code_points (c # d # cs) =
     (if high_surrogate c \<and> low_surrogate d
      then (65536 + (c - 55296) * 1024 + (d - 56320)) # code_points cs
      else c # code_points (d # cs))"

definition lone_surrogate :: "nat \<Rightarrow> bool" where
  "lone_surrogate p \<longleftrightarrow> 55296 \<le> p \<and> p < 57344"

definition code_units :: "nat \<Rightarrow> jstr" where
  "code_units p =
     (if p < 65536 then [p]
      else [55296 + (p - 65536) div 1024, 56320 + (p - 65536) mod 1024])"

definition utf8 :: "nat \<Rightarrow> nat list" where
  "utf8 p =
     (if p < 128 then [p]
      else if p < 2048 then [192 + p div 64, 128 + p mod 64]
      else if p < 65536 then [224 + p div 4096, 128 + p div 64 mod 64, 128 + p mod 64]
      else [240 + p div 262144, 128 + p div 4096 mod 64, 128 + p div 64 mod 64, 128 + p mod 64])"

definition scalar_value :: "nat \<Rightarrow> bool" where
  "scalar_value p \<longleftrightarrow> p < 1114112 \<and> \<not> lone_surrogate p"

lemma code_units_pair: "y < 1024 \<Longrightarrow> code_units (65536 + x * 1024 + y) = [55296 + x, 56320 + y]"
  by (simp add: code_units_def)

lemma concat_code_units: "wf_jstr s \<Longrightarrow> concat (map code_units (code_points s)) = s"
proof (induction s rule: code_points.induct)
  case (3 c d cs)
  show ?case
  proof (cases "high_surrogate c \<and> low_surrogate d")
    case True
    then have y: "d - 56320 < 1024" and c: "55296 + (c - 55296) = c" and d: "56320 + (d - 56320) = d"
      by (auto simp: high_surrogate_def low_surrogate_def)
    have "code_units (65536 + (c - 55296) * 1024 + (d - 56320)) = [c, d]"
      using code_units_pair [OF y, of "c - 55296"] unfolding c d .
    with True "3" show ?thesis by (simp add: wf_jstr_def)
  next
    case False
    with "3" show ?thesis by (auto simp: wf_jstr_def code_units_def)
  qed
qed (auto simp: wf_jstr_def code_units_def)

lemma code_points_bound: "wf_jstr s \<Longrightarrow> p \<in> set (code_points s) \<Longrightarrow> p < 1114112"
proof (induction s arbitrary: p rule: code_points.induct)
  case (3 c d cs)
  then show ?case
    by (auto simp: wf_jstr_def high_surrogate_def low_surrogate_def split: if_splits)
qed (auto simp: wf_jstr_def)

text \<open>UTF-8 decoding of one sequence: the lead byte says how many bytes follow.\<close>

definition continuation_count :: "nat \<Rightarrow> nat option" where
  "continuation_count b =
     (if 192 \<le> b \<and> b < 224 then Some 1
      else if 224 \<le> b \<and> b < 240 then Some 2
      else if 240 \<le> b \<and> b < 248 then Some 3
      else None)"

fun utf8_decode :: "nat list \<Rightarrow> nat option" where
  "utf8_decode [a, b] =
     (let p = (a - 192) * 64 + (b - 128)
      in if 128 \<le> p then Some p else None)"
| "utf8_decode [a, b, c] =
     (let p = (a - 224) * 4096 + (b - 128) * 64 + (c - 128)
      in if 2048 \<le> p \<and> \<not> lone_surrogate p then Some p else None)"
| "utf8_decode [a, b, c, d] =
     (let p = (a - 240) * 262144 + (b - 128) * 4096 + (c - 128) * 64 + (d - 128)
      in if 65536 \<le> p \<and> p < 1114112 then Some p else None)"
| "utf8_decode _ = None"

lemma split3: "p div 4096 * 4096 + p div 64 mod 64 * 64 + p mod 64 = (p :: nat)"
proof -
  have "p div 4096 = p div 64 div 64" by (simp flip: div_mult2_eq)
  moreover have "p div 64 div 64 * 64 + p div 64 mod 64 = p div 64" by (rule div_mult_mod_eq)
  moreover have "p div 64 * 64 + p mod 64 = p" by (rule div_mult_mod_eq)
  ultimately show ?thesis by linarith
qed

lemma split4:
  "p div 262144 * 262144 + p div 4096 mod 64 * 4096 + p div 64 mod 64 * 64 + p mod 64 = (p :: nat)"
proof -
  have "p div 262144 = p div 4096 div 64" by (simp flip: div_mult2_eq)
  moreover have "p div 4096 div 64 * 64 + p div 4096 mod 64 = p div 4096" by (rule div_mult_mod_eq)
  moreover have "p div 4096 * 4096 + p div 64 mod 64 * 64 + p mod 64 = p" by (rule split3)
  ultimately show ?thesis by linarith
qed

lemma utf8_decode_utf8:
  assumes "scalar_value p" and "128 \<le> p"
  shows "utf8_decode (utf8 p) = Some p"
proof -
  consider "p < 2048" | "2048 \<le> p" "p < 65536" | "65536 \<le> p" by linarith
  then show ?thesis
  proof cases
    case 1
    then show ?thesis using assms(2) by (simp add: utf8_def)
  next
    case 2
    have "p div 4096 * 4096 + p div 64 mod 64 * 64 + p mod 64 = p" by (rule split3)
    then show ?thesis using 2 assms by (simp add: utf8_def scalar_value_def)
  next
    case 3
    have "p div 262144 * 262144 + p div 4096 mod 64 * 4096 + p div 64 mod 64 * 64 + p mod 64 = p"
      by (rule split4)
    then show ?thesis using 3 assms by (simp add: utf8_def scalar_value_def)
  qed
qed

section \<open>Percent encoding\<close>

text \<open>\<open>A-Z a-z 0-9 - _ . ! ~ * ' ( )\<close>: what \<open>encodeURIComponent\<close> leaves alone.\<close>

definition uri_unreserved :: "nat \<Rightarrow> bool" where
  "uri_unreserved c \<longleftrightarrow> (65 \<le> c \<and> c \<le> 90) \<or> (97 \<le> c \<and> c \<le> 122) \<or> is_digit c
     \<or> c \<in> {45, 95, 46, 33, 126, 42, 39, 40, 41}"

definition hex_digit :: "nat \<Rightarrow> code_unit" where
  "hex_digit n = (if n < 10 then 48 + n else 55 + n)"

definition hex_value :: "code_unit \<Rightarrow> nat option" where
  "hex_value c =
     (if is_digit c then Some (c - 48)
      else if 65 \<le> c \<and> c \<le> 70 then Some (c - 55)
      else if 97 \<le> c \<and> c \<le> 102 then Some (c - 87)
      else None)"

lemma hex_value_hex_digit: "n < 16 \<Longrightarrow> hex_value (hex_digit n) = Some n"
  by (auto simp: hex_value_def hex_digit_def is_digit_def)

definition percent :: "nat \<Rightarrow> jstr" where
  "percent b = [37, hex_digit (b div 16), hex_digit (b mod 16)]"

definition encode_point :: "nat \<Rightarrow> jstr" where
  "encode_point p = (if uri_unreserved p then [p] else concat (map percent (utf8 p)))"

text \<open>\<open>encodeURIComponent\<close>; a lone surrogate is a \<open>URIError\<close>.\<close>

definition encode_uri_component :: "jstr \<Rightarrow> jstr option" where
  "encode_uri_component s =
     (if list_ex lone_surrogate (code_points s) then None
      else Some (concat (map encode_point (code_points s))))"

fun read_percent :: "jstr \<Rightarrow> (nat \<times> jstr) option" where
  "read_percent (c # h # l # rest) =
     (if c = 37 then
        (case (hex_value h, hex_value l) of
           (Some a, Some b) \<Rightarrow> Some (16 * a + b, rest)
         | _ \<Rightarrow> None)
      else None)"
| "read_percent _ = None"

fun read_continuations :: "nat \<Rightarrow> jstr \<Rightarrow> (nat list \<times> jstr) option" where
  "read_continuations 0 s = Some ([], s)"
| "read_continuations (Suc n) s =
     (case read_percent s of
        None \<Rightarrow> None
      | Some (b, r) \<Rightarrow>
          if 128 \<le> b \<and> b < 192 then
            (case read_continuations n r of None \<Rightarrow> None | Some (bs, r') \<Rightarrow> Some (b # bs, r'))
          else None)"

lemma read_percent_length: "read_percent s = Some (b, r) \<Longrightarrow> length r < length s"
  by (cases s rule: read_percent.cases) (auto split: if_splits option.splits)

lemma read_continuations_length:
  "read_continuations n s = Some (bs, r) \<Longrightarrow> length r \<le> length s"
proof (induction n arbitrary: s bs)
  case (Suc n)
  then show ?case
    by (fastforce split: option.splits if_splits dest: read_percent_length)
qed simp

text \<open>\<open>decodeURIComponent\<close>; a malformed escape is a \<open>URIError\<close> (\<open>None\<close>).\<close>

function decode_uri_component :: "jstr \<Rightarrow> jstr option" where
  "decode_uri_component [] = Some []"
| "decode_uri_component (c # cs) =
     (if c \<noteq> 37 then map_option ((#) c) (decode_uri_component cs)
      else case read_percent (c # cs) of
        None \<Rightarrow> None
      | Some (b, r) \<Rightarrow>
          if b < 128 then map_option ((#) b) (decode_uri_component r)
          else case continuation_count b of
            None \<Rightarrow> None
          | Some n \<Rightarrow>
              (case read_continuations n r of
                 None \<Rightarrow> None
               | Some (bs, r') \<Rightarrow>
                   (case utf8_decode (b # bs) of
                      None \<Rightarrow> None
                    | Some p \<Rightarrow> map_option ((@) (code_units p)) (decode_uri_component r'))))"
  by pat_completeness auto
termination
  by (relation "measure length")
    (auto dest!: read_percent_length read_continuations_length)

declare decode_uri_component.simps(2) [simp del]

lemma read_percent_percent [simp]: "b < 256 \<Longrightarrow> read_percent (percent b @ r) = Some (b, r)"
  by (simp add: percent_def hex_value_hex_digit)

lemma decode_plain:
  "c \<noteq> 37 \<Longrightarrow> decode_uri_component (c # r) = map_option ((#) c) (decode_uri_component r)"
  by (simp add: decode_uri_component.simps(2))

lemma decode_percent_ascii:
  assumes "b < 128"
  shows "decode_uri_component (percent b @ r) = map_option ((#) b) (decode_uri_component r)"
proof -
  have "read_percent (percent b @ r) = Some (b, r)" using assms by simp
  then show ?thesis
    using assms by (simp add: percent_def decode_uri_component.simps(2))
qed

lemma decode_percent_multi:
  assumes "read_percent s = Some (b, r)" and "128 \<le> b" and "continuation_count b = Some n"
    and "read_continuations n r = Some (bs, r')" and "utf8_decode (b # bs) = Some p"
  shows "decode_uri_component s = map_option ((@) (code_units p)) (decode_uri_component r')"
proof -
  obtain h l where s: "s = 37 # h # l # r"
    using assms(1) by (cases s rule: read_percent.cases) (auto split: if_splits option.splits)
  show ?thesis
    using assms unfolding s by (simp add: decode_uri_component.simps(2))
qed

lemma utf8_continuations:
  assumes "scalar_value p" and "128 \<le> p"
  shows "\<exists>b n bs. utf8 p = b # bs \<and> 128 \<le> b \<and> b < 256 \<and> continuation_count b = Some n
    \<and> read_continuations n (concat (map percent bs) @ r) = Some (bs, r)"
proof -
  have "p < 1114112" using assms(1) by (simp add: scalar_value_def)
  then consider "p < 2048" | "2048 \<le> p" "p < 65536" | "65536 \<le> p" "p < 1114112" by linarith
  then show ?thesis
  proof cases
    case 1
    then have "p div 64 < 32" by simp
    with 1 assms(2) show ?thesis
      by (simp add: utf8_def continuation_count_def numeral_2_eq_2 numeral_3_eq_3)
  next
    case 2
    then have "p div 4096 < 16" by simp
    with 2 show ?thesis
      by (simp add: utf8_def continuation_count_def numeral_2_eq_2 numeral_3_eq_3)
  next
    case 3
    then have "p div 262144 < 8" by simp
    with 3 show ?thesis
      by (simp add: utf8_def continuation_count_def numeral_2_eq_2 numeral_3_eq_3)
  qed
qed


lemma append_singleton: "(@) [x] = (#) x"
  by (simp add: fun_eq_iff)

lemma decode_encode_point:
  assumes "scalar_value p"
  shows "decode_uri_component (encode_point p @ r) = map_option ((@) (code_units p)) (decode_uri_component r)"
proof -
  consider "uri_unreserved p" | "\<not> uri_unreserved p" "p < 128" | "\<not> uri_unreserved p" "128 \<le> p"
    by linarith
  then show ?thesis
  proof cases
    case 1
    then have "p \<noteq> 37" and "p < 65536" by (auto simp: uri_unreserved_def is_digit_def)
    with 1 have "encode_point p @ r = p # r" and "code_units p = [p]"
      by (simp_all add: encode_point_def code_units_def)
    with decode_plain [OF \<open>p \<noteq> 37\<close>, of r] show ?thesis by (simp only: append_singleton)
  next
    case 2
    then have "encode_point p = percent p" by (simp add: encode_point_def utf8_def)
    moreover have "code_units p = [p]" using 2(2) by (simp add: code_units_def)
    ultimately show ?thesis
      using decode_percent_ascii [OF 2(2), of r] by (simp only: append_singleton)
  next
    case 3
    obtain b n bs where u: "utf8 p = b # bs" "128 \<le> b" "b < 256" "continuation_count b = Some n"
      "read_continuations n (concat (map percent bs) @ r) = Some (bs, r)"
      using utf8_continuations [OF assms 3(2)] by blast
    have d: "utf8_decode (b # bs) = Some p"
      using utf8_decode_utf8 [OF assms 3(2)] u(1) by simp
    have e: "encode_point p @ r = percent b @ concat (map percent bs) @ r"
      using 3(1) u(1) by (simp add: encode_point_def)
    show ?thesis
      unfolding e using u d by (intro decode_percent_multi) auto
  qed
qed

lemma decode_encode_points:
  "\<forall>p \<in> set ps. scalar_value p \<Longrightarrow>
   decode_uri_component (concat (map encode_point ps)) = Some (concat (map code_units ps))"
  by (induction ps) (auto simp: decode_encode_point)

lemma decode_encode_uri_component:
  assumes "wf_jstr s" and "encode_uri_component s = Some t"
  shows "decode_uri_component t = Some s"
proof -
  from assms(2) have t: "t = concat (map encode_point (code_points s))"
    and "\<not> list_ex lone_surrogate (code_points s)"
    by (auto simp: encode_uri_component_def split: if_splits)
  then have "\<forall>p \<in> set (code_points s). scalar_value p"
    using code_points_bound [OF assms(1)] by (auto simp: scalar_value_def list_ex_iff)
  then show ?thesis
    using concat_code_units [OF assms(1)] by (simp add: t decode_encode_points)
qed

text \<open>The encoded text is made of unreserved characters and escapes only.\<close>

definition uri_safe :: "code_unit \<Rightarrow> bool" where
  "uri_safe c \<longleftrightarrow> uri_unreserved c \<or> c = 37"

lemma hex_digit_safe: "n < 16 \<Longrightarrow> uri_safe (hex_digit n)"
  by (simp add: hex_digit_def uri_safe_def uri_unreserved_def is_digit_def)

lemma percent_safe: "b < 256 \<Longrightarrow> c \<in> set (percent b) \<Longrightarrow> uri_safe c"
proof -
  assume "b < 256"
  then have "uri_safe (hex_digit (b div 16))" and "uri_safe (hex_digit (b mod 16))"
    by (simp_all add: hex_digit_safe)
  moreover have "uri_safe 37" by (simp add: uri_safe_def)
  moreover assume "c \<in> set (percent b)"
  ultimately show ?thesis by (auto simp: percent_def)
qed

lemma utf8_bytes: "scalar_value p \<Longrightarrow> b \<in> set (utf8 p) \<Longrightarrow> b < 256"
  by (auto simp: utf8_def scalar_value_def split: if_splits)

lemma encode_point_safe: "scalar_value p \<Longrightarrow> c \<in> set (encode_point p) \<Longrightarrow> uri_safe c"
  by (auto simp: encode_point_def uri_safe_def [of p] split: if_splits
      dest: utf8_bytes intro: percent_safe)

lemma encode_uri_component_safe:
  assumes "wf_jstr s" and "encode_uri_component s = Some t" and "c \<in> set t"
  shows "uri_safe c"
proof -
  from assms(2,3) obtain p where "p \<in> set (code_points s)" and "c \<in> set (encode_point p)"
    and "\<not> lone_surrogate p"
    by (auto simp: encode_uri_component_def list_ex_iff split: if_splits)
  then show ?thesis
    using code_points_bound [OF assms(1)] encode_point_safe [of p c] by (simp add: scalar_value_def)
qed

lemma encode_point_plain: "uri_unreserved p \<Longrightarrow> encode_point p = [p]"
  by (simp add: encode_point_def)

lemma code_points_plain: "\<forall>c \<in> set s. \<not> high_surrogate c \<Longrightarrow> code_points s = s"
  by (induction s rule: code_points.induct) auto

lemma encode_unreserved: "\<forall>c \<in> set s. uri_unreserved c \<Longrightarrow> encode_uri_component s = Some s"
proof -
  assume u: "\<forall>c \<in> set s. uri_unreserved c"
  then have cp: "code_points s = s"
    by (intro code_points_plain) (fastforce simp: uri_unreserved_def is_digit_def high_surrogate_def)
  have "\<not> list_ex lone_surrogate s"
    using u by (fastforce simp: list_ex_iff uri_unreserved_def is_digit_def lone_surrogate_def)
  moreover have "concat (map encode_point s) = s"
    using u by (induction s) (auto simp: encode_point_plain)
  ultimately show ?thesis by (simp add: encode_uri_component_def cp)
qed

section \<open>lib/password-validation.ts\<close>

definition MIN_PASSWORD_BYTES :: nat where
  "MIN_PASSWORD_BYTES = 12"

definition MAX_PASSWORD_BYTES :: nat where
  "MAX_PASSWORD_BYTES = 128"

text \<open>\<open>new TextEncoder().encode(value)\<close>: UTF-8, a lone surrogate becoming U+FFFD.\<close>

definition text_encode :: "jstr \<Rightarrow> nat list" where
  "text_encode s = concat (map (\<lambda>p. utf8 (if lone_surrogate p then 65533 else p)) (code_points s))"

definition passwordByteLength :: "jstr \<Rightarrow> nat" where
  "passwordByteLength value = length (text_encode value)"

definition passwordPolicyError :: "jstr \<Rightarrow> jstr option" where
  "passwordPolicyError value =
     (let byteLength = passwordByteLength value
      in if byteLength < MIN_PASSWORD_BYTES then
           Some (js ''Password must contain at least '' @ nat_str MIN_PASSWORD_BYTES @ js '' bytes.'')
         else if byteLength > MAX_PASSWORD_BYTES then
           Some (js ''Password must not exceed '' @ nat_str MAX_PASSWORD_BYTES @ js '' bytes.'')
         else None)"

lemma utf8_length: "1 \<le> length (utf8 p) \<and> length (utf8 p) \<le> 4"
  by (simp add: utf8_def)

text \<open>The bytes of a code point, counted in UTF-16 units: at most three per unit.\<close>

lemma text_encode_length_bounds:
  "wf_jstr s \<Longrightarrow> length s \<le> length (text_encode s) \<and> length (text_encode s) \<le> 3 * length s"
proof (induction s rule: code_points.induct)
  case (2 c)
  then show ?case by (auto simp: text_encode_def utf8_def wf_jstr_def)
next
  case (3 c d cs)
  show ?case
  proof (cases "high_surrogate c \<and> low_surrogate d")
    case True
    with "3" show ?thesis
      by (auto simp: text_encode_def utf8_def wf_jstr_def lone_surrogate_def
          high_surrogate_def low_surrogate_def)
  next
    case False
    with "3" show ?thesis by (auto simp: text_encode_def utf8_def wf_jstr_def)
  qed
qed (simp add: text_encode_def)

lemma text_encode_ascii: "\<forall>c \<in> set s. c < 128 \<Longrightarrow> text_encode s = s"
proof -
  assume a: "\<forall>c \<in> set s. c < 128"
  then have "code_points s = s"
    by (intro code_points_plain) (fastforce simp: high_surrogate_def)
  moreover have "concat (map (\<lambda>p. utf8 (if lone_surrogate p then 65533 else p)) s) = s"
    using a by (induction s) (auto simp: utf8_def lone_surrogate_def)
  ultimately show ?thesis by (simp add: text_encode_def)
qed

lemma passwordPolicyError_None_iff:
  "passwordPolicyError v = None \<longleftrightarrow> 12 \<le> passwordByteLength v \<and> passwordByteLength v \<le> 128"
  by (auto simp: passwordPolicyError_def MIN_PASSWORD_BYTES_def MAX_PASSWORD_BYTES_def Let_def)

text \<open>
  the password policy counts UTF-8 bytes, not characters. A password it accepts has
  between 4 and 128 UTF-16 code units, and an ASCII password is accepted exactly when it has
  12 to 128 characters.
\<close>

theorem password_policy_bounds:
  assumes "wf_jstr v"
  shows "(passwordPolicyError v = None \<longrightarrow> 4 \<le> length v \<and> length v \<le> 128) \<and>
    ((\<forall>c \<in> set v. c < 128) \<longrightarrow>
      (passwordPolicyError v = None \<longleftrightarrow> 12 \<le> length v \<and> length v \<le> 128))"
  using text_encode_length_bounds [OF assms]
  by (auto simp: passwordPolicyError_None_iff passwordByteLength_def text_encode_ascii)

text \<open>Four emoji-like code units pairs (eight UTF-16 units) are sixteen bytes, and accepted.\<close>

theorem password_policy_bounds_witness:
  "wf_jstr [55357, 56832, 55357, 56832, 55357, 56832, 55357, 56832] \<and>
   passwordPolicyError [55357, 56832, 55357, 56832, 55357, 56832, 55357, 56832] = None \<and>
   4 \<le> length [55357, 56832, 55357, 56832, 55357, 56832, 55357, 56832 :: nat]"
proof -
  let ?v = "[55357, 56832, 55357, 56832, 55357, 56832, 55357, 56832] :: jstr"
  have w: "wf_jstr ?v" by (simp add: wf_jstr_def)
  have p: "passwordPolicyError ?v = None"
    by (simp add: passwordPolicyError_None_iff passwordByteLength_def text_encode_def
        high_surrogate_def low_surrogate_def lone_surrogate_def utf8_def)
  show ?thesis using w p password_policy_bounds [OF w] by blast
qed

end
