(* ===== verification/ApiClient.thy ===== *)
theory ApiClient
  imports Uri
begin

text \<open>
  \<open>frontend/src/api/client.ts\<close>: the CSRF cookie and header, the text of a server error and
  \<open>requestJson\<close>, through which every API module speaks. The server and the network are the
  parameter \<open>net\<close>. The locale \<open>json_client\<close> states what the API modules rely on.
\<close>

section \<open>Requests and replies\<close>

type_synonym header_list = "(jstr \<times> jstr) list"

record request_init =
  init_method :: "jstr option"
  init_headers :: header_list
  init_body :: "json option"

record http_request =
  req_path :: jstr
  req_method :: jstr
  req_headers :: header_list
  req_body :: "json option"
  req_same_origin :: bool

text \<open>\<open>fetch\<close> rejects with an \<open>Error\<close> or resolves; \<open>None\<close> is a body that is not JSON.\<close>

datatype net_reply = NetError jstr | NetReply int "json option"

record browser =
  doc_cookie :: "jstr option"
  has_window :: bool

record request_options =
  fallback_message :: "jstr option"
  notify_unauthorized :: "bool option"

abbreviation no_init :: "request_init" where
  "no_init \<equiv> \<lparr>init_method = None, init_headers = [], init_body = None\<rparr>"

abbreviation default_options :: request_options where
  "default_options \<equiv> \<lparr>fallback_message = None, notify_unauthorized = None\<rparr>"

section \<open>The CSRF cookie\<close>

definition CSRF_COOKIE_NAMES :: "jstr list" where
  "CSRF_COOKIE_NAMES = [js ''__Host-tso_csrf'', js ''tso_csrf'']"

definition UNSAFE_METHODS :: "jstr list" where
  "UNSAFE_METHODS = [js ''POST'', js ''PUT'', js ''PATCH'', js ''DELETE'']"

text \<open>
  \<open>toUpperCase\<close> and \<open>toLowerCase\<close> on HTTP methods and header names, which are ASCII tokens
  (\<open>fetch\<close> refuses others).
\<close>

definition ascii_upper :: "jstr \<Rightarrow> jstr" where
  "ascii_upper = map (\<lambda>c. if 97 \<le> c \<and> c \<le> 122 then c - 32 else c)"

definition ascii_lower :: "jstr \<Rightarrow> jstr" where
  "ascii_lower = map (\<lambda>c. if 65 \<le> c \<and> c \<le> 90 then c + 32 else c)"

definition readCookie :: "jstr option \<Rightarrow> jstr \<Rightarrow> jstr option" where
  "readCookie cookie name =
     (case cookie of
        None \<Rightarrow> None
      | Some text \<Rightarrow>
          (case encode_uri_component name of
             None \<Rightarrow> None
           | Some encoded \<Rightarrow>
               let prefix = encoded @ js ''=''
               in (case List.find (\<lambda>part. starts_with part prefix) (map js_trim (split_on 59 text)) of
                     None \<Rightarrow> None
                   | Some entry \<Rightarrow> decode_uri_component (drop (length prefix) entry))))"

text \<open>The first of the cookies that is present and not empty.\<close>

definition csrf_token :: "jstr option \<Rightarrow> jstr option" where
  "csrf_token cookie =
     (case List.find (\<lambda>v. v \<noteq> None \<and> v \<noteq> Some []) (map (readCookie cookie) CSRF_COOKIE_NAMES) of
        Some v \<Rightarrow> v
      | None \<Rightarrow> None)"

text \<open>
  \<open>new Headers(list)\<close>: names are case-insensitive (kept in lower case here), and the values
  of a repeated name are joined.
\<close>

fun header_append :: "jstr \<Rightarrow> jstr \<Rightarrow> header_list \<Rightarrow> header_list" where
  "header_append n v [] = [(n, v)]"
| "header_append n v ((m, w) # hs) =
     (if m = n then (m, w @ js '', '' @ v) # hs else (m, w) # header_append n v hs)"

definition make_headers :: "header_list \<Rightarrow> header_list" where
  "make_headers hs = foldl (\<lambda>acc (n, v). header_append (ascii_lower n) v acc) [] hs"

definition withCsrfHeader :: "jstr option \<Rightarrow> request_init option \<Rightarrow> request_init option" where
  "withCsrfHeader cookie init =
     (let method = ascii_upper (case Option.bind init init_method of Some m \<Rightarrow> m | None \<Rightarrow> js ''GET'')
      in if method \<notin> set UNSAFE_METHODS then init
         else
           (case csrf_token cookie of
              None \<Rightarrow> init
            | Some token \<Rightarrow>
                let base = (case init of Some i \<Rightarrow> i | None \<Rightarrow> no_init);
                    hs = make_headers (init_headers base);
                    name = js ''x-csrf-token''
                in Some (base\<lparr>init_headers :=
                     (if map_of hs name = None then AList.update name token hs else hs)\<rparr>)))"

text \<open>
  The request \<open>apiFetch\<close> hands to \<open>fetch\<close>. \<open>fetch\<close> normalises the headers it is given
  and upper-cases the methods it knows.
\<close>

definition FETCH_METHODS :: "jstr list" where
  "FETCH_METHODS = [js ''DELETE'', js ''GET'', js ''HEAD'', js ''OPTIONS'', js ''POST'', js ''PUT'']"

definition fetch_method :: "jstr option \<Rightarrow> jstr" where
  "fetch_method m =
     (case m of
        None \<Rightarrow> js ''GET''
      | Some x \<Rightarrow> if ascii_upper x \<in> set FETCH_METHODS then ascii_upper x else x)"

definition apiFetch :: "browser \<Rightarrow> jstr \<Rightarrow> request_init option \<Rightarrow> http_request" where
  "apiFetch B path init =
     (let i = (case withCsrfHeader (doc_cookie B) init of Some i \<Rightarrow> i | None \<Rightarrow> no_init)
      in \<lparr>req_path = path, req_method = fetch_method (init_method i),
          req_headers = make_headers (init_headers i), req_body = init_body i,
          req_same_origin = True\<rparr>)"

section \<open>Server errors and \<open>requestJson\<close>\<close>

definition strip_value_error :: "jstr \<Rightarrow> jstr" where
  "strip_value_error s =
     (if starts_with s (js ''Value error,'') then dropWhile is_ws (drop 12 s) else s)"

definition errorDetail :: "json \<Rightarrow> jstr option" where
  "errorDetail payload =
     (if \<not> is_object payload then None
      else
        (case jprop payload (js ''detail'') of
           Some (JStr detail) \<Rightarrow> if detail \<noteq> [] then Some detail else None
         | Some (JArr (firstError # _)) \<Rightarrow>
             if \<not> is_object firstError then None
             else
               (case jprop firstError (js ''msg'') of
                  Some (JStr message) \<Rightarrow>
                    let normalized = strip_value_error (js_trim message)
                    in if normalized \<noteq> [] then Some normalized else None
                | _ \<Rightarrow> None)
         | _ \<Rightarrow> None))"

definition response_ok :: "int \<Rightarrow> bool" where
  "response_ok status \<longleftrightarrow> 200 \<le> status \<and> status \<le> 299"

definition parseResponsePayload :: "json option \<Rightarrow> json" where
  "parseResponsePayload body = (case body of Some j \<Rightarrow> j | None \<Rightarrow> JNull)"

definition failure_message :: "jstr option \<Rightarrow> request_options \<Rightarrow> jstr" where
  "failure_message detail opts =
     (case detail of
        Some d \<Rightarrow> d
      | None \<Rightarrow> (case fallback_message opts of Some f \<Rightarrow> f | None \<Rightarrow> js ''The API request failed.''))"

definition requestJson ::
  "browser \<Rightarrow> (http_request \<Rightarrow> net_reply) \<Rightarrow> jstr \<Rightarrow> request_init option \<Rightarrow> request_options \<Rightarrow> json promise"
where
  "requestJson B net path init opts =
     (case net (apiFetch B path init) of
        NetError m \<Rightarrow> throw (PlainError m)
      | NetReply status body \<Rightarrow>
          let payload = parseResponsePayload body
          in if response_ok status then return_value payload
             else
               let detail = errorDetail payload
               in (if status = 401 \<and> notify_unauthorized opts \<noteq> Some False \<and> has_window B
                   then [ApiUnauthorized path] else [],
                   Inl (ApiRequestError (failure_message detail opts) status detail)))"


section \<open>The interface the API modules use\<close>

locale json_client =
  fixes request :: "jstr \<Rightarrow> request_init option \<Rightarrow> request_options \<Rightarrow> json promise"
    and reply :: "jstr \<Rightarrow> request_init option \<Rightarrow> net_reply"
  assumes on_reject: "reply p i = NetError m \<Longrightarrow> request p i opts = ([], Inl (PlainError m))"
    and on_success: "reply p i = NetReply st b \<Longrightarrow> response_ok st \<Longrightarrow>
      request p i opts = ([], Inr (parseResponsePayload b))"
    and on_failure: "reply p i = NetReply st b \<Longrightarrow> \<not> response_ok st \<Longrightarrow>
      snd (request p i opts) =
        Inl (ApiRequestError (failure_message (errorDetail (parseResponsePayload b)) opts) st
              (errorDetail (parseResponsePayload b)))"
    and effects_only_401: "e \<in> set (fst (request p i opts)) \<Longrightarrow>
      e = ApiUnauthorized p \<and> (\<exists>b. reply p i = NetReply 401 b) \<and> notify_unauthorized opts \<noteq> Some False"
begin

lemma succeeds_iff:
  "snd (request p i opts) = Inr x \<longleftrightarrow>
     (\<exists>st b. reply p i = NetReply st b \<and> response_ok st \<and> x = parseResponsePayload b)"
proof (cases "reply p i")
  case (NetError m)
  then show ?thesis by (simp add: on_reject)
next
  case (NetReply st b)
  then show ?thesis
    by (cases "response_ok st") (auto simp: on_success on_failure)
qed

lemma succeeds_silently: "snd (request p i opts) = Inr x \<Longrightarrow> fst (request p i opts) = []"
  by (metis fst_conv on_success succeeds_iff)

lemma silent_request: "notify_unauthorized opts = Some False \<Longrightarrow> fst (request p i opts) = []"
  by (meson effects_only_401 last_in_set)

lemma fails_with_status_iff:
  "(\<exists>m. snd (request p i opts) = Inl (ApiRequestError m st d)) \<longleftrightarrow>
     (\<exists>b. reply p i = NetReply st b \<and> \<not> response_ok st \<and> d = errorDetail (parseResponsePayload b))"
proof (cases "reply p i")
  case (NetError m)
  then show ?thesis by (simp add: on_reject)
next
  case (NetReply st' b)
  then show ?thesis
    by (cases "response_ok st'") (auto simp: on_success on_failure)
qed

lemma error_kinds:
  "snd (request p i opts) = Inl e \<Longrightarrow> (\<exists>m. e = PlainError m) \<or> (\<exists>m st d. e = ApiRequestError m st d)"
  by (cases "reply p i") (auto simp: on_reject, metis Inl_inject on_failure on_success snd_conv sum.distinct(1))

end

lemma response_ok_401 [simp]: "\<not> response_ok 401"
  by (simp add: response_ok_def)

interpretation http: json_client "requestJson B net" "\<lambda>p i. net (apiFetch B p i)" for B net
  by unfold_locales (auto simp: requestJson_def promise_defs Let_def split: if_splits net_reply.splits)

text \<open>Server errors never carry an empty detail.\<close>

lemma errorDetail_not_Nil: "errorDetail payload \<noteq> Some []"
  by (auto simp: errorDetail_def Let_def split: if_splits option.splits json.splits list.splits)

section \<open>Reading back a cookie\<close>

text \<open>\<open>document.cookie\<close> of cookies whose names and values were written percent-encoded.\<close>

definition cookie_pair :: "jstr \<times> jstr \<Rightarrow> jstr" where
  "cookie_pair nv =
     the (encode_uri_component (fst nv)) @ js ''='' @ the (encode_uri_component (snd nv))"

definition cookie_text :: "(jstr \<times> jstr) list \<Rightarrow> jstr" where
  "cookie_text cookies = join_with (js ''; '') (map cookie_pair cookies)"

definition encodable :: "jstr \<Rightarrow> bool" where
  "encodable s \<longleftrightarrow> wf_jstr s \<and> encode_uri_component s \<noteq> None"

lemma js_trim_space: "js_trim (32 # s) = js_trim s"
  by (simp add: js_trim_def)

lemma trim_split_join:
  assumes "ws \<noteq> []" and "\<forall>w \<in> set ws. 59 \<notin> set w \<and> trimmed w"
  shows "map js_trim (split_on 59 (join_with [59, 32] ws)) = ws"
  using assms
proof (induction "[59 :: nat, 32]" ws rule: join_with.induct)
  case (2 w)
  then show ?case by (simp add: split_on_no_sep js_trim_trimmed)
next
  case (3 w v ws)
  let ?rest = "join_with [59, 32] (v # ws)"
  have "split_on 59 (join_with [59, 32] (w # v # ws)) = w # split_on 59 (32 # ?rest)"
    using "3.prems" by (simp add: split_on_append)
  moreover have "map js_trim (split_on 59 (32 # ?rest)) = map js_trim (split_on 59 ?rest)"
    by (cases "split_on 59 ?rest") (auto simp: js_trim_space)
  ultimately show ?case
    using "3.hyps" "3.prems" by (simp add: js_trim_trimmed)
qed simp

lemma encoded_chars:
  assumes "encodable s" and "c \<in> set (the (encode_uri_component s))"
  shows "c \<noteq> 59 \<and> c \<noteq> 61 \<and> \<not> is_ws c"
proof -
  have "uri_safe c" using assms by (auto simp: encodable_def intro: encode_uri_component_safe)
  then show ?thesis by (auto simp: uri_safe_def uri_unreserved_def is_digit_def is_ws_def)
qed

lemma decode_encoded: "encodable s \<Longrightarrow> decode_uri_component (the (encode_uri_component s)) = Some s"
  by (auto simp: encodable_def intro: decode_encode_uri_component)

lemma encoded_inject:
  "encodable s \<Longrightarrow> encodable t \<Longrightarrow> the (encode_uri_component s) = the (encode_uri_component t) \<longleftrightarrow> s = t"
  by (metis decode_encoded option.inject)

lemma append_sep_inject: "d \<notin> set a \<Longrightarrow> d \<notin> set b \<Longrightarrow> a @ d # x = b @ d # y \<longleftrightarrow> a = b \<and> x = y"
proof (induction a arbitrary: b)
  case Nil
  then show ?case by (cases b) auto
next
  case (Cons c cs)
  then show ?case by (cases b) auto
qed

lemma cookie_pair_trimmed:
  assumes "encodable n" and "encodable v"
  shows "59 \<notin> set (cookie_pair (n, v)) \<and> trimmed (cookie_pair (n, v))"
proof -
  have "\<forall>c \<in> set (cookie_pair (n, v)). c \<noteq> 59 \<and> \<not> is_ws c"
    using encoded_chars assms by (auto simp: cookie_pair_def js_Cons is_ws_def)
  moreover have "cookie_pair (n, v) \<noteq> []" by (simp add: cookie_pair_def)
  ultimately show ?thesis by (auto simp: trimmed_def)
qed

lemma cookie_pair_prefix:
  assumes "encodable n" and "encodable v" and "encodable name"
  shows "starts_with (cookie_pair (n, v)) (the (encode_uri_component name) @ js ''='') \<longleftrightarrow> n = name"
proof -
  have "61 \<notin> set (the (encode_uri_component n))" and "61 \<notin> set (the (encode_uri_component name))"
    using encoded_chars assms by blast+
  then show ?thesis
    using encoded_inject [OF assms(1,3)]
    by (auto simp: starts_with_iff cookie_pair_def js_Cons append_sep_inject)
qed

lemma find_cookie:
  assumes "\<forall>(n, v) \<in> set cookies. encodable n \<and> encodable v" and "encodable name"
  shows "List.find (\<lambda>part. starts_with part (the (encode_uri_component name) @ js ''=''))
           (map cookie_pair cookies) = map_option (\<lambda>v. cookie_pair (name, v)) (map_of cookies name)"
  using assms(1) by (induction cookies) (auto simp: cookie_pair_prefix assms(2))

text \<open>
  C15: \<open>readCookie\<close> reads back what was stored. Whatever cookies the document holds with
  percent-encoded names and values, the value found for a name is the decoded value of the
  first cookie of exactly that name, and nothing is found when there is none.
\<close>

theorem readCookie_roundtrip:
  assumes "\<forall>(n, v) \<in> set cookies. encodable n \<and> encodable v" and "encodable name"
  shows "readCookie (Some (cookie_text cookies)) name = map_of cookies name"
proof (cases "cookies = []")
  case True
  then show ?thesis
    using assms(2) by (auto simp: cookie_text_def readCookie_def encodable_def js_Cons Let_def
        js_trim_def js_trim_end_def starts_with_iff)
next
  case False
  have "\<forall>w \<in> set (map cookie_pair cookies). 59 \<notin> set w \<and> trimmed w"
    using assms(1) cookie_pair_trimmed by auto
  then have parts: "map js_trim (split_on 59 (cookie_text cookies)) = map cookie_pair cookies"
    unfolding cookie_text_def using False by (simp add: js_Cons trim_split_join)
  obtain t where t: "encode_uri_component name = Some t" using assms(2) by (auto simp: encodable_def)
  have dec: "decode_uri_component (the (encode_uri_component v)) = Some v" if "map_of cookies name = Some v" for v
    using that assms(1) by (auto intro!: decode_encoded dest!: map_of_SomeD)
  show ?thesis
    unfolding readCookie_def using find_cookie [OF assms] dec t
    by (auto simp: parts Let_def cookie_pair_def split: option.splits)
qed

theorem readCookie_roundtrip_witness:
  "readCookie (Some (cookie_text [(js ''theme'', js ''dark''), (js ''tso_csrf'', js ''a=b'')])) (js ''tso_csrf'')
     = Some (js ''a=b'')"
proof -
  have "encodable (js ''theme'')" "encodable (js ''dark'')" "encodable (js ''tso_csrf'')" "encodable (js ''a=b'')"
    by (simp_all add: encodable_def js_Cons wf_jstr_def encode_uri_component_def
        high_surrogate_def lone_surrogate_def)
  then show ?thesis
    using readCookie_roundtrip [of "[(js ''theme'', js ''dark''), (js ''tso_csrf'', js ''a=b'')]" "js ''tso_csrf''"]
    by simp
qed


section \<open>The CSRF header\<close>

lemma header_append_keys: "fst ` set (header_append n v hs) = insert n (fst ` set hs)"
  by (induction n v hs rule: header_append.induct) auto

lemma header_append_distinct: "distinct (map fst hs) \<Longrightarrow> distinct (map fst (header_append n v hs))"
proof (induction n v hs rule: header_append.induct)
  case (2 n v m w hs)
  then show ?case
    using header_append_keys [of n v hs] by auto
qed simp

lemma header_append_fresh: "n \<notin> fst ` set hs \<Longrightarrow> header_append n v hs = hs @ [(n, v)]"
  by (induction n v hs rule: header_append.induct) auto

lemma ascii_lower_idem [simp]: "ascii_lower (ascii_lower s) = ascii_lower s"
  by (simp add: ascii_lower_def)

lemma make_headers_snoc:
  "make_headers (hs @ [(n, v)]) = header_append (ascii_lower n) v (make_headers hs)"
  by (simp add: make_headers_def)

definition normal_headers :: "header_list \<Rightarrow> bool" where
  "normal_headers hs \<longleftrightarrow> distinct (map fst hs) \<and> (\<forall>n \<in> fst ` set hs. ascii_lower n = n)"

lemma normal_make_headers: "normal_headers (make_headers hs)"
proof (induction hs rule: rev_induct)
  case Nil
  then show ?case by (simp add: normal_headers_def make_headers_def)
next
  case (snoc x xs)
  then show ?case
    by (cases x) (auto simp: make_headers_snoc normal_headers_def header_append_keys
        intro: header_append_distinct)
qed

lemma make_headers_normal: "normal_headers hs \<Longrightarrow> make_headers hs = hs"
proof (induction hs rule: rev_induct)
  case (snoc x xs)
  obtain n v where x: "x = (n, v)" by (cases x) auto
  have "normal_headers xs" and "n \<notin> fst ` set xs" and "ascii_lower n = n"
    using snoc.prems x by (auto simp: normal_headers_def)
  with snoc.IH x show ?case by (simp add: make_headers_snoc header_append_fresh)
qed (simp add: make_headers_def)

lemma normal_headers_update:
  "normal_headers hs \<Longrightarrow> ascii_lower n = n \<Longrightarrow> normal_headers (AList.update n v hs)"
  by (auto simp: normal_headers_def dom_update intro: distinct_update)

lemma csrf_header_name [simp]: "ascii_lower (js ''x-csrf-token'') = js ''x-csrf-token''"
  by (simp add: ascii_lower_def js_Cons)

definition unsafe_init :: "request_init option \<Rightarrow> bool" where
  "unsafe_init init \<longleftrightarrow>
     ascii_upper (case Option.bind init init_method of Some m \<Rightarrow> m | None \<Rightarrow> js ''GET'') \<in> set UNSAFE_METHODS"

definition sent_headers :: "browser \<Rightarrow> jstr \<Rightarrow> request_init option \<Rightarrow> header_list" where
  "sent_headers B path init = req_headers (apiFetch B path init)"

definition own_headers :: "request_init option \<Rightarrow> header_list" where
  "own_headers init = (case init of Some i \<Rightarrow> make_headers (init_headers i) | None \<Rightarrow> [])"

text \<open>
  C14: the CSRF header. An unsafe request (POST, PUT, PATCH, DELETE) made while a CSRF cookie
  is readable carries \<open>X-CSRF-Token\<close>: the caller's own value if it set one, else the cookie's;
  a safe request, or one without a cookie, carries exactly the caller's headers, so the token
  never leaves in a GET. No other header is touched.
\<close>

theorem csrf_header_sent:
  "map_of (sent_headers B path init) h =
     (if h = js ''x-csrf-token'' \<and> unsafe_init init \<and> map_of (own_headers init) h = None
      then csrf_token (doc_cookie B)
      else map_of (own_headers init) h)"
proof (cases "unsafe_init init \<and> csrf_token (doc_cookie B) \<noteq> None")
  case False
  then have "withCsrfHeader (doc_cookie B) init = init"
    by (auto simp: withCsrfHeader_def unsafe_init_def Let_def)
  then have "sent_headers B path init = own_headers init"
    by (cases init) (simp_all add: sent_headers_def apiFetch_def own_headers_def make_headers_def Let_def)
  with False show ?thesis by auto
next
  case True
  then obtain t where t: "csrf_token (doc_cookie B) = Some t" by auto
  let ?n = "js ''x-csrf-token''"
  let ?own = "own_headers init"
  have own: "make_headers (init_headers (case init of Some i \<Rightarrow> i | None \<Rightarrow> no_init)) = ?own"
    by (cases init) (simp_all add: own_headers_def make_headers_def)
  have norm: "normal_headers ?own"
    by (metis own normal_make_headers)
  have "sent_headers B path init = make_headers (if map_of ?own ?n = None then AList.update ?n t ?own else ?own)"
    using True t own by (simp add: sent_headers_def apiFetch_def withCsrfHeader_def unsafe_init_def Let_def)
  also have "\<dots> = (if map_of ?own ?n = None then AList.update ?n t ?own else ?own)"
    using norm by (simp add: make_headers_normal normal_headers_update)
  finally show ?thesis
    using True t by (auto simp: update_conv')
qed

text \<open>
  when a request ends the page's session. \<open>requestJson\<close> dispatches the unauthorized
  event, with the path requested, exactly when the server answered 401, the caller did not opt
  out and there is a window; the call then still fails, with that status and with the
  server's detail as its message when there is one.
\<close>

theorem unauthorized_event_iff:
  "(ApiUnauthorized q \<in> set (fst (requestJson B net path init opts)) \<longleftrightarrow>
      q = path \<and> has_window B \<and> notify_unauthorized opts \<noteq> Some False \<and>
      (\<exists>body. net (apiFetch B path init) = NetReply 401 body)) \<and>
   (net (apiFetch B path init) = NetReply 401 body \<longrightarrow>
      (\<exists>m. snd (requestJson B net path init opts)
             = Inl (ApiRequestError m 401 (errorDetail (parseResponsePayload body))) \<and>
           (\<forall>d. errorDetail (parseResponsePayload body) = Some d \<longrightarrow> m = d \<and> d \<noteq> [])))"
proof (cases "net (apiFetch B path init)")
  case (NetError m)
  then show ?thesis by (simp add: requestJson_def throw_def)
next
  case (NetReply st b)
  then show ?thesis
    using errorDetail_not_Nil [of "parseResponsePayload body"]
    by (auto simp: requestJson_def promise_defs Let_def failure_message_def)
qed

theorem unauthorized_event_iff_witness:
  "\<exists>m. snd (requestJson \<lparr>doc_cookie = None, has_window = True\<rparr> (\<lambda>_. NetReply 401 None) (js ''/api/x'') None default_options)
     = Inl (ApiRequestError m 401 None)"
  using unauthorized_event_iff [of _ "\<lparr>doc_cookie = None, has_window = True\<rparr>" "\<lambda>_. NetReply 401 None"
      "js ''/api/x''" None default_options None]
  by (auto simp: errorDetail_def parseResponsePayload_def)

end
