(* ===== verification/ApiAccount.thy ===== *)
theory ApiAccount
  imports ApiClient
begin

text \<open>
  \<open>frontend/src/api/session.ts\<close>, \<open>account.ts\<close> and \<open>auth.ts\<close>: the session, the account and
  the Telegram connection of the signed-in user. Each call fixes its path, its method, its
  JSON body and whether a 401 ends the page's session.
\<close>

section \<open>Types (types/account.ts, types/auth.ts)\<close>

record account_user =
  user_id :: jstr
  user_email :: jstr
  user_display_name :: jstr
  user_created_at :: jstr

record login_payload =
  login_email :: jstr
  login_password :: jstr

record registration_payload =
  reg_email :: jstr
  reg_display_name :: jstr
  reg_password :: jstr

record connect_telegram_payload =
  apiId :: int
  apiHash :: jstr
  phone :: jstr

datatype verify_telegram_payload = VerifyCode jstr | VerifyPassword jstr

record telegram_account_summary =
  acc_display_name :: "jstr option"
  acc_phone_masked :: "jstr option"
  acc_username :: "jstr option"

datatype telegram_connection =
    Disconnected
  | CodeRequired "jstr option"
  | PasswordRequired "jstr option"
  | Connected "telegram_account_summary option"

section \<open>Request builders\<close>

definition with_fallback :: "string \<Rightarrow> request_options" where
  "with_fallback m = \<lparr>fallback_message = Some (js m), notify_unauthorized = None\<rparr>"

definition with_fallback_silent :: "string \<Rightarrow> request_options" where
  "with_fallback_silent m = \<lparr>fallback_message = Some (js m), notify_unauthorized = Some False\<rparr>"

definition method_init :: "string \<Rightarrow> request_init" where
  "method_init m = \<lparr>init_method = Some (js m), init_headers = [], init_body = None\<rparr>"

definition json_init :: "string \<Rightarrow> json \<Rightarrow> request_init" where
  "json_init m b =
     \<lparr>init_method = Some (js m),
      init_headers = [(js ''Content-Type'', js ''application/json'')], init_body = Some b\<rparr>"

text \<open>\<open>Promise<void>\<close>: the payload is dropped.\<close>

definition ignore_result :: "json promise \<Rightarrow> unit promise" where
  "ignore_result p = await p (\<lambda>_. return_value ())"

type_synonym network = "http_request \<Rightarrow> net_reply"

section \<open>api/session.ts\<close>

definition SESSION_ENDPOINT :: jstr where
  "SESSION_ENDPOINT = js ''/api/session''"

definition ACTIVE_SESSIONS_ENDPOINT :: jstr where
  "ACTIVE_SESSIONS_ENDPOINT = js ''/api/account/sessions''"

definition fetchSession :: "browser \<Rightarrow> network \<Rightarrow> json promise" where
  "fetchSession B net =
     requestJson B net SESSION_ENDPOINT (Some no_init) (with_fallback_silent ''Could not check your session.'')"

definition login_json :: "login_payload \<Rightarrow> json" where
  "login_json p = JObj [(js ''email'', JStr (login_email p)), (js ''password'', JStr (login_password p))]"

definition createSession :: "browser \<Rightarrow> network \<Rightarrow> login_payload \<Rightarrow> json promise" where
  "createSession B net payload =
     requestJson B net SESSION_ENDPOINT (Some (json_init ''POST'' (login_json payload)))
       (with_fallback_silent ''Could not sign in.'')"

definition deleteSession :: "browser \<Rightarrow> network \<Rightarrow> unit promise" where
  "deleteSession B net =
     ignore_result (requestJson B net SESSION_ENDPOINT (Some (method_init ''DELETE''))
       \<lparr>fallback_message = None, notify_unauthorized = Some False\<rparr>)"

definition fetchActiveSessions :: "browser \<Rightarrow> network \<Rightarrow> json promise" where
  "fetchActiveSessions B net =
     requestJson B net ACTIVE_SESSIONS_ENDPOINT (Some no_init)
       (with_fallback ''Could not load active sessions.'')"

definition revokeSession :: "browser \<Rightarrow> network \<Rightarrow> jstr \<Rightarrow> unit promise" where
  "revokeSession B net i =
     (case encode_uri_component i of
        None \<Rightarrow> throw (PlainError (js ''URI malformed''))
      | Some encoded \<Rightarrow>
          ignore_result (requestJson B net (ACTIVE_SESSIONS_ENDPOINT @ js ''/'' @ encoded)
            (Some (method_init ''DELETE'')) (with_fallback ''Could not revoke the session.'')))"

section \<open>api/account.ts\<close>

definition ACCOUNT_ENDPOINT :: jstr where
  "ACCOUNT_ENDPOINT = js ''/api/account''"

definition registration_json :: "registration_payload \<Rightarrow> json" where
  "registration_json p =
     JObj [(js ''email'', JStr (reg_email p)), (js ''display_name'', JStr (reg_display_name p)),
           (js ''password'', JStr (reg_password p))]"

definition registerAccount :: "browser \<Rightarrow> network \<Rightarrow> registration_payload \<Rightarrow> unit promise" where
  "registerAccount B net payload =
     ignore_result (requestJson B net (ACCOUNT_ENDPOINT @ js ''/register'')
       (Some (json_init ''POST'' (registration_json payload)))
       (with_fallback_silent ''Could not complete registration.''))"

definition fetchAccount :: "browser \<Rightarrow> network \<Rightarrow> json promise" where
  "fetchAccount B net =
     requestJson B net ACCOUNT_ENDPOINT (Some no_init) (with_fallback ''Could not load your account.'')"

definition updateAccount :: "browser \<Rightarrow> network \<Rightarrow> jstr \<Rightarrow> json promise" where
  "updateAccount B net display_name =
     requestJson B net ACCOUNT_ENDPOINT
       (Some (json_init ''PATCH'' (JObj [(js ''display_name'', JStr display_name)])))
       (with_fallback ''Could not update your account.'')"

definition deleteAccount :: "browser \<Rightarrow> network \<Rightarrow> jstr \<Rightarrow> jstr \<Rightarrow> unit promise" where
  "deleteAccount B net password confirmation =
     ignore_result (requestJson B net ACCOUNT_ENDPOINT
       (Some (json_init ''DELETE''
         (JObj [(js ''password'', JStr password), (js ''confirmation'', JStr confirmation)])))
       (with_fallback_silent ''Could not delete your account.''))"

definition changePassword :: "browser \<Rightarrow> network \<Rightarrow> jstr \<Rightarrow> jstr \<Rightarrow> unit promise" where
  "changePassword B net current_password new_password =
     ignore_result (requestJson B net (ACCOUNT_ENDPOINT @ js ''/password'')
       (Some (json_init ''POST''
         (JObj [(js ''current_password'', JStr current_password), (js ''new_password'', JStr new_password)])))
       (with_fallback_silent ''Could not change your password.''))"

section \<open>api/auth.ts\<close>

definition CONNECTION_PATH :: jstr where
  "CONNECTION_PATH = js ''/api/telegram/connection''"

definition requestConnection :: "browser \<Rightarrow> network \<Rightarrow> jstr \<Rightarrow> request_init option \<Rightarrow> json promise" where
  "requestConnection B net path init =
     requestJson B net (CONNECTION_PATH @ path) init (with_fallback ''Telegram connection request failed.'')"

definition fetchTelegramConnection :: "browser \<Rightarrow> network \<Rightarrow> json promise" where
  "fetchTelegramConnection B net = requestConnection B net [] None"

definition connect_json :: "connect_telegram_payload \<Rightarrow> json" where
  "connect_json p =
     JObj [(js ''api_id'', JNum (jint (apiId p))), (js ''api_hash'', JStr (apiHash p)),
           (js ''phone'', JStr (phone p))]"

definition connectTelegram :: "browser \<Rightarrow> network \<Rightarrow> connect_telegram_payload \<Rightarrow> json promise" where
  "connectTelegram B net payload =
     requestConnection B net [] (Some (json_init ''POST'' (connect_json payload)))"

fun verify_json :: "verify_telegram_payload \<Rightarrow> json" where
  "verify_json (VerifyPassword password) = JObj [(js ''password'', JStr password)]"
| "verify_json (VerifyCode code) = JObj [(js ''code'', JStr (js_trim code))]"

definition verifyTelegram :: "browser \<Rightarrow> network \<Rightarrow> verify_telegram_payload \<Rightarrow> json promise" where
  "verifyTelegram B net payload =
     requestConnection B net (js ''/verify'') (Some (json_init ''POST'' (verify_json payload)))"

definition disconnectTelegram :: "browser \<Rightarrow> network \<Rightarrow> json promise" where
  "disconnectTelegram B net = requestConnection B net [] (Some (method_init ''DELETE''))"

section \<open>Which calls can end the session\<close>

lemma fst_ignore_result [simp]: "fst (ignore_result p) = fst p"
  by (simp add: ignore_result_def fst_await return_value_def split: sum.splits)

lemma snd_ignore_result: "snd (ignore_result p) = (case snd p of Inl e \<Rightarrow> Inl e | Inr _ \<Rightarrow> Inr ())"
  by (simp add: ignore_result_def snd_await return_value_def split: sum.splits)

lemma silent_options [simp]: "notify_unauthorized (with_fallback_silent m) = Some False"
  by (simp add: with_fallback_silent_def)

text \<open>
  signing in, signing out, registering, checking the session, changing the password and
  deleting the account never dispatch the unauthorized event: a 401 there means wrong
  credentials (or no session yet), and must not sign the page out. Every other account and
  Telegram call does dispatch it on a 401 (shown for loading the account).
\<close>

theorem credential_calls_silent:
  "fst (fetchSession B net) = [] \<and> fst (createSession B net l) = [] \<and> fst (deleteSession B net) = [] \<and>
   fst (registerAccount B net r) = [] \<and> fst (changePassword B net old new) = [] \<and>
   fst (deleteAccount B net pw conf) = [] \<and>
   (ApiUnauthorized ACCOUNT_ENDPOINT \<in> set (fst (fetchAccount B net)) \<longleftrightarrow>
      has_window B \<and> (\<exists>b. net (apiFetch B ACCOUNT_ENDPOINT (Some no_init)) = NetReply 401 b))"
proof -
  have "fst (requestJson B net p i \<lparr>fallback_message = f, notify_unauthorized = Some False\<rparr>) = []" for p i f
    by (rule http.silent_request) simp
  then have quiet: "fst (requestJson B net p i (with_fallback_silent m)) = []" for p i m
    by (simp add: with_fallback_silent_def)
  have "ApiUnauthorized ACCOUNT_ENDPOINT \<in> set (fst (fetchAccount B net)) \<longleftrightarrow>
      has_window B \<and> (\<exists>b. net (apiFetch B ACCOUNT_ENDPOINT (Some no_init)) = NetReply 401 b)"
    by (cases "net (apiFetch B ACCOUNT_ENDPOINT (Some no_init))")
      (auto simp: fetchAccount_def requestJson_def promise_defs with_fallback_def Let_def)
  then show ?thesis
    using quiet http.silent_request
    by (simp add: fetchSession_def createSession_def deleteSession_def registerAccount_def
        changePassword_def deleteAccount_def)
qed

end
