(* ===== verification/ApiOrganization.thy ===== *)
theory ApiOrganization
  imports ApiAccount
begin

text \<open>
  \<open>frontend/src/api/categories.ts\<close> and \<open>tags.ts\<close>: what is normalised and checked before a
  category or tag is sent, and that every successful tag change is announced.
\<close>

section \<open>Types (types/category.ts, types/message.ts)\<close>

record category =
  cat_id :: int
  cat_name :: jstr
  cat_slug :: jstr
  cat_system_key :: "jstr option"
  cat_icon :: jstr
  cat_color :: jstr
  cat_position :: int
  cat_is_default :: bool
  cat_message_count :: int

record message_tag =
  tag_id :: int
  tag_name :: jstr
  tag_color :: "jstr option"

text \<open>
  The case mappings of \<open>String.prototype\<close> are tables of the Unicode standard, and
  \<open>localeCompare\<close> collates with the locale's data; both are parameters.
\<close>

record host =
  to_lower :: "jstr \<Rightarrow> jstr"
  to_upper :: "jstr \<Rightarrow> jstr"
  locale_compare :: "jstr \<Rightarrow> jstr \<Rightarrow> int"

section \<open>api/categories.ts\<close>

definition CATEGORIES_PATH :: jstr where
  "CATEGORIES_PATH = js ''/api/categories''"

record category_input =
  ci_name :: jstr
  ci_icon :: jstr
  ci_color :: jstr
  ci_position :: jsnum

definition is_upper_hex :: "code_unit \<Rightarrow> bool" where
  "is_upper_hex c \<longleftrightarrow> is_digit c \<or> (65 \<le> c \<and> c \<le> 70)"

text \<open>\<open>/^#[0-9A-F]{6}$/\<close>\<close>

definition is_hex_color :: "jstr \<Rightarrow> bool" where
  "is_hex_color s \<longleftrightarrow> length s = 7 \<and> hd s = 35 \<and> list_all is_upper_hex (tl s)"

definition normalizeCategoryInput :: "host \<Rightarrow> category_input \<Rightarrow> js_error + category_input" where
  "normalizeCategoryInput H payload =
     (let name = collapse_ws (js_trim (ci_name payload));
          icon = js_trim (ci_icon payload);
          color = to_upper H (js_trim (ci_color payload));
          position = num_trunc (ci_position payload)
      in if name = [] then Inl (PlainError (js ''Category name is required.''))
         else if icon = [] then Inl (PlainError (js ''Choose a category icon.''))
         else if \<not> is_hex_color color then Inl (PlainError (js ''Enter a valid six-digit hex color.''))
         else if \<not> num_is_finite position \<or> num_less position (jint 0)
           then Inl (PlainError (js ''Sort order must be zero or greater.''))
         else Inr \<lparr>ci_name = name, ci_icon = icon, ci_color = color, ci_position = position\<rparr>)"

definition category_json :: "category_input \<Rightarrow> json" where
  "category_json c =
     JObj [(js ''name'', JStr (ci_name c)), (js ''icon'', JStr (ci_icon c)),
           (js ''color'', JStr (ci_color c)), (js ''position'', JNum (ci_position c))]"

definition send_category :: "host \<Rightarrow> browser \<Rightarrow> network \<Rightarrow> jstr \<Rightarrow> string \<Rightarrow> string \<Rightarrow> category_input \<Rightarrow> json promise" where
  "send_category H B net path method fallback payload =
     await ([], normalizeCategoryInput H payload)
       (\<lambda>c. requestJson B net path (Some (json_init method (category_json c))) (with_fallback fallback))"

definition createCategory :: "host \<Rightarrow> browser \<Rightarrow> network \<Rightarrow> category_input \<Rightarrow> json promise" where
  "createCategory H B net payload =
     send_category H B net CATEGORIES_PATH ''POST'' ''Could not create the category.'' payload"

definition updateCategory :: "host \<Rightarrow> browser \<Rightarrow> network \<Rightarrow> int \<Rightarrow> category_input \<Rightarrow> json promise" where
  "updateCategory H B net categoryId payload =
     send_category H B net (CATEGORIES_PATH @ js ''/'' @ int_str categoryId) ''PATCH''
       ''Could not update the category.'' payload"

definition deleteCategory :: "browser \<Rightarrow> network \<Rightarrow> int \<Rightarrow> json promise" where
  "deleteCategory B net categoryId =
     requestJson B net (CATEGORIES_PATH @ js ''/'' @ int_str categoryId) (Some (method_init ''DELETE''))
       (with_fallback ''Could not delete the category.'')"

text \<open>What the server is promised about a category it receives.\<close>

definition valid_category_input :: "category_input \<Rightarrow> bool" where
  "valid_category_input c \<longleftrightarrow>
     ci_name c \<noteq> [] \<and> trimmed (ci_name c) \<and> single_spaced (ci_name c) \<and>
     ci_icon c \<noteq> [] \<and> trimmed (ci_icon c) \<and> is_hex_color (ci_color c) \<and>
     (\<exists>n. 0 \<le> n \<and> ci_position c = jint n)"

lemma num_trunc_cases: "num_is_finite (num_trunc x) \<Longrightarrow> \<exists>n. num_trunc x = jint n"
  by (cases x) auto

lemma normalizeCategoryInput_valid:
  "normalizeCategoryInput H p = Inr c \<Longrightarrow> valid_category_input c"
proof -
  assume "normalizeCategoryInput H p = Inr c"
  then have c: "c = \<lparr>ci_name = collapse_ws (js_trim (ci_name p)), ci_icon = js_trim (ci_icon p),
      ci_color = to_upper H (js_trim (ci_color p)), ci_position = num_trunc (ci_position p)\<rparr>"
    and ok: "collapse_ws (js_trim (ci_name p)) \<noteq> []" "js_trim (ci_icon p) \<noteq> []"
      "is_hex_color (to_upper H (js_trim (ci_color p)))" "num_is_finite (num_trunc (ci_position p))"
      "\<not> num_less (num_trunc (ci_position p)) (jint 0)"
    by (auto simp: normalizeCategoryInput_def Let_def split: if_splits)
  obtain n where n: "num_trunc (ci_position p) = jint n"
    using num_trunc_cases [OF ok(4)] by blast
  with ok(5) have "0 \<le> n" by simp
  with ok n show ?thesis
    by (auto simp: valid_category_input_def c trimmed_collapse_ws)
qed

lemma normalizeCategoryInput_fixes:
  assumes "valid_category_input c" and "to_upper H (ci_color c) = ci_color c"
  shows "normalizeCategoryInput H c = Inr c"
proof -
  have "\<not> is_ws (hd (ci_color c)) \<and> \<not> is_ws (last (ci_color c))"
  proof -
    obtain x xs where x: "ci_color c = x # xs" "length xs = 6" "x = 35" "list_all is_upper_hex xs"
      using assms(1) by (cases "ci_color c") (auto simp: valid_category_input_def is_hex_color_def)
    then have "last xs \<in> set xs" by (intro last_in_set) auto
    then have "is_upper_hex (last xs)" using x(4) by (simp add: list_all_iff)
    with x show ?thesis by (auto simp: is_upper_hex_def is_digit_def is_ws_def)
  qed
  then have "js_trim (ci_color c) = ci_color c" by (simp add: js_trim_trimmed trimmed_def)
  with assms show ?thesis
    by (auto simp: normalizeCategoryInput_def valid_category_input_def Let_def js_trim_trimmed
        collapse_ws_single_spaced)
qed

text \<open>
  a category is only sent in normal form. Creating or editing a category puts a request on
  the network only when the input passes validation, and what it sends then has a non-empty
  name without outer or repeated whitespace, a non-empty icon, an upper-case six-digit colour
  and a whole sort order that is not negative; input already in that form is sent unchanged.
\<close>

theorem category_requests_valid:
  "(case normalizeCategoryInput H p of
      Inl e \<Rightarrow> createCategory H B net p = ([], Inl e) \<and> updateCategory H B net i p = ([], Inl e)
    | Inr c \<Rightarrow> valid_category_input c \<and>
        createCategory H B net p =
          requestJson B net CATEGORIES_PATH (Some (json_init ''POST'' (category_json c)))
            (with_fallback ''Could not create the category.'') \<and>
        updateCategory H B net i p =
          requestJson B net (CATEGORIES_PATH @ js ''/'' @ int_str i) (Some (json_init ''PATCH'' (category_json c)))
            (with_fallback ''Could not update the category.'')) \<and>
   (valid_category_input p \<and> to_upper H (ci_color p) = ci_color p \<longrightarrow> normalizeCategoryInput H p = Inr p)"
  using normalizeCategoryInput_valid [of H p] normalizeCategoryInput_fixes [of p H]
  by (auto simp: createCategory_def updateCategory_def send_category_def split: sum.splits)

theorem category_requests_valid_witness:
  "normalizeCategoryInput \<lparr>to_lower = id, to_upper = id, locale_compare = (\<lambda>_ _. 0)\<rparr>
     \<lparr>ci_name = js ''Read later'', ci_icon = js ''link'', ci_color = js ''#0F766E'', ci_position = jint 3\<rparr>
   = Inr \<lparr>ci_name = js ''Read later'', ci_icon = js ''link'', ci_color = js ''#0F766E'', ci_position = jint 3\<rparr>"
proof -
  let ?c = "\<lparr>ci_name = js ''Read later'', ci_icon = js ''link'', ci_color = js ''#0F766E'', ci_position = jint 3\<rparr>"
  have "valid_category_input ?c"
    by (simp add: valid_category_input_def trimmed_def js_Cons is_ws_def is_hex_color_def
        is_upper_hex_def is_digit_def exI [of _ 3])
  then show ?thesis
    using category_requests_valid [where p = ?c and
        H = "\<lparr>to_lower = id, to_upper = id, locale_compare = (\<lambda>_ _. 0)\<rparr>"] by simp
qed


section \<open>api/tags.ts\<close>

definition TAGS_BASE_PATH :: jstr where
  "TAGS_BASE_PATH = js ''/api''"

record create_tag_request =
  ct_name :: jstr
  ct_color :: "jstr option"

definition tags_requestJson :: "browser \<Rightarrow> network \<Rightarrow> jstr \<Rightarrow> request_init option \<Rightarrow> json promise" where
  "tags_requestJson B net path init =
     requestJson B net (TAGS_BASE_PATH @ path) init (with_fallback ''Tag request failed.'')"

definition normalizeTagName :: "jstr \<Rightarrow> jstr" where
  "normalizeTagName name = collapse_ws (js_trim name)"

definition listTags :: "browser \<Rightarrow> network \<Rightarrow> json promise" where
  "listTags B net = tags_requestJson B net (js ''/tags'') (Some no_init)"

definition listManagedTags :: "browser \<Rightarrow> network \<Rightarrow> json promise" where
  "listManagedTags B net = tags_requestJson B net (js ''/tags'') (Some no_init)"

definition tag_json :: "jstr \<Rightarrow> jstr option \<Rightarrow> json" where
  "tag_json name color =
     JObj [(js ''name'', JStr name), (js ''color'', (case color of Some c \<Rightarrow> JStr c | None \<Rightarrow> JNull))]"

definition notify_tags :: "'a \<Rightarrow> 'a promise" where
  "notify_tags x = await (emit (OrganizationChanged Tags)) (\<lambda>_. return_value x)"

definition createTag :: "browser \<Rightarrow> network \<Rightarrow> create_tag_request \<Rightarrow> json promise" where
  "createTag B net payload =
     (let normalizedName = normalizeTagName (ct_name payload)
      in if normalizedName = [] then throw (PlainError (js ''Tag name is required.''))
         else await (tags_requestJson B net (js ''/tags'')
                      (Some (json_init ''POST'' (tag_json normalizedName (ct_color payload)))))
                notify_tags)"

definition updateTag :: "browser \<Rightarrow> network \<Rightarrow> int \<Rightarrow> create_tag_request \<Rightarrow> json promise" where
  "updateTag B net tagId payload =
     (let normalizedName = normalizeTagName (ct_name payload)
      in if normalizedName = [] then throw (PlainError (js ''Tag name is required.''))
         else await (tags_requestJson B net (js ''/tags/'' @ int_str tagId)
                      (Some (json_init ''PATCH'' (tag_json normalizedName (ct_color payload)))))
                notify_tags)"

definition deleteTag :: "browser \<Rightarrow> network \<Rightarrow> int \<Rightarrow> unit promise" where
  "deleteTag B net tagId =
     await (tags_requestJson B net (js ''/tags/'' @ int_str tagId) (Some (method_init ''DELETE'')))
       (\<lambda>_. notify_tags ())"

text \<open>
  \<open>[...new Set(ids.map(Math.trunc).filter((v) => v > 0))]\<close>, and \<open>JSON.stringify\<close> of a
  number, which writes \<open>null\<close> for the infinities.
\<close>

definition unique_positive_ids :: "jsnum list \<Rightarrow> jsnum list" where
  "unique_positive_ids ids = js_unique (filter (\<lambda>v. num_less (jint 0) v) (map num_trunc ids))"

definition json_number :: "jsnum \<Rightarrow> json" where
  "json_number x = (if num_is_finite x then JNum x else JNull)"

text \<open>\<open>payload.tags\<close>: a \<open>TypeError\<close> when the body was not JSON (or was \<open>null\<close>).\<close>

definition tags_of_payload :: "json \<Rightarrow> json option promise" where
  "tags_of_payload payload =
     (if payload = JNull
      then throw (PlainError (js ''Cannot read properties of null (reading 'tags')''))
      else return_value (jprop payload (js ''tags'')))"

definition addTagsToMessage :: "browser \<Rightarrow> network \<Rightarrow> int \<Rightarrow> jsnum list \<Rightarrow> json option promise" where
  "addTagsToMessage B net messageId tagIds =
     (let uniqueTagIds = unique_positive_ids tagIds
      in if uniqueTagIds = [] then throw (PlainError (js ''At least one tag id is required.''))
         else await (tags_requestJson B net (js ''/messages/'' @ int_str messageId @ js ''/tags'')
                      (Some (json_init ''POST'' (JObj [(js ''tag_ids'', JArr (map json_number uniqueTagIds))]))))
                (\<lambda>payload. await (notify_tags payload) tags_of_payload))"

definition bulkAddTagsToMessages :: "browser \<Rightarrow> network \<Rightarrow> jsnum list \<Rightarrow> jsnum list \<Rightarrow> json promise" where
  "bulkAddTagsToMessages B net messageIds tagIds =
     (let uniqueMessageIds = unique_positive_ids messageIds;
          uniqueTagIds = unique_positive_ids tagIds
      in if uniqueMessageIds = [] then throw (PlainError (js ''At least one message id is required.''))
         else if uniqueTagIds = [] then throw (PlainError (js ''At least one tag id is required.''))
         else await (tags_requestJson B net (js ''/messages/bulk-tags'')
                      (Some (json_init ''POST''
                        (JObj [(js ''message_ids'', JArr (map json_number uniqueMessageIds)),
                               (js ''tag_ids'', JArr (map json_number uniqueTagIds))]))))
                notify_tags)"

definition removeTagFromMessage :: "browser \<Rightarrow> network \<Rightarrow> int \<Rightarrow> int \<Rightarrow> json option promise" where
  "removeTagFromMessage B net messageId tagId =
     await (tags_requestJson B net (js ''/messages/'' @ int_str messageId @ js ''/tags/'' @ int_str tagId)
              (Some (method_init ''DELETE'')))
       (\<lambda>payload. await (notify_tags payload) tags_of_payload)"

subsection \<open>Announcing tag changes\<close>

lemma await_notify_tags:
  "fst (await p notify_tags) = fst p @ (case snd p of Inl _ \<Rightarrow> [] | Inr _ \<Rightarrow> [OrganizationChanged Tags])"
  "snd (await p notify_tags) = snd p"
  by (auto simp: fst_await snd_await notify_tags_def promise_defs split: sum.splits)

lemma await_notify_tags_then:
  "fst (await p (\<lambda>x. await (notify_tags x) tags_of_payload)) =
     fst p @ (case snd p of Inl _ \<Rightarrow> [] | Inr _ \<Rightarrow> [OrganizationChanged Tags])"
  by (auto simp: fst_await snd_await notify_tags_def tags_of_payload_def promise_defs split: sum.splits)

lemma await_notify_unit:
  "fst (await p (\<lambda>_. notify_tags ())) =
     fst p @ (case snd p of Inl _ \<Rightarrow> [] | Inr _ \<Rightarrow> [OrganizationChanged Tags])"
  by (auto simp: fst_await snd_await notify_tags_def promise_defs split: sum.splits)

lemma client_never_notifies: "OrganizationChanged r \<notin> set (fst (tags_requestJson B net path init))"
  unfolding tags_requestJson_def using http.effects_only_401 by fastforce

lemma notified_iff:
  "OrganizationChanged Tags \<in> set (fst (tags_requestJson B net path init) @
      (case snd (tags_requestJson B net path init) of Inl _ \<Rightarrow> [] | Inr _ \<Rightarrow> [OrganizationChanged Tags]))
    \<longleftrightarrow> (\<exists>x. snd (tags_requestJson B net path init) = Inr x)"
  by (cases "snd (tags_requestJson B net path init)") (auto simp: client_never_notifies)

lemmas tag_announcements = await_notify_tags await_notify_tags_then await_notify_unit notified_iff

definition accepted :: "network \<Rightarrow> browser \<Rightarrow> jstr \<Rightarrow> request_init option \<Rightarrow> bool" where
  "accepted net B path init \<longleftrightarrow> (\<exists>st b. net (apiFetch B path init) = NetReply st b \<and> response_ok st)"

lemma tags_request_succeeds_iff:
  "(\<exists>x. snd (tags_requestJson B net path init) = Inr x) \<longleftrightarrow> accepted net B (TAGS_BASE_PATH @ path) init"
  by (auto simp: tags_requestJson_def http.succeeds_iff accepted_def)

text \<open>
  C16: the rest of the page learns of every tag change, and of nothing else. Creating, changing and
  deleting a tag, attaching tags (to one message or in bulk) and detaching one announce \<open>tags\<close> exactly
  when the server accepted the request; a refused request or rejected input announces nothing, and
  neither does listing the tags.
\<close>

theorem tag_changes_announced:
  "(OrganizationChanged Tags \<in> set (fst (createTag B net p)) \<longleftrightarrow>
      normalizeTagName (ct_name p) \<noteq> [] \<and>
      accepted net B (js ''/api/tags'')
        (Some (json_init ''POST'' (tag_json (normalizeTagName (ct_name p)) (ct_color p))))) \<and>
   (OrganizationChanged Tags \<in> set (fst (updateTag B net t p)) \<longleftrightarrow>
      normalizeTagName (ct_name p) \<noteq> [] \<and>
      accepted net B (js ''/api/tags/'' @ int_str t)
        (Some (json_init ''PATCH'' (tag_json (normalizeTagName (ct_name p)) (ct_color p))))) \<and>
   (OrganizationChanged Tags \<in> set (fst (deleteTag B net t)) \<longleftrightarrow>
      accepted net B (js ''/api/tags/'' @ int_str t) (Some (method_init ''DELETE''))) \<and>
   (OrganizationChanged Tags \<in> set (fst (addTagsToMessage B net m ids)) \<longleftrightarrow>
      unique_positive_ids ids \<noteq> [] \<and>
      accepted net B (js ''/api/messages/'' @ int_str m @ js ''/tags'')
        (Some (json_init ''POST'' (JObj [(js ''tag_ids'', JArr (map json_number (unique_positive_ids ids)))])))) \<and>
   (OrganizationChanged Tags \<in> set (fst (bulkAddTagsToMessages B net ms ids)) \<longleftrightarrow>
      unique_positive_ids ms \<noteq> [] \<and> unique_positive_ids ids \<noteq> [] \<and>
      accepted net B (js ''/api/messages/bulk-tags'')
        (Some (json_init ''POST'' (JObj [(js ''message_ids'', JArr (map json_number (unique_positive_ids ms))),
           (js ''tag_ids'', JArr (map json_number (unique_positive_ids ids)))])))) \<and>
   (OrganizationChanged Tags \<in> set (fst (removeTagFromMessage B net m t)) \<longleftrightarrow>
      accepted net B (js ''/api/messages/'' @ int_str m @ js ''/tags/'' @ int_str t)
        (Some (method_init ''DELETE''))) \<and>
   OrganizationChanged Tags \<notin> set (fst (listTags B net)) \<and> OrganizationChanged Tags \<notin> set (fst (listManagedTags B net))"
proof -
  have path: "js ''/api'' @ js ''/tags'' = js ''/api/tags''"
    "js ''/api'' @ js ''/tags/'' @ s = js ''/api/tags/'' @ s"
    "js ''/api'' @ js ''/messages/bulk-tags'' = js ''/api/messages/bulk-tags''"
    "js ''/api'' @ js ''/messages/'' @ s = js ''/api/messages/'' @ s" for s
    by (simp_all add: js_Cons)
  note announced = tag_announcements tags_request_succeeds_iff [unfolded TAGS_BASE_PATH_def] path
  show ?thesis
  proof (intro conjI)
    show "OrganizationChanged Tags \<in> set (fst (createTag B net p)) \<longleftrightarrow>
        normalizeTagName (ct_name p) \<noteq> [] \<and>
        accepted net B (js ''/api/tags'')
          (Some (json_init ''POST'' (tag_json (normalizeTagName (ct_name p)) (ct_color p))))"
      unfolding createTag_def Let_def by (simp only: announced split: if_split) (simp add: throw_def)
    show "OrganizationChanged Tags \<in> set (fst (updateTag B net t p)) \<longleftrightarrow>
        normalizeTagName (ct_name p) \<noteq> [] \<and>
        accepted net B (js ''/api/tags/'' @ int_str t)
          (Some (json_init ''PATCH'' (tag_json (normalizeTagName (ct_name p)) (ct_color p))))"
      unfolding updateTag_def Let_def by (simp only: announced split: if_split) (simp add: throw_def)
    show "OrganizationChanged Tags \<in> set (fst (deleteTag B net t)) \<longleftrightarrow>
        accepted net B (js ''/api/tags/'' @ int_str t) (Some (method_init ''DELETE''))"
      unfolding deleteTag_def by (simp only: announced)
    show "OrganizationChanged Tags \<in> set (fst (addTagsToMessage B net m ids)) \<longleftrightarrow>
        unique_positive_ids ids \<noteq> [] \<and>
        accepted net B (js ''/api/messages/'' @ int_str m @ js ''/tags'')
          (Some (json_init ''POST'' (JObj [(js ''tag_ids'', JArr (map json_number (unique_positive_ids ids)))])))"
      unfolding addTagsToMessage_def Let_def by (simp only: announced split: if_split) (simp add: throw_def)
    show "OrganizationChanged Tags \<in> set (fst (bulkAddTagsToMessages B net ms ids)) \<longleftrightarrow>
        unique_positive_ids ms \<noteq> [] \<and> unique_positive_ids ids \<noteq> [] \<and>
        accepted net B (js ''/api/messages/bulk-tags'')
          (Some (json_init ''POST'' (JObj [(js ''message_ids'', JArr (map json_number (unique_positive_ids ms))),
             (js ''tag_ids'', JArr (map json_number (unique_positive_ids ids)))])))"
      unfolding bulkAddTagsToMessages_def Let_def by (simp only: announced split: if_split) (simp add: throw_def)
    show "OrganizationChanged Tags \<in> set (fst (removeTagFromMessage B net m t)) \<longleftrightarrow>
        accepted net B (js ''/api/messages/'' @ int_str m @ js ''/tags/'' @ int_str t)
          (Some (method_init ''DELETE''))"
      unfolding removeTagFromMessage_def by (simp only: announced)
    show "OrganizationChanged Tags \<notin> set (fst (listTags B net))" "OrganizationChanged Tags \<notin> set (fst (listManagedTags B net))"
      using client_never_notifies by (simp_all add: listTags_def listManagedTags_def tags_requestJson_def)
  qed
qed

text \<open>
  what is sent when messages are tagged. The id lists of a (bulk) tag request have no
  duplicates and hold exactly the truncated positive ids of the input; whole positive ids pass
  through unchanged.
\<close>

theorem tag_request_ids:
  "distinct (unique_positive_ids ids) \<and>
   set (unique_positive_ids ids) = {v. num_less (jint 0) v \<and> (\<exists>x \<in> set ids. v = num_trunc x)} \<and>
   (distinct zs \<and> (\<forall>z \<in> set zs. 0 < z) \<longrightarrow> unique_positive_ids (map jint zs) = map jint zs)"
proof -
  have "unique_positive_ids (map jint zs) = map jint zs"
    if "distinct zs" and "\<forall>z \<in> set zs. 0 < z"
  proof -
    have "map num_trunc (map jint zs) = map jint zs" by simp
    moreover have "filter (\<lambda>v. num_less (jint 0) v) (map jint zs) = map jint zs"
      using that(2) by (auto simp: filter_id_conv)
    moreover have "distinct (map jint zs)"
      using that(1) by (simp add: distinct_map inj_on_def)
    ultimately show ?thesis by (simp only: unique_positive_ids_def js_unique_distinct)
  qed
  then show ?thesis by (auto simp: unique_positive_ids_def)
qed

theorem tag_request_ids_witness: "unique_positive_ids (map jint [3, 5]) = map jint [3, 5]"
  using tag_request_ids [of "[]" "[3, 5]"] by simp

end
