(* ===== verification/SearchParams.thy ===== *)
theory SearchParams
  imports Uri
begin

text \<open>
  \<open>URLSearchParams\<close>, the query-string container that \<open>api/messages.ts\<close> fills and that
  \<open>pages/messages-page.tsx\<close> keeps its filters in: a list of name/value pairs, its
  \<open>application/x-www-form-urlencoded\<close> text, and the locale with the laws both rely on.
\<close>

type_synonym params = "(jstr \<times> jstr) list"

definition sp_get :: "params \<Rightarrow> jstr \<Rightarrow> jstr option" where
  "sp_get ps n = map_of ps n"

definition sp_get_all :: "params \<Rightarrow> jstr \<Rightarrow> jstr list" where
  "sp_get_all ps n = map snd (filter (\<lambda>p. fst p = n) ps)"

definition sp_delete :: "params \<Rightarrow> jstr \<Rightarrow> params" where
  "sp_delete ps n = filter (\<lambda>p. fst p \<noteq> n) ps"

definition sp_append :: "params \<Rightarrow> jstr \<Rightarrow> jstr \<Rightarrow> params" where
  "sp_append ps n v = ps @ [(n, v)]"

text \<open>\<open>set\<close> overwrites the first pair of the name and drops the others, or appends.\<close>

fun sp_set :: "params \<Rightarrow> jstr \<Rightarrow> jstr \<Rightarrow> params" where
  "sp_set [] n v = [(n, v)]"
| "sp_set ((m, w) # ps) n v = (if m = n then (n, v) # sp_delete ps n else (m, w) # sp_set ps n v)"

definition sp_append_all :: "params \<Rightarrow> jstr \<Rightarrow> jstr list \<Rightarrow> params" where
  "sp_append_all ps n vs = foldl (\<lambda>acc v. sp_append acc n v) ps vs"

section \<open>The laws\<close>

locale search_params =
  fixes get_all :: "'p \<Rightarrow> jstr \<Rightarrow> jstr list"
    and set_param :: "'p \<Rightarrow> jstr \<Rightarrow> jstr \<Rightarrow> 'p"
    and delete :: "'p \<Rightarrow> jstr \<Rightarrow> 'p"
    and append_param :: "'p \<Rightarrow> jstr \<Rightarrow> jstr \<Rightarrow> 'p"
  assumes get_all_set: "get_all (set_param p n v) m = (if m = n then [v] else get_all p m)"
    and get_all_delete: "get_all (delete p n) m = (if m = n then [] else get_all p m)"
    and get_all_append: "get_all (append_param p n v) m = (if m = n then get_all p n @ [v] else get_all p m)"
begin

text \<open>Replacing a parameter, as the filter setters do: delete it, or set it to one value.\<close>

lemma get_all_replace:
  "get_all (case v of None \<Rightarrow> delete p n | Some w \<Rightarrow> set_param p n w) m =
     (if m = n then (case v of None \<Rightarrow> [] | Some w \<Rightarrow> [w]) else get_all p m)"
  by (simp add: get_all_set get_all_delete split: option.splits)

lemma get_all_append_all:
  "get_all (foldl (\<lambda>acc v. append_param acc n v) p vs) m =
     (if m = n then get_all p n @ vs else get_all p m)"
  by (induction vs rule: rev_induct) (auto simp: get_all_append)

lemma get_all_rewrite:
  "get_all (foldl (\<lambda>acc v. append_param acc n v) (delete p n) vs) m =
     (if m = n then vs else get_all p m)"
  by (simp add: get_all_append_all get_all_delete)

end

lemma sp_get_all_delete: "sp_get_all (sp_delete ps n) m = (if m = n then [] else sp_get_all ps m)"
proof -
  have "filter (\<lambda>p. fst p = m) (filter (\<lambda>p. fst p \<noteq> n) ps) =
      (if m = n then [] else filter (\<lambda>p. fst p = m) ps)"
    by (induction ps) auto
  then show ?thesis by (simp add: sp_get_all_def sp_delete_def)
qed

lemma sp_get_all_set: "sp_get_all (sp_set ps n v) m = (if m = n then [v] else sp_get_all ps m)"
proof (induction ps n v rule: sp_set.induct)
  case (2 k w ps n v)
  then show ?case
    using sp_get_all_delete [of ps n m] by (auto simp: sp_get_all_def)
qed (simp add: sp_get_all_def)

interpretation url_params: search_params sp_get_all sp_set sp_delete sp_append
  by unfold_locales (simp_all add: sp_get_all_set sp_get_all_delete, simp add: sp_get_all_def sp_append_def)

lemma sp_get_eq: "sp_get ps n = (case sp_get_all ps n of [] \<Rightarrow> None | v # _ \<Rightarrow> Some v)"
  by (induction ps) (auto simp: sp_get_def sp_get_all_def)

lemma sp_get_set [simp]: "sp_get (sp_set ps n v) m = (if m = n then Some v else sp_get ps m)"
  by (simp add: sp_get_eq sp_get_all_set)

lemma sp_get_delete [simp]: "sp_get (sp_delete ps n) m = (if m = n then None else sp_get ps m)"
  by (simp add: sp_get_eq sp_get_all_delete)

lemma sp_get_append [simp]:
  "sp_get (sp_append ps n v) m = (if m = n \<and> sp_get ps n = None then Some v else sp_get ps m)"
  by (auto simp: sp_get_def sp_append_def map_add_def split: option.splits)

lemma sp_get_append_all:
  "sp_get (sp_append_all ps n vs) m =
     (if m = n \<and> sp_get ps n = None then (case vs of [] \<Rightarrow> None | v # _ \<Rightarrow> Some v) else sp_get ps m)"
  by (auto simp: sp_get_eq sp_append_all_def url_params.get_all_append_all split: list.splits)

section \<open>The query string\<close>

text \<open>
  \<open>toString()\<close>: ASCII letters, digits and \<open>* - . _\<close> stay, a space becomes \<open>+\<close>, everything
  else is percent-encoded UTF-8 (a lone surrogate as U+FFFD).
\<close>

definition form_unreserved :: "nat \<Rightarrow> bool" where
  "form_unreserved c \<longleftrightarrow> (65 \<le> c \<and> c \<le> 90) \<or> (97 \<le> c \<and> c \<le> 122) \<or> is_digit c \<or> c \<in> {42, 45, 46, 95}"

definition form_encode_point :: "nat \<Rightarrow> jstr" where
  "form_encode_point p =
     (if form_unreserved p then [p] else if p = 32 then [43]
      else concat (map percent (utf8 (if lone_surrogate p then 65533 else p))))"

definition form_encode :: "jstr \<Rightarrow> jstr" where
  "form_encode s = concat (map form_encode_point (code_points s))"

definition sp_to_string :: "params \<Rightarrow> jstr" where
  "sp_to_string ps = join_with (js ''&'') (map (\<lambda>(n, v). form_encode n @ js ''='' @ form_encode v) ps)"

lemma join_with_not_Nil: "w \<noteq> [] \<Longrightarrow> join_with sep (w # ws) \<noteq> []"
  by (cases ws) auto

lemma sp_to_string_Nil_iff: "sp_to_string ps = [] \<longleftrightarrow> ps = []"
proof (cases ps)
  case (Cons nv rest)
  have "form_encode (fst nv) @ js ''='' @ form_encode (snd nv) \<noteq> []" by simp
  then have "join_with (js ''&'') ((form_encode (fst nv) @ js ''='' @ form_encode (snd nv)) #
      map (\<lambda>(n, v). form_encode n @ js ''='' @ form_encode v) rest) \<noteq> []"
    by (rule join_with_not_Nil)
  with Cons show ?thesis by (simp add: sp_to_string_def split_beta)
qed (simp add: sp_to_string_def)

end
