(* ===== verification/ApiMessages.thy ===== *)
theory ApiMessages
  imports ApiOrganization SearchParams
begin

text \<open>
  \<open>frontend/src/api/messages.ts\<close> and the request half of \<open>api/scan.ts\<close>: the query string of
  a message listing, the check of its response, the two error classes a 409 is turned into,
  and the scan requests with their clamped page size.
\<close>

section \<open>Types (types/message.ts)\<close>

record message_category =
  mc_id :: int
  mc_name :: jstr
  mc_slug :: jstr
  mc_icon :: jstr
  mc_color :: jstr

record message_item =
  msg_id :: int
  msg_telegram_id :: int
  msg_content :: "jstr option"
  msg_media_type :: "jstr option"
  msg_file_name :: "jstr option"
  msg_file_size :: "jsnum option"
  msg_mime_type :: "jstr option"
  msg_media_url :: "jstr option"
  msg_url :: "jstr option"
  msg_sender_name :: "jstr option"
  msg_date :: jstr
  msg_category_id :: int
  msg_raw_data :: json
  msg_created_at :: jstr
  msg_updated_at :: jstr
  msg_category :: message_category
  msg_tags :: "message_tag list"

datatype message_kind = KText | KLink | KImage | KAudio | KVideo | KDocument | KMixed | KOther

fun kind_str :: "message_kind \<Rightarrow> jstr" where
  "kind_str KText = js ''text''"
| "kind_str KLink = js ''link''"
| "kind_str KImage = js ''image''"
| "kind_str KAudio = js ''audio''"
| "kind_str KVideo = js ''video''"
| "kind_str KDocument = js ''document''"
| "kind_str KMixed = js ''mixed''"
| "kind_str KOther = js ''other''"

datatype sort_option = DateDesc | DateAsc | ByCategory | BySender

fun sort_str :: "sort_option \<Rightarrow> jstr" where
  "sort_str DateDesc = js ''date_desc''"
| "sort_str DateAsc = js ''date_asc''"
| "sort_str ByCategory = js ''category''"
| "sort_str BySender = js ''sender''"

lemma kind_str_inject [simp]: "kind_str a = kind_str b \<longleftrightarrow> a = b"
  by (cases a; cases b) simp_all

lemma sort_str_inject [simp]: "sort_str a = sort_str b \<longleftrightarrow> a = b"
  by (cases a; cases b) simp_all

section \<open>Listing messages\<close>

definition MESSAGES_BASE_PATH :: jstr where
  "MESSAGES_BASE_PATH = js ''/api/messages''"

record message_list_query =
  q_page :: "jsnum option"
  q_per_page :: "jsnum option"
  q_sort :: "sort_option option"
  q_category :: "jstr option"
  q_search :: "jstr option"
  q_tag :: "jstr list option"
  q_kind :: "message_kind option"

definition parseMessageListResponse :: "json \<Rightarrow> json option" where
  "parseMessageListResponse payload =
     (if \<not> is_object payload then None
      else if \<not> (case jprop payload (js ''items'') of Some (JArr _) \<Rightarrow> True | _ \<Rightarrow> False) then None
      else if \<not> is_jnum (jprop payload (js ''total'')) then None
      else if \<not> is_jnum (jprop payload (js ''page'')) then None
      else if \<not> is_jnum (jprop payload (js ''per_page'')) then None
      else Some payload)"

text \<open>
  The text of a whole number, or of what is no number at all, in a template string. It is exact below
  2^53, where every page, page size and id of the client lies; from there a browser prints the
  shortest digits that read back, and from 1e21 an exponent.
\<close>

fun num_str :: "jsnum \<Rightarrow> jstr" where
  "num_str NaN = js ''NaN''"
| "num_str PosInf = js ''Infinity''"
| "num_str NegInf = js ''-Infinity''"
| "num_str (Fin q) = int_str \<lfloor>q\<rfloor>"

definition query_params :: "message_list_query \<Rightarrow> params" where
  "query_params query =
     (let p0 = [];
          p1 = (case q_page query of
                  Some page \<Rightarrow> sp_set p0 (js ''page'') (num_str (num_max (jint 1) (num_trunc page)))
                | None \<Rightarrow> p0);
          p2 = (case q_per_page query of
                  Some n \<Rightarrow> sp_set p1 (js ''per_page'')
                    (num_str (num_min (jint 200) (num_max (jint 1) (num_trunc n))))
                | None \<Rightarrow> p1);
          p3 = (case q_sort query of Some s \<Rightarrow> sp_set p2 (js ''sort'') (sort_str s) | None \<Rightarrow> p2);
          p4 = (case q_category query of
                  Some c \<Rightarrow> if js_trim c \<noteq> [] then sp_set p3 (js ''category'') (js_trim c) else p3
                | None \<Rightarrow> p3);
          p5 = (case q_kind query of Some k \<Rightarrow> sp_set p4 (js ''kind'') (kind_str k) | None \<Rightarrow> p4);
          p6 = (case q_search query of
                  Some s \<Rightarrow> if js_trim s \<noteq> [] then sp_set p5 (js ''search'') (js_trim s) else p5
                | None \<Rightarrow> p5)
      in (case q_tag query of
            Some tags \<Rightarrow> sp_append_all p6 (js ''tag'') (map js_trim (filter (\<lambda>t. js_trim t \<noteq> []) tags))
          | None \<Rightarrow> p6))"

definition buildQueryString :: "message_list_query \<Rightarrow> jstr" where
  "buildQueryString query =
     (let serialized = sp_to_string (query_params query)
      in if serialized \<noteq> [] then js ''?'' @ serialized else [])"

definition map_message_error :: "js_error \<Rightarrow> js_error" where
  "map_message_error e =
     (case e of
        ApiRequestError m status detail \<Rightarrow>
          if status = 409 \<and> detail = Some (js ''telegram_not_connected'') then TelegramNotConnectedError
          else if status = 409 \<and> detail = Some (js ''telegram_connection_changed'')
            then TelegramConnectionChangedError
          else e
      | _ \<Rightarrow> e)"

definition requestMessageJson :: "browser \<Rightarrow> network \<Rightarrow> jstr \<Rightarrow> request_init option \<Rightarrow> json promise" where
  "requestMessageJson B net path init =
     (case requestJson B net (MESSAGES_BASE_PATH @ path) init (with_fallback ''Message request failed.'') of
        (es, Inl e) \<Rightarrow> (es, Inl (map_message_error e))
      | (es, Inr x) \<Rightarrow> (es, Inr x))"

definition listMessages :: "browser \<Rightarrow> network \<Rightarrow> message_list_query \<Rightarrow> json promise" where
  "listMessages B net query =
     await (requestMessageJson B net (buildQueryString query) None)
       (\<lambda>payload. case parseMessageListResponse payload of
          None \<Rightarrow> throw (PlainError (js ''Unexpected messages payload.''))
        | Some parsed \<Rightarrow> return_value parsed)"

section \<open>Changing messages\<close>

definition moveMessageToCategory :: "browser \<Rightarrow> network \<Rightarrow> int \<Rightarrow> int \<Rightarrow> json promise" where
  "moveMessageToCategory B net messageId categoryId =
     requestMessageJson B net (js ''/'' @ int_str messageId)
       (Some (json_init ''PATCH'' (JObj [(js ''category_id'', JNum (jint categoryId))])))"

definition local_only_query :: "bool \<Rightarrow> jstr" where
  "local_only_query localOnly = (if localOnly then js ''?local_only=true'' else [])"

definition deleteMessage :: "browser \<Rightarrow> network \<Rightarrow> int \<Rightarrow> bool \<Rightarrow> unit promise" where
  "deleteMessage B net messageId localOnly =
     ignore_result (requestMessageJson B net (js ''/'' @ int_str messageId @ local_only_query localOnly)
       (Some (method_init ''DELETE'')))"

definition ids_json :: "int list \<Rightarrow> json" where
  "ids_json ids = JArr (map (\<lambda>i. JNum (jint i)) ids)"

definition bulkDeleteMessages :: "browser \<Rightarrow> network \<Rightarrow> int list \<Rightarrow> bool \<Rightarrow> json promise" where
  "bulkDeleteMessages B net messageIds localOnly =
     requestMessageJson B net (js ''/bulk-delete'' @ local_only_query localOnly)
       (Some (json_init ''POST'' (JObj [(js ''message_ids'', ids_json messageIds)])))"

definition clearAllMessages :: "browser \<Rightarrow> network \<Rightarrow> json promise" where
  "clearAllMessages B net = requestMessageJson B net (js ''/clear'') (Some (method_init ''POST''))"

definition bulkMoveMessages :: "browser \<Rightarrow> network \<Rightarrow> int list \<Rightarrow> int \<Rightarrow> json promise" where
  "bulkMoveMessages B net messageIds categoryId =
     requestMessageJson B net (js ''/bulk-move'')
       (Some (json_init ''POST''
         (JObj [(js ''message_ids'', ids_json messageIds), (js ''category_id'', JNum (jint categoryId))])))"

section \<open>api/scan.ts: the requests\<close>

definition SCAN_BASE_PATH :: jstr where
  "SCAN_BASE_PATH = js ''/api/scan''"

definition map_scan_error :: "js_error \<Rightarrow> js_error" where
  "map_scan_error e =
     (case e of
        ApiRequestError m status detail \<Rightarrow>
          if status = 409 \<and> detail = Some (js ''telegram_not_connected'')
          then PlainError (js ''Connect Telegram before starting a scan.'')
          else e
      | _ \<Rightarrow> e)"

definition requestScanStatus :: "browser \<Rightarrow> network \<Rightarrow> jstr \<Rightarrow> request_init option \<Rightarrow> json promise" where
  "requestScanStatus B net path init =
     (case requestJson B net (SCAN_BASE_PATH @ path) init (with_fallback ''Scan request failed.'') of
        (es, Inl e) \<Rightarrow> (es, Inl (map_scan_error e))
      | (es, Inr x) \<Rightarrow> (es, Inr x))"

definition fetchScanStatus :: "browser \<Rightarrow> network \<Rightarrow> json promise" where
  "fetchScanStatus B net = requestScanStatus B net (js ''/status'') None"

definition normalizedPageSize :: "jsnum \<Rightarrow> jsnum" where
  "normalizedPageSize pageSize =
     (if num_is_finite pageSize then num_min (jint 1000) (num_max (jint 1) (num_trunc pageSize))
      else jint 100)"

definition startScan :: "browser \<Rightarrow> network \<Rightarrow> jsnum \<Rightarrow> bool \<Rightarrow> json promise" where
  "startScan B net pageSize clearExisting =
     (let clearQuery = (if clearExisting then js ''&clear_existing=true'' else [])
      in requestScanStatus B net
           (js ''/start?page_size='' @ num_str (normalizedPageSize pageSize) @ clearQuery)
           (Some (method_init ''POST'')))"

definition stopScan :: "browser \<Rightarrow> network \<Rightarrow> json promise" where
  "stopScan B net = requestScanStatus B net (js ''/stop'') (Some (method_init ''POST''))"


section \<open>The query of a listing\<close>

definition opt_set :: "params \<Rightarrow> jstr \<Rightarrow> jstr option \<Rightarrow> params" where
  "opt_set ps n v = (case v of Some w \<Rightarrow> sp_set ps n w | None \<Rightarrow> ps)"

lemma sp_get_all_opt_set:
  "sp_get_all (opt_set ps n v) m =
     (if m = n then (case v of Some w \<Rightarrow> [w] | None \<Rightarrow> sp_get_all ps m) else sp_get_all ps m)"
  by (simp add: opt_set_def sp_get_all_set split: option.splits)

definition not_blank :: "jstr option \<Rightarrow> jstr option" where
  "not_blank v = (case v of Some s \<Rightarrow> if js_trim s \<noteq> [] then Some (js_trim s) else None | None \<Rightarrow> None)"

lemma not_blank_Some: "not_blank v = Some w \<Longrightarrow> trimmed w \<and> w \<noteq> []"
  by (auto simp: not_blank_def split: option.splits if_splits)

lemma query_params_opt_set:
  "query_params q =
     sp_append_all
       (opt_set (opt_set (opt_set (opt_set (opt_set (opt_set [] (js ''page'')
          (map_option (\<lambda>p. num_str (num_max (jint 1) (num_trunc p))) (q_page q)))
          (js ''per_page'')
          (map_option (\<lambda>n. num_str (num_min (jint 200) (num_max (jint 1) (num_trunc n)))) (q_per_page q)))
          (js ''sort'') (map_option sort_str (q_sort q)))
          (js ''category'') (not_blank (q_category q)))
          (js ''kind'') (map_option kind_str (q_kind q)))
          (js ''search'') (not_blank (q_search q)))
       (js ''tag'')
       (case q_tag q of Some tags \<Rightarrow> map js_trim (filter (\<lambda>t. js_trim t \<noteq> []) tags) | None \<Rightarrow> [])"
  by (simp add: query_params_def opt_set_def not_blank_def sp_append_all_def Let_def split: option.splits)

lemma sp_get_all_Nil [simp]: "sp_get_all [] m = []"
  by (simp add: sp_get_all_def)

lemma query_get_all:
  "sp_get_all (query_params q) n =
     (if n = js ''tag'' then
        (case q_tag q of Some tags \<Rightarrow> map js_trim (filter (\<lambda>t. js_trim t \<noteq> []) tags) | None \<Rightarrow> [])
      else case
        (if n = js ''page'' then map_option (\<lambda>p. num_str (num_max (jint 1) (num_trunc p))) (q_page q)
         else if n = js ''per_page'' then
           map_option (\<lambda>n. num_str (num_min (jint 200) (num_max (jint 1) (num_trunc n)))) (q_per_page q)
         else if n = js ''sort'' then map_option sort_str (q_sort q)
         else if n = js ''category'' then not_blank (q_category q)
         else if n = js ''kind'' then map_option kind_str (q_kind q)
         else if n = js ''search'' then not_blank (q_search q)
         else None) of Some v \<Rightarrow> [v] | None \<Rightarrow> [])"
  unfolding query_params_opt_set sp_append_all_def url_params.get_all_append_all sp_get_all_opt_set sp_get_all_Nil
  by (cases "n = js ''search''"; cases "n = js ''kind''"; cases "n = js ''category''"; cases "n = js ''sort''";
      cases "n = js ''per_page''"; cases "n = js ''page''"; cases "n = js ''tag''")
    (auto split: option.splits)

lemma num_str_jint [simp]: "num_str (jint n) = int_str n"
  by simp

lemma page_text:
  assumes "num_is_finite x"
  shows "\<exists>k \<ge> 1. num_str (num_max (jint 1) (num_trunc x)) = int_str k"
proof -
  from assms obtain m where m: "num_trunc x = jint m" by (cases x) auto
  show ?thesis unfolding m num_max_jint num_str_jint by (intro exI [of _ "max 1 m"]) simp
qed

lemma per_page_text:
  assumes "num_is_finite x"
  shows "\<exists>k. 1 \<le> k \<and> k \<le> 200 \<and> num_str (num_min (jint 200) (num_max (jint 1) (num_trunc x))) = int_str k"
  using clamp_trunc_range [OF assms, of 1 200] by (metis num_str_jint one_le_numeral)

lemma query_page:
  "sp_get_all (query_params q) (js ''page'') =
     (case q_page q of Some x \<Rightarrow> [num_str (num_max (jint 1) (num_trunc x))] | None \<Rightarrow> [])"
  by (simp add: query_get_all split: option.splits)

lemma query_per_page:
  "sp_get_all (query_params q) (js ''per_page'') =
     (case q_per_page q of Some x \<Rightarrow> [num_str (num_min (jint 200) (num_max (jint 1) (num_trunc x)))] | None \<Rightarrow> [])"
  by (simp add: query_get_all split: option.splits)

lemma query_text:
  assumes "name \<in> {js ''category'', js ''search'', js ''tag''}" and "v \<in> set (sp_get_all (query_params q) name)"
  shows "trimmed v \<and> v \<noteq> []"
proof -
  have "v \<in> set (sp_get_all (query_params q) (js ''category'')) \<Longrightarrow> trimmed v \<and> v \<noteq> []"
    using not_blank_Some [of "q_category q"] by (simp add: query_get_all split: option.splits)
  moreover have "v \<in> set (sp_get_all (query_params q) (js ''search'')) \<Longrightarrow> trimmed v \<and> v \<noteq> []"
    using not_blank_Some [of "q_search q"] by (simp add: query_get_all split: option.splits)
  moreover have "v \<in> set (sp_get_all (query_params q) (js ''tag'')) \<Longrightarrow> trimmed v \<and> v \<noteq> []"
    by (auto simp: query_get_all split: option.splits)
  ultimately show ?thesis using assms by blast
qed

lemma query_at_most_one: "n \<noteq> js ''tag'' \<Longrightarrow> length (sp_get_all (query_params q) n) \<le> 1"
  unfolding query_get_all by (simp only: if_False) (simp split: option.split)

lemma query_known_names:
  assumes "sp_get_all (query_params q) n \<noteq> []"
  shows "n \<in> {js ''page'', js ''per_page'', js ''sort'', js ''category'', js ''kind'', js ''search'', js ''tag''}"
  using assms by (rule contrapos_np) (simp add: query_get_all)

text \<open>
  C13: a listing request is always well formed. Every parameter appears at most once (tags
  excepted); a finite page number is sent as a whole number of at least 1 and a finite page
  size as one between 1 and 200; the category, the search text and each tag are trimmed and
  never empty; nothing but the seven known parameters is sent.
\<close>

theorem list_query_well_formed:
  assumes "\<forall>x. q_page q = Some x \<longrightarrow> num_is_finite x" and "\<forall>x. q_per_page q = Some x \<longrightarrow> num_is_finite x"
  shows "(n \<noteq> js ''tag'' \<longrightarrow> length (sp_get_all (query_params q) n) \<le> 1) \<and>
    (\<forall>v \<in> set (sp_get_all (query_params q) (js ''page'')). \<exists>k \<ge> 1. v = int_str k) \<and>
    (\<forall>v \<in> set (sp_get_all (query_params q) (js ''per_page'')). \<exists>k. 1 \<le> k \<and> k \<le> 200 \<and> v = int_str k) \<and>
    (\<forall>name \<in> {js ''category'', js ''search'', js ''tag''}.
       \<forall>v \<in> set (sp_get_all (query_params q) name). trimmed v \<and> v \<noteq> []) \<and>
    (sp_get_all (query_params q) n \<noteq> [] \<longrightarrow>
       n \<in> {js ''page'', js ''per_page'', js ''sort'', js ''category'', js ''kind'', js ''search'', js ''tag''})"
proof -
  have "\<forall>v \<in> set (sp_get_all (query_params q) (js ''page'')). \<exists>k \<ge> 1. v = int_str k"
    using assms(1) page_text unfolding query_page by (cases "q_page q") (simp_all del: num_str.simps)
  moreover have "\<forall>v \<in> set (sp_get_all (query_params q) (js ''per_page'')). \<exists>k. 1 \<le> k \<and> k \<le> 200 \<and> v = int_str k"
    using assms(2) per_page_text unfolding query_per_page by (cases "q_per_page q") (simp_all del: num_str.simps)
  ultimately show ?thesis using query_at_most_one query_text query_known_names by blast
qed

theorem list_query_well_formed_witness:
  "length (sp_get_all (query_params \<lparr>q_page = Some (jint 3), q_per_page = Some (jint 500), q_sort = None,
      q_category = None, q_search = None, q_tag = None, q_kind = None\<rparr>) (js ''per_page'')) \<le> 1"
  using list_query_well_formed [of "\<lparr>q_page = Some (jint 3), q_per_page = Some (jint 500), q_sort = None,
      q_category = None, q_search = None, q_tag = None, q_kind = None\<rparr>" "js ''per_page''"]
  by simp

section \<open>The errors of message requests\<close>

lemma snd_requestMessageJson:
  "snd (requestMessageJson B net path init) =
     (case snd (requestJson B net (MESSAGES_BASE_PATH @ path) init (with_fallback ''Message request failed.'')) of
        Inl e \<Rightarrow> Inl (map_message_error e) | Inr x \<Rightarrow> Inr x)"
  by (simp add: requestMessageJson_def split: prod.splits sum.splits)

lemma not_ok_409 [simp]: "\<not> response_ok 409"
  by (simp add: response_ok_def)

definition answers :: "network \<Rightarrow> browser \<Rightarrow> jstr \<Rightarrow> request_init option \<Rightarrow> int \<Rightarrow> jstr \<Rightarrow> bool" where
  "answers net B path init status detail \<longleftrightarrow>
     (\<exists>b. net (apiFetch B path init) = NetReply status b \<and> errorDetail (parseResponsePayload b) = Some detail)"

lemma map_message_error_cases:
  "map_message_error e = TelegramNotConnectedError \<longleftrightarrow>
     e = TelegramNotConnectedError \<or> (\<exists>m. e = ApiRequestError m 409 (Some (js ''telegram_not_connected'')))"
  "map_message_error e = TelegramConnectionChangedError \<longleftrightarrow>
     e = TelegramConnectionChangedError \<or> (\<exists>m. e = ApiRequestError m 409 (Some (js ''telegram_connection_changed'')))"
  by (auto simp: map_message_error_def split: js_error.splits)

lemma message_conflict:
  "(\<exists>m. snd (requestJson B net path init opts) = Inl (ApiRequestError m 409 (Some d))) \<longleftrightarrow>
     answers net B path init 409 d"
  using http.fails_with_status_iff [of B net path init opts 409 "Some d"] by (auto simp: answers_def)

text \<open>
  which errors offer a local-only delete. A message request fails with the \<open>not connected\<close>
  (\<open>connection changed\<close>) error exactly when the server answered 409 with the detail
  \<open>telegram_not_connected\<close> (\<open>telegram_connection_changed\<close>); every other failure is passed on
  unchanged, and success is what \<open>requestJson\<close> returned.
\<close>

theorem message_error_classes:
  "(snd (requestMessageJson B net path init) = Inl TelegramNotConnectedError \<longleftrightarrow>
      answers net B (MESSAGES_BASE_PATH @ path) init 409 (js ''telegram_not_connected'')) \<and>
   (snd (requestMessageJson B net path init) = Inl TelegramConnectionChangedError \<longleftrightarrow>
      answers net B (MESSAGES_BASE_PATH @ path) init 409 (js ''telegram_connection_changed'')) \<and>
   (snd (requestMessageJson B net path init) \<notin> {Inl TelegramNotConnectedError, Inl TelegramConnectionChangedError} \<longrightarrow>
      requestMessageJson B net path init =
        requestJson B net (MESSAGES_BASE_PATH @ path) init (with_fallback ''Message request failed.''))"
proof -
  let ?r = "requestJson B net (MESSAGES_BASE_PATH @ path) init (with_fallback ''Message request failed.'')"
  have kinds: "snd ?r \<noteq> Inl TelegramNotConnectedError" "snd ?r \<noteq> Inl TelegramConnectionChangedError"
    using http.error_kinds by blast+
  have iff: "snd (requestMessageJson B net path init) = Inl E \<longleftrightarrow> (\<exists>e. snd ?r = Inl e \<and> map_message_error e = E)" for E
    by (auto simp: snd_requestMessageJson split: sum.splits)
  have nc: "snd (requestMessageJson B net path init) = Inl TelegramNotConnectedError \<longleftrightarrow>
      answers net B (MESSAGES_BASE_PATH @ path) init 409 (js ''telegram_not_connected'')"
    unfolding iff map_message_error_cases message_conflict [symmetric, where opts = "with_fallback ''Message request failed.''"]
    using kinds by auto
  have cc: "snd (requestMessageJson B net path init) = Inl TelegramConnectionChangedError \<longleftrightarrow>
      answers net B (MESSAGES_BASE_PATH @ path) init 409 (js ''telegram_connection_changed'')"
    unfolding iff map_message_error_cases message_conflict [symmetric, where opts = "with_fallback ''Message request failed.''"]
    using kinds by auto
  have "requestMessageJson B net path init = ?r"
    if "snd (requestMessageJson B net path init) \<notin> {Inl TelegramNotConnectedError, Inl TelegramConnectionChangedError}"
    using that by (cases ?r) (auto simp: requestMessageJson_def map_message_error_def
        split: sum.splits js_error.splits if_splits)
  with nc cc show ?thesis by blast
qed

theorem message_error_classes_witness:
  "requestMessageJson \<lparr>doc_cookie = None, has_window = True\<rparr> (\<lambda>_. NetError (js ''offline'')) [] None =
     requestJson \<lparr>doc_cookie = None, has_window = True\<rparr> (\<lambda>_. NetError (js ''offline'')) MESSAGES_BASE_PATH None
       (with_fallback ''Message request failed.'')"
  using message_error_classes [of "\<lparr>doc_cookie = None, has_window = True\<rparr>" "\<lambda>_. NetError (js ''offline'')" "[]" None]
  by (simp add: requestMessageJson_def requestJson_def throw_def map_message_error_def)

text \<open>
  a scan is never started with a page size the server rejects. Whatever number the caller
  passes (fractions, negatives, \<open>NaN\<close> and the infinities included) the request's path carries
  a whole page size between 1 and 1000; a whole number in that range is sent as it is.
\<close>

theorem scan_page_size_bounds:
  "\<exists>k. 1 \<le> k \<and> k \<le> 1000 \<and> normalizedPageSize x = jint k \<and>
     startScan B net x clear =
       requestScanStatus B net
         (js ''/start?page_size='' @ int_str k @ (if clear then js ''&clear_existing=true'' else []))
         (Some (method_init ''POST'')) \<and>
     (\<forall>n. x = jint n \<and> 1 \<le> n \<and> n \<le> 1000 \<longrightarrow> k = n)"
proof -
  have "\<exists>k. 1 \<le> k \<and> k \<le> 1000 \<and> normalizedPageSize x = jint k"
  proof (cases "num_is_finite x")
    case True
    then show ?thesis using clamp_trunc_range [OF True, of 1 1000] by (auto simp: normalizedPageSize_def)
  next
    case False
    then show ?thesis by (intro exI [of _ 100]) (simp add: normalizedPageSize_def)
  qed
  then obtain k where k: "1 \<le> k" "k \<le> 1000" "normalizedPageSize x = jint k" by blast
  have "k = n" if "x = jint n" and "1 \<le> n" and "n \<le> 1000" for n
  proof -
    have "normalizedPageSize (jint n) = jint (min 1000 (max 1 n))"
      unfolding normalizedPageSize_def num_trunc_jint num_max_jint num_min_jint by simp
    with k(3) that show ?thesis by simp
  qed
  with k show ?thesis
    by (intro exI [of _ k]) (auto simp: startScan_def Let_def)
qed

theorem scan_page_size_bounds_witness:
  "\<exists>k. 1 \<le> k \<and> k \<le> 1000 \<and> normalizedPageSize (jint 250) = jint k \<and> k = 250"
  using scan_page_size_bounds [of "jint 250" "\<lparr>doc_cookie = None, has_window = True\<rparr>" "\<lambda>_. NetError []" False]
  by auto

end
