(* ===== verification/OrgEvents.thy ===== *)
theory OrgEvents
  imports ApiOrganization
begin

text \<open>
  How parts of the client tell each other what happened: \<open>lib/organization-events.ts\<close> (a DOM
  event in the tab, a \<open>BroadcastChannel\<close> to the other tabs), \<open>lib/message-drag-events.ts\<close>
  (the dragged message on its way to a category) and \<open>stores/ui-store.ts\<close>.
\<close>

section \<open>stores/ui-store.ts\<close>

record ui_state =
  isSidebarOpen :: bool
  searchQuery :: jstr

definition ui_initial :: ui_state where
  "ui_initial = \<lparr>isSidebarOpen = False, searchQuery = []\<rparr>"

definition setSidebarOpen :: "bool \<Rightarrow> ui_state \<Rightarrow> ui_state" where
  "setSidebarOpen isOpen s = s\<lparr>isSidebarOpen := isOpen\<rparr>"

definition toggleSidebar :: "ui_state \<Rightarrow> ui_state" where
  "toggleSidebar s = s\<lparr>isSidebarOpen := \<not> isSidebarOpen s\<rparr>"

definition setSearchQuery :: "jstr \<Rightarrow> ui_state \<Rightarrow> ui_state" where
  "setSearchQuery query s = s\<lparr>searchQuery := query\<rparr>"

definition ui_reset :: "ui_state \<Rightarrow> ui_state" where
  "ui_reset s = s\<lparr>isSidebarOpen := False, searchQuery := []\<rparr>"

lemma ui_reset_initial: "ui_reset s = ui_initial"
  by (simp add: ui_reset_def ui_initial_def)

section \<open>lib/organization-events.ts\<close>

definition MESSAGE_VERSION :: jsnum where
  "MESSAGE_VERSION = jint 1"

definition resource_name :: "organization_resource \<Rightarrow> jstr" where
  "resource_name r = (case r of Categories \<Rightarrow> js ''categories'' | Tags \<Rightarrow> js ''tags'')"

definition organization_message :: "organization_resource \<Rightarrow> json" where
  "organization_message r =
     JObj [(js ''version'', JNum MESSAGE_VERSION), (js ''resource'', JStr (resource_name r))]"

text \<open>The type guard, with the resource it establishes.\<close>

definition isOrganizationChangeMessage :: "json \<Rightarrow> organization_resource option" where
  "isOrganizationChangeMessage value =
     (if \<not> is_object value then None
      else if jprop value (js ''version'') = Some (JNum MESSAGE_VERSION) then
        (if jprop value (js ''resource'') = Some (JStr (js ''categories'')) then Some Categories
         else if jprop value (js ''resource'') = Some (JStr (js ''tags'')) then Some Tags
         else None)
      else None)"

text \<open>
  One tab: whether there is a \<open>window\<close>; what \<open>new BroadcastChannel\<close> would do there and
  whether \<open>postMessage\<close> works; the module's \<open>broadcastChannel\<close> variable (\<open>Undefined\<close>,
  \<open>null\<close> or an open channel); the listeners of the window, per event; and the calls made to
  them so far, oldest first.
\<close>

datatype channel_support = NoConstructor | Denied | Allowed

datatype channel_state = Undefined | NoChannel | OpenChannel

record tab =
  has_win :: bool
  support :: channel_support
  post_works :: bool
  channel :: channel_state
  listeners :: "(organization_resource \<times> nat) list"
  calls :: "(organization_resource \<times> nat) list"

definition dispatchLocal :: "organization_resource \<Rightarrow> tab \<Rightarrow> tab" where
  "dispatchLocal r t =
     (if has_win t then t\<lparr>calls := calls t @ filter (\<lambda>l. fst l = r) (listeners t)\<rparr> else t)"

definition getBroadcastChannel :: "tab \<Rightarrow> tab" where
  "getBroadcastChannel t =
     (if channel t \<noteq> Undefined then t
      else if \<not> has_win t \<or> support t = NoConstructor then t\<lparr>channel := NoChannel\<rparr>
      else case support t of
          Allowed \<Rightarrow> t\<lparr>channel := OpenChannel\<rparr>
        | _ \<Rightarrow> t\<lparr>channel := NoChannel\<rparr>)"

text \<open>The tab after the call, and the message the channel accepted, if any.\<close>

definition notifyOrganizationChanged :: "organization_resource \<Rightarrow> tab \<Rightarrow> tab \<times> json option" where
  "notifyOrganizationChanged r t =
     (let t' = getBroadcastChannel (dispatchLocal r t)
      in (t', if channel t' = OpenChannel \<and> post_works t' then Some (organization_message r) else None))"

text \<open>\<open>addEventListener\<close> keeps one registration per event and function.\<close>

definition subscribeToOrganizationChanges :: "organization_resource \<Rightarrow> nat \<Rightarrow> tab \<Rightarrow> tab" where
  "subscribeToOrganizationChanges r listener t =
     (if \<not> has_win t then t
      else getBroadcastChannel
        (t\<lparr>listeners := (if (r, listener) \<in> set (listeners t) then listeners t
                         else listeners t @ [(r, listener)])\<rparr>))"

definition unsubscribe :: "organization_resource \<Rightarrow> nat \<Rightarrow> tab \<Rightarrow> tab" where
  "unsubscribe r listener t = t\<lparr>listeners := filter (\<lambda>l. l \<noteq> (r, listener)) (listeners t)\<rparr>"

text \<open>A message from another tab reaches the channel's own listener.\<close>

definition receive :: "json \<Rightarrow> tab \<Rightarrow> tab" where
  "receive data t =
     (if channel t = OpenChannel then
        (case isOrganizationChangeMessage data of Some r \<Rightarrow> dispatchLocal r t | None \<Rightarrow> t)
      else t)"

text \<open>Tab \<open>i\<close> notifies; the channel delivers to every other tab.\<close>

definition notify_from :: "nat \<Rightarrow> organization_resource \<Rightarrow> tab list \<Rightarrow> tab list" where
  "notify_from i r ts =
     (let (t', m) = notifyOrganizationChanged r (ts ! i)
      in map (\<lambda>(j, t). if j = i then t' else case m of Some data \<Rightarrow> receive data t | None \<Rightarrow> t)
           (zip [0 ..< length ts] ts))"

subsection \<open>What a tab keeps\<close>

definition tab_ok :: "tab \<Rightarrow> bool" where
  "tab_ok t \<longleftrightarrow> distinct (listeners t) \<and> (listeners t \<noteq> [] \<longrightarrow> channel t \<noteq> Undefined \<and> has_win t) \<and>
     (channel t = OpenChannel \<longrightarrow> has_win t \<and> support t = Allowed) \<and>
     (channel t = NoChannel \<longrightarrow> \<not> (has_win t \<and> support t = Allowed))"

lemma tab_ok_getBroadcastChannel [simp, wf_intros]: "tab_ok t \<Longrightarrow> tab_ok (getBroadcastChannel t)"
  by (auto simp: tab_ok_def getBroadcastChannel_def split: channel_support.splits)

lemma tab_ok_dispatchLocal [simp, wf_intros]: "tab_ok t \<Longrightarrow> tab_ok (dispatchLocal r t)"
  by (auto simp: tab_ok_def dispatchLocal_def)

lemma tab_ok_subscribe [wf_intros]: "tab_ok t \<Longrightarrow> tab_ok (subscribeToOrganizationChanges r l t)"
  by (auto simp: tab_ok_def subscribeToOrganizationChanges_def getBroadcastChannel_def split: channel_support.splits)

lemma tab_ok_unsubscribe [wf_intros]: "tab_ok t \<Longrightarrow> tab_ok (unsubscribe r l t)"
  by (auto simp: tab_ok_def unsubscribe_def filter_empty_conv)

lemma tab_ok_notify [wf_intros]: "tab_ok t \<Longrightarrow> tab_ok (fst (notifyOrganizationChanged r t))"
  by (simp add: notifyOrganizationChanged_def Let_def)

lemma tab_ok_receive [wf_intros]: "tab_ok t \<Longrightarrow> tab_ok (receive m t)"
  by (simp add: receive_def split: option.splits)

lemma is_message_roundtrip [simp]: "isOrganizationChangeMessage (organization_message r) = Some r"
  by (cases r) (simp_all add: isOrganizationChangeMessage_def organization_message_def resource_name_def)

lemma resource_name_inject: "resource_name r = resource_name r' \<longleftrightarrow> r = r'"
  by (cases r; cases r') (simp_all add: resource_name_def)

lemma is_message_iff:
  "isOrganizationChangeMessage v = Some r \<longleftrightarrow>
     is_object v \<and> jprop v (js ''version'') = Some (JNum MESSAGE_VERSION) \<and>
     jprop v (js ''resource'') = Some (JStr (resource_name r))"
  by (cases r) (auto simp: isOrganizationChangeMessage_def resource_name_def)

lemma getBroadcastChannel_same [simp]:
  "listeners (getBroadcastChannel t) = listeners t" "calls (getBroadcastChannel t) = calls t"
  "has_win (getBroadcastChannel t) = has_win t" "support (getBroadcastChannel t) = support t"
  "post_works (getBroadcastChannel t) = post_works t"
  by (auto simp: getBroadcastChannel_def split: channel_support.splits)

lemma dispatchLocal_same [simp]:
  "listeners (dispatchLocal r t) = listeners t" "channel (dispatchLocal r t) = channel t"
  "has_win (dispatchLocal r t) = has_win t" "support (dispatchLocal r t) = support t"
  "post_works (dispatchLocal r t) = post_works t"
  by (simp_all add: dispatchLocal_def)

lemma channel_after:
  "tab_ok t \<Longrightarrow> channel (getBroadcastChannel t) = OpenChannel \<longleftrightarrow> has_win t \<and> support t = Allowed"
  by (cases "channel t"; cases "support t") (auto simp: tab_ok_def getBroadcastChannel_def)

lemma calls_dispatch:
  "tab_ok t \<Longrightarrow> calls (dispatchLocal r t) = calls t @ filter (\<lambda>l. fst l = r) (listeners t)"
  by (auto simp: dispatchLocal_def tab_ok_def)

lemma notify_posts:
  "tab_ok t \<Longrightarrow> snd (notifyOrganizationChanged r t) =
     (if has_win t \<and> support t = Allowed \<and> post_works t then Some (organization_message r) else None)"
  by (simp add: notifyOrganizationChanged_def Let_def channel_after)

lemma calls_notify:
  "tab_ok t \<Longrightarrow> calls (fst (notifyOrganizationChanged r t)) = calls t @ filter (\<lambda>l. fst l = r) (listeners t)"
  by (simp add: notifyOrganizationChanged_def Let_def calls_dispatch)

lemma calls_receive:
  assumes "tab_ok t"
  shows "calls (receive (organization_message r) t) =
    calls t @ (if has_win t \<and> support t = Allowed then filter (\<lambda>l. fst l = r) (listeners t) else [])"
proof (cases "channel t")
  case Undefined
  then have "listeners t = []" using assms by (auto simp: tab_ok_def)
  with Undefined show ?thesis by (simp add: receive_def)
next
  case NoChannel
  then show ?thesis using assms by (auto simp: receive_def tab_ok_def)
next
  case OpenChannel
  then have "has_win t \<and> support t = Allowed" using assms by (auto simp: tab_ok_def)
  with OpenChannel show ?thesis using calls_dispatch [OF assms] by (simp add: receive_def)
qed

lemma notify_from_nth:
  assumes "j < length ts"
  shows "notify_from i r ts ! j =
    (if j = i then fst (notifyOrganizationChanged r (ts ! i))
     else case snd (notifyOrganizationChanged r (ts ! i)) of Some m \<Rightarrow> receive m (ts ! j) | None \<Rightarrow> ts ! j)"
  using assms by (simp add: notify_from_def split_beta Let_def)

text \<open>
  C17: organization changes reach their listeners, in every tab, exactly once. When a tab
  announces a change of a resource, each listener of that resource in the same tab is called
  once more, whatever the state of the channel (missing, denied or broken); in another tab
  each is called once more exactly when both tabs may open the channel and posting works;
  no listener of the other resource is called, and every tab stays well formed.
\<close>

theorem organization_change_delivery:
  assumes "\<forall>t \<in> set ts. tab_ok t" and "i < length ts" and "j < length ts"
  shows "calls (notify_from i r ts ! j) =
      calls (ts ! j) @
        (if j = i \<or> (has_win (ts ! i) \<and> support (ts ! i) = Allowed \<and> post_works (ts ! i) \<and>
                     has_win (ts ! j) \<and> support (ts ! j) = Allowed)
         then filter (\<lambda>l. fst l = r) (listeners (ts ! j)) else []) \<and>
    distinct (filter (\<lambda>l. fst l = r) (listeners (ts ! j))) \<and>
    tab_ok (notify_from i r ts ! j)"
proof -
  have ok: "tab_ok (ts ! i)" "tab_ok (ts ! j)" using assms by simp_all
  have "distinct (listeners (ts ! j))" using ok(2) by (simp add: tab_ok_def)
  then show ?thesis
    using ok by (auto simp: notify_from_nth [OF assms(3)] notify_posts calls_notify calls_receive
        intro: wf_intros)
qed

theorem organization_change_delivery_witness:
  "calls (notify_from 0 Tags
     [\<lparr>has_win = True, support = Denied, post_works = True, channel = NoChannel,
       listeners = [(Tags, 1), (Categories, 2)], calls = []\<rparr>] ! 0) = [(Tags, 1)]"
  using organization_change_delivery [of "[\<lparr>has_win = True, support = Denied, post_works = True, channel = NoChannel,
       listeners = [(Tags, 1), (Categories, 2)], calls = []\<rparr>]" 0 0 Tags]
  by (simp add: tab_ok_def)

section \<open>lib/message-drag-events.ts\<close>

definition MESSAGE_DRAG_MIME :: jstr where
  "MESSAGE_DRAG_MIME = js ''application/x-saved-message-id''"

definition FALLBACK_MESSAGE_DRAG_MIME :: jstr where
  "FALLBACK_MESSAGE_DRAG_MIME = js ''text/plain''"

record drag_detail =
  dd_messageId :: int
  dd_categoryId :: int

definition num_is_integer :: "jsnum \<Rightarrow> bool" where
  "num_is_integer x = (case x of Fin q \<Rightarrow> of_int \<lfloor>q\<rfloor> = q | _ \<Rightarrow> False)"

definition toSafeInteger :: "json option \<Rightarrow> int option" where
  "toSafeInteger value =
     (case value of
        Some (JNum x) \<Rightarrow> if num_is_integer x then trunc_int x else None
      | _ \<Rightarrow> None)"

definition parseMessageId :: "jstr \<Rightarrow> int option" where
  "parseMessageId rawValue =
     (let parsed = parse_int rawValue
      in if \<not> num_is_integer parsed \<or> \<not> num_less (jint 0) parsed then None else trunc_int parsed)"

text \<open>
  A \<open>DataTransfer\<close> is a map from formats to strings (a missing format reads as the empty
  string); \<open>None\<close> is \<open>null\<close>.
\<close>

type_synonym data_transfer = "(jstr \<times> jstr) list"

definition get_data :: "data_transfer \<Rightarrow> jstr \<Rightarrow> jstr" where
  "get_data dt format = (case map_of dt format of Some v \<Rightarrow> v | None \<Rightarrow> [])"

definition setDraggedMessageId :: "data_transfer option \<Rightarrow> int \<Rightarrow> data_transfer option" where
  "setDraggedMessageId dataTransfer messageId =
     (case dataTransfer of
        None \<Rightarrow> None
      | Some dt \<Rightarrow>
          let serialized = int_str messageId
          in Some (AList.update FALLBACK_MESSAGE_DRAG_MIME serialized
                    (AList.update MESSAGE_DRAG_MIME serialized dt)))"

definition getDraggedMessageId :: "data_transfer option \<Rightarrow> int option" where
  "getDraggedMessageId dataTransfer =
     (case dataTransfer of
        None \<Rightarrow> None
      | Some dt \<Rightarrow>
          case parseMessageId (get_data dt MESSAGE_DRAG_MIME) of
            Some primary \<Rightarrow> Some primary
          | None \<Rightarrow> parseMessageId (get_data dt FALLBACK_MESSAGE_DRAG_MIME))"

text \<open>
  An event that reaches a listener: a plain \<open>Event\<close> or a \<open>CustomEvent\<close> with its detail;
  announcing dispatches one when there is a window.
\<close>

datatype dom_event = PlainEvent | CustomEvent json

definition detail_json :: "drag_detail \<Rightarrow> json" where
  "detail_json d =
     JObj [(js ''messageId'', JNum (jint (dd_messageId d))), (js ''categoryId'', JNum (jint (dd_categoryId d)))]"

definition dispatchCustomEvent :: "bool \<Rightarrow> json \<Rightarrow> dom_event list" where
  "dispatchCustomEvent window detail = (if window then [CustomEvent detail] else [])"

definition announceMessageDragStart :: "bool \<Rightarrow> drag_detail \<Rightarrow> dom_event list" where
  "announceMessageDragStart window d = dispatchCustomEvent window (detail_json d)"

definition announceMessageDragEnd :: "bool \<Rightarrow> dom_event list" where
  "announceMessageDragEnd window = dispatchCustomEvent window JNull"

definition announceMessageDropToCategory :: "bool \<Rightarrow> drag_detail \<Rightarrow> dom_event list" where
  "announceMessageDropToCategory window d = dispatchCustomEvent window (detail_json d)"

definition read_detail :: "json \<Rightarrow> drag_detail option" where
  "read_detail detail =
     (if \<not> is_object detail then None
      else case (toSafeInteger (jprop detail (js ''messageId'')), toSafeInteger (jprop detail (js ''categoryId''))) of
          (Some m, Some c) \<Rightarrow> Some \<lparr>dd_messageId = m, dd_categoryId = c\<rparr>
        | _ \<Rightarrow> None)"

definition readMessageDragStartEvent :: "dom_event \<Rightarrow> drag_detail option" where
  "readMessageDragStartEvent ev = (case ev of CustomEvent d \<Rightarrow> read_detail d | PlainEvent \<Rightarrow> None)"

definition readMessageDropToCategoryEvent :: "dom_event \<Rightarrow> drag_detail option" where
  "readMessageDropToCategoryEvent ev = (case ev of CustomEvent d \<Rightarrow> read_detail d | PlainEvent \<Rightarrow> None)"

lemma num_is_integer_jint [simp]: "num_is_integer (jint n)"
  by (simp add: num_is_integer_def)

lemma toSafeInteger_jint [simp]: "toSafeInteger (Some (JNum (jint n))) = Some n"
  by (simp add: toSafeInteger_def trunc_int_def)

lemma parseMessageId_Some: "parseMessageId s = Some n \<Longrightarrow> 0 < n \<and> parse_int s = jint n"
proof (cases "parse_int s")
  case (Fin q)
  assume some: "parseMessageId s = Some n"
  with Fin have q: "0 < q" "of_int \<lfloor>q\<rfloor> = q" and n: "n = \<lfloor>q\<rfloor>"
    by (auto simp: parseMessageId_def Let_def num_is_integer_def trunc_int_def split: if_splits)
  have "Fin q = jint n" unfolding n q(2) ..
  moreover have "0 < n" using q n by (metis of_int_0_less_iff)
  ultimately show ?thesis using Fin by metis
qed (simp_all add: parseMessageId_def Let_def num_is_integer_def)

lemma parseMessageId_int_str:
  assumes "0 < n" and "n < 2 ^ 53"
  shows "parseMessageId (int_str n) = Some n"
proof -
  have "parse_int (int_str n) = jint n" using assms by (intro parse_int_int_str) simp
  with assms show ?thesis
    by (simp add: parseMessageId_def Let_def trunc_int_def num_is_integer_def)
qed

lemma mime_distinct [simp]: "MESSAGE_DRAG_MIME \<noteq> FALLBACK_MESSAGE_DRAG_MIME"
  by (simp add: MESSAGE_DRAG_MIME_def FALLBACK_MESSAGE_DRAG_MIME_def)

lemma get_data_update [simp]: "get_data (AList.update f v dt) g = (if g = f then v else get_data dt g)"
  by (simp add: get_data_def js_map.get_put)

lemma read_detail_json [simp]: "read_detail (detail_json d) = Some d"
  by (simp add: read_detail_def detail_json_def)

text \<open>
  a dragged message arrives as itself. The id of a message (a positive integer below 2^53)
  put on a drag is the id read from it, whatever the drag carried before; the announced start
  and drop events are read back with their message and category; and no drop ever yields an id
  that is not positive.
\<close>

theorem drag_roundtrip:
  assumes "0 < n" and "n < 2 ^ 53"
  shows "getDraggedMessageId (setDraggedMessageId (Some dt) n) = Some n \<and>
    map readMessageDragStartEvent (announceMessageDragStart True d) = [Some d] \<and>
    map readMessageDropToCategoryEvent (announceMessageDropToCategory True d) = [Some d] \<and>
    (\<forall>t m. getDraggedMessageId t = Some m \<longrightarrow> 0 < m)"
proof -
  have "getDraggedMessageId (setDraggedMessageId (Some dt) n) = Some n"
    by (simp add: getDraggedMessageId_def setDraggedMessageId_def Let_def parseMessageId_int_str [OF assms])
  moreover have "0 < m" if "getDraggedMessageId t = Some m" for t m
    using that parseMessageId_Some by (auto simp: getDraggedMessageId_def split: option.splits)
  ultimately show ?thesis
    by (simp add: announceMessageDragStart_def announceMessageDropToCategory_def dispatchCustomEvent_def
        readMessageDragStartEvent_def readMessageDropToCategoryEvent_def)
qed

theorem drag_roundtrip_witness:
  "getDraggedMessageId (setDraggedMessageId (Some [(js ''text/plain'', js ''old'')]) 42) = Some 42"
  using drag_roundtrip [of 42 "[(js ''text/plain'', js ''old'')]" "\<lparr>dd_messageId = 42, dd_categoryId = 1\<rparr>"]
  by simp

text \<open>
  \<open>parseInt\<close> reads the digits a text starts with, and the fallback format is plain text: a
  selection dragged from anywhere counts as a message when it starts with a number.
\<close>

lemma foreign_text_is_a_message:
  "getDraggedMessageId (Some [(js ''text/plain'', js ''2024 report'')]) = Some 2024"
proof -
  have "parse_int (js ''2024 report'') = jint 2024"
    by (simp add: parse_int_def js_Cons is_ws_def parse_digits_def is_digit_def digits_value_def round_double_def Let_def)
  then have "parseMessageId (js ''2024 report'') = Some 2024"
    by (simp add: parseMessageId_def Let_def num_is_integer_def trunc_int_def)
  moreover have "parseMessageId [] = None"
    by (simp add: parseMessageId_def parse_int_def num_is_integer_def)
  ultimately show ?thesis
    by (simp add: getDraggedMessageId_def get_data_def MESSAGE_DRAG_MIME_def FALLBACK_MESSAGE_DRAG_MIME_def)
qed

end
