(* ===== verification/Categories.thy ===== *)
theory Categories
  imports OrgEvents
begin

text \<open>
  \<open>hooks/use-categories.ts\<close>: the category list that the sidebar and the pages share, with the
  request they share and the fallback when it fails; \<open>lib/category-icons.ts\<close>.
\<close>

section \<open>The list: validation, order and fallback\<close>

definition category_row :: "category \<Rightarrow> json" where
  "category_row c =
     JObj [(js ''id'', JNum (jint (cat_id c))), (js ''name'', JStr (cat_name c)), (js ''slug'', JStr (cat_slug c)),
           (js ''system_key'', case cat_system_key c of Some k \<Rightarrow> JStr k | None \<Rightarrow> JNull),
           (js ''icon'', JStr (cat_icon c)), (js ''color'', JStr (cat_color c)),
           (js ''position'', JNum (jint (cat_position c))), (js ''is_default'', JBool (cat_is_default c)),
           (js ''message_count'', JNum (jint (cat_message_count c)))]"

definition default_category :: "int \<Rightarrow> string \<Rightarrow> string \<Rightarrow> string \<Rightarrow> string \<Rightarrow> category" where
  "default_category n name slug icon color =
     \<lparr>cat_id = n, cat_name = js name, cat_slug = js slug, cat_system_key = Some (js slug), cat_icon = js icon,
      cat_color = js color, cat_position = n, cat_is_default = True, cat_message_count = 0\<rparr>"

definition DEFAULT_CATEGORY_FALLBACK :: "category list" where
  "DEFAULT_CATEGORY_FALLBACK =
     [default_category 1 ''Videos'' ''videos'' ''video'' ''#E11D48'',
      default_category 2 ''Audio'' ''audio'' ''music'' ''#2563EB'',
      default_category 3 ''Links'' ''links'' ''link'' ''#0EA5E9'',
      default_category 4 ''Repositories'' ''repositories'' ''code'' ''#4F46E5'',
      default_category 5 ''Images'' ''images'' ''image'' ''#14B8A6'',
      default_category 6 ''Documents'' ''documents'' ''file-text'' ''#F59E0B'',
      default_category 7 ''Text'' ''text'' ''message-square'' ''#6B7280'',
      default_category 8 ''Other'' ''other'' ''archive'' ''#64748B'']"

definition isCategoryWithCount :: "json \<Rightarrow> bool" where
  "isCategoryWithCount value \<longleftrightarrow>
     is_object value \<and>
     is_jnum (jprop value (js ''id'')) \<and>
     is_jstr (jprop value (js ''name'')) \<and>
     is_jstr (jprop value (js ''slug'')) \<and>
     (jprop value (js ''system_key'') = Some JNull \<or> is_jstr (jprop value (js ''system_key''))) \<and>
     is_jstr (jprop value (js ''icon'')) \<and>
     is_jstr (jprop value (js ''color'')) \<and>
     is_jnum (jprop value (js ''position'')) \<and>
     is_jbool (jprop value (js ''is_default'')) \<and>
     is_jnum (jprop value (js ''message_count''))"

definition num_field :: "json \<Rightarrow> string \<Rightarrow> jsnum" where
  "num_field v k = (case jprop v (js k) of Some (JNum x) \<Rightarrow> x | _ \<Rightarrow> NaN)"

definition compare_categories :: "json \<Rightarrow> json \<Rightarrow> int" where
  "compare_categories first second =
     (if num_field first ''position'' \<noteq> num_field second ''position''
      then num_compare (num_field first ''position'') (num_field second ''position'')
      else num_compare (num_field first ''id'') (num_field second ''id''))"

definition normalizeCategories :: "json \<Rightarrow> json list option" where
  "normalizeCategories payload =
     (case payload of
        JArr rows \<Rightarrow> if list_all isCategoryWithCount rows then Some (js_sort compare_categories rows) else None
      | _ \<Rightarrow> None)"

definition category_key :: "json \<Rightarrow> jsnum \<times> jsnum" where
  "category_key v = (num_field v ''position'', num_field v ''id'')"

lemma compare_categories_le:
  "compare_categories x y \<le> 0 \<longleftrightarrow>
     fst (category_key x) < fst (category_key y) \<or>
     (fst (category_key x) = fst (category_key y) \<and> snd (category_key x) \<le> snd (category_key y))"
  by (auto simp: compare_categories_def category_key_def less_le)

interpretation by_position: js_comparator compare_categories
  by unfold_locales (auto simp: compare_categories_le)

lemma category_row_valid: "isCategoryWithCount (category_row c)"
  by (simp add: isCategoryWithCount_def category_row_def js_type_tests split: option.splits)

lemma fallback_keys: "map (\<lambda>c. (cat_position c, cat_id c)) DEFAULT_CATEGORY_FALLBACK = map (\<lambda>n. (n, n)) [1..8]"
  by (simp add: DEFAULT_CATEGORY_FALLBACK_def default_category_def upto.simps)

text \<open>
  a category listing is accepted as a whole or not at all. A payload is accepted exactly
  when it is an array of well-formed categories; the accepted list holds the same rows, every
  one well formed, in the order of position and then id; normalising it again changes nothing.
\<close>

theorem normalized_categories_ordered:
  "(normalizeCategories payload \<noteq> None \<longleftrightarrow> (\<exists>rows. payload = JArr rows \<and> (\<forall>r \<in> set rows. isCategoryWithCount r))) \<and>
   (\<forall>cs. normalizeCategories payload = Some cs \<longrightarrow>
      payload = JArr cs \<or> (\<exists>rows. payload = JArr rows \<and> mset rows = mset cs)) \<and>
   (\<forall>cs. normalizeCategories payload = Some cs \<longrightarrow>
      sorted_wrt (\<lambda>x y. num_field x ''position'' < num_field y ''position'' \<or>
        (num_field x ''position'' = num_field y ''position'' \<and> num_field x ''id'' \<le> num_field y ''id'')) cs \<and>
      (\<forall>c \<in> set cs. isCategoryWithCount c) \<and> normalizeCategories (JArr cs) = Some cs)"
proof -
  have sorted: "sorted_wrt (\<lambda>x y. num_field x ''position'' < num_field y ''position'' \<or>
        (num_field x ''position'' = num_field y ''position'' \<and> num_field x ''id'' \<le> num_field y ''id''))
      (js_sort compare_categories rows)" for rows
    using by_position.sorted_js_sort [of rows] by (simp add: compare_categories_le category_key_def)
  show ?thesis
    using sorted by_position.js_sort_idem
    by (cases payload) (auto simp: normalizeCategories_def list_all_iff)
qed

theorem normalized_categories_ordered_witness:
  "normalizeCategories (JArr [category_row (default_category 2 ''B'' ''b'' ''i'' ''c''),
      category_row (default_category 1 ''A'' ''a'' ''i'' ''c'')]) =
    Some [category_row (default_category 1 ''A'' ''a'' ''i'' ''c''), category_row (default_category 2 ''B'' ''b'' ''i'' ''c'')] \<and>
   normalizeCategories (JArr [category_row (default_category 2 ''B'' ''b'' ''i'' ''c''),
      category_row (default_category 1 ''A'' ''a'' ''i'' ''c'')]) \<noteq> None"
proof -
  let ?rows = "[category_row (default_category 2 ''B'' ''b'' ''i'' ''c''), category_row (default_category 1 ''A'' ''a'' ''i'' ''c'')]"
  have "normalizeCategories (JArr ?rows) \<noteq> None"
    using normalized_categories_ordered [of "JArr ?rows"] category_row_valid by auto
  moreover have "js_sort compare_categories ?rows = rev ?rows"
    by (simp add: compare_categories_def num_compare_def num_field_def category_row_def default_category_def
        less_jsnum_def js_sort_def)
  ultimately show ?thesis by (simp add: normalizeCategories_def category_row_valid)
qed

section \<open>The shared request and the hook\<close>

definition CATEGORIES_ENDPOINT :: jstr where
  "CATEGORIES_ENDPOINT = js ''/api/categories''"

definition read_categories :: "json \<Rightarrow> json list promise" where
  "read_categories payload =
     (case normalizeCategories payload of
        None \<Rightarrow> throw (PlainError (js ''Unexpected category payload.''))
      | Some parsed \<Rightarrow> return_value parsed)"

definition category_request :: "browser \<Rightarrow> network \<Rightarrow> json list promise" where
  "category_request B net =
     await (requestJson B net CATEGORIES_ENDPOINT None (with_fallback ''Failed to fetch categories.''))
       read_categories"

text \<open>
  The module's \<open>inFlightCategoryRequest\<close> and one mounted hook. Requests are numbered as they
  are sent and effect runs as they start: a run is cancelled (\<open>isCanceled\<close>) exactly when a
  later one has started or the hook is unmounted, so the live run is \<open>hk_run\<close>. \<open>hk_waiting\<close>
  pairs each run with the request it awaits. The revision is the \<open>useState\<close> counter, and
  \<open>hk_seen\<close> the revision the last run was started for: they differ between a change event and
  React's next commit. \<open>hk_changed_at\<close> records how many requests had been sent at the last
  change event, for stating properties.
\<close>

record categories_hook =
  hk_inflight :: "nat option"
  hk_sent :: nat
  hk_run :: nat
  hk_waiting :: "(nat \<times> nat) list"
  hk_revision :: nat
  hk_seen :: nat
  hk_changed_at :: nat
  hk_categories :: "json list"
  hk_isLoading :: bool
  hk_isFallback :: bool
  hk_error :: "jstr option"

definition fallback_rows :: "json list" where
  "fallback_rows = map category_row DEFAULT_CATEGORY_FALLBACK"

definition hook_initial :: "nat option \<Rightarrow> nat \<Rightarrow> categories_hook" where
  "hook_initial inflight sent =
     \<lparr>hk_inflight = inflight, hk_sent = sent, hk_run = 0, hk_waiting = [], hk_revision = 0, hk_seen = 0,
      hk_changed_at = 0, hk_categories = fallback_rows, hk_isLoading = True, hk_isFallback = True, hk_error = None\<rparr>"

definition invalidateCategoryRequest :: "categories_hook \<Rightarrow> categories_hook" where
  "invalidateCategoryRequest h = h\<lparr>hk_inflight := None\<rparr>"

text \<open>The number of the request the caller awaits: the one in flight, or a new one.\<close>

definition requestCategories :: "categories_hook \<Rightarrow> nat \<times> categories_hook" where
  "requestCategories h =
     (case hk_inflight h of
        Some r \<Rightarrow> (r, h)
      | None \<Rightarrow> (hk_sent h, h\<lparr>hk_inflight := Some (hk_sent h), hk_sent := hk_sent h + 1\<rparr>))"

definition release_request :: "nat \<Rightarrow> categories_hook \<Rightarrow> categories_hook" where
  "release_request r h = (if hk_inflight h = Some r then h\<lparr>hk_inflight := None\<rparr> else h)"

definition run_effect :: "categories_hook \<Rightarrow> categories_hook" where
  "run_effect h =
     (let (r, h') = requestCategories h
      in h'\<lparr>hk_run := hk_run h + 1, hk_waiting := (hk_run h + 1, r) # hk_waiting h, hk_seen := hk_revision h\<rparr>)"

definition refresh_categories :: "categories_hook \<Rightarrow> categories_hook" where
  "refresh_categories h =
     (invalidateCategoryRequest h)\<lparr>hk_revision := hk_revision h + 1, hk_changed_at := hk_sent h\<rparr>"

definition apply_categories :: "js_error + json list \<Rightarrow> categories_hook \<Rightarrow> categories_hook" where
  "apply_categories res h =
     (case res of
        Inr parsed \<Rightarrow> h\<lparr>hk_categories := parsed, hk_isFallback := False, hk_error := None, hk_isLoading := False\<rparr>
      | Inl e \<Rightarrow> h\<lparr>hk_categories := fallback_rows, hk_isFallback := True,
                    hk_error := Some (error_text e (js ''Failed to fetch categories.'')), hk_isLoading := False\<rparr>)"

definition settle_request :: "nat \<Rightarrow> js_error + json list \<Rightarrow> categories_hook \<Rightarrow> categories_hook" where
  "settle_request r res h =
     (let h' = (release_request r h)\<lparr>hk_waiting := filter (\<lambda>w. snd w \<noteq> r) (hk_waiting h)\<rparr>
      in if (hk_run h, r) \<in> set (hk_waiting h) then apply_categories res h' else h')"

text \<open>
  What can happen: the effect runs (first mount, a new pathname, a new revision), a change is
  announced, another component asks for the categories, a request settles with what the
  network answered, the hook is unmounted.
\<close>

inductive hook_step :: "categories_hook \<Rightarrow> categories_hook \<Rightarrow> bool" where
  step_run: "hook_step h (run_effect h)"
| step_change: "hook_step h (refresh_categories h)"
| step_other: "hook_step h (snd (requestCategories h))"
| step_settle: "r < hk_sent h \<Longrightarrow> hook_step h (settle_request r (snd (category_request B net)) h)"
| step_unmount: "hook_step h (h\<lparr>hk_run := hk_run h + 1\<rparr>)"

inductive hook_reachable :: "categories_hook \<Rightarrow> bool" where
  reach_initial: "(case inflight of Some r \<Rightarrow> r < sent | None \<Rightarrow> True) \<Longrightarrow> hook_reachable (hook_initial inflight sent)"
| reach_step: "hook_reachable h \<Longrightarrow> hook_step h h' \<Longrightarrow> hook_reachable h'"

inductive_cases hook_stepE: "hook_step h h'"

definition request_order_ok :: "categories_hook \<Rightarrow> bool" where
  "request_order_ok h \<longleftrightarrow>
     hk_seen h \<le> hk_revision h \<and> hk_changed_at h \<le> hk_sent h \<and>
     (\<forall>(e, r) \<in> set (hk_waiting h). e \<le> hk_run h \<and> r < hk_sent h) \<and>
     (\<forall>r. hk_inflight h = Some r \<longrightarrow> hk_changed_at h \<le> r \<and> r < hk_sent h) \<and>
     (hk_seen h = hk_revision h \<longrightarrow> (\<forall>(e, r) \<in> set (hk_waiting h). e = hk_run h \<longrightarrow> hk_changed_at h \<le> r))"

lemma category_request_valid:
  "snd (category_request B net) = Inr cs \<Longrightarrow> list_all isCategoryWithCount cs \<and> js_sort compare_categories cs = cs"
  by (auto simp: category_request_def snd_await read_categories_def promise_defs normalizeCategories_def
      list_all_iff by_position.js_sort_idem split: sum.splits option.splits json.splits if_splits)

definition shown_ok :: "categories_hook \<Rightarrow> bool" where
  "shown_ok h \<longleftrightarrow>
     list_all isCategoryWithCount (hk_categories h) \<and> js_sort compare_categories (hk_categories h) = hk_categories h \<and>
     (hk_isFallback h \<longrightarrow> hk_categories h = fallback_rows) \<and>
     (hk_error h \<noteq> None \<longrightarrow> hk_isFallback h \<and> \<not> hk_isLoading h) \<and>
     (hk_isLoading h \<longrightarrow> hk_isFallback h) \<and>
     (\<not> hk_isLoading h \<and> hk_isFallback h \<longrightarrow> hk_error h \<noteq> None)"

lemma fallback_rows_ok: "list_all isCategoryWithCount fallback_rows \<and> js_sort compare_categories fallback_rows = fallback_rows"
proof -
  have "sorted_wrt (\<lambda>x y. compare_categories (category_row x) (category_row y) \<le> 0) DEFAULT_CATEGORY_FALLBACK"
    by (simp add: DEFAULT_CATEGORY_FALLBACK_def default_category_def compare_categories_le category_key_def
        num_field_def category_row_def less_jsnum_def)
  then have "sorted_wrt (\<lambda>x y. compare_categories x y \<le> 0) fallback_rows"
    by (simp add: fallback_rows_def sorted_wrt_map)
  then show ?thesis
    by (simp add: js_sort_sorted fallback_rows_def list_all_iff category_row_valid)
qed

lemma request_order_initial: "(case i of Some r \<Rightarrow> r < n | None \<Rightarrow> True) \<Longrightarrow> request_order_ok (hook_initial i n)"
  by (simp add: request_order_ok_def hook_initial_def split: option.splits)

lemma request_order_step: "hook_step h h' \<Longrightarrow> request_order_ok h \<Longrightarrow> request_order_ok h'"
  by (erule hook_stepE)
    (auto simp: request_order_ok_def run_effect_def refresh_categories_def requestCategories_def
      settle_request_def release_request_def invalidateCategoryRequest_def apply_categories_def Let_def
      split: option.splits sum.splits prod.splits if_splits)

lemma request_order_reachable: "hook_reachable h \<Longrightarrow> request_order_ok h"
  by (induction rule: hook_reachable.induct) (auto intro: request_order_initial request_order_step)

lemma shown_ok_apply: "(\<And>cs. res = Inr cs \<Longrightarrow> list_all isCategoryWithCount cs \<and> js_sort compare_categories cs = cs) \<Longrightarrow>
    shown_ok (apply_categories res h)"
  using fallback_rows_ok by (auto simp: shown_ok_def apply_categories_def split: sum.splits)

lemma shown_ok_cong:
  "hk_categories h' = hk_categories h \<Longrightarrow> hk_isLoading h' = hk_isLoading h \<Longrightarrow>
   hk_isFallback h' = hk_isFallback h \<Longrightarrow> hk_error h' = hk_error h \<Longrightarrow> shown_ok h' = shown_ok h"
  by (simp add: shown_ok_def)

lemma shown_ok_settle:
  assumes "shown_ok h"
  shows "shown_ok (settle_request r (snd (category_request B net)) h)"
proof (cases "(hk_run h, r) \<in> set (hk_waiting h)")
  case True
  then show ?thesis by (simp add: settle_request_def Let_def shown_ok_apply category_request_valid)
next
  case False
  then have "shown_ok (settle_request r (snd (category_request B net)) h) = shown_ok h"
    by (intro shown_ok_cong) (simp_all add: settle_request_def Let_def release_request_def)
  with assms show ?thesis by simp
qed

lemma shown_ok_run: "shown_ok (run_effect h) = shown_ok h"
  by (rule shown_ok_cong) (simp_all add: run_effect_def requestCategories_def split: option.splits)

lemma shown_ok_refresh: "shown_ok (refresh_categories h) = shown_ok h"
  by (rule shown_ok_cong) (simp_all add: refresh_categories_def invalidateCategoryRequest_def)

lemma shown_ok_request: "shown_ok (snd (requestCategories h)) = shown_ok h"
  by (rule shown_ok_cong) (simp_all add: requestCategories_def split: option.splits)

lemma shown_ok_unmount: "shown_ok (h\<lparr>hk_run := n\<rparr>) = shown_ok h"
  by (rule shown_ok_cong) simp_all

lemma shown_ok_step: "hook_step h h' \<Longrightarrow> shown_ok h \<Longrightarrow> shown_ok h'"
  by (erule hook_stepE) (simp_all only: shown_ok_settle shown_ok_run shown_ok_refresh shown_ok_request shown_ok_unmount)

lemma shown_ok_initial: "shown_ok (hook_initial i n)"
  using fallback_rows_ok by (simp add: shown_ok_def hook_initial_def)

text \<open>
  C18: what the category list shows. In every reachable state of the hook the list is valid and
  in order; it is the built-in list whenever \<open>isFallback\<close>; an error is shown exactly when the
  built-in list is shown after loading; while loading for the first time it is the fallback.
\<close>

theorem categories_hook_consistent:
  assumes "hook_reachable h"
  shows "list_all isCategoryWithCount (hk_categories h) \<and>
    js_sort compare_categories (hk_categories h) = hk_categories h \<and>
    (hk_isFallback h \<longrightarrow> hk_categories h = map category_row DEFAULT_CATEGORY_FALLBACK) \<and>
    (hk_error h \<noteq> None \<longleftrightarrow> hk_isFallback h \<and> \<not> hk_isLoading h) \<and>
    (hk_isLoading h \<longrightarrow> hk_isFallback h)"
proof -
  have "shown_ok h"
    using assms
  proof (induction rule: hook_reachable.induct)
    case reach_initial
    show ?case by (rule shown_ok_initial)
  qed (rule shown_ok_step)
  then show ?thesis unfolding shown_ok_def fallback_rows_def by blast
qed

theorem categories_hook_consistent_witness:
  "hk_isFallback (run_effect (hook_initial None 0)) \<and>
   hk_categories (run_effect (hook_initial None 0)) = map category_row DEFAULT_CATEGORY_FALLBACK"
proof -
  have "hook_reachable (run_effect (hook_initial None 0))"
    by (rule reach_step [OF reach_initial [where inflight = None] step_run]) simp
  moreover have "hk_isFallback (run_effect (hook_initial None 0))"
    by (simp add: run_effect_def hook_initial_def requestCategories_def)
  ultimately show ?thesis using categories_hook_consistent by blast
qed

text \<open>
  C19: a listing from before a change is never shown after it. Once React has committed the
  latest change (the effect has run for the current revision), a settling request alters what
  the hook shows only if it was sent after the last change was announced; a request in flight
  is shared, not repeated, and an announced change always makes the next run send a new one.
\<close>

theorem categories_never_stale:
  assumes "hook_reachable h" and "hk_seen h = hk_revision h"
    and "hk_categories (settle_request r res h) \<noteq> hk_categories h \<or> hk_error (settle_request r res h) \<noteq> hk_error h"
  shows "hk_changed_at h \<le> r \<and> r < hk_sent h \<and> (hk_run h, r) \<in> set (hk_waiting h) \<and>
    hk_sent (run_effect (refresh_categories h)) = hk_sent h + 1 \<and>
    (hk_inflight h \<noteq> None \<longrightarrow> hk_sent (run_effect h) = hk_sent h)"
proof -
  have w: "(hk_run h, r) \<in> set (hk_waiting h)"
    using assms(3) by (auto simp: settle_request_def release_request_def Let_def split: if_splits)
  moreover have "request_order_ok h" by (rule request_order_reachable [OF assms(1)])
  ultimately show ?thesis
    using assms(2) by (auto simp: request_order_ok_def run_effect_def refresh_categories_def
        requestCategories_def invalidateCategoryRequest_def)
qed

theorem categories_never_stale_witness:
  "hk_changed_at (run_effect (hook_initial None 0)) \<le> 0"
proof -
  let ?h = "run_effect (hook_initial None 0)"
  have h: "hook_reachable ?h"
    by (rule reach_step [OF reach_initial [where inflight = None] step_run]) simp
  have "hk_error (settle_request 0 (Inl NonError) ?h) \<noteq> hk_error ?h" and "hk_seen ?h = hk_revision ?h"
    by (simp_all add: run_effect_def hook_initial_def requestCategories_def settle_request_def
        release_request_def apply_categories_def Let_def)
  with categories_never_stale [OF h, of 0 "Inl NonError"] show ?thesis by blast
qed

section \<open>lib/category-icons.ts\<close>

datatype category_icon = Icon string | FolderKanban | InheritedMember string

definition CATEGORY_ICON_CHOICES :: "(jstr \<times> string \<times> category_icon) list" where
  "CATEGORY_ICON_CHOICES =
     [(js ''message-square'', ''Text'', Icon ''MessageSquareText''),
      (js ''link'', ''Link'', Icon ''Link2''),
      (js ''bookmark'', ''Bookmark'', Icon ''Bookmark''),
      (js ''folder'', ''Folder'', Icon ''Folder''),
      (js ''video'', ''Video'', Icon ''Video''),
      (js ''music'', ''Audio'', Icon ''Music2''),
      (js ''image'', ''Image'', Icon ''ImageIcon''),
      (js ''file-text'', ''Document'', Icon ''FileText''),
      (js ''code'', ''Code'', Icon ''Code2''),
      (js ''archive'', ''Archive'', Icon ''Archive'')]"

text \<open>
  \<open>Object.fromEntries\<close> makes an ordinary object: reading a key also finds what it inherits
  from \<open>Object.prototype\<close>, of which two names are all lower case.
\<close>

definition categoryIconMap :: "jstr \<Rightarrow> category_icon option" where
  "categoryIconMap k =
     (case map_of (rev (map (\<lambda>(n, _, i). (n, i)) CATEGORY_ICON_CHOICES)) k of
        Some i \<Rightarrow> Some i
      | None \<Rightarrow> if k = js ''constructor'' then Some (InheritedMember ''constructor'')
                else if k = js ''__proto__'' then Some (InheritedMember ''__proto__'')
                else None)"

definition resolveCategoryIcon :: "host \<Rightarrow> jstr \<Rightarrow> category_icon" where
  "resolveCategoryIcon H iconName =
     (case categoryIconMap (to_lower H iconName) of Some i \<Rightarrow> i | None \<Rightarrow> FolderKanban)"

lemma choice_icons: "map_of (rev (map (\<lambda>(n, _, i). (n, i)) CATEGORY_ICON_CHOICES)) k = Some i \<Longrightarrow> \<exists>c. i = Icon c"
  by (auto simp: CATEGORY_ICON_CHOICES_def split: if_splits)

text \<open>
  every icon the form offers, in any letter case, and every icon of the built-in categories
  resolves to an icon of its own; a name that is not offered resolves to the folder icon, the
  inherited names \<open>constructor\<close> and \<open>__proto__\<close> excepted, which resolve to no icon at all.
\<close>

theorem category_icons_resolve:
  "(\<forall>name. to_lower H name \<in> fst ` set CATEGORY_ICON_CHOICES \<longrightarrow> (\<exists>i. resolveCategoryIcon H name = Icon i)) \<and>
   (\<forall>name. to_lower H name \<notin> fst ` set CATEGORY_ICON_CHOICES \<longrightarrow>
      (if to_lower H name \<in> {js ''constructor'', js ''__proto__''}
       then (\<exists>m. resolveCategoryIcon H name = InheritedMember m)
       else resolveCategoryIcon H name = FolderKanban)) \<and>
   cat_icon ` set DEFAULT_CATEGORY_FALLBACK \<subseteq> fst ` set CATEGORY_ICON_CHOICES"
proof (intro conjI allI impI)
  fix name
  let ?m = "map_of (rev (map (\<lambda>(n, _, i). (n, i)) CATEGORY_ICON_CHOICES))"
  have dom: "dom ?m = fst ` set CATEGORY_ICON_CHOICES"
    by (force simp: dom_map_of_conv_image_fst)
  show "\<exists>i. resolveCategoryIcon H name = Icon i" if "to_lower H name \<in> fst ` set CATEGORY_ICON_CHOICES"
  proof -
    from that dom obtain i where "?m (to_lower H name) = Some i" by blast
    with choice_icons show ?thesis by (auto simp: resolveCategoryIcon_def categoryIconMap_def)
  qed
  assume "to_lower H name \<notin> fst ` set CATEGORY_ICON_CHOICES"
  with dom have "?m (to_lower H name) = None" by blast
  then show "if to_lower H name \<in> {js ''constructor'', js ''__proto__''}
       then (\<exists>m. resolveCategoryIcon H name = InheritedMember m)
       else resolveCategoryIcon H name = FolderKanban"
    by (auto simp: resolveCategoryIcon_def categoryIconMap_def)
next
  show "cat_icon ` set DEFAULT_CATEGORY_FALLBACK \<subseteq> fst ` set CATEGORY_ICON_CHOICES"
    by (simp add: DEFAULT_CATEGORY_FALLBACK_def CATEGORY_ICON_CHOICES_def default_category_def)
qed

theorem category_icons_resolve_witness:
  "\<exists>i. resolveCategoryIcon \<lparr>to_lower = id, to_upper = id, locale_compare = (\<lambda>_ _. 0)\<rparr> (js ''link'') = Icon i"
  using category_icons_resolve [of "\<lparr>to_lower = id, to_upper = id, locale_compare = (\<lambda>_ _. 0)\<rparr>"]
  by (simp add: CATEGORY_ICON_CHOICES_def)

end
