(* ===== verification/AuthProvider.thy ===== *)
theory AuthProvider
  imports OrgEvents
begin

text \<open>
  \<open>components/auth/auth-provider.tsx\<close>: who is signed in. Every asynchronous function is split
  at its \<open>await\<close> into a start and a reply; the state holds the refs, the React state, the
  messages posted to the other tabs and the requests that still await their reply.
\<close>

section \<open>State\<close>

datatype auth_status = Loading | Authenticated | Anonymous | Unavailable

datatype auth_message = SessionChanged | SignedOut

text \<open>
  A request keeps what its function holds in local variables: the version it drew, for a load
  also \<open>isBackgroundRefresh\<close>, \<open>broadcast\<close> and the abort signal (\<open>None\<close>: no signal was
  given; \<open>Some True\<close>: aborted).
\<close>

datatype auth_request =
    LoadRequest nat bool bool "bool option"
  | LoginRequest nat
  | RegisterRequest nat
  | LogoutRequest

record auth_state =
  au_status :: auth_status
  au_user :: "account_user option"
  au_version :: nat
  au_statusRef :: auth_status
  au_channel :: bool
  au_posted :: "auth_message list"
  au_ui :: ui_state
  au_pending :: "auth_request list"

definition auth_initial :: "ui_state \<Rightarrow> auth_state" where
  "auth_initial ui =
     \<lparr>au_status = Loading, au_user = None, au_version = 0, au_statusRef = Loading, au_channel = False,
      au_posted = [], au_ui = ui, au_pending = []\<rparr>"

section \<open>The functions\<close>

definition isAccountUser :: "json option \<Rightarrow> bool" where
  "isAccountUser value =
     (case value of
        Some v \<Rightarrow> is_object v \<and> is_jstr (jprop v (js ''id'')) \<and> is_jstr (jprop v (js ''email'')) \<and>
          is_jstr (jprop v (js ''display_name'')) \<and> is_jstr (jprop v (js ''created_at''))
      | None \<Rightarrow> False)"

definition str_field :: "json \<Rightarrow> string \<Rightarrow> jstr" where
  "str_field v k = (case jprop v (js k) of Some (JStr s) \<Rightarrow> s | _ \<Rightarrow> [])"

definition account_of :: "json \<Rightarrow> account_user" where
  "account_of v = \<lparr>user_id = str_field v ''id'', user_email = str_field v ''email'',
     user_display_name = str_field v ''display_name'', user_created_at = str_field v ''created_at''\<rparr>"

text \<open>JavaScript's truth of a value.\<close>

fun truthy :: "json option \<Rightarrow> bool" where
  "truthy None = False"
| "truthy (Some JNull) = False"
| "truthy (Some (JBool b)) = b"
| "truthy (Some (JNum x)) = (x \<noteq> NaN \<and> x \<noteq> jint 0)"
| "truthy (Some (JStr s)) = (s \<noteq> [])"
| "truthy (Some _) = True"

definition broadcastAuthChange :: "auth_message \<Rightarrow> auth_state \<Rightarrow> auth_state" where
  "broadcastAuthChange m s = (if au_channel s then s\<lparr>au_posted := au_posted s @ [m]\<rparr> else s)"

definition clearIdentity :: "auth_state \<Rightarrow> bool \<times> auth_state" where
  "clearIdentity s =
     (let changed = au_statusRef s \<noteq> Anonymous;
          s = s\<lparr>au_statusRef := Anonymous\<rparr>
      in if \<not> changed then (False, s)
         else (True, s\<lparr>au_ui := ui_reset (au_ui s), au_user := None, au_status := Anonymous\<rparr>))"

definition sign_in :: "account_user \<Rightarrow> auth_state \<Rightarrow> auth_state" where
  "sign_in u s = s\<lparr>au_statusRef := Authenticated, au_user := Some u, au_status := Authenticated\<rparr>"

definition bump :: "auth_state \<Rightarrow> auth_state" where
  "bump s = s\<lparr>au_version := au_version s + 1\<rparr>"

definition await_reply :: "auth_request \<Rightarrow> auth_state \<Rightarrow> auth_state" where
  "await_reply q s = s\<lparr>au_pending := q # au_pending s\<rparr>"

definition loadSession_start :: "bool option \<Rightarrow> bool \<Rightarrow> auth_state \<Rightarrow> auth_state" where
  "loadSession_start signal broadcast s =
     (let s1 = bump s;
          isBackgroundRefresh = (au_statusRef s = Authenticated);
          s2 = (if isBackgroundRefresh then s1 else s1\<lparr>au_statusRef := Loading, au_status := Loading\<rparr>)
      in await_reply (LoadRequest (au_version s1) isBackgroundRefresh broadcast signal) s2)"

text \<open>
  The session a payload describes, or the error thrown on it (reading a property of \<open>null\<close>
  throws as well).
\<close>

definition read_session :: "json \<Rightarrow> js_error + account_user option" where
  "read_session session =
     (if session = JNull then Inl (PlainError (js ''Cannot read properties of null (reading 'authenticated')''))
      else case jprop session (js ''authenticated'') of
          Some (JBool True) \<Rightarrow>
            (case jprop session (js ''user'') of
               Some u \<Rightarrow> if isAccountUser (Some u) then Inr (Some (account_of u))
                         else Inl (PlainError (js ''The server returned an invalid session response.''))
             | None \<Rightarrow> Inl (PlainError (js ''The server returned an invalid session response.'')))
        | Some (JBool False) \<Rightarrow>
            (if jprop session (js ''user'') = Some JNull then Inr None
             else Inl (PlainError (js ''The server returned an invalid session response.'')))
        | _ \<Rightarrow> Inl (PlainError (js ''The server returned an invalid session response.'')))"

definition loadSession_reply ::
    "nat \<Rightarrow> bool \<Rightarrow> bool \<Rightarrow> bool option \<Rightarrow> js_error + json \<Rightarrow> auth_state \<Rightarrow> auth_state" where
  "loadSession_reply version isBackgroundRefresh broadcast signal reply s =
     (if signal = Some True \<or> version \<noteq> au_version s then s
      else case (case reply of Inl e \<Rightarrow> Inl e | Inr session \<Rightarrow> read_session session) of
          Inr (Some u) \<Rightarrow>
            (let s = sign_in u s in if broadcast then broadcastAuthChange SessionChanged s else s)
        | Inr None \<Rightarrow>
            (let (changed, s) = clearIdentity s
             in if broadcast \<and> changed then broadcastAuthChange SignedOut s else s)
        | Inl _ \<Rightarrow>
            if isBackgroundRefresh then s
            else s\<lparr>au_statusRef := Unavailable, au_user := None, au_status := Unavailable\<rparr>)"

definition refreshSession_start :: "auth_state \<Rightarrow> auth_state" where
  "refreshSession_start s = loadSession_start None True s"

text \<open>The effect that loads the session on mount, and its clean-up.\<close>

definition abort_request :: "auth_request \<Rightarrow> auth_request" where
  "abort_request q = (case q of LoadRequest v bg b (Some _) \<Rightarrow> LoadRequest v bg b (Some True) | _ \<Rightarrow> q)"

definition mount_load :: "auth_state \<Rightarrow> auth_state" where
  "mount_load s = loadSession_start (Some False) False s"

definition unmount_load :: "auth_state \<Rightarrow> auth_state" where
  "unmount_load s = bump (s\<lparr>au_pending := map abort_request (au_pending s)\<rparr>)"

definition handleUnauthorized :: "auth_state \<Rightarrow> auth_state" where
  "handleUnauthorized s =
     (let (changed, s) = clearIdentity (bump s) in if changed then broadcastAuthChange SignedOut s else s)"

definition handleMessage :: "json \<Rightarrow> auth_state \<Rightarrow> auth_state" where
  "handleMessage data s =
     (if jprop data (js ''type'') = Some (JStr (js ''signed-out'')) then snd (clearIdentity (bump s))
      else if jprop data (js ''type'') = Some (JStr (js ''session-changed'')) then loadSession_start None False s
      else s)"

definition message_data :: "auth_message \<Rightarrow> json" where
  "message_data m =
     JObj [(js ''type'', JStr (case m of SessionChanged \<Rightarrow> js ''session-changed'' | SignedOut \<Rightarrow> js ''signed-out''))]"

definition login_start :: "auth_state \<Rightarrow> auth_state" where
  "login_start s = (let s = bump s in await_reply (LoginRequest (au_version s)) s)"

text \<open>What \<open>login\<close> and \<open>register\<close> await before they look at the state again.\<close>

definition login_network :: "browser \<Rightarrow> network \<Rightarrow> login_payload \<Rightarrow> json promise" where
  "login_network B net payload = createSession B net payload"

definition register_network :: "browser \<Rightarrow> network \<Rightarrow> registration_payload \<Rightarrow> json promise" where
  "register_network B net payload =
     await (registerAccount B net payload)
       (\<lambda>_. createSession B net \<lparr>login_email = reg_email payload, login_password = reg_password payload\<rparr>)"

definition created_session :: "string \<Rightarrow> js_error + json \<Rightarrow> js_error + account_user" where
  "created_session message reply =
     (case reply of
        Inl e \<Rightarrow> Inl e
      | Inr session \<Rightarrow>
          if session = JNull then Inl (PlainError (js ''Cannot read properties of null (reading 'authenticated')''))
          else if \<not> truthy (jprop session (js ''authenticated'')) \<or> \<not> isAccountUser (jprop session (js ''user''))
          then Inl (PlainError (js message))
          else Inr (account_of (the (jprop session (js ''user'')))))"

text \<open>The continuation, with the value \<open>login\<close> settles with.\<close>

definition signed_in_as :: "nat \<Rightarrow> js_error + account_user \<Rightarrow> auth_state \<Rightarrow> (js_error + account_user) \<times> auth_state" where
  "signed_in_as version result s =
     (case result of
        Inl e \<Rightarrow> (Inl e, s)
      | Inr u \<Rightarrow>
          (Inr u, if version = au_version s then broadcastAuthChange SessionChanged (sign_in u s) else s))"

definition login_reply :: "nat \<Rightarrow> js_error + json \<Rightarrow> auth_state \<Rightarrow> (js_error + account_user) \<times> auth_state" where
  "login_reply version reply s =
     signed_in_as version (created_session ''The server did not create a session.'' reply) s"

definition register_start :: "auth_state \<Rightarrow> auth_state" where
  "register_start s = (let s = bump s in await_reply (RegisterRequest (au_version s)) s)"

definition register_reply :: "nat \<Rightarrow> js_error + json \<Rightarrow> auth_state \<Rightarrow> (js_error + account_user) \<times> auth_state" where
  "register_reply version reply s =
     signed_in_as version
       (created_session ''Your account was created, but the server did not create a session.'' reply) s"

definition logout_start :: "auth_state \<Rightarrow> auth_state" where
  "logout_start s = await_reply LogoutRequest (bump s)"

definition logout_reply :: "js_error + unit \<Rightarrow> auth_state \<Rightarrow> (js_error + unit) \<times> auth_state" where
  "logout_reply reply s =
     (case reply of
        Inl e \<Rightarrow> (Inl e, s)
      | Inr u \<Rightarrow>
          (Inr u, let (changed, s) = clearIdentity s in if changed then broadcastAuthChange SignedOut s else s))"

section \<open>Events\<close>

datatype auth_event =
    MountLoad | UnmountLoad
  | ChannelOpened | ChannelClosed
  | RefreshSession
  | UnauthorizedEvent
  | ChannelMessage json
  | LoginStart | RegisterStart | LogoutStart
  | LoadReply nat bool bool "bool option" "js_error + json"
  | LoginReply nat "js_error + json"
  | RegisterReply nat "js_error + json"
  | LogoutReply "js_error + unit"

fun replied_request :: "auth_event \<Rightarrow> auth_request option" where
  "replied_request (LoadReply v bg b sg _) = Some (LoadRequest v bg b sg)"
| "replied_request (LoginReply v _) = Some (LoginRequest v)"
| "replied_request (RegisterReply v _) = Some (RegisterRequest v)"
| "replied_request (LogoutReply _) = Some LogoutRequest"
| "replied_request _ = None"

definition answered :: "auth_event \<Rightarrow> auth_state \<Rightarrow> auth_state" where
  "answered e s =
     (case replied_request e of Some q \<Rightarrow> s\<lparr>au_pending := remove1 q (au_pending s)\<rparr> | None \<Rightarrow> s)"

fun auth_react :: "auth_event \<Rightarrow> auth_state \<Rightarrow> auth_state" where
  "auth_react MountLoad s = mount_load s"
| "auth_react UnmountLoad s = unmount_load s"
| "auth_react ChannelOpened s = s\<lparr>au_channel := True\<rparr>"
| "auth_react ChannelClosed s = s\<lparr>au_channel := False\<rparr>"
| "auth_react RefreshSession s = refreshSession_start s"
| "auth_react UnauthorizedEvent s = handleUnauthorized s"
| "auth_react (ChannelMessage data) s = (if au_channel s then handleMessage data s else s)"
| "auth_react LoginStart s = login_start s"
| "auth_react RegisterStart s = register_start s"
| "auth_react LogoutStart s = logout_start s"
| "auth_react (LoadReply v bg b sg r) s = loadSession_reply v bg b sg r s"
| "auth_react (LoginReply v r) s = snd (login_reply v r s)"
| "auth_react (RegisterReply v r) s = snd (register_reply v r s)"
| "auth_react (LogoutReply r) s = snd (logout_reply r s)"

definition auth_step :: "auth_state \<Rightarrow> auth_event \<Rightarrow> auth_state" where
  "auth_step s e = auth_react e (answered e s)"

text \<open>A reply can only come for a request that was made.\<close>

definition auth_enabled :: "auth_state \<Rightarrow> auth_event \<Rightarrow> bool" where
  "auth_enabled s e = (case replied_request e of Some q \<Rightarrow> q \<in> set (au_pending s) | None \<Rightarrow> True)"

inductive auth_reachable :: "auth_state \<Rightarrow> bool" where
  auth_init: "auth_reachable (auth_initial ui)"
| auth_next: "auth_reachable s \<Longrightarrow> auth_enabled s e \<Longrightarrow> auth_reachable (auth_step s e)"

lemmas auth_functions =
  mount_load_def unmount_load_def loadSession_start_def loadSession_reply_def refreshSession_start_def
  handleUnauthorized_def handleMessage_def login_start_def login_reply_def register_start_def register_reply_def
  logout_start_def logout_reply_def signed_in_as_def clearIdentity_def broadcastAuthChange_def sign_in_def
  bump_def await_reply_def answered_def

section \<open>Invariants\<close>

definition identity_ok :: "auth_state \<Rightarrow> bool" where
  "identity_ok s \<longleftrightarrow> au_statusRef s = au_status s \<and> (au_user s \<noteq> None \<longleftrightarrow> au_status s = Authenticated)"

lemma identity_ok_answered [simp]: "identity_ok (answered e s) = identity_ok s"
  by (simp add: identity_ok_def answered_def split: option.splits)

lemma identity_ok_react: "identity_ok s \<Longrightarrow> identity_ok (auth_react e s)"
  by (cases e) (auto simp: identity_ok_def auth_functions Let_def split: sum.splits option.splits prod.splits)

lemma identity_ok_step: "identity_ok s \<Longrightarrow> identity_ok (auth_step s e)"
  by (simp add: auth_step_def identity_ok_react)

lemma identity_ok_reachable: "auth_reachable s \<Longrightarrow> identity_ok s"
  by (induction rule: auth_reachable.induct) (simp add: identity_ok_def auth_initial_def, rule identity_ok_step)

text \<open>
  C20: the user is known exactly when signed in. In every reachable state, through any
  interleaving of loads, logins, registrations, logouts, unauthorized events and messages of
  other tabs, a user is held if and only if the status is \<open>authenticated\<close>, and the ref that
  the callbacks read agrees with the rendered status.
\<close>

theorem user_known_iff_authenticated:
  assumes "auth_reachable s"
  shows "(au_user s \<noteq> None \<longleftrightarrow> au_status s = Authenticated) \<and> au_statusRef s = au_status s"
  using identity_ok_reachable [OF assms] by (simp add: identity_ok_def)

definition ann_json :: json where
  "ann_json = JObj [(js ''id'', JStr (js ''u1'')), (js ''email'', JStr (js ''a@b.c'')),
     (js ''display_name'', JStr (js ''Ann'')), (js ''created_at'', JStr (js ''2024''))]"

definition ann_session :: json where
  "ann_session = JObj [(js ''authenticated'', JBool True), (js ''user'', ann_json)]"

lemma read_ann [simp]: "read_session ann_session = Inr (Some (account_of ann_json))"
  by (simp add: read_session_def ann_session_def ann_json_def isAccountUser_def js_type_tests)

lemma mounted_reachable: "auth_reachable (auth_step (auth_initial ui) MountLoad)"
  by (rule auth_next [OF auth_init]) (simp add: auth_enabled_def)

lemma signed_in_reachable:
  "auth_reachable (auth_step (auth_step (auth_initial ui) MountLoad) (LoadReply 1 False False (Some False) (Inr ann_session)))"
  by (rule auth_next [OF mounted_reachable])
    (simp add: auth_enabled_def auth_step_def auth_functions auth_initial_def Let_def)

theorem user_known_iff_authenticated_witness:
  "au_user (auth_step (auth_step (auth_initial ui_initial) MountLoad)
     (LoadReply 1 False False (Some False) (Inr ann_session))) = Some (account_of ann_json)"
proof -
  let ?s = "auth_step (auth_step (auth_initial ui_initial) MountLoad) (LoadReply 1 False False (Some False) (Inr ann_session))"
  have "au_status ?s = Authenticated"
    by (simp add: auth_step_def auth_functions auth_initial_def Let_def)
  then have "au_user ?s \<noteq> None" using user_known_iff_authenticated [OF signed_in_reachable] by blast
  then show ?thesis by (simp add: auth_step_def auth_functions auth_initial_def Let_def)
qed

section \<open>Replies that come too late\<close>

fun auth_ticket :: "auth_event \<Rightarrow> nat option" where
  "auth_ticket (LoadReply v _ _ _ _) = Some v"
| "auth_ticket (LoginReply v _) = Some v"
| "auth_ticket (RegisterReply v _) = Some v"
| "auth_ticket _ = None"

definition auth_view :: "auth_state \<Rightarrow> auth_status \<times> account_user option \<times> auth_message list \<times> ui_state" where
  "auth_view s = (au_status s, au_user s, au_posted s, au_ui s)"

lemma auth_version_mono: "au_version s \<le> au_version (auth_step s e)"
  by (cases e) (auto simp: auth_step_def auth_functions Let_def split: sum.splits option.splits prod.splits)

interpretation session_requests: latest_wins au_version auth_step auth_ticket auth_view
proof unfold_locales
  fix s e v
  show "au_version s \<le> au_version (auth_step s e)" by (rule auth_version_mono)
  assume "auth_ticket e = Some v" and "v \<noteq> au_version s"
  then show "auth_view (auth_step s e) = auth_view s"
    by (cases e) (auto simp: auth_step_def auth_functions auth_view_def Let_def split: sum.splits)
qed

lemma unauthorized_signs_out:
  assumes "auth_reachable s"
  shows "au_status (auth_step s UnauthorizedEvent) = Anonymous \<and> au_user (auth_step s UnauthorizedEvent) = None \<and>
    au_version (auth_step s UnauthorizedEvent) = au_version s + 1"
  using identity_ok_reachable [OF assms] by (auto simp: identity_ok_def auth_step_def auth_functions Let_def)

text \<open>
  C21: an ended session stays ended. After the unauthorized event the page is anonymous, and no
  reply of a load, login or registration that was started before it signs anybody in, changes
  the search state or posts to other tabs, however many of them arrive and in whatever order.
\<close>

theorem late_replies_cannot_sign_in:
  assumes "auth_reachable s" and "\<forall>e \<in> set es. \<exists>v. auth_ticket e = Some v \<and> v \<le> au_version s"
  shows "au_status (foldl auth_step (auth_step s UnauthorizedEvent) es) = Anonymous \<and>
    au_user (foldl auth_step (auth_step s UnauthorizedEvent) es) = None \<and>
    auth_view (foldl auth_step (auth_step s UnauthorizedEvent) es) = auth_view (auth_step s UnauthorizedEvent)"
proof -
  note out = unauthorized_signs_out [OF assms(1)]
  have "auth_view (foldl auth_step (auth_step s UnauthorizedEvent) es) = auth_view (auth_step s UnauthorizedEvent)"
    using assms(2) out by (intro session_requests.stale_run_ignored) fastforce
  with out show ?thesis by (simp add: auth_view_def)
qed

theorem late_replies_cannot_sign_in_witness:
  "au_user (foldl auth_step (auth_step (auth_step (auth_initial ui_initial) MountLoad) UnauthorizedEvent)
     [LoadReply 1 False False (Some False) (Inr ann_session)]) = None"
proof -
  have "\<forall>e \<in> set [LoadReply 1 False False (Some False) (Inr ann_session)].
      \<exists>v. auth_ticket e = Some v \<and> v \<le> au_version (auth_step (auth_initial ui_initial) MountLoad)"
    by (simp add: auth_step_def auth_functions auth_initial_def Let_def)
  from late_replies_cannot_sign_in [OF mounted_reachable this] show ?thesis by blast
qed

text \<open>
  \<open>logout\<close> draws a version when it starts and none when it ends: a load started in between
  (another tab posted \<open>session-changed\<close>) whose reply was made before the server ended the
  session, and which arrives after the logout's own, signs the user in again.
\<close>

lemma logout_can_be_undone:
  "au_status (foldl auth_step (auth_initial ui)
     [MountLoad, LoadReply 1 False False (Some False) (Inr ann_session), ChannelOpened,
      LogoutStart, ChannelMessage (message_data SessionChanged), LogoutReply (Inr ()),
      LoadReply 3 True False None (Inr ann_session)]) = Authenticated"
  by (simp add: auth_step_def auth_functions auth_initial_def Let_def message_data_def)

section \<open>Loading ends\<close>

text \<open>
  The forms that start a login or registration and the menu that starts a logout are mounted
  only under a route guard, which renders none of them while the status is \<open>loading\<close>; the
  provider itself stays mounted.
\<close>

definition guarded :: "auth_state \<Rightarrow> auth_event \<Rightarrow> bool" where
  "guarded s e \<longleftrightarrow> e \<noteq> UnmountLoad \<and> (e \<in> {LoginStart, RegisterStart, LogoutStart} \<longrightarrow> au_status s \<noteq> Loading)"

inductive page_reachable :: "auth_state \<Rightarrow> bool" where
  page_init: "page_reachable (auth_step (auth_initial ui) MountLoad)"
| page_next: "page_reachable s \<Longrightarrow> auth_enabled s e \<Longrightarrow> guarded s e \<Longrightarrow> page_reachable (auth_step s e)"

fun request_version :: "auth_request \<Rightarrow> nat" where
  "request_version (LoadRequest v _ _ _) = v"
| "request_version (LoginRequest v) = v"
| "request_version (RegisterRequest v) = v"
| "request_version LogoutRequest = 0"

definition waiting_ok :: "auth_state \<Rightarrow> bool" where
  "waiting_ok s \<longleftrightarrow>
     (\<forall>q \<in> set (au_pending s). request_version q \<le> au_version s) \<and>
     (au_status s = Loading \<longrightarrow>
        (\<exists>b sg. LoadRequest (au_version s) False b sg \<in> set (au_pending s)) \<and>
        (\<forall>q \<in> set (au_pending s). request_version q = au_version s \<longrightarrow> (\<exists>b sg. q = LoadRequest (au_version s) False b sg))) \<and>
     (\<forall>v bg b. LoadRequest v bg b (Some True) \<notin> set (au_pending s)) \<and>
     0 < au_version s"

lemma set_remove1_other: "p \<in> set ps \<Longrightarrow> p \<noteq> q \<Longrightarrow> p \<in> set (remove1 q ps)"
  by (simp add: in_set_remove1)

lemma waiting_ok_bumped:
  assumes "waiting_ok s" and "au_version t = au_version s + 1" and "au_status t \<noteq> Loading"
    and "set (au_pending t) \<subseteq> insert q (set (au_pending s))"
    and "request_version q \<le> au_version t" and "\<forall>v bg b. q \<noteq> LoadRequest v bg b (Some True)"
  shows "waiting_ok t"
  using assms unfolding waiting_ok_def by (metis insert_iff le_add1 le_trans subset_iff zero_less_Suc Suc_eq_plus1)

lemma waiting_ok_load:
  assumes "waiting_ok s" and "au_statusRef s = au_status s" and "sg \<noteq> Some True"
  shows "waiting_ok (loadSession_start sg b s)"
  using assms unfolding waiting_ok_def by (auto simp: auth_functions Let_def)

lemma waiting_ok_replied:
  assumes "waiting_ok s" and "au_version t = au_version s" and "au_pending t = remove1 q (au_pending s)"
    and "q \<in> set (au_pending s)"
    and "au_status t = Loading \<Longrightarrow> au_status s = Loading \<and> request_version q \<noteq> au_version s"
  shows "waiting_ok t"
proof -
  have sub: "set (au_pending t) \<subseteq> set (au_pending s)" using assms(3) by (simp add: set_remove1_subset)
  have "(\<exists>b sg. LoadRequest (au_version t) False b sg \<in> set (au_pending t)) \<and>
      (\<forall>p \<in> set (au_pending t). request_version p = au_version t \<longrightarrow> (\<exists>b sg. p = LoadRequest (au_version t) False b sg))"
    if "au_status t = Loading"
  proof -
    from assms(5) [OF that] assms(1) obtain b sg where l: "LoadRequest (au_version s) False b sg \<in> set (au_pending s)"
      and all: "\<forall>p \<in> set (au_pending s). request_version p = au_version s \<longrightarrow> (\<exists>b sg. p = LoadRequest (au_version s) False b sg)"
      and q: "request_version q \<noteq> au_version s"
      unfolding waiting_ok_def by blast
    have "LoadRequest (au_version s) False b sg \<noteq> q" using q by auto
    with l have "LoadRequest (au_version s) False b sg \<in> set (au_pending t)"
      unfolding assms(3) by (rule set_remove1_other)
    with all sub assms(2) show ?thesis by auto
  qed
  with assms(1,2) sub show ?thesis unfolding waiting_ok_def by (metis subsetD)
qed

lemma reply_keeps_version:
  "auth_ticket e = Some v \<or> (\<exists>r. e = LogoutReply r) \<Longrightarrow>
     au_version (auth_step s e) = au_version s \<and> au_pending (auth_step s e) = au_pending (answered e s)"
  by (cases e) (auto simp: auth_step_def auth_functions Let_def split: sum.splits option.splits prod.splits)

lemma waiting_ok_reply:
  assumes "waiting_ok s" and "identity_ok s" and "auth_enabled s e" and "replied_request e = Some q"
  shows "waiting_ok (auth_step s e)"
proof (rule waiting_ok_replied [OF assms(1)])
  have t: "auth_ticket e = Some (request_version q) \<or> (\<exists>r. e = LogoutReply r)" using assms(4) by (cases e) auto
  show "au_version (auth_step s e) = au_version s" and "au_pending (auth_step s e) = remove1 q (au_pending s)"
    using reply_keeps_version [OF t] assms(4) by (simp_all add: answered_def)
  show q: "q \<in> set (au_pending s)" using assms(3,4) by (simp add: auth_enabled_def)
  assume loading: "au_status (auth_step s e) = Loading"
  then have s: "au_status s = Loading"
    using assms(2,4) by (cases e) (auto simp: identity_ok_def auth_step_def auth_functions Let_def
        split: sum.splits option.splits prod.splits if_splits)
  moreover have "request_version q \<noteq> au_version s"
  proof
    assume v: "request_version q = au_version s"
    with assms(1) q s obtain b sg where "q = LoadRequest (au_version s) False b sg" "sg \<noteq> Some True"
      unfolding waiting_ok_def by metis
    with assms(2,4) loading show False
      by (cases e) (auto simp: identity_ok_def auth_step_def auth_functions Let_def split: sum.splits option.splits prod.splits if_splits)
  qed
  ultimately show "au_status s = Loading \<and> request_version q \<noteq> au_version s" by blast
qed

lemma clearIdentity_status: "identity_ok s \<Longrightarrow> au_status (snd (clearIdentity s)) = Anonymous"
  by (auto simp: identity_ok_def clearIdentity_def Let_def)

lemma waiting_ok_step:
  assumes "waiting_ok s" and "identity_ok s" and "auth_enabled s e" and "guarded s e"
  shows "waiting_ok (auth_step s e)"
proof -
  have id: "au_statusRef s = au_status s" using assms(2) by (simp add: identity_ok_def)
  have plain: "waiting_ok (s\<lparr>au_channel := c\<rparr>)" for c using assms(1) by (simp add: waiting_ok_def)
  have start: "waiting_ok (await_reply q (bump s))"
    if "au_status s \<noteq> Loading" "request_version q \<le> au_version s + 1" "\<forall>v bg b. q \<noteq> LoadRequest v bg b (Some True)" for q
    using that by (intro waiting_ok_bumped [OF assms(1), of _ q]) (simp_all add: await_reply_def bump_def)
  have out: "waiting_ok (handleUnauthorized s)" "waiting_ok (snd (clearIdentity (bump s)))"
    using id by (auto intro!: waiting_ok_bumped [OF assms(1), of _ LogoutRequest] simp: auth_functions Let_def)
  show ?thesis
  proof (cases "replied_request e")
    case None
    then have "auth_step s e = auth_react e s" by (simp add: auth_step_def answered_def)
    then show ?thesis
      using None assms(4) id plain start out waiting_ok_load [OF assms(1) id] assms(1)
      by (cases e) (auto simp: guarded_def mount_load_def refreshSession_start_def handleMessage_def
          login_start_def register_start_def logout_start_def Let_def bump_def)
  next
    case (Some q)
    with assms show ?thesis by (intro waiting_ok_reply)
  qed
qed

text \<open>
  C22: the session check always ends. As long as logins, registrations and logouts are started
  only while the status is not \<open>loading\<close>, a \<open>loading\<close> status means that the request which will
  end it is still awaited: some load of the current version is pending, and whatever its reply
  is, the status after it is no longer \<open>loading\<close>.
\<close>

theorem loading_always_ends:
  assumes "page_reachable s" and "au_status s = Loading"
  shows "\<exists>b sg. auth_enabled s (LoadReply (au_version s) False b sg r) \<and>
    au_status (auth_step s (LoadReply (au_version s) False b sg r)) \<noteq> Loading"
proof -
  have "waiting_ok s \<and> identity_ok s"
    using assms(1)
  proof (induction rule: page_reachable.induct)
    case (page_init ui)
    show ?case by (auto simp: waiting_ok_def identity_ok_def auth_step_def auth_functions auth_initial_def Let_def)
  qed (simp add: waiting_ok_step identity_ok_step)
  then obtain b sg where q: "LoadRequest (au_version s) False b sg \<in> set (au_pending s)" and "sg \<noteq> Some True"
    using assms(2) unfolding waiting_ok_def by metis
  moreover have "au_status (auth_step s (LoadReply (au_version s) False b sg r)) \<noteq> Loading"
    using \<open>sg \<noteq> Some True\<close> \<open>waiting_ok s \<and> identity_ok s\<close>
    by (auto simp: auth_step_def auth_functions identity_ok_def Let_def split: sum.splits option.splits prod.splits)
  ultimately show ?thesis by (auto simp: auth_enabled_def)
qed

theorem loading_always_ends_witness:
  "\<exists>b sg. auth_enabled (auth_step (auth_initial ui_initial) MountLoad) (LoadReply 1 False b sg (Inl NonError))"
proof -
  let ?s = "auth_step (auth_initial ui_initial) MountLoad"
  have s: "au_status ?s = Loading" and v: "au_version ?s = 1"
    by (simp_all add: auth_step_def auth_functions auth_initial_def Let_def)
  from loading_always_ends [OF page_init s, of "Inl NonError"] show ?thesis unfolding v by blast
qed

text \<open>
  tabs do not echo. A message from another tab makes this tab post nothing, neither at once
  nor when the load it starts is answered, so two tabs can never keep each other busy; and a
  tab that signs in or out itself posts exactly one message, which the others understand.
\<close>

theorem channel_messages_not_echoed:
  "au_posted (auth_step s (ChannelMessage data)) = au_posted s \<and>
   (\<forall>q \<in> set (au_pending (auth_step s (ChannelMessage data))) - set (au_pending s).
      \<exists>v bg. q = LoadRequest v bg False None) \<and>
   au_posted (auth_step s (LoadReply v bg False sg r)) = au_posted s \<and>
   (au_channel s \<and> au_statusRef s \<noteq> Anonymous \<longrightarrow>
      au_posted (auth_step s UnauthorizedEvent) = au_posted s @ [SignedOut]) \<and>
   (au_channel s \<longrightarrow> au_status (auth_step s (ChannelMessage (message_data SignedOut))) = Anonymous \<or> au_statusRef s = Anonymous)"
  by (auto simp: auth_step_def auth_functions message_data_def Let_def split: sum.splits option.splits prod.splits)

theorem channel_messages_not_echoed_witness:
  "au_posted (auth_step ((auth_initial ui_initial)\<lparr>au_channel := True\<rparr>) UnauthorizedEvent) = [SignedOut]"
  using channel_messages_not_echoed [of "(auth_initial ui_initial)\<lparr>au_channel := True\<rparr>"]
  by (simp add: auth_initial_def)

text \<open>
  signing in and registering report failures and never half-apply them. A failed request,
  an invalid session or a superseded one leaves status and user as they were; when it succeeds
  and nothing superseded it, the returned account is the one now signed in; registering sends
  the session request only after the registration was accepted.
\<close>

theorem sign_in_all_or_nothing:
  "(\<forall>err. fst (login_reply v r s) = Inl err \<longrightarrow> snd (login_reply v r s) = s) \<and>
   (\<forall>u. fst (login_reply v r s) = Inr u \<longrightarrow>
      (if v = au_version s
       then au_status (snd (login_reply v r s)) = Authenticated \<and> au_user (snd (login_reply v r s)) = Some u
       else snd (login_reply v r s) = s)) \<and>
   (\<forall>err. snd (registerAccount B net p) = Inl err \<longrightarrow>
      register_network B net p = (fst (registerAccount B net p), Inl err) \<and>
      fst (register_reply v (snd (register_network B net p)) s) = Inl err \<and>
      snd (register_reply v (snd (register_network B net p)) s) = s)"
proof -
  have "register_network B net p = (fst (registerAccount B net p), Inl err)" if "snd (registerAccount B net p) = Inl err" for err
    using that by (cases "registerAccount B net p") (simp add: register_network_def)
  then show ?thesis
    by (auto simp: auth_functions created_session_def Let_def split: sum.splits if_splits)
qed

theorem sign_in_all_or_nothing_witness:
  "snd (login_reply 3 (Inl (PlainError (js ''offline''))) (auth_initial ui_initial)) = auth_initial ui_initial"
proof -
  have "fst (login_reply 3 (Inl (PlainError (js ''offline''))) (auth_initial ui_initial)) = Inl (PlainError (js ''offline''))"
    by (simp add: auth_functions created_session_def)
  with sign_in_all_or_nothing [of 3 "Inl (PlainError (js ''offline''))" "auth_initial ui_initial"] show ?thesis by blast
qed

end
