(* ===== verification/RouteGuards.thy ===== *)
theory RouteGuards
  imports AuthProvider
begin

text \<open>
  \<open>components/auth/route-guards.tsx\<close>: what each session status may see, and where a sign-in
  leads back to. \<open>new URL(value, base).origin\<close> is the browser's URL parser, a parameter
  (\<open>None\<close>: it throws).
\<close>

type_synonym url_origin = "jstr \<Rightarrow> jstr \<Rightarrow> jstr option"

definition control_or_backslash :: "code_unit \<Rightarrow> bool" where
  "control_or_backslash c \<longleftrightarrow> c = 92 \<or> c \<le> 31 \<or> c = 127"

definition base_origin :: "jstr option \<Rightarrow> jstr" where
  "base_origin window = (case window of Some origin \<Rightarrow> origin | None \<Rightarrow> js ''http://localhost'')"

definition path_part :: "jstr \<Rightarrow> jstr" where
  "path_part value = takeWhile (\<lambda>c. c \<noteq> 63 \<and> c \<noteq> 35) value"

definition isSafeInternalPath :: "url_origin \<Rightarrow> jstr option \<Rightarrow> jstr \<Rightarrow> bool" where
  "isSafeInternalPath origin_of window value =
     (if \<not> starts_with value (js ''/'') \<or> starts_with value (js ''//'') \<or> list_ex control_or_backslash value
      then False
      else let baseOrigin = base_origin window
           in case origin_of value baseOrigin of
                None \<Rightarrow> False
              | Some origin \<Rightarrow>
                  if origin \<noteq> baseOrigin then False
                  else let pathname = path_part value
                       in pathname \<noteq> js ''/login'' \<and> pathname \<noteq> js ''/register'')"

definition text_or_empty :: "json option \<Rightarrow> jstr" where
  "text_or_empty v = (case v of Some (JStr s) \<Rightarrow> s | _ \<Rightarrow> [])"

definition from_target :: "json \<Rightarrow> jstr option" where
  "from_target from =
     (case jprop from (js ''pathname'') of
        Some (JStr pathname) \<Rightarrow>
          Some (pathname @ text_or_empty (jprop from (js ''search'')) @ text_or_empty (jprop from (js ''hash'')))
      | _ \<Rightarrow> None)"

definition getSafeReturnTo :: "url_origin \<Rightarrow> jstr option \<Rightarrow> json option \<Rightarrow> jstr option" where
  "getSafeReturnTo origin_of window state =
     (case state of
        None \<Rightarrow> None
      | Some st \<Rightarrow>
          if \<not> is_object st then None
          else let safe = isSafeInternalPath origin_of window;
                   from_state = (case jprop st (js ''from'') of
                       Some (JStr from) \<Rightarrow> if safe from then Some from else None
                     | Some from \<Rightarrow>
                         if is_object from then
                           (case from_target from of
                              Some target \<Rightarrow> if safe target then Some target else None
                            | None \<Rightarrow> None)
                         else None
                     | None \<Rightarrow> None)
               in case jprop st (js ''returnTo'') of
                    Some (JStr returnTo) \<Rightarrow> if safe returnTo then Some returnTo else from_state
                  | _ \<Rightarrow> from_state)"

text \<open>A router location, and what a boundary renders.\<close>

record location =
  loc_pathname :: jstr
  loc_search :: jstr
  loc_hash :: jstr
  loc_state :: "json option"

datatype boundary_view =
    SessionLoading
  | SessionUnavailable
  | NavigateTo jstr "json option"
  | Outlet

definition location_json :: "location \<Rightarrow> json" where
  "location_json l =
     JObj ([(js ''pathname'', JStr (loc_pathname l)), (js ''search'', JStr (loc_search l)),
            (js ''hash'', JStr (loc_hash l))] @
           (case loc_state l of Some st \<Rightarrow> [(js ''state'', st)] | None \<Rightarrow> []))"

definition full_path :: "location \<Rightarrow> jstr" where
  "full_path l = loc_pathname l @ loc_search l @ loc_hash l"

definition CurrentSessionBoundary ::
    "url_origin \<Rightarrow> jstr option \<Rightarrow> bool \<Rightarrow> auth_status \<Rightarrow> location \<Rightarrow> boundary_view" where
  "CurrentSessionBoundary origin_of window publicOnly status loc =
     (if status = Loading then SessionLoading
      else if status = Unavailable then SessionUnavailable
      else if publicOnly then
        (if status = Authenticated then
           (if loc_pathname loc = js ''/register'' then NavigateTo (js ''/onboarding/telegram'') None
            else NavigateTo (case getSafeReturnTo origin_of window (loc_state loc) of
                               Some target \<Rightarrow> target | None \<Rightarrow> js ''/'') None)
         else Outlet)
      else if status = Anonymous then
        (let returnTo = full_path loc
         in NavigateTo (js ''/login'') (Some (JObj [(js ''from'', location_json loc), (js ''returnTo'', JStr returnTo)])))
      else Outlet)"

definition RequireAuth :: "url_origin \<Rightarrow> jstr option \<Rightarrow> auth_status \<Rightarrow> location \<Rightarrow> boundary_view" where
  "RequireAuth origin_of window = CurrentSessionBoundary origin_of window False"

definition PublicOnly :: "url_origin \<Rightarrow> jstr option \<Rightarrow> auth_status \<Rightarrow> location \<Rightarrow> boundary_view" where
  "PublicOnly origin_of window = CurrentSessionBoundary origin_of window True"

section \<open>Properties\<close>

lemma getSafeReturnTo_safe:
  "getSafeReturnTo origin_of window st = Some target \<Longrightarrow> isSafeInternalPath origin_of window target"
  by (auto simp: getSafeReturnTo_def Let_def split: option.splits json.splits if_splits)

lemma safe_path_facts:
  assumes "isSafeInternalPath origin_of window p"
  shows "starts_with p (js ''/'') \<and> \<not> starts_with p (js ''//'') \<and> \<not> list_ex control_or_backslash p \<and>
    origin_of p (base_origin window) = Some (base_origin window) \<and>
    path_part p \<notin> {js ''/login'', js ''/register''}"
  using assms by (auto simp: isSafeInternalPath_def Let_def split: if_splits option.splits)

text \<open>
  C24: signing in never leads off the site. Whatever state a link carries, a signed-in visitor
  of a public page is sent to a path of this origin: \<open>/\<close>, the Telegram onboarding, or a path
  that starts with a single slash, has no backslash or control character, resolves to the
  page's own origin and is neither the sign-in nor the registration page.
\<close>

theorem sign_in_redirect_safe:
  assumes "PublicOnly origin_of window Authenticated loc = view"
  shows "\<exists>target. view = NavigateTo target None \<and>
    (target \<in> {js ''/'', js ''/onboarding/telegram''} \<or>
     (starts_with target (js ''/'') \<and> \<not> starts_with target (js ''//'') \<and>
      \<not> list_ex control_or_backslash target \<and>
      origin_of target (base_origin window) = Some (base_origin window))) \<and>
    path_part target \<notin> {js ''/login'', js ''/register''}"
proof -
  have const: "path_part (js ''/'') = js ''/''" "path_part (js ''/onboarding/telegram'') = js ''/onboarding/telegram''"
    by (simp_all add: path_part_def js_def)
  show ?thesis
    using assms
    by (cases "loc_pathname loc = js ''/register''"; cases "getSafeReturnTo origin_of window (loc_state loc)")
      (auto simp: PublicOnly_def CurrentSessionBoundary_def const dest!: getSafeReturnTo_safe safe_path_facts)
qed

definition simple_origin :: url_origin where
  "simple_origin value base = (if starts_with value (js ''//'') then Some value else Some base)"

theorem sign_in_redirect_safe_witness:
  "\<exists>target. PublicOnly simple_origin None Authenticated
      \<lparr>loc_pathname = js ''/login'', loc_search = [], loc_hash = [],
        loc_state = Some (JObj [(js ''returnTo'', JStr (js ''//evil.example''))])\<rparr> = NavigateTo target None \<and>
     path_part target \<notin> {js ''/login'', js ''/register''}"
  using sign_in_redirect_safe [OF refl, of simple_origin None
      "\<lparr>loc_pathname = js ''/login'', loc_search = [], loc_hash = [],
        loc_state = Some (JObj [(js ''returnTo'', JStr (js ''//evil.example''))])\<rparr>"]
  by blast

text \<open>
  a visitor who has to sign in comes back to the page asked for. Where an anonymous visitor
  of a protected page is sent to the sign-in page, the state that goes along makes the sign-in
  lead back to exactly the path, query and fragment of that page when it is a safe path, and
  to \<open>/\<close> otherwise.
\<close>

theorem sign_in_returns_to_page:
  assumes "RequireAuth origin_of window Anonymous loc = NavigateTo target st"
    and "loc_pathname login = target" and "loc_state login = st"
  shows "target = js ''/login'' \<and>
    PublicOnly origin_of window Authenticated login =
      NavigateTo (if isSafeInternalPath origin_of window (full_path loc) then full_path loc else js ''/'') None"
proof -
  have st: "st = Some (JObj [(js ''from'', location_json loc), (js ''returnTo'', JStr (full_path loc))])"
    and t: "target = js ''/login''"
    using assms(1) by (simp_all add: RequireAuth_def CurrentSessionBoundary_def Let_def)
  have origin: "from_target (location_json loc) = Some (full_path loc)" "is_object (location_json loc)"
    by (simp_all add: from_target_def location_json_def full_path_def text_or_empty_def)
  from origin(2) obtain kvs where obj: "location_json loc = JObj kvs" by (simp add: location_json_def)
  have "getSafeReturnTo origin_of window st =
      (if isSafeInternalPath origin_of window (full_path loc) then Some (full_path loc) else None)"
    using origin unfolding st getSafeReturnTo_def Let_def by (simp add: obj)
  then show ?thesis
    using assms(2,3) t by (simp add: PublicOnly_def CurrentSessionBoundary_def)
qed

theorem sign_in_returns_to_page_witness:
  "PublicOnly simple_origin None Authenticated
     \<lparr>loc_pathname = js ''/login'', loc_search = [], loc_hash = [],
      loc_state = Some (JObj [(js ''from'', location_json \<lparr>loc_pathname = js ''/messages'', loc_search = js ''?tag=a'', loc_hash = [], loc_state = None\<rparr>),
         (js ''returnTo'', JStr (js ''/messages?tag=a''))])\<rparr> = NavigateTo (js ''/messages?tag=a'') None"
proof -
  let ?page = "\<lparr>loc_pathname = js ''/messages'', loc_search = js ''?tag=a'', loc_hash = [], loc_state = None\<rparr>"
  let ?st = "Some (JObj [(js ''from'', location_json ?page), (js ''returnTo'', JStr (js ''/messages?tag=a''))])"
  let ?login = "\<lparr>loc_pathname = js ''/login'', loc_search = [], loc_hash = [], loc_state = ?st\<rparr>"
  have path: "full_path ?page = js ''/messages?tag=a''" by (simp add: full_path_def js_def)
  have "RequireAuth simple_origin None Anonymous ?page = NavigateTo (js ''/login'') ?st"
    by (simp add: RequireAuth_def CurrentSessionBoundary_def path Let_def)
  from sign_in_returns_to_page [OF this, of ?login]
  have "PublicOnly simple_origin None Authenticated ?login =
      NavigateTo (if isSafeInternalPath simple_origin None (full_path ?page) then full_path ?page else js ''/'') None"
    by simp
  moreover have "isSafeInternalPath simple_origin None (js ''/messages?tag=a'')"
    by (simp add: isSafeInternalPath_def js_def control_or_backslash_def simple_origin_def path_part_def base_origin_def Let_def)
  ultimately show ?thesis unfolding path by simp
qed

text \<open>
  the guards decide by the session status alone. A protected page is rendered exactly for
  a signed-in visitor and a public one exactly for an anonymous visitor; while the status is
  unknown or the server cannot be reached nobody is redirected.
\<close>

theorem guards_follow_status:
  "(RequireAuth origin_of window status loc = Outlet \<longleftrightarrow> status = Authenticated) \<and>
   (PublicOnly origin_of window status loc = Outlet \<longleftrightarrow> status = Anonymous) \<and>
   ((\<exists>t st. RequireAuth origin_of window status loc = NavigateTo t st) \<longleftrightarrow> status = Anonymous) \<and>
   ((\<exists>t st. PublicOnly origin_of window status loc = NavigateTo t st) \<longleftrightarrow> status = Authenticated)"
  by (cases status) (simp_all add: RequireAuth_def PublicOnly_def CurrentSessionBoundary_def Let_def)

end
