(* ===== verification/SessionFlow.thy ===== *)
theory SessionFlow
  imports RouteGuards
begin

text \<open>
  How a session ends: from the 401 answer that a request of any page gets in \<open>api/client.ts\<close>, over
  the event the session provider of its tab listens to and the message it posts to the other tabs,
  to the guards that send every protected page to the sign-in and back (\<open>auth-provider.tsx\<close>,
  \<open>route-guards.tsx\<close>).
\<close>

text \<open>What the provider of a tab hears of a request's effects: its listener for the unauthorized event.\<close>

definition session_hears :: "effect \<Rightarrow> auth_state \<Rightarrow> auth_state" where
  "session_hears e s =
     (case e of ApiUnauthorized _ \<Rightarrow> auth_step s UnauthorizedEvent | OrganizationChanged _ \<Rightarrow> s)"

definition effects_heard :: "effect list \<Rightarrow> auth_state \<Rightarrow> auth_state" where
  "effects_heard es s = foldl (\<lambda>s e. session_hears e s) s es"

text \<open>The messages a tab posted between two of its states, and a tab that receives them.\<close>

definition newly_posted :: "auth_state \<Rightarrow> auth_state \<Rightarrow> auth_message list" where
  "newly_posted s s' = drop (length (au_posted s)) (au_posted s')"

definition messages_received :: "auth_message list \<Rightarrow> auth_state \<Rightarrow> auth_state" where
  "messages_received ms s = foldl (\<lambda>s m. auth_step s (ChannelMessage (message_data m))) s ms"

text \<open>A request in tab \<open>i\<close> has settled: its effects in that tab, and the posted messages in the others.\<close>

definition settled_in_tab :: "nat \<Rightarrow> effect list \<Rightarrow> auth_state list \<Rightarrow> auth_state list" where
  "settled_in_tab i es tabs =
     (let s' = effects_heard es (tabs ! i); ms = newly_posted (tabs ! i) s'
      in map (\<lambda>(j, t). if j = i then s' else messages_received ms t) (zip [0 ..< length tabs] tabs))"

lemma settled_in_tab_nth:
  assumes "j < length tabs"
  shows "settled_in_tab i es tabs ! j =
    (if j = i then effects_heard es (tabs ! i)
     else messages_received (newly_posted (tabs ! i) (effects_heard es (tabs ! i))) (tabs ! j))"
  using assms by (simp add: settled_in_tab_def Let_def)

lemma effects_of_401:
  assumes "net (apiFetch B path init) = NetReply 401 body" and "has_window B" and "notify_unauthorized opts \<noteq> Some False"
  shows "fst (requestJson B net path init opts) = [ApiUnauthorized path]"
  using assms by (simp add: requestJson_def Let_def)

lemma unauthorized_posts:
  assumes "auth_reachable s" and "au_status s \<noteq> Anonymous" and "au_channel s"
  shows "newly_posted s (auth_step s UnauthorizedEvent) = [SignedOut]"
  using identity_ok_reachable [OF assms(1)] assms(2,3)
  by (simp add: newly_posted_def identity_ok_def auth_step_def auth_functions Let_def)

lemma signed_out_message_ends_session:
  assumes "auth_reachable s" and "au_channel s"
  shows "au_status (messages_received [SignedOut] s) = Anonymous \<and> au_user (messages_received [SignedOut] s) = None"
  using identity_ok_reachable [OF assms(1)] assms(2)
  by (auto simp: messages_received_def identity_ok_def auth_step_def auth_functions message_data_def Let_def)

text \<open>
  C23: An expired session is noticed once and ends everywhere. When any request of any tab that is
  not signed out is answered 401, and the caller did not opt out, then that tab is signed out, and
  so is every other tab if both can use the channel. Each of them sends a protected page to the
  sign-in, and signing in leads back to exactly that page if its path is a safe one, else to \<open>/\<close>.
\<close>

theorem expired_session_closes_every_tab:
  assumes "\<forall>t \<in> set tabs. auth_reachable t" and "i < length tabs" and "j < length tabs"
    and "au_status (tabs ! i) \<noteq> Anonymous" and "j \<noteq> i \<longrightarrow> au_channel (tabs ! i) \<and> au_channel (tabs ! j)"
    and "net (apiFetch B path init) = NetReply 401 body" and "has_window B" and "notify_unauthorized opts \<noteq> Some False"
    and "settled_in_tab i (fst (requestJson B net path init opts)) tabs = tabs'"
  shows "au_status (tabs' ! j) = Anonymous \<and> au_user (tabs' ! j) = None
    \<and> (\<exists>st. RequireAuth origin_of window (au_status (tabs' ! j)) loc = NavigateTo (js ''/login'') st
         \<and> (\<forall>login. loc_pathname login = js ''/login'' \<and> loc_state login = st \<longrightarrow>
              PublicOnly origin_of window Authenticated login =
                NavigateTo (if isSafeInternalPath origin_of window (full_path loc) then full_path loc else js ''/'') None))"
proof -
  note ok = assms(1) [rule_format, OF nth_mem]
  have heard: "effects_heard (fst (requestJson B net path init opts)) (tabs ! i) = auth_step (tabs ! i) UnauthorizedEvent"
    using effects_of_401 [where net = net, OF assms(6-8)] by (simp add: effects_heard_def session_hears_def)
  have out: "au_status (tabs' ! j) = Anonymous \<and> au_user (tabs' ! j) = None"
  proof (cases "j = i")
    case True
    with heard assms(9) show ?thesis
      using unauthorized_signs_out [OF ok [OF assms(2)]] settled_in_tab_nth [OF assms(3)] by auto
  next
    case False
    with assms(5) have ch: "au_channel (tabs ! i)" "au_channel (tabs ! j)" by simp_all
    have "tabs' ! j = messages_received [SignedOut] (tabs ! j)"
      using False heard assms(9) unauthorized_posts [OF ok [OF assms(2)] assms(4) ch(1)] settled_in_tab_nth [OF assms(3)]
      by auto
    then show ?thesis using signed_out_message_ends_session [OF ok [OF assms(3)] ch(2)] by simp
  qed
  define st where "st = Some (JObj [(js ''from'', location_json loc), (js ''returnTo'', JStr (full_path loc))])"
  have nav: "RequireAuth origin_of window Anonymous loc = NavigateTo (js ''/login'') st"
    by (simp add: RequireAuth_def CurrentSessionBoundary_def st_def Let_def)
  with out show ?thesis using sign_in_returns_to_page [OF nav] by auto
qed

text \<open>A tab of the witness: signed in, with an open channel.\<close>

definition signed_in_tab :: auth_state where
  "signed_in_tab =
     auth_step (auth_step (auth_step (auth_initial ui_initial) MountLoad)
       (LoadReply 1 False False (Some False) (Inr ann_session))) ChannelOpened"

lemma signed_in_tab_facts:
  "auth_reachable signed_in_tab" "au_status signed_in_tab = Authenticated" "au_channel signed_in_tab"
  unfolding signed_in_tab_def
  by (rule auth_next [OF signed_in_reachable], simp add: auth_enabled_def)
    (simp_all add: auth_step_def auth_functions auth_initial_def Let_def)

theorem expired_session_closes_every_tab_witness:
  "au_user (settled_in_tab 0 (fst (requestJson \<lparr>doc_cookie = None, has_window = True\<rparr> (\<lambda>_. NetReply 401 None)
     (js ''/api/tags'') None default_options)) [signed_in_tab, signed_in_tab] ! 1) = None"
proof -
  have "\<forall>t \<in> set [signed_in_tab, signed_in_tab]. auth_reachable t" by (simp add: signed_in_tab_facts)
  from expired_session_closes_every_tab [OF this, of 0 1 "\<lambda>_. NetReply 401 None"
      "\<lparr>doc_cookie = None, has_window = True\<rparr>" "js ''/api/tags''" None None default_options]
  show ?thesis by (simp add: signed_in_tab_facts)
qed

end
