(* ===== verification/AccountPages.thy ===== *)
theory AccountPages
  imports ApiAccount RouteGuards
begin

text \<open>
  The pages around an account: \<open>login-page.tsx\<close>, \<open>register-page.tsx\<close>, \<open>account-settings-page.tsx\<close>
  and \<open>sessions-page.tsx\<close>. A handler is split at its \<open>await\<close>; what it asks of the server or of
  the session provider is a value it returns or records.
\<close>

section \<open>Signing in\<close>

text \<open>\<open>EMAIL_PATTERN\<close>, \<open>/^[^\s@]+@[^\s@]+\.[^\s@]+$/\<close>.\<close>

definition email_pattern :: "jstr \<Rightarrow> bool" where
  "email_pattern s \<longleftrightarrow>
     \<not> list_ex is_ws s \<and>
     (case split_on 64 s of
        [name, domain] \<Rightarrow> name \<noteq> [] \<and> 46 \<in> set (butlast (drop 1 domain))
      | _ \<Rightarrow> False)"

definition email_error :: "jstr \<Rightarrow> jstr option" where
  "email_error normalizedEmail =
     (if normalizedEmail = [] then Some (js ''Enter your email address.'')
      else if \<not> email_pattern normalizedEmail then Some (js ''Enter a valid email address.'')
      else None)"

definition loginErrorMessage :: "js_error \<Rightarrow> jstr" where
  "loginErrorMessage e =
     (case e of
        ApiRequestError m status detail \<Rightarrow>
          if status = 401 then js ''The email or password is incorrect.''
          else if status = 429 then js ''Too many sign-in attempts. Wait a moment and try again.''
          else m
      | _ \<Rightarrow>
          (case error_message e of
             Some m \<Rightarrow> if m \<noteq> [] then m else js ''Could not sign in. Please try again.''
           | None \<Rightarrow> js ''Could not sign in. Please try again.''))"

datatype sign_in_field = DisplayNameField | EmailField | PasswordField | ConfirmationField

record login_page =
  lg_email :: jstr
  lg_password :: jstr
  lg_showPassword :: bool
  lg_emailError :: "jstr option"
  lg_passwordError :: "jstr option"
  lg_error :: "jstr option"
  lg_isSubmitting :: bool

definition login_initial :: login_page where
  "login_initial = \<lparr>lg_email = [], lg_password = [], lg_showPassword = False, lg_emailError = None,
     lg_passwordError = None, lg_error = None, lg_isSubmitting = False\<rparr>"

definition login_email_change :: "jstr \<Rightarrow> login_page \<Rightarrow> login_page" where
  "login_email_change v f = f\<lparr>lg_email := v, lg_emailError := None\<rparr>"

definition login_password_change :: "jstr \<Rightarrow> login_page \<Rightarrow> login_page" where
  "login_password_change v f = f\<lparr>lg_password := v, lg_passwordError := None\<rparr>"

definition login_toggle_password :: "login_page \<Rightarrow> login_page" where
  "login_toggle_password f = f\<lparr>lg_showPassword := \<not> lg_showPassword f\<rparr>"

text \<open>Either the field that gets the focus, or what is handed to \<open>login\<close>.\<close>

definition login_submit :: "login_page \<Rightarrow> login_page \<times> (sign_in_field + login_payload)" where
  "login_submit f0 =
     (let normalizedEmail = js_trim (lg_email f0);
          f = f0\<lparr>lg_emailError := email_error normalizedEmail,
                 lg_passwordError := (if lg_password f0 = [] then Some (js ''Enter your password.'') else None),
                 lg_error := None\<rparr>
      in if lg_emailError f \<noteq> None \<or> lg_passwordError f \<noteq> None
         then (f, Inl (if lg_emailError f \<noteq> None then EmailField else PasswordField))
         else (f\<lparr>lg_isSubmitting := True\<rparr>,
               Inr \<lparr>login_email = normalizedEmail, login_password = lg_password f0\<rparr>))"

text \<open>After \<open>login\<close> settled: where to go, or the error.\<close>

definition login_settled ::
    "url_origin \<Rightarrow> jstr option \<Rightarrow> json option \<Rightarrow> js_error + account_user \<Rightarrow> login_page \<Rightarrow> login_page \<times> jstr option" where
  "login_settled origin_of window state result f =
     (case result of
        Inr u \<Rightarrow> (f\<lparr>lg_isSubmitting := False\<rparr>,
                  Some (case getSafeReturnTo origin_of window state of Some t \<Rightarrow> t | None \<Rightarrow> js ''/''))
      | Inl e \<Rightarrow> (f\<lparr>lg_error := Some (loginErrorMessage e), lg_isSubmitting := False\<rparr>, None))"

section \<open>Registering\<close>

definition registrationErrorMessage :: "js_error \<Rightarrow> jstr" where
  "registrationErrorMessage e =
     (case e of
        ApiRequestError m status detail \<Rightarrow>
          if status = 429 then js ''Too many attempts. Wait a moment and try again.''
          else js ''We could not complete registration or sign you in. Check your details, then try signing in if you may already have an account.''
      | _ \<Rightarrow>
          (case error_message e of
             Some m \<Rightarrow> if m \<noteq> [] then m else js ''Could not complete registration. Please try again.''
           | None \<Rightarrow> js ''Could not complete registration. Please try again.''))"

record register_page =
  rg_displayName :: jstr
  rg_email :: jstr
  rg_password :: jstr
  rg_passwordConfirmation :: jstr
  rg_showPassword :: bool
  rg_fieldErrors :: "sign_in_field \<Rightarrow> jstr option"
  rg_error :: "jstr option"
  rg_isSubmitting :: bool

definition register_initial :: register_page where
  "register_initial = \<lparr>rg_displayName = [], rg_email = [], rg_password = [], rg_passwordConfirmation = [],
     rg_showPassword = False, rg_fieldErrors = (\<lambda>_. None), rg_error = None, rg_isSubmitting = False\<rparr>"

definition clearFieldError :: "sign_in_field \<Rightarrow> register_page \<Rightarrow> register_page" where
  "clearFieldError field f = f\<lparr>rg_fieldErrors := (rg_fieldErrors f)(field := None)\<rparr>"

fun register_change :: "sign_in_field \<Rightarrow> jstr \<Rightarrow> register_page \<Rightarrow> register_page" where
  "register_change DisplayNameField v f = clearFieldError DisplayNameField (f\<lparr>rg_displayName := v\<rparr>)"
| "register_change EmailField v f = clearFieldError EmailField (f\<lparr>rg_email := v\<rparr>)"
| "register_change PasswordField v f = clearFieldError PasswordField (f\<lparr>rg_password := v\<rparr>)"
| "register_change ConfirmationField v f = clearFieldError ConfirmationField (f\<lparr>rg_passwordConfirmation := v\<rparr>)"

definition register_field_errors :: "register_page \<Rightarrow> sign_in_field \<Rightarrow> jstr option" where
  "register_field_errors f field =
     (case field of
        DisplayNameField \<Rightarrow> if js_trim (rg_displayName f) = [] then Some (js ''Enter the name you want us to show.'') else None
      | EmailField \<Rightarrow> email_error (js_trim (rg_email f))
      | PasswordField \<Rightarrow> passwordPolicyError (rg_password f)
      | ConfirmationField \<Rightarrow>
          if rg_passwordConfirmation f \<noteq> rg_password f then Some (js ''The passwords do not match.'') else None)"

definition SIGN_IN_FIELDS :: "sign_in_field list" where
  "SIGN_IN_FIELDS = [DisplayNameField, EmailField, PasswordField, ConfirmationField]"

definition register_submit :: "register_page \<Rightarrow> register_page \<times> (sign_in_field + registration_payload)" where
  "register_submit f0 =
     (let errors = register_field_errors f0;
          f = f0\<lparr>rg_fieldErrors := errors, rg_error := None\<rparr>
      in case filter (\<lambda>field. errors field \<noteq> None) SIGN_IN_FIELDS of
           field # _ \<Rightarrow> (f, Inl field)
         | [] \<Rightarrow> (f\<lparr>rg_isSubmitting := True\<rparr>,
                  Inr \<lparr>reg_email = js_trim (rg_email f0), reg_display_name = js_trim (rg_displayName f0),
                       reg_password = rg_password f0\<rparr>))"

definition register_settled :: "js_error + account_user \<Rightarrow> register_page \<Rightarrow> register_page \<times> jstr option" where
  "register_settled result f =
     (case result of
        Inr u \<Rightarrow> (f\<lparr>rg_isSubmitting := False\<rparr>, Some (js ''/onboarding/telegram''))
      | Inl e \<Rightarrow> (f\<lparr>rg_error := Some (registrationErrorMessage e), rg_isSubmitting := False\<rparr>, None))"

section \<open>Account settings\<close>

definition settings_error_text :: "js_error \<Rightarrow> jstr \<Rightarrow> jstr" where
  "settings_error_text e fallback =
     (case e of
        ApiRequestError m status detail \<Rightarrow>
          if detail = Some (js ''invalid_password'') then js ''Your current password is incorrect.''
          else error_text e fallback
      | _ \<Rightarrow> error_text e fallback)"

text \<open>
  What the page asks for: of the server, of the session provider, of the window. \<open>st_calls\<close> is the
  history of these calls, \<open>st_pending\<close> those that have not settled.
\<close>

datatype settings_call =
    FetchAccount
  | UpdateAccount jstr
  | RefreshSession
  | ChangePassword jstr jstr
  | DeleteAccount jstr
  | Logout
  | DispatchUnauthorized

record account_settings =
  st_account :: "account_user option"
  st_displayName :: jstr
  st_isLoading :: bool
  st_loadError :: "jstr option"
  st_profileError :: "jstr option"
  st_profileSuccess :: "jstr option"
  st_isSavingProfile :: bool
  st_currentPassword :: jstr
  st_newPassword :: jstr
  st_confirmPassword :: jstr
  st_passwordError :: "jstr option"
  st_passwordSuccess :: "jstr option"
  st_isChangingPassword :: bool
  st_isConfirmingDelete :: bool
  st_deletePassword :: jstr
  st_deleteConfirmation :: jstr
  st_deleteError :: "jstr option"
  st_isDeleting :: bool
  st_calls :: "settings_call list"
  st_pending :: "settings_call list"

definition settings_initial :: account_settings where
  "settings_initial =
     \<lparr>st_account = None, st_displayName = [], st_isLoading = True, st_loadError = None, st_profileError = None,
      st_profileSuccess = None, st_isSavingProfile = False, st_currentPassword = [], st_newPassword = [],
      st_confirmPassword = [], st_passwordError = None, st_passwordSuccess = None, st_isChangingPassword = False,
      st_isConfirmingDelete = False, st_deletePassword = [], st_deleteConfirmation = [], st_deleteError = None,
      st_isDeleting = False, st_calls = [], st_pending = []\<rparr>"

definition make_call :: "settings_call \<Rightarrow> account_settings \<Rightarrow> account_settings" where
  "make_call c s = s\<lparr>st_calls := st_calls s @ [c], st_pending := c # st_pending s\<rparr>"

definition loadAccount_start :: "account_settings \<Rightarrow> account_settings" where
  "loadAccount_start s = make_call FetchAccount (s\<lparr>st_isLoading := True, st_loadError := None\<rparr>)"

definition loadAccount_reply :: "bool \<Rightarrow> js_error + account_user \<Rightarrow> account_settings \<Rightarrow> account_settings" where
  "loadAccount_reply aborted result s =
     (let s = (case result of
                 Inr u \<Rightarrow> s\<lparr>st_account := Some u, st_displayName := user_display_name u\<rparr>
               | Inl e \<Rightarrow> if aborted then s
                          else s\<lparr>st_loadError := Some (settings_error_text e (js ''Could not load your account.''))\<rparr>)
      in if aborted then s else s\<lparr>st_isLoading := False\<rparr>)"

definition handleProfileSubmit_start :: "account_settings \<Rightarrow> account_settings" where
  "handleProfileSubmit_start s0 =
     (let normalizedDisplayName = js_trim (st_displayName s0);
          s = s0\<lparr>st_profileError := None, st_profileSuccess := None\<rparr>
      in if normalizedDisplayName = [] then s\<lparr>st_profileError := Some (js ''Enter your display name.'')\<rparr>
         else make_call (UpdateAccount normalizedDisplayName) (s\<lparr>st_isSavingProfile := True\<rparr>))"

definition handleProfileSubmit_saved :: "js_error + account_user \<Rightarrow> account_settings \<Rightarrow> account_settings" where
  "handleProfileSubmit_saved result s =
     (case result of
        Inr u \<Rightarrow> make_call RefreshSession
                  (s\<lparr>st_account := Some u, st_displayName := user_display_name u,
                     st_profileSuccess := Some (js ''Account details saved.'')\<rparr>)
      | Inl e \<Rightarrow> s\<lparr>st_profileError := Some (settings_error_text e (js ''Could not save your account details.'')),
                   st_isSavingProfile := False\<rparr>)"

text \<open>However \<open>refreshSession\<close> ends.\<close>

definition handleProfileSubmit_refreshed :: "account_settings \<Rightarrow> account_settings" where
  "handleProfileSubmit_refreshed s = s\<lparr>st_isSavingProfile := False\<rparr>"

definition password_change_error :: "account_settings \<Rightarrow> jstr option" where
  "password_change_error s =
     (if st_currentPassword s = [] then Some (js ''Enter your current password.'')
      else case passwordPolicyError (st_newPassword s) of
             Some policyError \<Rightarrow> Some policyError
           | None \<Rightarrow>
               if st_newPassword s \<noteq> st_confirmPassword s then Some (js ''New password and confirmation do not match.'')
               else if st_newPassword s = st_currentPassword s
               then Some (js ''Choose a password that is different from your current password.'')
               else None)"

definition handlePasswordSubmit_start :: "account_settings \<Rightarrow> account_settings" where
  "handlePasswordSubmit_start s0 =
     (let s = s0\<lparr>st_passwordError := None, st_passwordSuccess := None\<rparr>
      in case password_change_error s0 of
           Some e \<Rightarrow> s\<lparr>st_passwordError := Some e\<rparr>
         | None \<Rightarrow> make_call (ChangePassword (st_currentPassword s0) (st_newPassword s0))
                     (s\<lparr>st_isChangingPassword := True\<rparr>))"

definition handlePasswordSubmit_reply :: "js_error + unit \<Rightarrow> account_settings \<Rightarrow> account_settings" where
  "handlePasswordSubmit_reply result s =
     (case result of
        Inr _ \<Rightarrow> s\<lparr>st_currentPassword := [], st_newPassword := [], st_confirmPassword := [],
                   st_passwordSuccess := Some (js ''Password changed successfully.'')\<rparr>
      | Inl e \<Rightarrow> s\<lparr>st_passwordError := Some (settings_error_text e (js ''Could not change your password.''))\<rparr>)
     \<lparr>st_isChangingPassword := False\<rparr>"

definition handleDeleteAccount_start :: "account_settings \<Rightarrow> account_settings" where
  "handleDeleteAccount_start s =
     (if st_deletePassword s = [] then s\<lparr>st_deleteError := Some (js ''Enter your current password.'')\<rparr>
      else if st_deleteConfirmation s \<noteq> js ''DELETE''
      then s\<lparr>st_deleteError := Some (js ''Type \"DELETE\" exactly to confirm.'')\<rparr>
      else make_call (DeleteAccount (st_deletePassword s)) (s\<lparr>st_deleteError := None, st_isDeleting := True\<rparr>))"

definition handleDeleteAccount_deleted :: "js_error + unit \<Rightarrow> account_settings \<Rightarrow> account_settings" where
  "handleDeleteAccount_deleted result s =
     (case result of
        Inr _ \<Rightarrow> make_call Logout s
      | Inl e \<Rightarrow> s\<lparr>st_deleteError := Some (settings_error_text e (js ''Could not delete your account.'')),
                   st_isDeleting := False\<rparr>)"

definition handleDeleteAccount_logged_out :: "js_error + unit \<Rightarrow> account_settings \<Rightarrow> account_settings" where
  "handleDeleteAccount_logged_out result s =
     (case result of Inr _ \<Rightarrow> s | Inl e \<Rightarrow> make_call DispatchUnauthorized s)"

definition delete_password_change :: "jstr \<Rightarrow> account_settings \<Rightarrow> account_settings" where
  "delete_password_change v s = s\<lparr>st_deletePassword := v, st_deleteError := None\<rparr>"

definition delete_confirmation_change :: "jstr \<Rightarrow> account_settings \<Rightarrow> account_settings" where
  "delete_confirmation_change v s = s\<lparr>st_deleteConfirmation := v, st_deleteError := None\<rparr>"

definition cancel_delete :: "account_settings \<Rightarrow> account_settings" where
  "cancel_delete s = s\<lparr>st_isConfirmingDelete := False, st_deletePassword := [], st_deleteConfirmation := [], st_deleteError := None\<rparr>"

definition begin_delete :: "account_settings \<Rightarrow> account_settings" where
  "begin_delete s = s\<lparr>st_isConfirmingDelete := True\<rparr>"

definition delete_enabled :: "account_settings \<Rightarrow> bool" where
  "delete_enabled s \<longleftrightarrow> \<not> st_isDeleting s \<and> st_deletePassword s \<noteq> [] \<and> st_deleteConfirmation s = js ''DELETE''"

text \<open>The handler that goes on when a call settles; a failed logout leads to the event.\<close>

definition settled :: "settings_call \<Rightarrow> account_settings \<Rightarrow> account_settings" where
  "settled c s = s\<lparr>st_pending := remove1 c (st_pending s)\<rparr>"

inductive settings_step :: "account_settings \<Rightarrow> account_settings \<Rightarrow> bool" where
  retry: "\<not> st_isLoading s \<Longrightarrow> st_loadError s \<noteq> None \<or> st_account s = None \<Longrightarrow> settings_step s (loadAccount_start s)"
| loaded: "FetchAccount \<in> set (st_pending s) \<Longrightarrow> settings_step s (loadAccount_reply aborted result (settled FetchAccount s))"
| type_name: "\<not> st_isSavingProfile s \<Longrightarrow> settings_step s (s\<lparr>st_displayName := v\<rparr>)"
| submit_profile: "st_account s \<noteq> None \<Longrightarrow> \<not> st_isSavingProfile s \<Longrightarrow> settings_step s (handleProfileSubmit_start s)"
| saved: "UpdateAccount n \<in> set (st_pending s) \<Longrightarrow>
    settings_step s (handleProfileSubmit_saved result (settled (UpdateAccount n) s))"
| refreshed: "RefreshSession \<in> set (st_pending s) \<Longrightarrow> settings_step s (handleProfileSubmit_refreshed (settled RefreshSession s))"
| type_passwords: "\<not> st_isChangingPassword s \<Longrightarrow>
    settings_step s (s\<lparr>st_currentPassword := old, st_newPassword := new, st_confirmPassword := conf\<rparr>)"
| submit_password: "\<not> st_isChangingPassword s \<Longrightarrow> settings_step s (handlePasswordSubmit_start s)"
| changed: "ChangePassword old new \<in> set (st_pending s) \<Longrightarrow>
    settings_step s (handlePasswordSubmit_reply result' (settled (ChangePassword old new) s))"
| begin_delete: "\<not> st_isConfirmingDelete s \<Longrightarrow> settings_step s (begin_delete s)"
| type_delete_password: "st_isConfirmingDelete s \<Longrightarrow> \<not> st_isDeleting s \<Longrightarrow> settings_step s (delete_password_change v s)"
| type_confirmation: "st_isConfirmingDelete s \<Longrightarrow> \<not> st_isDeleting s \<Longrightarrow> settings_step s (delete_confirmation_change v s)"
| cancel: "st_isConfirmingDelete s \<Longrightarrow> \<not> st_isDeleting s \<Longrightarrow> settings_step s (cancel_delete s)"
| delete: "st_isConfirmingDelete s \<Longrightarrow> delete_enabled s \<Longrightarrow> settings_step s (handleDeleteAccount_start s)"
| deleted: "DeleteAccount pw \<in> set (st_pending s) \<Longrightarrow>
    settings_step s (handleDeleteAccount_deleted result' (settled (DeleteAccount pw) s))"
| logged_out: "Logout \<in> set (st_pending s) \<Longrightarrow> settings_step s (handleDeleteAccount_logged_out result' (settled Logout s))"

inductive_cases settings_stepE: "settings_step s s'"

inductive settings_reachable :: "account_settings \<Rightarrow> bool" where
  "settings_reachable (loadAccount_start settings_initial)"
| "settings_reachable s \<Longrightarrow> settings_step s s' \<Longrightarrow> settings_reachable s'"

section \<open>Sessions\<close>

record active_session =
  ses_id :: jstr
  ses_created_at :: jstr
  ses_last_seen_at :: jstr
  ses_expires_at :: jstr
  ses_current :: bool
  ses_user_agent :: "jstr option"
  ses_ip_address :: "jstr option"

definition sessionLabel :: "active_session \<Rightarrow> jstr" where
  "sessionLabel session =
     (if ses_current session then js ''This device''
      else case ses_user_agent session of
             Some agent \<Rightarrow> if js_trim agent \<noteq> [] then agent else js ''Unknown device''
           | None \<Rightarrow> js ''Unknown device'')"

text \<open>\<open>sn_load\<close>: a load is in flight; \<open>sn_revoke\<close>: the session whose revocation is in flight.\<close>

record sessions_page =
  sn_sessions :: "active_session list"
  sn_isLoading :: bool
  sn_loadError :: "jstr option"
  sn_actionError :: "jstr option"
  sn_revokingId :: "jstr option"
  sn_load :: bool
  sn_revoke :: "active_session option"
  sn_revoked :: "jstr list"

definition loadSessions_start :: "sessions_page \<Rightarrow> sessions_page" where
  "loadSessions_start s = s\<lparr>sn_isLoading := True, sn_loadError := None, sn_load := True\<rparr>"

definition loadSessions_reply :: "bool \<Rightarrow> js_error + active_session list \<Rightarrow> sessions_page \<Rightarrow> sessions_page" where
  "loadSessions_reply aborted result s =
     (let s = (case result of
                 Inr xs \<Rightarrow> s\<lparr>sn_sessions := xs\<rparr>
               | Inl e \<Rightarrow> if aborted then s
                          else s\<lparr>sn_loadError := Some (error_text e (js ''Could not load active sessions.''))\<rparr>)
      in if aborted then s else s\<lparr>sn_isLoading := False\<rparr>)"

definition handleRevoke_start :: "active_session \<Rightarrow> sessions_page \<Rightarrow> sessions_page" where
  "handleRevoke_start session s =
     (if ses_current session then s
      else s\<lparr>sn_actionError := None, sn_revokingId := Some (ses_id session), sn_revoke := Some session,
             sn_revoked := sn_revoked s @ [ses_id session]\<rparr>)"

definition handleRevoke_reply :: "active_session \<Rightarrow> js_error + unit \<Rightarrow> sessions_page \<Rightarrow> sessions_page" where
  "handleRevoke_reply session result s =
     (case result of
        Inr _ \<Rightarrow> s\<lparr>sn_sessions := filter (\<lambda>item. ses_id item \<noteq> ses_id session) (sn_sessions s)\<rparr>
      | Inl e \<Rightarrow> s\<lparr>sn_actionError := Some (error_text e (js ''Could not revoke that session.''))\<rparr>)
     \<lparr>sn_revokingId := None\<rparr>"

definition sessions_initial :: sessions_page where
  "sessions_initial =
     loadSessions_start \<lparr>sn_sessions = [], sn_isLoading = True, sn_loadError = None, sn_actionError = None,
       sn_revokingId = None, sn_load = False, sn_revoke = None, sn_revoked = []\<rparr>"

text \<open>
  The events of the mounted page with the conditions under which its controls are enabled: a
  refresh while nothing is under way, a retry where the error is shown, a revocation from the
  list while none is under way.
\<close>

inductive sessions_step :: "sessions_page \<Rightarrow> sessions_page \<Rightarrow> bool" where
  refresh: "\<not> sn_isLoading s \<Longrightarrow> sn_revokingId s = None \<Longrightarrow> sessions_step s (loadSessions_start s)"
| retry: "\<not> sn_isLoading s \<Longrightarrow> sn_loadError s \<noteq> None \<Longrightarrow> sessions_step s (loadSessions_start s)"
| loaded: "sn_load s \<Longrightarrow> sessions_step s (loadSessions_reply False result (s\<lparr>sn_load := False\<rparr>))"
| revoke: "\<not> sn_isLoading s \<Longrightarrow> sn_loadError s = None \<Longrightarrow> session \<in> set (sn_sessions s) \<Longrightarrow> \<not> ses_current session \<Longrightarrow>
    sn_revokingId s = None \<Longrightarrow> sessions_step s (handleRevoke_start session s)"
| revoked: "sn_revoke s = Some session \<Longrightarrow> sessions_step s (handleRevoke_reply session result (s\<lparr>sn_revoke := None\<rparr>))"

inductive_cases sessions_stepE: "sessions_step s s'"

inductive sessions_reachable :: "sessions_page \<Rightarrow> bool" where
  "sessions_reachable sessions_initial"
| "sessions_reachable s \<Longrightarrow> sessions_step s s' \<Longrightarrow> sessions_reachable s'"

section \<open>The sign-in forms\<close>

lemma split_on_single: "split_on d t = [b] \<Longrightarrow> t = b \<and> d \<notin> set b"
  by (induction t arbitrary: b) (auto split: list.splits if_splits)

lemma split_on_two: "split_on d s = [a, b] \<Longrightarrow> s = a @ d # b \<and> d \<notin> set a \<and> d \<notin> set b"
proof (induction s arbitrary: a)
  case (Cons c s)
  show ?case
  proof (cases "c = d")
    case True
    with Cons.prems have "a = []" and "split_on d s = [b]" by auto
    with True split_on_single [of d s b] show ?thesis by simp
  next
    case False
    with Cons.prems obtain w where "split_on d s = [w, b]" and "a = c # w" by (auto split: list.splits)
    with Cons.IH [of w] False show ?thesis by simp
  qed
qed simp

lemma split_on_pair: "split_on d s = [a, b] \<longleftrightarrow> s = a @ d # b \<and> d \<notin> set a \<and> d \<notin> set b"
  using split_on_two [of d s a b] by (auto simp: split_on_append split_on_no_sep)

lemma email_pattern_iff:
  "email_pattern s \<longleftrightarrow>
     (\<exists>name host tld. s = name @ [64] @ host @ [46] @ tld \<and> name \<noteq> [] \<and> host \<noteq> [] \<and> tld \<noteq> []
        \<and> (\<forall>c \<in> set (name @ host @ tld). \<not> is_ws c \<and> c \<noteq> 64))"
  (is "?L = ?R")
proof
  assume ?L
  then obtain name domain where s: "s = name @ 64 # domain" "64 \<notin> set name" "64 \<notin> set domain"
      and ws: "\<not> list_ex is_ws s" and ne: "name \<noteq> []" and dot: "46 \<in> set (butlast (drop 1 domain))"
    unfolding email_pattern_def by (auto simp: split_on_pair split: list.splits)
  from dot obtain x u where x: "domain = x # u" and "46 \<in> set (butlast u)" by (cases domain) auto
  then obtain a b where ab: "butlast u = a @ 46 # b" by (meson split_list)
  then have "u = a @ 46 # b @ [last u]" by (metis append_butlast_last_id append_Cons append_assoc butlast.simps(1) append_is_Nil_conv list.distinct(1))
  with x s have "s = name @ [64] @ (x # a) @ [46] @ (b @ [last u])" and "domain = (x # a) @ 46 # (b @ [last u])" by auto
  with s ws ne show ?R by (intro exI [of _ name] exI [of _ "x # a"] exI [of _ "b @ [last u]"]) (auto simp: list_ex_iff)
next
  assume ?R
  then obtain name host tld where s: "s = name @ [64] @ host @ [46] @ tld" and ne: "name \<noteq> []" "host \<noteq> []" "tld \<noteq> []"
      and ok: "\<forall>c \<in> set (name @ host @ tld). \<not> is_ws c \<and> c \<noteq> 64" by blast
  have "split_on 64 s = [name, host @ 46 # tld]"
    using ok by (auto simp: split_on_pair s)
  moreover have "46 \<in> set (butlast (drop 1 (host @ 46 # tld)))"
    using ne by (cases host) (auto simp: butlast_append)
  ultimately show ?L using ne ok by (auto simp: email_pattern_def s list_ex_iff is_ws_def)
qed

lemma email_error_if:
  "email_error e =
     (if email_pattern e then None
      else Some (if e = [] then js ''Enter your email address.'' else js ''Enter a valid email address.''))"
  by (auto simp: email_error_def email_pattern_def)

lemma login_submit_sends:
  "snd (login_submit f) = Inr p \<longleftrightarrow>
     email_pattern (js_trim (lg_email f)) \<and> lg_password f \<noteq> []
     \<and> p = \<lparr>login_email = js_trim (lg_email f), login_password = lg_password f\<rparr>"
  by (auto simp: login_submit_def email_error_if Let_def)

lemma register_submit_sends:
  "snd (register_submit f) = Inr p \<longleftrightarrow>
     js_trim (rg_displayName f) \<noteq> [] \<and> email_pattern (js_trim (rg_email f))
     \<and> passwordPolicyError (rg_password f) = None \<and> rg_passwordConfirmation f = rg_password f
     \<and> p = \<lparr>reg_email = js_trim (rg_email f), reg_display_name = js_trim (rg_displayName f), reg_password = rg_password f\<rparr>"
  by (auto simp: register_submit_def Let_def SIGN_IN_FIELDS_def register_field_errors_def email_error_if split: if_splits)

text \<open>
  C31: The sign-in forms ask for exactly what is valid. The login is sent if and only if the
  trimmed address has the form name@host.tld and a password is given; a registration if and only if
  also a name is given, the password has 12 to 128 bytes and is confirmed; what is sent is what
  was entered, trimmed where it is a name or an address. A refused form flags the field that
  gets the focus and is not submitted.
\<close>

theorem sign_in_forms_validate:
  defines "email_ok \<equiv> \<lambda>e. \<exists>name host tld. e = name @ [64] @ host @ [46] @ tld \<and> name \<noteq> [] \<and> host \<noteq> [] \<and> tld \<noteq> []
        \<and> (\<forall>c \<in> set (name @ host @ tld). \<not> is_ws c \<and> c \<noteq> 64)"
  shows "(snd (login_submit f) = Inr p \<longleftrightarrow>
            email_ok (js_trim (lg_email f)) \<and> lg_password f \<noteq> []
            \<and> p = \<lparr>login_email = js_trim (lg_email f), login_password = lg_password f\<rparr>)
    \<and> (\<forall>fd. snd (login_submit f) = Inl fd \<longrightarrow>
            (if fd = EmailField then lg_emailError (fst (login_submit f)) else lg_passwordError (fst (login_submit f))) \<noteq> None
            \<and> lg_isSubmitting (fst (login_submit f)) = lg_isSubmitting f)
    \<and> (snd (register_submit g) = Inr q \<longleftrightarrow>
            js_trim (rg_displayName g) \<noteq> [] \<and> email_ok (js_trim (rg_email g))
            \<and> 12 \<le> passwordByteLength (rg_password g) \<and> passwordByteLength (rg_password g) \<le> 128
            \<and> rg_passwordConfirmation g = rg_password g
            \<and> q = \<lparr>reg_email = js_trim (rg_email g), reg_display_name = js_trim (rg_displayName g),
                    reg_password = rg_password g\<rparr>)
    \<and> (\<forall>fd. snd (register_submit g) = Inl fd \<longrightarrow>
            rg_fieldErrors (fst (register_submit g)) fd \<noteq> None
            \<and> rg_isSubmitting (fst (register_submit g)) = rg_isSubmitting g)"
proof (intro conjI allI impI)
  have ok: "email_ok e \<longleftrightarrow> email_pattern e" for e by (simp only: email_ok_def email_pattern_iff)
  show "snd (login_submit f) = Inr p \<longleftrightarrow> email_ok (js_trim (lg_email f)) \<and> lg_password f \<noteq> []
            \<and> p = \<lparr>login_email = js_trim (lg_email f), login_password = lg_password f\<rparr>"
    unfolding ok by (rule login_submit_sends)
  show "snd (register_submit g) = Inr q \<longleftrightarrow>
            js_trim (rg_displayName g) \<noteq> [] \<and> email_ok (js_trim (rg_email g))
            \<and> 12 \<le> passwordByteLength (rg_password g) \<and> passwordByteLength (rg_password g) \<le> 128
            \<and> rg_passwordConfirmation g = rg_password g
            \<and> q = \<lparr>reg_email = js_trim (rg_email g), reg_display_name = js_trim (rg_displayName g),
                    reg_password = rg_password g\<rparr>"
    unfolding ok register_submit_sends passwordPolicyError_None_iff by blast
next
  fix fd
  assume *: "snd (login_submit f) = Inl fd"
  then show "(if fd = EmailField then lg_emailError (fst (login_submit f)) else lg_passwordError (fst (login_submit f))) \<noteq> None"
    by (auto simp: login_submit_def Let_def split: if_splits)
  show "lg_isSubmitting (fst (login_submit f)) = lg_isSubmitting f"
    using * by (auto simp: login_submit_def Let_def split: if_splits)
next
  fix fd
  assume *: "snd (register_submit g) = Inl fd"
  then show "rg_fieldErrors (fst (register_submit g)) fd \<noteq> None"
    by (auto simp: register_submit_def Let_def SIGN_IN_FIELDS_def split: if_splits)
  show "rg_isSubmitting (fst (register_submit g)) = rg_isSubmitting g"
    using * by (auto simp: register_submit_def Let_def split: list.splits)
qed

theorem sign_in_forms_validate_witness:
  "rg_fieldErrors (fst (register_submit register_initial)) DisplayNameField \<noteq> None"
proof -
  have "snd (register_submit register_initial) = Inl DisplayNameField"
    by (simp add: register_submit_def Let_def SIGN_IN_FIELDS_def register_initial_def register_field_errors_def js_trim_def js_trim_end_def)
  then show ?thesis using sign_in_forms_validate [of undefined undefined register_initial undefined] by blast
qed

section \<open>The settings page\<close>

fun profile_call :: "settings_call \<Rightarrow> bool" where
  "profile_call (UpdateAccount n) = True"
| "profile_call RefreshSession = True"
| "profile_call _ = False"

fun password_call :: "settings_call \<Rightarrow> bool" where
  "password_call (ChangePassword old new) = True"
| "password_call _ = False"

fun delete_call :: "settings_call \<Rightarrow> bool" where
  "delete_call (DeleteAccount pw) = True"
| "delete_call Logout = True"
| "delete_call _ = False"

abbreviation running :: "(settings_call \<Rightarrow> bool) \<Rightarrow> account_settings \<Rightarrow> nat" where
  "running P s \<equiv> length (filter P (st_pending s))"

text \<open>
  A form is busy exactly while its call runs; the deletion stays busy once the account is gone,
  and until then holds the one call that ends it. Stated over the fields involved: the pending
  calls, the history, and the three flags.
\<close>

definition flags_ok :: "settings_call list \<Rightarrow> settings_call list \<Rightarrow> bool \<Rightarrow> bool \<Rightarrow> bool \<Rightarrow> bool" where
  "flags_ok ps cs saving changing deleting \<longleftrightarrow>
     set ps \<subseteq> set cs \<and>
     length (filter profile_call ps) = (if saving then 1 else 0) \<and>
     length (filter password_call ps) = (if changing then 1 else 0) \<and>
     length (filter delete_call ps) \<le> (if deleting then 1 else 0) \<and>
     (deleting \<longrightarrow> length (filter delete_call ps) = 1 \<or> Logout \<in> set cs)"

definition settings_ok :: "account_settings \<Rightarrow> bool" where
  "settings_ok s \<longleftrightarrow>
     flags_ok (st_pending s) (st_calls s) (st_isSavingProfile s) (st_isChangingPassword s) (st_isDeleting s)"

lemma pending_running: "c \<in> set xs \<Longrightarrow> P c \<Longrightarrow> 0 < length (filter P xs)"
  by (auto simp: filter_empty_conv)

lemma length_filter_settled:
  "c \<in> set ps \<Longrightarrow> length (filter P (remove1 c ps)) = length (filter P ps) - of_bool (P c)"
  using length_filter_remove1 [of c ps P] by (cases "P c") auto

lemma flags_call:
  "flags_ok ps cs a b d \<Longrightarrow> \<not> profile_call c \<Longrightarrow> \<not> password_call c \<Longrightarrow> \<not> delete_call c \<Longrightarrow> flags_ok (c # ps) (cs @ [c]) a b d"
  unfolding flags_ok_def by (simp add: subset_insertI2) blast

lemma flags_begin:
  "flags_ok ps cs False b d \<Longrightarrow> flags_ok (UpdateAccount n # ps) (cs @ [UpdateAccount n]) True b d"
  "flags_ok ps cs a False d \<Longrightarrow> flags_ok (ChangePassword x y # ps) (cs @ [ChangePassword x y]) a True d"
  "flags_ok ps cs a b False \<Longrightarrow> flags_ok (DeleteAccount pw # ps) (cs @ [DeleteAccount pw]) a b True"
  unfolding flags_ok_def by (simp_all add: subset_insertI2)

lemma remove1_sub: "set xs \<subseteq> A \<Longrightarrow> set (remove1 c xs) \<subseteq> A"
  using set_remove1_subset by (rule subset_trans)

lemma flags_end_fetch: "FetchAccount \<in> set ps \<Longrightarrow> flags_ok ps cs a b d \<Longrightarrow> flags_ok (remove1 FetchAccount ps) cs a b d"
  unfolding flags_ok_def by (simp add: length_filter_settled remove1_sub subset_insertI2)

lemma flags_end_profile:
  assumes "c \<in> set ps" and "profile_call c" and "flags_ok ps cs a b d"
  shows "flags_ok (remove1 c ps) cs False b d"
    and "flags_ok (RefreshSession # remove1 c ps) (cs @ [RefreshSession]) a b d"
proof -
  have other: "\<not> password_call c" "\<not> delete_call c" using assms(2) by (cases c; simp)+
  have a using assms pending_running [of c ps profile_call] by (cases a) (simp_all add: flags_ok_def)
  with assms other show "flags_ok (remove1 c ps) cs False b d"
    unfolding flags_ok_def by (simp add: length_filter_settled remove1_sub subset_insertI2)
  from assms other \<open>a\<close> show "flags_ok (RefreshSession # remove1 c ps) (cs @ [RefreshSession]) a b d"
    unfolding flags_ok_def by (simp add: length_filter_settled remove1_sub subset_insertI2)
qed

lemma flags_end_password:
  assumes "ChangePassword x y \<in> set ps" and "flags_ok ps cs a b d"
  shows "flags_ok (remove1 (ChangePassword x y) ps) cs a False d"
proof -
  have b using assms pending_running [of "ChangePassword x y" ps password_call] by (cases b) (simp_all add: flags_ok_def)
  with assms show ?thesis unfolding flags_ok_def by (simp add: length_filter_settled remove1_sub)
qed

lemma flags_end_delete:
  assumes "c \<in> set ps" and "delete_call c" and "flags_ok ps cs a b d"
  shows "flags_ok (remove1 c ps) cs a b False"
    and "flags_ok (Logout # remove1 c ps) (cs @ [Logout]) a b d"
    and "c = Logout \<Longrightarrow> flags_ok (remove1 c ps) cs a b d"
proof -
  have other: "\<not> password_call c" "\<not> profile_call c" using assms(2) by (cases c; simp)+
  have d and one: "length (filter delete_call ps) = 1"
    using assms pending_running [of c ps delete_call] by (cases d; simp add: flags_ok_def; linarith)+
  have sub: "set (remove1 c ps) \<subseteq> set cs" using assms(3) by (simp add: flags_ok_def remove1_sub)
  have zero: "length (filter delete_call (remove1 c ps)) = 0"
    and rest: "length (filter profile_call (remove1 c ps)) = (if a then 1 else 0)"
      "length (filter password_call (remove1 c ps)) = (if b then 1 else 0)"
    using assms one other by (simp_all add: length_filter_settled flags_ok_def)
  show "flags_ok (remove1 c ps) cs a b False" using sub zero rest by (simp add: flags_ok_def)
  show "flags_ok (Logout # remove1 c ps) (cs @ [Logout]) a b d"
    using sub zero rest \<open>d\<close> by (simp add: flags_ok_def subset_insertI2)
  assume "c = Logout"
  then have "Logout \<in> set cs" using assms(1,3) by (auto simp: flags_ok_def)
  then show "flags_ok (remove1 c ps) cs a b d" using sub zero rest by (simp add: flags_ok_def)
qed

lemmas settings_handlers =
  loadAccount_start_def loadAccount_reply_def handleProfileSubmit_start_def handleProfileSubmit_saved_def
  handleProfileSubmit_refreshed_def handlePasswordSubmit_start_def handlePasswordSubmit_reply_def
  handleDeleteAccount_start_def handleDeleteAccount_deleted_def handleDeleteAccount_logged_out_def
  begin_delete_def delete_password_change_def delete_confirmation_change_def cancel_delete_def
  make_call_def settled_def

lemma settings_ok_step:
  assumes "settings_step s s'" and "settings_ok s"
  shows "settings_ok s'"
  using assms(1)
proof cases
  case (saved n result)
  with assms(2) flags_end_profile [of "UpdateAccount n" "st_pending s"] show ?thesis
    by (cases result) (simp_all add: settings_ok_def settings_handlers)
next
  case refreshed
  with assms(2) flags_end_profile [of RefreshSession "st_pending s"] show ?thesis
    by (simp add: settings_ok_def settings_handlers)
next
  case (deleted pw result')
  with assms(2) flags_end_delete [of "DeleteAccount pw" "st_pending s"] show ?thesis
    by (cases result') (simp_all add: settings_ok_def settings_handlers)
next
  case (logged_out result')
  with assms(2) flags_end_delete(3) [of Logout "st_pending s"] show ?thesis
    by (cases result') (simp_all add: settings_ok_def settings_handlers flags_call)
next
  case (changed old new result')
  with assms(2) flags_end_password show ?thesis
    by (cases result') (simp_all add: settings_ok_def settings_handlers)
next
  case (loaded aborted result)
  with assms(2) flags_end_fetch show ?thesis
    by (cases result; cases aborted) (simp_all add: settings_ok_def settings_handlers)
next
  case submit_password
  with assms(2) show ?thesis
    by (simp add: settings_ok_def settings_handlers flags_begin Let_def split: option.split)
qed (use assms(2) in \<open>simp_all add: settings_ok_def settings_handlers flags_call flags_begin delete_enabled_def Let_def\<close>)

lemma settings_ok_reachable: "settings_reachable s \<Longrightarrow> settings_ok s"
  by (induction rule: settings_reachable.induct)
    (simp add: settings_ok_def flags_ok_def settings_handlers settings_initial_def, rule settings_ok_step)

text \<open>What justifies a call in a state.\<close>

fun asked :: "account_settings \<Rightarrow> settings_call \<Rightarrow> bool" where
  "asked s FetchAccount = (\<not> st_isLoading s)"
| "asked s (UpdateAccount n) = (n = js_trim (st_displayName s) \<and> n \<noteq> [] \<and> running profile_call s = 0)"
| "asked s RefreshSession = (\<exists>n. UpdateAccount n \<in> set (st_pending s))"
| "asked s (ChangePassword old new) =
     (old = st_currentPassword s \<and> new = st_newPassword s \<and> new = st_confirmPassword s \<and> old \<noteq> [] \<and> new \<noteq> old
      \<and> 12 \<le> passwordByteLength new \<and> passwordByteLength new \<le> 128 \<and> running password_call s = 0)"
| "asked s (DeleteAccount pw) =
     (st_isConfirmingDelete s \<and> pw = st_deletePassword s \<and> pw \<noteq> [] \<and> st_deleteConfirmation s = js ''DELETE''
      \<and> running delete_call s = 0)"
| "asked s Logout = (\<exists>pw. DeleteAccount pw \<in> set (st_pending s))"
| "asked s DispatchUnauthorized = (Logout \<in> set (st_pending s))"

lemma settings_call_justified:
  assumes "settings_reachable s" and "settings_step s s'"
  shows "st_calls s' = st_calls s \<or> (\<exists>c. st_calls s' = st_calls s @ [c] \<and> asked s c)"
proof -
  have idle: "\<not> st_isSavingProfile s \<Longrightarrow> running profile_call s = 0" "\<not> st_isChangingPassword s \<Longrightarrow> running password_call s = 0"
      "\<not> st_isDeleting s \<Longrightarrow> running delete_call s = 0"
    using settings_ok_reachable [OF assms(1)] by (simp_all add: settings_ok_def flags_ok_def)
  show ?thesis using assms(2)
  proof cases
    case submit_password
    then show ?thesis
      using idle passwordPolicyError_None_iff [of "st_newPassword s"]
      by (auto simp: settings_handlers password_change_error_def Let_def split: option.splits if_splits)
  qed (use idle in \<open>auto simp: settings_handlers delete_enabled_def Let_def split: sum.splits\<close>)
qed

text \<open>
  The settings page asks only for what was entered and confirmed, once at a time: a step
  makes at most one call; a new password is 12 to 128 bytes, confirmed and different from the
  old one; the account is deleted only in the opened dialog with a password and the word
  DELETE; the logout follows a deletion and the forced sign-out a failed logout; and no call
  of a form is made while one of that form is running.
\<close>

theorem settings_calls_asked:
  assumes "settings_reachable s" and "settings_step s s'"
  shows "st_calls s' = st_calls s \<or> (\<exists>c. st_calls s' = st_calls s @ [c] \<and> asked s c)"
  using assms by (rule settings_call_justified)

theorem settings_calls_asked_witness:
  "st_calls (handlePasswordSubmit_start (loadAccount_start settings_initial)) = [FetchAccount]
   \<or> (\<exists>c. st_calls (handlePasswordSubmit_start (loadAccount_start settings_initial)) = [FetchAccount, c])"
proof -
  have "settings_step (loadAccount_start settings_initial) (handlePasswordSubmit_start (loadAccount_start settings_initial))"
    by (rule settings_step.submit_password) (simp add: settings_handlers settings_initial_def)
  moreover have "st_calls (loadAccount_start settings_initial) = [FetchAccount]"
    by (simp add: settings_handlers settings_initial_def)
  ultimately show ?thesis
    using settings_calls_asked [OF settings_reachable.intros(1)] by fastforce
qed

text \<open>
  Deleting the account always ends the session on this page: whatever session state the
  provider is in when the account is gone and however the logout that follows ends, the page is
  signed out afterwards, by the logout or, if it fails, by the event the page dispatches.
\<close>

theorem deleted_account_signed_out:
  assumes "auth_reachable a" and "s' = handleDeleteAccount_logged_out result s"
    and "a' = (if DispatchUnauthorized \<in> set (drop (length (st_calls s)) (st_calls s'))
               then auth_step (snd (logout_reply result a)) UnauthorizedEvent else snd (logout_reply result a))"
  shows "au_status a' = Anonymous \<and> au_user a' = None"
proof (cases result)
  case (Inl e)
  then have "a' = auth_step a UnauthorizedEvent"
    using assms(2,3) by (simp add: handleDeleteAccount_logged_out_def make_call_def logout_reply_def)
  then show ?thesis using unauthorized_signs_out [OF assms(1)] by simp
next
  case (Inr u)
  then have "a' = snd (logout_reply (Inr u) a)"
    using assms(2,3) by (simp add: handleDeleteAccount_logged_out_def)
  moreover have "identity_ok a" by (rule identity_ok_reachable [OF assms(1)])
  ultimately show ?thesis
    by (auto simp: logout_reply_def clearIdentity_def broadcastAuthChange_def identity_ok_def Let_def)
qed

theorem deleted_account_signed_out_witness:
  "au_status (auth_step (auth_initial ui_initial) UnauthorizedEvent) = Anonymous"
proof -
  have "auth_reachable (auth_initial ui_initial)" by (rule auth_reachable.intros)
  from deleted_account_signed_out [OF this refl refl, where result = "Inl NonError" and s = settings_initial]
  show ?thesis
    by (simp add: handleDeleteAccount_logged_out_def make_call_def logout_reply_def)
qed

section \<open>The sessions page\<close>

definition sessions_ok :: "sessions_page \<Rightarrow> bool" where
  "sessions_ok s \<longleftrightarrow>
     sn_isLoading s = sn_load s \<and> sn_revokingId s = map_option ses_id (sn_revoke s) \<and>
     (sn_load s \<longrightarrow> sn_revoke s = None) \<and> (sn_loadError s \<noteq> None \<longrightarrow> sn_revoke s = None) \<and>
     (\<forall>session. sn_revoke s = Some session \<longrightarrow> \<not> ses_current session)"

lemma sessions_ok_step: "sessions_step s s' \<Longrightarrow> sessions_ok s \<Longrightarrow> sessions_ok s'"
  by (erule sessions_stepE)
    (auto simp: sessions_ok_def loadSessions_start_def loadSessions_reply_def handleRevoke_start_def handleRevoke_reply_def
      split: sum.splits)

lemma sessions_ok_reachable: "sessions_reachable s \<Longrightarrow> sessions_ok s"
  by (induction rule: sessions_reachable.induct)
    (simp add: sessions_ok_def sessions_initial_def loadSessions_start_def, rule sessions_ok_step)

text \<open>
  Revoking is exact and exclusive: in every reachable state no load runs during a
  revocation, only a session other than the current one is being revoked, its answer frees the
  page, removes exactly that session on success and nothing on failure.
\<close>

theorem revoking_exact:
  assumes "sessions_reachable s" and "sn_revoke s = Some session" and "s' = handleRevoke_reply session result (s\<lparr>sn_revoke := None\<rparr>)"
  shows "\<not> sn_load s \<and> \<not> ses_current session \<and> sn_revokingId s = Some (ses_id session)
    \<and> sn_revokingId s' = None \<and> \<not> sn_isLoading s'
    \<and> (case result of
         Inr _ \<Rightarrow> sn_sessions s' = filter (\<lambda>x. ses_id x \<noteq> ses_id session) (sn_sessions s)
       | Inl e \<Rightarrow> sn_sessions s' = sn_sessions s \<and> sn_actionError s' \<noteq> None)"
  using sessions_ok_reachable [OF assms(1)] assms(2,3)
  by (auto simp: sessions_ok_def handleRevoke_reply_def split: sum.split)

theorem revoking_exact_witness:
  "\<exists>s. sn_revoke s \<noteq> None \<and> sn_sessions (handleRevoke_reply
       \<lparr>ses_id = js ''b'', ses_created_at = [], ses_last_seen_at = [], ses_expires_at = [], ses_current = False,
        ses_user_agent = None, ses_ip_address = None\<rparr> (Inr ()) (s\<lparr>sn_revoke := None\<rparr>)) = []"
proof -
  define b where "b = \<lparr>ses_id = js ''b'', ses_created_at = [], ses_last_seen_at = [], ses_expires_at = [], ses_current = False,
        ses_user_agent = None, ses_ip_address = None\<rparr>"
  define s1 where "s1 = loadSessions_reply False (Inr [b]) (sessions_initial\<lparr>sn_load := False\<rparr>)"
  define s2 where "s2 = handleRevoke_start b s1"
  have "sessions_step sessions_initial s1"
    unfolding s1_def by (rule sessions_step.loaded) (simp add: sessions_initial_def loadSessions_start_def)
  moreover have "sessions_step s1 s2"
    unfolding s2_def
    by (rule sessions_step.revoke)
      (simp_all add: s1_def b_def loadSessions_reply_def sessions_initial_def loadSessions_start_def)
  ultimately have "sessions_reachable s2" by (meson sessions_reachable.intros)
  moreover have rev: "sn_revoke s2 = Some b" "sn_sessions s2 = [b]"
    by (simp_all add: s2_def s1_def b_def handleRevoke_start_def loadSessions_reply_def sessions_initial_def loadSessions_start_def)
  ultimately have "sn_sessions (handleRevoke_reply b (Inr ()) (s2\<lparr>sn_revoke := None\<rparr>)) = []"
    using revoking_exact [of s2 b _ "Inr ()"] by simp
  with rev show ?thesis unfolding b_def by blast
qed

end
