(* ===== verification/Markup.thy ===== *)
theory Markup
  imports Prelude
begin

text \<open>
  What a component renders: a tree of elements with their attributes and the actions their
  handlers start. Class names, icons and animation are left out; an element of a library (a
  router \<open>Link\<close>) is an element with that name. With the tree come the questions that are asked of
  every page: which actions its enabled controls offer, whether each control has a name, whether
  each id that is referred to exists, and where links lead.
\<close>

section \<open>Trees\<close>

type_synonym attrs = "(string \<times> jstr) list"

datatype 'a html =
    Txt jstr
  | El string attrs "(string \<times> (jstr \<Rightarrow> 'a)) list" "'a html list"

text \<open>Attributes as React writes them: a flag that is false and a value that is \<open>undefined\<close> are left out.\<close>

definition flag :: "string \<Rightarrow> bool \<Rightarrow> attrs" where
  "flag n b = (if b then [(n, [])] else [])"

definition bool_attr :: "string \<Rightarrow> bool \<Rightarrow> attrs" where
  "bool_attr n b = [(n, if b then js ''true'' else js ''false'')]"

definition true_or_absent :: "string \<Rightarrow> bool \<Rightarrow> attrs" where
  "true_or_absent n b = (if b then [(n, js ''true'')] else [])"

definition opt_attr :: "string \<Rightarrow> jstr option \<Rightarrow> attrs" where
  "opt_attr n v = (case v of Some t \<Rightarrow> [(n, t)] | None \<Rightarrow> [])"

definition on :: "string \<Rightarrow> 'a \<Rightarrow> string \<times> (jstr \<Rightarrow> 'a)" where
  "on event act = (event, \<lambda>_. act)"

text \<open>\<open>{text ? <E/> : null}\<close>: \<open>null\<close> and the empty text are false.\<close>

definition shown :: "jstr option \<Rightarrow> (jstr \<Rightarrow> 'a html list) \<Rightarrow> 'a html list" where
  "shown v f = (case v of Some t \<Rightarrow> if t \<noteq> [] then f t else [] | None \<Rightarrow> [])"

text \<open>A text used as a condition; the character for an ellipsis.\<close>

definition is_set :: "jstr option \<Rightarrow> bool" where
  "is_set v \<longleftrightarrow> (case v of Some t \<Rightarrow> t \<noteq> [] | None \<Rightarrow> False)"

definition ellipsis :: jstr where
  "ellipsis = [8230]"

section \<open>Elements every page uses\<close>

text \<open>\<open>components/ui/button.tsx\<close>: \<open>None\<close> is a \<open>type\<close> not given.\<close>

definition Button :: "jstr option \<Rightarrow> attrs \<Rightarrow> (string \<times> (jstr \<Rightarrow> 'a)) list \<Rightarrow> 'a html list \<Rightarrow> 'a html" where
  "Button typ props handlers children =
     El ''button'' ((''type'', case typ of Some t \<Rightarrow> t | None \<Rightarrow> js ''button'') # props) handlers children"

text \<open>\<open>components/ui/state-panel.tsx\<close>\<close>

datatype state_tone = DefaultTone | SuccessTone | WarningTone | ErrorTone

definition StatePanel :: "state_tone \<Rightarrow> jstr \<Rightarrow> jstr option \<Rightarrow> 'a html option \<Rightarrow> 'a html" where
  "StatePanel tone title description action =
     El ''div''
       [(''role'', if tone = ErrorTone then js ''alert'' else js ''status''),
        (''aria-live'', if tone = ErrorTone then js ''assertive'' else js ''polite'')] []
       ([El ''p'' [] [] [El ''span'' [] [] [Txt title]]]
        @ shown description (\<lambda>d. [El ''p'' [] [] [Txt d]])
        @ (case action of Some a \<Rightarrow> [El ''div'' [] [] [a]] | None \<Rightarrow> []))"

definition paragraph_list :: "jstr \<Rightarrow> 'a html list" where
  "paragraph_list t = [El ''p'' [] [] [Txt t]]"

definition detail_pair :: "jstr \<Rightarrow> jstr \<Rightarrow> 'a html" where
  "detail_pair term content = El ''div'' [] [] [El ''dt'' [] [] [Txt term], El ''dd'' [] [] [Txt content]]"

text \<open>A \<open>select\<close> with its options (value, label and what choosing it starts).\<close>

definition select_element :: "attrs \<Rightarrow> (jstr \<times> jstr \<times> 'a) list \<Rightarrow> 'a html" where
  "select_element as options =
     El ''select'' as (map (\<lambda>(v, l, a). on ''change'' a) options) (map (\<lambda>(v, l, a). El ''option'' [(''value'', v)] [] [Txt l]) options)"

text \<open>
  The frame of the modal dialogs: a backdrop that closes, and the dialog, both rendered into the
  body of the document (\<open>components/ui/modal-portal.tsx\<close>).
\<close>

definition modal_frame :: "'a \<Rightarrow> attrs \<Rightarrow> 'a html list \<Rightarrow> 'a html list" where
  "modal_frame close as cs =
     [El ''div'' [(''role'', js ''presentation'')] []
        [El ''div'' [(''aria-hidden'', js ''true'')] [on ''click'' close] [],
         El ''div'' ([(''role'', js ''dialog''), (''aria-modal'', js ''true'')] @ as) [] cs]]"

section \<open>What a page offers\<close>

definition has_attr :: "string \<Rightarrow> attrs \<Rightarrow> bool" where
  "has_attr n as \<longleftrightarrow> n \<in> fst ` set as"

definition attr :: "attrs \<Rightarrow> string \<Rightarrow> jstr option" where
  "attr as n = map_of as n"

text \<open>A form is submitted through a submit button that is enabled, by a click or by the Enter key.\<close>

primrec has_submit :: "'a html \<Rightarrow> bool" and has_submit_list :: "'a html list \<Rightarrow> bool" where
  "has_submit (Txt t) = False"
| "has_submit (El tag as hs cs) =
     (tag = ''button'' \<and> attr as ''type'' = Some (js ''submit'') \<and> \<not> has_attr ''disabled'' as \<or> has_submit_list cs)"
| "has_submit_list [] = False"
| "has_submit_list (c # cs) = (has_submit c \<or> has_submit_list cs)"

text \<open>
  The actions a user can start: those of the handlers of every element that is not disabled, with
  any text typed into it, and is not within an inert one.
\<close>

definition own_acts :: "attrs \<Rightarrow> (string \<times> (jstr \<Rightarrow> 'a)) list \<Rightarrow> bool \<Rightarrow> 'a set" where
  "own_acts as hs submits =
     (if has_attr ''disabled'' as then {}
      else \<Union> ((\<lambda>h. if fst h = ''submit'' \<and> \<not> submits then {} else range (snd h)) ` set hs))"

primrec acts :: "'a html \<Rightarrow> 'a set" and acts_list :: "'a html list \<Rightarrow> 'a set" where
  "acts (Txt t) = {}"
| "acts (El tag as hs cs) =
     (if has_attr ''inert'' as then {} else own_acts as hs (has_submit_list cs) \<union> acts_list cs)"
| "acts_list [] = {}"
| "acts_list (c # cs) = acts c \<union> acts_list cs"

lemma acts_list_append [simp]: "acts_list (xs @ ys) = acts_list xs \<union> acts_list ys"
  by (induction xs) auto

lemma acts_list_eq: "acts_list cs = \<Union> (acts ` set cs)"
  by (induction cs) auto

lemma acts_list_map [simp]: "acts_list (map f xs) = (\<Union>x \<in> set xs. acts (f x))"
  by (induction xs) auto

lemma has_submit_list_map [simp]: "has_submit_list (map f xs) \<longleftrightarrow> (\<exists>x \<in> set xs. has_submit (f x))"
  by (induction xs) auto

lemma has_submit_append [simp]: "has_submit_list (xs @ ys) \<longleftrightarrow> has_submit_list xs \<or> has_submit_list ys"
  by (induction xs) auto

lemma has_submit_list_iff: "has_submit_list cs \<longleftrightarrow> (\<exists>c \<in> set cs. has_submit c)"
  by (induction cs) auto

lemma in_acts_if [simp]:
  "a \<in> acts_list (if b then xs else ys) \<longleftrightarrow> (if b then a \<in> acts_list xs else a \<in> acts_list ys)"
  by simp

lemma acts_shown [simp]: "(\<And>t. acts_list (f t) = {}) \<Longrightarrow> acts_list (shown v f) = {}"
  by (simp add: shown_def split: option.split)

lemma no_submit_shown [simp]: "(\<And>t. \<not> has_submit_list (f t)) \<Longrightarrow> \<not> has_submit_list (shown v f)"
  by (simp add: shown_def split: option.split)

lemma acts_StatePanel [simp]:
  "acts (StatePanel tone title description action) = (case action of Some a \<Rightarrow> acts a | None \<Rightarrow> {})"
  by (simp add: StatePanel_def own_acts_def has_attr_def split: option.split)

lemma has_submit_StatePanel [simp]:
  "has_submit (StatePanel tone title description action) \<longleftrightarrow> (case action of Some a \<Rightarrow> has_submit a | None \<Rightarrow> False)"
  by (simp add: StatePanel_def split: option.split)

lemma has_attr_simps [simp]:
  "\<not> has_attr n []" "has_attr n ((m, v) # as) \<longleftrightarrow> m = n \<or> has_attr n as"
  "has_attr n (as @ bs) \<longleftrightarrow> has_attr n as \<or> has_attr n bs"
  "has_attr n (flag m b) \<longleftrightarrow> b \<and> m = n"
  "has_attr n (bool_attr m b) \<longleftrightarrow> m = n"
  "has_attr n (true_or_absent m b) \<longleftrightarrow> b \<and> m = n"
  "has_attr n (opt_attr m w) \<longleftrightarrow> w \<noteq> None \<and> m = n"
  by (auto simp: has_attr_def flag_def bool_attr_def true_or_absent_def opt_attr_def split: option.splits)

lemma own_acts_simps [simp]:
  "own_acts as [] b = {}"
  "own_acts as ((e, f) # hs) b =
     (if has_attr ''disabled'' as then {} else (if e = ''submit'' \<and> \<not> b then {} else range f) \<union> own_acts as hs b)"
  "own_acts as (on e act # hs) b =
     (if has_attr ''disabled'' as then {} else (if e = ''submit'' \<and> \<not> b then {} else {act}) \<union> own_acts as hs b)"
  by (auto simp: own_acts_def on_def)

lemma acts_Button [simp]:
  "acts (Button typ props hs cs) =
     (if has_attr ''inert'' props then {} else own_acts props hs (has_submit_list cs) \<union> acts_list cs)"
  by (simp add: Button_def own_acts_def)

lemma has_submit_Button [simp]:
  "has_submit (Button typ props hs cs) \<longleftrightarrow>
     typ = Some (js ''submit'') \<and> \<not> has_attr ''disabled'' props \<or> has_submit_list cs"
  by (auto simp: Button_def attr_def split: option.splits)

lemma paragraph_facts [simp]: "acts_list (paragraph_list t) = {}" "\<not> has_submit_list (paragraph_list t)"
  by (simp_all add: paragraph_list_def)

lemma detail_pair_facts [simp]: "acts (detail_pair t c) = {}" "\<not> has_submit (detail_pair t c)"
  by (simp_all add: detail_pair_def)

lemma select_element_eq:
  "select_element as options =
     El ''select'' as (map (\<lambda>x. on ''change'' (snd (snd x))) options)
       (map (\<lambda>x. El ''option'' [(''value'', fst x)] [] [Txt (fst (snd x))]) options)"
  by (simp add: select_element_def case_prod_beta')

lemma select_acts [simp]:
  "acts (select_element as options) = (if has_attr ''inert'' as \<or> has_attr ''disabled'' as then {} else (snd \<circ> snd) ` set options)"
  "\<not> has_submit (select_element as options)"
proof -
  have "own_acts as (map (\<lambda>x. on ''change'' (snd (snd x))) options) b = (if has_attr ''disabled'' as then {} else (snd \<circ> snd) ` set options)" for b
    by (induction options) simp_all
  then show "acts (select_element as options) = (if has_attr ''inert'' as \<or> has_attr ''disabled'' as then {} else (snd \<circ> snd) ` set options)"
    by (simp add: select_element_eq)
  show "\<not> has_submit (select_element as options)" by (simp add: select_element_eq)
qed

section \<open>Names, ids and links\<close>

text \<open>
  The text of a tree; the accessible name of an element: its label, or for a button or link its
  text. An input also gets its name from the label around it or from one that refers to it.
\<close>

definition nonblank :: "jstr \<Rightarrow> bool" where
  "nonblank t \<longleftrightarrow> list_ex (\<lambda>c. \<not> is_ws c) t"

lemma nonblank_iff: "nonblank t \<longleftrightarrow> (\<exists>c \<in> set t. \<not> is_ws c)"
  by (simp add: nonblank_def list_ex_iff)

lemma nonblank_append [simp]: "nonblank (s @ t) \<longleftrightarrow> nonblank s \<or> nonblank t"
  by (auto simp: nonblank_iff)

lemma nonblank_js [simp]: "\<not> is_ws (of_char c) \<Longrightarrow> nonblank (js (c # cs))"
  by (simp add: nonblank_iff js_Cons)

lemma not_nonblank_Nil [simp]: "\<not> nonblank []"
  by (simp add: nonblank_iff)

primrec text_of :: "'a html \<Rightarrow> jstr" and text_of_list :: "'a html list \<Rightarrow> jstr" where
  "text_of (Txt t) = t"
| "text_of (El tag as hs cs) = text_of_list cs"
| "text_of_list [] = []"
| "text_of_list (c # cs) = text_of c @ text_of_list cs"

primrec labelled_ids :: "'a html \<Rightarrow> jstr set" and labelled_ids_list :: "'a html list \<Rightarrow> jstr set" where
  "labelled_ids (Txt t) = {}"
| "labelled_ids (El tag as hs cs) =
     (if tag = ''label'' \<and> nonblank (text_of_list cs) then set_option (attr as ''for'') else {}) \<union> labelled_ids_list cs"
| "labelled_ids_list [] = {}"
| "labelled_ids_list (c # cs) = labelled_ids c \<union> labelled_ids_list cs"

definition has_label_attr :: "attrs \<Rightarrow> bool" where
  "has_label_attr as \<longleftrightarrow> (case attr as ''aria-label'' of Some t \<Rightarrow> nonblank t | None \<Rightarrow> False)"

text \<open>\<open>ids\<close>: the ids that have a label; \<open>inside\<close>: whether a label with text is around.\<close>

primrec named :: "jstr set \<Rightarrow> bool \<Rightarrow> 'a html \<Rightarrow> bool" and named_list :: "jstr set \<Rightarrow> bool \<Rightarrow> 'a html list \<Rightarrow> bool" where
  "named ids inside (Txt t) = True"
| "named ids inside (El tag as hs cs) =
     ((tag \<in> {''button'', ''a'', ''Link'', ''NavLink''} \<longrightarrow> has_label_attr as \<or> nonblank (text_of_list cs))
      \<and> (tag \<in> {''input'', ''select'', ''textarea''} \<longrightarrow>
           has_label_attr as \<or> inside \<or> (\<exists>i \<in> set_option (attr as ''id''). i \<in> ids))
      \<and> named_list ids (inside \<or> tag = ''label'' \<and> nonblank (text_of_list cs)) cs)"
| "named_list ids inside [] = True"
| "named_list ids inside (c # cs) = (named ids inside c \<and> named_list ids inside cs)"

definition controls_named :: "'a html list \<Rightarrow> bool" where
  "controls_named vs \<longleftrightarrow> named_list (labelled_ids_list vs) False vs"

text \<open>The elements of a tree.\<close>

primrec elements :: "'a html \<Rightarrow> (string \<times> attrs) list" and elements_list :: "'a html list \<Rightarrow> (string \<times> attrs) list" where
  "elements (Txt t) = []"
| "elements (El tag as hs cs) = (tag, as) # elements_list cs"
| "elements_list [] = []"
| "elements_list (c # cs) = elements c @ elements_list cs"

text \<open>The ids of a tree, and those that labels and descriptions refer to.\<close>

definition words :: "jstr option \<Rightarrow> jstr set" where
  "words v = (case v of Some t \<Rightarrow> set (split_on 32 t) | None \<Rightarrow> {})"

primrec ids_of :: "'a html \<Rightarrow> jstr set" and ids_of_list :: "'a html list \<Rightarrow> jstr set" where
  "ids_of (Txt t) = {}"
| "ids_of (El tag as hs cs) = set_option (attr as ''id'') \<union> ids_of_list cs"
| "ids_of_list [] = {}"
| "ids_of_list (c # cs) = ids_of c \<union> ids_of_list cs"

primrec refs_of :: "'a html \<Rightarrow> jstr set" and refs_of_list :: "'a html list \<Rightarrow> jstr set" where
  "refs_of (Txt t) = {}"
| "refs_of (El tag as hs cs) =
     words (attr as ''aria-describedby'') \<union> words (attr as ''aria-labelledby'') \<union> set_option (attr as ''for'') \<union> refs_of_list cs"
| "refs_of_list [] = {}"
| "refs_of_list (c # cs) = refs_of c \<union> refs_of_list cs"

definition refs_resolve :: "'a html list \<Rightarrow> bool" where
  "refs_resolve vs \<longleftrightarrow> refs_of_list vs \<subseteq> ids_of_list vs"

text \<open>The words of a text that the code writes out.\<close>

fun word_list :: "string \<Rightarrow> string list" where
  "word_list [] = [[]]"
| "word_list (c # cs) =
     (if c = CHR 0x20 then [] # word_list cs
      else (case word_list cs of [] \<Rightarrow> [[c]] | w # ws \<Rightarrow> (c # w) # ws))"

lemma split_on_space: "split_on 32 (js s) = map js (word_list s)"
proof (induction s)
  case (Cons c s)
  have "of_char c = (32 :: nat) \<longleftrightarrow> c = CHR 0x20"
    using of_char_eq_iff [of c "CHR 0x20", where 'a = nat] by simp
  with Cons show ?case by (auto simp: js_Cons split: list.splits)
qed simp

lemma words_simps [simp]: "words None = {}" "words (Some (js s)) = js ` set (word_list s)"
  by (simp_all add: words_def split_on_space)

lemma ids_refs_append [simp]:
  "ids_of_list (xs @ ys) = ids_of_list xs \<union> ids_of_list ys" "refs_of_list (xs @ ys) = refs_of_list xs \<union> refs_of_list ys"
  by (induction xs) auto

lemma ids_refs_map [simp]:
  "ids_of_list (map f xs) = (\<Union>x \<in> set xs. ids_of (f x))" "refs_of_list (map f xs) = (\<Union>x \<in> set xs. refs_of (f x))"
  by (induction xs) auto

lemma elements_list_append [simp]: "elements_list (xs @ ys) = elements_list xs @ elements_list ys"
  by (induction xs) auto

lemma all_elements_map [simp]: "list_all P (elements_list (map f xs)) \<longleftrightarrow> (\<forall>x \<in> set xs. list_all P (elements (f x)))"
  by (induction xs) auto

lemma elements_list_eq: "set (elements_list cs) = \<Union> (set ` elements ` set cs)"
  by (induction cs) auto

lemma attr_simps [simp]:
  "attr [] n = None" "attr ((m, v) # as) n = (if m = n then Some v else attr as n)"
  "attr (as @ bs) n = (case attr as n of Some v \<Rightarrow> Some v | None \<Rightarrow> attr bs n)"
  "attr (flag m b) n = (if b \<and> m = n then Some [] else None)"
  "attr (bool_attr m b) n = (if m = n then Some (if b then js ''true'' else js ''false'') else None)"
  "attr (true_or_absent m b) n = (if b \<and> m = n then Some (js ''true'') else None)"
  "attr (opt_attr m w) n = (if m = n then w else None)"
  by (auto simp: attr_def flag_def bool_attr_def true_or_absent_def opt_attr_def map_add_def split: option.splits)

lemma named_list_append [simp]:
  "named_list ids inside (xs @ ys) \<longleftrightarrow> named_list ids inside xs \<and> named_list ids inside ys"
  by (induction xs) auto

lemma named_list_iff: "named_list ids inside cs \<longleftrightarrow> (\<forall>c \<in> set cs. named ids inside c)"
  by (induction cs) auto

lemma text_of_list_append [simp]: "text_of_list (xs @ ys) = text_of_list xs @ text_of_list ys"
  by (induction xs) auto

lemma labelled_ids_append [simp]: "labelled_ids_list (xs @ ys) = labelled_ids_list xs \<union> labelled_ids_list ys"
  by (induction xs) auto

lemma shown_markup [simp]:
  "(\<And>t. named_list ids b (f t)) \<Longrightarrow> named_list ids b (shown v f)"
  "(\<And>t. ids_of_list (f t) = {}) \<Longrightarrow> ids_of_list (shown v f) = {}"
  "(\<And>t. refs_of_list (f t) = {}) \<Longrightarrow> refs_of_list (shown v f) = {}"
  "(\<And>t. labelled_ids_list (f t) = {}) \<Longrightarrow> labelled_ids_list (shown v f) = {}"
  by (simp_all add: shown_def split: option.split)

lemma paragraph_list_markup [simp]:
  "named_list ids b (paragraph_list t)" "ids_of_list (paragraph_list t) = {}" "refs_of_list (paragraph_list t) = {}"
  "labelled_ids_list (paragraph_list t) = {}"
  by (simp_all add: paragraph_list_def)

lemma StatePanel_markup [simp]:
  "named ids b (StatePanel tone title d action) \<longleftrightarrow> (case action of Some a \<Rightarrow> named ids b a | None \<Rightarrow> True)"
  "ids_of (StatePanel tone title d action) = (case action of Some a \<Rightarrow> ids_of a | None \<Rightarrow> {})"
  "refs_of (StatePanel tone title d action) = (case action of Some a \<Rightarrow> refs_of a | None \<Rightarrow> {})"
  "labelled_ids (StatePanel tone title d action) = (case action of Some a \<Rightarrow> labelled_ids a | None \<Rightarrow> {})"
  by (simp_all add: StatePanel_def split: option.split)

lemma named_list_map [simp]: "named_list ids b (map f xs) \<longleftrightarrow> (\<forall>x \<in> set xs. named ids b (f x))"
  by (induction xs) auto

lemma labelled_ids_map [simp]: "labelled_ids_list (map f xs) = (\<Union>x \<in> set xs. labelled_ids (f x))"
  by (induction xs) auto

lemma select_markup [simp]:
  "named ids b (select_element as options) \<longleftrightarrow> has_label_attr as \<or> b \<or> (\<exists>i \<in> set_option (attr as ''id''). i \<in> ids)"
  "labelled_ids (select_element as options) = {}" "ids_of (select_element as options) = set_option (attr as ''id'')"
  "refs_of (select_element as options) = words (attr as ''aria-describedby'') \<union> words (attr as ''aria-labelledby'') \<union> set_option (attr as ''for'')"
  by (simp_all add: select_element_eq)

section \<open>A component in another\<close>

text \<open>A component's tree with its actions wrapped into those of the component around it.\<close>

lemma html_lists:
  "acts_list cs = \<Union> (acts ` set cs)" "has_submit_list cs \<longleftrightarrow> (\<exists>c \<in> set cs. has_submit c)"
  "named_list ids b cs \<longleftrightarrow> (\<forall>c \<in> set cs. named ids b c)" "text_of_list cs = concat (map text_of cs)"
  "elements_list cs = concat (map elements cs)" "labelled_ids_list cs = \<Union> (labelled_ids ` set cs)"
  "ids_of_list cs = \<Union> (ids_of ` set cs)" "refs_of_list cs = \<Union> (refs_of ` set cs)"
  by (induction cs) auto

lemma has_submit_map_html [simp]: "has_submit (map_html f v) = has_submit v"
  by (induction v) (simp_all add: html_lists(2))

lemma text_of_map_html [simp]: "text_of (map_html f v) = text_of v"
  by (induction v) (simp_all add: html_lists(4) comp_def cong: map_cong)

lemma elements_map_html [simp]: "elements (map_html f v) = elements v"
  by (induction v) (simp_all add: html_lists(5) comp_def cong: map_cong)

lemma markup_map_html [simp]:
  "labelled_ids (map_html f v) = labelled_ids v" "ids_of (map_html f v) = ids_of v" "refs_of (map_html f v) = refs_of v"
  by (induction v) (simp_all add: html_lists(4,6-8) comp_def cong: map_cong)

lemma named_map_html [simp]: "named ids b (map_html f v) = named ids b v"
  by (induction v arbitrary: b) (simp_all add: html_lists(3,4) comp_def cong: map_cong)

lemma own_acts_map: "own_acts as (map (map_prod id ((\<circ>) f)) hs) b = f ` own_acts as hs b"
proof (cases "has_attr ''disabled'' as")
  case False
  show ?thesis
  proof (rule set_eqI)
    fix y
    have "y \<in> own_acts as (map (map_prod id ((\<circ>) f)) hs) b \<longleftrightarrow> (\<exists>h \<in> set hs. \<not> (fst h = ''submit'' \<and> \<not> b) \<and> (\<exists>t. y = f (snd h t)))"
      using False by (force simp: own_acts_def)
    also have "\<dots> \<longleftrightarrow> y \<in> f ` own_acts as hs b"
      using False by (auto simp: own_acts_def)
    finally show "y \<in> own_acts as (map (map_prod id ((\<circ>) f)) hs) b \<longleftrightarrow> y \<in> f ` own_acts as hs b" .
  qed
qed (simp add: own_acts_def)

lemma acts_map_html [simp]: "acts (map_html f v) = f ` acts v"
proof (induction v)
  case (El tag as hs cs)
  have "has_submit_list (map (map_html f) cs) = has_submit_list cs" by (simp add: html_lists(2))
  with El show ?case
    by (simp add: own_acts_map image_Un) (auto simp: html_lists(1) image_Union)
qed simp

section \<open>Pages as they are used\<close>

text \<open>
  The states a page gets into when users start only what its controls offer, and replies arrive
  (\<open>env\<close>): \<open>act a s\<close> is the state after the action \<open>a\<close>.
\<close>

inductive rendered ::
    "('s \<Rightarrow> bool) \<Rightarrow> ('s \<Rightarrow> 'a html list) \<Rightarrow> ('a \<Rightarrow> 's \<Rightarrow> 's) \<Rightarrow> ('s \<Rightarrow> 's \<Rightarrow> bool) \<Rightarrow> 's \<Rightarrow> bool"
    for start view act env where
  rendered_start: "start s \<Longrightarrow> rendered start view act env s"
| rendered_user: "rendered start view act env s \<Longrightarrow> a \<in> acts_list (view s) \<Longrightarrow> rendered start view act env (act a s)"
| rendered_reply: "rendered start view act env s \<Longrightarrow> env s s' \<Longrightarrow> rendered start view act env s'"

text \<open>What a page promises: each control that it shows enabled is a step of its state machine.\<close>

locale rendered_page =
  fixes start :: "'s \<Rightarrow> bool" and view :: "'s \<Rightarrow> 'a html list" and act :: "'a \<Rightarrow> 's \<Rightarrow> 's"
    and env :: "'s \<Rightarrow> 's \<Rightarrow> bool" and reachable :: "'s \<Rightarrow> bool"
  assumes start_reachable: "start s \<Longrightarrow> reachable s"
    and offered_step: "reachable s \<Longrightarrow> a \<in> acts_list (view s) \<Longrightarrow> reachable (act a s)"
    and reply_step: "reachable s \<Longrightarrow> env s s' \<Longrightarrow> reachable s'"
begin

lemma rendered_reachable: "rendered start view act env s \<Longrightarrow> reachable s"
  by (induction rule: rendered.induct) (auto intro: start_reachable offered_step reply_step)

end

end
