(* ===== verification/AccountViews.thy ===== *)
theory AccountViews
  imports AccountPages Markup
begin

text \<open>
  What the account pages render (\<open>account-settings-page.tsx\<close>, \<open>sessions-page.tsx\<close>,
  \<open>login-page.tsx\<close>, \<open>register-page.tsx\<close>), with the action each control starts, and that the
  controls a page shows enabled are the steps of its state machine.
\<close>

section \<open>The settings page\<close>

datatype settings_action =
    LoadAgain
  | TypeDisplayName jstr
  | SubmitProfile
  | TypeCurrentPassword jstr
  | TypeNewPassword jstr
  | TypeConfirmPassword jstr
  | SubmitPassword
  | BeginDelete
  | TypeDeletePassword jstr
  | TypeDeleteConfirmation jstr
  | CancelDelete
  | ConfirmDelete

definition settings_do :: "settings_action \<Rightarrow> account_settings \<Rightarrow> account_settings" where
  "settings_do a s =
     (case a of
        LoadAgain \<Rightarrow> loadAccount_start s
      | TypeDisplayName v \<Rightarrow> s\<lparr>st_displayName := v\<rparr>
      | SubmitProfile \<Rightarrow> handleProfileSubmit_start s
      | TypeCurrentPassword v \<Rightarrow> s\<lparr>st_currentPassword := v\<rparr>
      | TypeNewPassword v \<Rightarrow> s\<lparr>st_newPassword := v\<rparr>
      | TypeConfirmPassword v \<Rightarrow> s\<lparr>st_confirmPassword := v\<rparr>
      | SubmitPassword \<Rightarrow> handlePasswordSubmit_start s
      | BeginDelete \<Rightarrow> begin_delete s
      | TypeDeletePassword v \<Rightarrow> delete_password_change v s
      | TypeDeleteConfirmation v \<Rightarrow> delete_confirmation_change v s
      | CancelDelete \<Rightarrow> cancel_delete s
      | ConfirmDelete \<Rightarrow> handleDeleteAccount_start s)"

definition PASSWORD_POLICY_HELP :: jstr where
  "PASSWORD_POLICY_HELP =
     js ''Use 12'' @ [8211] @ js ''128 UTF-8 bytes. Emoji and some non-Latin characters use more than one byte.''"

definition settings_loading_view :: "settings_action html list" where
  "settings_loading_view =
     [El ''section'' [(''aria-busy'', js ''true'')] []
        [El ''div'' [(''role'', js ''status'')] [] [Txt (js ''Loading account settings'' @ ellipsis)]]]"

definition settings_error_view :: "account_settings \<Rightarrow> settings_action html list" where
  "settings_error_view s =
     [El ''section'' [] []
        [El ''h2'' [] [] [Txt (js ''Account settings'')],
         StatePanel ErrorTone (js ''Could not load your account'')
           (Some (case st_loadError s of Some e \<Rightarrow> e | None \<Rightarrow> js ''The account response was empty.''))
           (Some (Button None [] [on ''click'' LoadAgain] [Txt (js ''Try again'')]))]]"

definition profile_form :: "account_user \<Rightarrow> account_settings \<Rightarrow> settings_action html" where
  "profile_form account s =
     El ''form'' [(''novalidate'', [])] [on ''submit'' SubmitProfile]
       [El ''div'' [] [] [El ''h3'' [] [] [Txt (js ''Profile'')]],
        El ''div'' [] []
          [El ''label'' [] []
             [Txt (js ''Display name''),
              El ''input''
                ([(''value'', st_displayName s), (''autocomplete'', js ''name'')] @ flag ''disabled'' (st_isSavingProfile s)
                 @ true_or_absent ''aria-invalid''
                     (case st_profileError s of Some e \<Rightarrow> js_includes e (js ''display name'') | None \<Rightarrow> False)
                 @ [(''aria-describedby'', js ''profile-status'')])
                [(''change'', TypeDisplayName)] []],
           El ''div'' [] []
             [El ''p'' [] [] [Txt (js ''Email address'')], El ''p'' [] [] [Txt (user_email account)],
              El ''p'' [] [] [Txt (js ''This is your sign-in identity and cannot be changed here.'')]]],
        El ''div'' [(''id'', js ''profile-status''), (''aria-live'', js ''polite'')] []
          (shown (st_profileError s) paragraph_list @ shown (st_profileSuccess s) paragraph_list),
        Button (Some (js ''submit'')) (flag ''disabled'' (st_isSavingProfile s)) []
          [Txt (if st_isSavingProfile s then js ''Saving'' @ ellipsis else js ''Save profile'')]]"

definition password_input ::
    "string \<Rightarrow> jstr \<Rightarrow> (jstr \<Rightarrow> 'a) \<Rightarrow> jstr \<Rightarrow> bool \<Rightarrow> bool \<Rightarrow> jstr \<Rightarrow> 'a html" where
  "password_input labelText content act autoComplete isDisabled isInvalid describedBy =
     El ''label'' [] []
       [Txt (js labelText),
        El ''input''
          ([(''type'', js ''password''), (''value'', content), (''autocomplete'', autoComplete)] @ flag ''disabled'' isDisabled
           @ true_or_absent ''aria-invalid'' isInvalid @ [(''aria-describedby'', describedBy)])
          [(''change'', act)] []]"

definition password_form :: "account_settings \<Rightarrow> settings_action html" where
  "password_form s =
     El ''form'' [(''novalidate'', [])] [on ''submit'' SubmitPassword]
       [El ''div'' [] [] [El ''h3'' [] [] [Txt (js ''Change password'')]],
        El ''p'' [] [] [Txt (PASSWORD_POLICY_HELP @ js '' Spaces are preserved exactly as entered.'')],
        El ''div'' [] []
          [password_input ''Current password'' (st_currentPassword s) TypeCurrentPassword (js ''current-password'')
             (st_isChangingPassword s) (st_passwordError s \<noteq> None) (js ''password-status''),
           password_input ''New password'' (st_newPassword s) TypeNewPassword (js ''new-password'')
             (st_isChangingPassword s) (st_passwordError s \<noteq> None) (js ''password-help password-status''),
           password_input ''Confirm new password'' (st_confirmPassword s) TypeConfirmPassword (js ''new-password'')
             (st_isChangingPassword s) (st_passwordError s \<noteq> None) (js ''password-status'')],
        El ''p'' [(''id'', js ''password-help'')] [] [Txt (js ''Your password is sent only when you submit this form.'')],
        El ''div'' [(''id'', js ''password-status''), (''aria-live'', js ''polite'')] []
          (shown (st_passwordError s) paragraph_list @ shown (st_passwordSuccess s) paragraph_list),
        Button (Some (js ''submit'')) (flag ''disabled'' (st_isChangingPassword s)) []
          [Txt (if st_isChangingPassword s then js ''Changing'' @ ellipsis else js ''Change password'')]]"

definition delete_confirmation_view :: "account_settings \<Rightarrow> settings_action html" where
  "delete_confirmation_view s =
     El ''div'' [] []
       [password_input ''Current password for deletion'' (st_deletePassword s) TypeDeletePassword (js ''current-password'')
          (st_isDeleting s) (case st_deleteError s of Some e \<Rightarrow> js_includes e (js ''password'') | None \<Rightarrow> False) (js ''delete-status''),
        El ''label'' [] []
          [Txt (js ''Type DELETE to confirm''),
           El ''input''
             ([(''value'', st_deleteConfirmation s), (''autocomplete'', js ''off''), (''spellcheck'', js ''false'')]
              @ flag ''disabled'' (st_isDeleting s) @ true_or_absent ''aria-invalid'' (st_deleteError s \<noteq> None)
              @ [(''aria-describedby'', js ''delete-status'')])
             [(''change'', TypeDeleteConfirmation)] []],
        El ''div'' [(''id'', js ''delete-status''), (''aria-live'', js ''polite'')] [] (shown (st_deleteError s) paragraph_list),
        El ''div'' [] []
          [Button None (flag ''disabled'' (st_isDeleting s)) [on ''click'' CancelDelete] [Txt (js ''Cancel'')],
           Button None (flag ''disabled'' (st_isDeleting s \<or> st_deletePassword s = [] \<or> st_deleteConfirmation s \<noteq> js ''DELETE''))
             [on ''click'' ConfirmDelete]
             [Txt (if st_isDeleting s then js ''Deleting'' @ ellipsis else js ''Permanently delete account'')]]]"

definition delete_section :: "account_settings \<Rightarrow> settings_action html" where
  "delete_section s =
     El ''div'' [] []
       [El ''div'' [] [] [El ''h3'' [] [] [Txt (js ''Delete account'')]],
        El ''p'' [] [] [Txt (js ''Permanently delete your organizer account and its stored data. Enter your current password and type DELETE to confirm. This does not delete messages from Telegram.'')],
        if st_isConfirmingDelete s then delete_confirmation_view s
        else Button None [] [on ''click'' BeginDelete] [Txt (js ''Delete account'')]]"

definition settings_view :: "account_settings \<Rightarrow> settings_action html list" where
  "settings_view s =
     (if st_isLoading s then settings_loading_view
      else case (st_loadError s, st_account s) of
        (None, Some account) \<Rightarrow>
          [El ''section'' [] []
             [El ''h2'' [] [] [Txt (js ''Account settings'')],
              El ''p'' [] [] [Txt (js ''Manage your profile, password, and organizer account.'')],
              profile_form account s, password_form s, delete_section s]]
      | _ \<Rightarrow> settings_error_view s)"

lemma password_input_facts [simp]:
  "acts (password_input l c act ac d i b) = (if d then {} else range act)" "\<not> has_submit (password_input l c act ac d i b)"
  by (simp_all add: password_input_def)

lemma profile_form_acts: "acts (profile_form account s) = (if st_isSavingProfile s then {} else insert SubmitProfile (range TypeDisplayName))"
  by (simp add: profile_form_def)

lemma password_form_acts:
  "acts (password_form s) = (if st_isChangingPassword s then {}
     else insert SubmitPassword (range TypeCurrentPassword \<union> range TypeNewPassword \<union> range TypeConfirmPassword))"
  by (simp add: password_form_def Un_assoc)

lemma delete_section_acts:
  "acts (delete_section s) =
     (if \<not> st_isConfirmingDelete s then {BeginDelete}
      else if st_isDeleting s then {}
      else insert CancelDelete (range TypeDeletePassword \<union> range TypeDeleteConfirmation \<union> (if delete_enabled s then {ConfirmDelete} else {})))"
  by (auto simp: delete_section_def delete_confirmation_view_def delete_enabled_def)

lemma settings_view_acts:
  "acts_list (settings_view s) =
     (if st_isLoading s then {}
      else case (st_loadError s, st_account s) of
        (None, Some account) \<Rightarrow> acts (profile_form account s) \<union> acts (password_form s) \<union> acts (delete_section s)
      | _ \<Rightarrow> {LoadAgain})"
  by (simp add: settings_view_def settings_loading_view_def settings_error_view_def Un_assoc split: option.split)

lemma offered_settings_step:
  assumes "a \<in> acts_list (settings_view s)"
  shows "settings_step s (settings_do a s)"
proof (cases "st_loadError s = None \<and> st_account s \<noteq> None")
  case True
  with assms have loaded: "\<not> st_isLoading s" "st_account s \<noteq> None"
    and a: "a \<in> acts (profile_form (the (st_account s)) s) \<union> acts (password_form s) \<union> acts (delete_section s)"
    by (auto simp: settings_view_acts split: if_splits option.splits)
  from a consider
      "\<not> st_isSavingProfile s" "a = SubmitProfile \<or> (\<exists>v. a = TypeDisplayName v)"
    | "\<not> st_isChangingPassword s" "a = SubmitPassword"
    | v where "\<not> st_isChangingPassword s" "a \<in> {TypeCurrentPassword v, TypeNewPassword v, TypeConfirmPassword v}"
    | "\<not> st_isConfirmingDelete s" "a = BeginDelete"
    | "st_isConfirmingDelete s" "\<not> st_isDeleting s"
      "a = CancelDelete \<or> a = ConfirmDelete \<and> delete_enabled s \<or> (\<exists>v. a = TypeDeletePassword v \<or> a = TypeDeleteConfirmation v)"
    by (auto simp: profile_form_acts password_form_acts delete_section_acts split: if_splits)
  then show ?thesis
  proof cases
    case 1
    with settings_step.submit_profile [OF loaded(2) 1(1)] settings_step.type_name [OF 1(1)] show ?thesis
      by (auto simp: settings_do_def)
  next
    case 3
    note typed = settings_step.type_passwords [OF 3(1)]
    have "settings_step s (s\<lparr>st_currentPassword := v\<rparr>)"
      using typed [where old = v and new = "st_newPassword s" and conf = "st_confirmPassword s"] by simp
    moreover have "settings_step s (s\<lparr>st_newPassword := v\<rparr>)"
      using typed [where old = "st_currentPassword s" and new = v and conf = "st_confirmPassword s"] by simp
    moreover have "settings_step s (s\<lparr>st_confirmPassword := v\<rparr>)"
      using typed [where old = "st_currentPassword s" and new = "st_newPassword s" and conf = v] by simp
    ultimately show ?thesis using 3(2) by (auto simp: settings_do_def)
  qed (use loaded in \<open>auto simp: settings_do_def intro: settings_step.intros\<close>)
next
  case False
  with assms have "a = LoadAgain" "\<not> st_isLoading s"
    by (auto simp: settings_view_acts split: if_splits option.splits)
  with False show ?thesis by (auto simp: settings_do_def intro: settings_step.retry)
qed

text \<open>The replies that a pending call can get.\<close>

inductive settings_reply :: "account_settings \<Rightarrow> account_settings \<Rightarrow> bool" where
  "FetchAccount \<in> set (st_pending s) \<Longrightarrow> settings_reply s (loadAccount_reply aborted r (settled FetchAccount s))"
| "UpdateAccount n \<in> set (st_pending s) \<Longrightarrow>
    settings_reply s (handleProfileSubmit_saved r (settled (UpdateAccount n) s))"
| "RefreshSession \<in> set (st_pending s) \<Longrightarrow> settings_reply s (handleProfileSubmit_refreshed (settled RefreshSession s))"
| "ChangePassword old new \<in> set (st_pending s) \<Longrightarrow>
    settings_reply s (handlePasswordSubmit_reply u (settled (ChangePassword old new) s))"
| "DeleteAccount pw \<in> set (st_pending s) \<Longrightarrow>
    settings_reply s (handleDeleteAccount_deleted u (settled (DeleteAccount pw) s))"
| "Logout \<in> set (st_pending s) \<Longrightarrow> settings_reply s (handleDeleteAccount_logged_out u (settled Logout s))"

lemma settings_reply_step: "settings_reply s s' \<Longrightarrow> settings_step s s'"
  by (induction rule: settings_reply.induct) (rule settings_step.intros; assumption)+

interpretation settings_rendered: rendered_page "\<lambda>s. s = loadAccount_start settings_initial" settings_view settings_do
    settings_reply settings_reachable
  by unfold_locales (auto intro: settings_reachable.intros offered_settings_step settings_reply_step)

text \<open>
  C30: What the settings page can be made to do. Whatever is typed into its fields and pressed, in
  any order and with replies arriving in between, a control that is shown enabled makes at most one
  call, and only one that was asked for: a new password confirmed, of 12 to 128 bytes and different
  from the old one, a deletion with the password and the word DELETE in the opened dialog, and none
  while a call of the same form is running; and a page that is loading offers nothing at all.
\<close>

theorem rendered_settings_calls:
  assumes "rendered (\<lambda>s. s = loadAccount_start settings_initial) settings_view settings_do settings_reply s"
    and "a \<in> acts_list (settings_view s)"
  shows "(st_calls (settings_do a s) = st_calls s \<or> (\<exists>c. st_calls (settings_do a s) = st_calls s @ [c] \<and> asked s c))
    \<and> \<not> st_isLoading s
    \<and> (a = ConfirmDelete \<longrightarrow> st_calls (settings_do a s) = st_calls s @ [DeleteAccount (st_deletePassword s)])"
proof (intro conjI impI)
  show "st_calls (settings_do a s) = st_calls s \<or> (\<exists>c. st_calls (settings_do a s) = st_calls s @ [c] \<and> asked s c)"
    using settings_rendered.rendered_reachable [OF assms(1)] offered_settings_step [OF assms(2)]
    by (rule settings_call_justified)
  show "\<not> st_isLoading s" using assms(2) by (auto simp: settings_view_acts)
  assume a: "a = ConfirmDelete"
  with assms(2) have "delete_enabled s"
    by (auto simp: settings_view_acts profile_form_acts password_form_acts delete_section_acts split: if_splits option.splits)
  then show "st_calls (settings_do a s) = st_calls s @ [DeleteAccount (st_deletePassword s)]"
    using a by (simp add: settings_do_def delete_enabled_def settings_handlers)
qed

theorem rendered_settings_calls_witness:
  "st_calls (settings_do LoadAgain (loadAccount_reply False (Inl NonError) (settled FetchAccount (loadAccount_start settings_initial))))
   \<noteq> []"
proof -
  let ?start = "loadAccount_start settings_initial"
  let ?s = "loadAccount_reply False (Inl NonError) (settled FetchAccount ?start)"
  have "settings_reply ?start ?s"
  proof (rule settings_reply.intros(1))
    show "FetchAccount \<in> set (st_pending ?start)" by (simp add: settings_handlers)
  qed
  then have r: "rendered (\<lambda>s. s = ?start) settings_view settings_do settings_reply ?s"
    by (rule rendered_reply [OF rendered_start, rotated]) (rule refl)
  have offered: "LoadAgain \<in> acts_list (settings_view ?s)"
    by (simp add: settings_view_acts settings_handlers settings_initial_def)
  have "st_calls ?s = [FetchAccount]" by (simp add: settings_handlers settings_initial_def)
  with rendered_settings_calls [OF r offered] show ?thesis by auto
qed

section \<open>The sessions page\<close>

datatype sessions_action = RefreshSessions | Revoke active_session

definition sessions_do :: "sessions_action \<Rightarrow> sessions_page \<Rightarrow> sessions_page" where
  "sessions_do a s = (case a of RefreshSessions \<Rightarrow> loadSessions_start s | Revoke session \<Rightarrow> handleRevoke_start session s)"

text \<open>\<open>Intl.DateTimeFormat\<close> is the parameter: \<open>None\<close> for a text that is no date.\<close>

definition formatDateTime :: "(jstr \<Rightarrow> jstr option) \<Rightarrow> jstr \<Rightarrow> jstr" where
  "formatDateTime date_text v = (case date_text v of Some t \<Rightarrow> t | None \<Rightarrow> js ''Unknown'')"

definition session_row :: "(jstr \<Rightarrow> jstr option) \<Rightarrow> jstr option \<Rightarrow> active_session \<Rightarrow> sessions_action html" where
  "session_row date_text revokingId session =
     El ''li'' [] []
       [El ''div'' [] []
         ([El ''div'' [] []
            [El ''div'' [] []
               ([El ''h3'' [] [] [Txt (sessionLabel session)]]
                @ (if ses_current session then [El ''span'' [] [] [Txt (js ''Current session'')]] else [])),
             El ''dl'' [] []
               [detail_pair (js ''Last active'') (formatDateTime date_text (ses_last_seen_at session)),
                detail_pair (js ''IP address'') (case ses_ip_address session of Some i \<Rightarrow> i | None \<Rightarrow> js ''Not available''),
                detail_pair (js ''Signed in'') (formatDateTime date_text (ses_created_at session)),
                detail_pair (js ''Expires'') (formatDateTime date_text (ses_expires_at session))]]]
          @ (if \<not> ses_current session
             then [Button None (flag ''disabled'' (revokingId \<noteq> None) @ [(''aria-label'', js ''Revoke session: '' @ sessionLabel session)])
                     [on ''click'' (Revoke session)]
                     [Txt (if revokingId = Some (ses_id session) then js ''Revoking'' @ ellipsis else js ''Revoke'')]]
             else []))]"

definition sessions_body :: "(jstr \<Rightarrow> jstr option) \<Rightarrow> sessions_page \<Rightarrow> sessions_action html" where
  "sessions_body date_text s =
     (if sn_isLoading s then El ''div'' [(''role'', js ''status'')] [] [Txt (js ''Loading active sessions'' @ ellipsis)]
      else case sn_loadError s of
        Some (c # e) \<Rightarrow>
          StatePanel ErrorTone (js ''Could not load active sessions'') (Some (c # e))
            (Some (Button None [] [on ''click'' RefreshSessions] [Txt (js ''Try again'')]))
      | _ \<Rightarrow>
          if sn_sessions s = []
          then StatePanel DefaultTone (js ''No active sessions found'') (Some (js ''Sign in again to create a new session.'')) None
          else El ''ul'' [(''aria-label'', js ''Active sessions'')] [] (map (session_row date_text (sn_revokingId s)) (sn_sessions s)))"

definition sessions_view :: "(jstr \<Rightarrow> jstr option) \<Rightarrow> sessions_page \<Rightarrow> sessions_action html list" where
  "sessions_view date_text s =
     [El ''section'' [] []
        ([El ''div'' [] []
            [El ''div'' [] []
               [El ''h2'' [] [] [Txt (js ''Active sessions'')],
                El ''p'' [] [] [Txt (js ''Review browsers signed in to your account and revoke access you no longer recognize.'')]],
             Button None (flag ''disabled'' (sn_isLoading s \<or> sn_revokingId s \<noteq> None)) [on ''click'' RefreshSessions]
               [Txt (js ''Refresh'')]]]
         @ shown (sn_actionError s) (\<lambda>e. [StatePanel ErrorTone (js ''Session could not be revoked'') (Some e) None])
         @ [sessions_body date_text s])]"

lemma session_row_acts:
  "acts (session_row date_text r session) = (if ses_current session \<or> r \<noteq> None then {} else {Revoke session})"
  by (simp add: session_row_def)

lemma sessions_body_acts:
  "sn_loadError s \<noteq> Some [] \<Longrightarrow> acts (sessions_body date_text s) =
     (if sn_isLoading s then {}
      else if sn_loadError s \<noteq> None then {RefreshSessions}
      else \<Union>session \<in> set (sn_sessions s). if ses_current session \<or> sn_revokingId s \<noteq> None then {} else {Revoke session})"
  by (auto simp: sessions_body_def session_row_acts split: option.split list.split)

lemma sessions_error_not_empty: "sessions_reachable s \<Longrightarrow> sn_loadError s \<noteq> Some []"
proof (induction rule: sessions_reachable.induct)
  case 1
  show ?case by (simp add: sessions_initial_def loadSessions_start_def)
next
  case (2 s s')
  have "error_text e (js ''Could not load active sessions.'') \<noteq> []" for e
    by (auto simp: error_text_def js_trim_def js_trim_end_def split: option.split)
  with 2 show ?case
    by (auto elim!: sessions_stepE simp: loadSessions_start_def loadSessions_reply_def handleRevoke_start_def
        handleRevoke_reply_def split: sum.splits)
qed

lemma offered_sessions_step:
  assumes "sn_loadError s \<noteq> Some []" and "a \<in> acts_list (sessions_view date_text s)"
  shows "sessions_step s (sessions_do a s)"
proof -
  from assms(2) have "a \<in> acts (sessions_body date_text s) \<or> \<not> sn_isLoading s \<and> sn_revokingId s = None \<and> a = RefreshSessions"
    by (auto simp: sessions_view_def split: if_splits)
  then show ?thesis
    using assms(1) sessions_step.refresh [of s] sessions_step.retry [of s] sessions_step.revoke [of s]
    by (auto simp: sessions_body_acts sessions_do_def split: if_splits)
qed

text \<open>The replies to a load and to a revocation.\<close>

inductive sessions_reply :: "sessions_page \<Rightarrow> sessions_page \<Rightarrow> bool" where
  "sn_load s \<Longrightarrow> sessions_reply s (loadSessions_reply False result (s\<lparr>sn_load := False\<rparr>))"
| "sn_revoke s = Some session \<Longrightarrow> sessions_reply s (handleRevoke_reply session outcome (s\<lparr>sn_revoke := None\<rparr>))"

lemma sessions_reply_step: "sessions_reply s s' \<Longrightarrow> sessions_step s s'"
  by (induction rule: sessions_reply.induct) (auto intro: sessions_step.intros)

interpretation sessions_rendered: rendered_page "\<lambda>s. s = sessions_initial" "sessions_view date_text" sessions_do
    sessions_reply sessions_reachable for date_text
proof unfold_locales
  fix s a
  assume "sessions_reachable s" and "a \<in> acts_list (sessions_view date_text s)"
  then show "sessions_reachable (sessions_do a s)"
    using offered_sessions_step [OF sessions_error_not_empty] by (blast intro: sessions_reachable.intros)
qed (auto intro: sessions_reachable.intros sessions_reply_step)

section \<open>Signing in\<close>

datatype login_action = TypeLoginEmail jstr | TypeLoginPassword jstr | ToggleLoginPassword | SubmitLogin

definition login_do :: "login_action \<Rightarrow> login_page \<Rightarrow> login_page" where
  "login_do a f =
     (case a of
        TypeLoginEmail v \<Rightarrow> login_email_change v f
      | TypeLoginPassword v \<Rightarrow> login_password_change v f
      | ToggleLoginPassword \<Rightarrow> login_toggle_password f
      | SubmitLogin \<Rightarrow> fst (login_submit f))"

definition error_paragraph :: "string \<Rightarrow> jstr option \<Rightarrow> 'a html list" where
  "error_paragraph i v = shown v (\<lambda>t. [El ''p'' [(''id'', js i)] [] [Txt t]])"

definition form_alert :: "jstr option \<Rightarrow> 'a html list" where
  "form_alert v = shown v (\<lambda>t. [El ''div'' [(''tabindex'', js ''-1''), (''role'', js ''alert'')] [] [Txt t]])"

definition password_toggle :: "bool \<Rightarrow> 'a \<Rightarrow> 'a html" where
  "password_toggle showPassword act =
     El ''button'' [(''type'', js ''button''), (''aria-label'', if showPassword then js ''Hide password'' else js ''Show password'')]
       [on ''click'' act] []"

definition login_email_field :: "login_page \<Rightarrow> login_action html" where
  "login_email_field f =
     El ''div'' [] []
       ([El ''label'' [(''for'', js ''login-email'')] [] [Txt (js ''Email address'')],
         El ''input''
           ([(''id'', js ''login-email''), (''name'', js ''email''), (''type'', js ''email''), (''value'', lg_email f),
             (''autocomplete'', js ''email''), (''autocapitalize'', js ''none''), (''spellcheck'', js ''false''), (''autofocus'', [])]
            @ bool_attr ''aria-invalid'' (is_set (lg_emailError f))
            @ opt_attr ''aria-describedby'' (if is_set (lg_emailError f) then Some (js ''login-email-error'') else None)
            @ [(''placeholder'', js ''you@example.com'')])
           [(''change'', TypeLoginEmail)] []]
        @ error_paragraph ''login-email-error'' (lg_emailError f))"

definition login_password_field :: "login_page \<Rightarrow> login_action html" where
  "login_password_field f =
     El ''div'' [] []
       ([El ''label'' [(''for'', js ''login-password'')] [] [Txt (js ''Password'')],
         El ''div'' [] []
           [El ''input''
              ([(''id'', js ''login-password''), (''name'', js ''password''),
                (''type'', if lg_showPassword f then js ''text'' else js ''password''), (''value'', lg_password f),
                (''autocomplete'', js ''current-password'')]
               @ bool_attr ''aria-invalid'' (is_set (lg_passwordError f))
               @ opt_attr ''aria-describedby'' (if is_set (lg_passwordError f) then Some (js ''login-password-error'') else None))
              [(''change'', TypeLoginPassword)] [],
            password_toggle (lg_showPassword f) ToggleLoginPassword]]
        @ error_paragraph ''login-password-error'' (lg_passwordError f))"

definition login_view :: "login_page \<Rightarrow> login_action html list" where
  "login_view f =
     [El ''div'' [] []
        ([El ''div'' [] [] [],
          El ''p'' [] [] [Txt (js ''Welcome back'')],
          El ''h1'' [] [] [Txt (js ''Sign in to your archive'')],
          El ''p'' [] [] [Txt (js ''Continue organizing the messages and ideas you saved for later.'')]]
         @ form_alert (lg_error f)
         @ [El ''form'' [(''novalidate'', [])] [on ''submit'' SubmitLogin]
              [login_email_field f, login_password_field f,
               Button (Some (js ''submit'')) (flag ''disabled'' (lg_isSubmitting f)) []
                 [Txt (if lg_isSubmitting f then js ''Signing in'' @ ellipsis else js ''Sign in'')]],
            El ''p'' [] []
              [Txt (js ''New to Saved Organizer? ''), El ''Link'' [(''to'', js ''/register'')] [] [Txt (js ''Create an account'')]]])]"

lemma form_helper_facts [simp]:
  "acts_list (error_paragraph i v) = {}" "\<not> has_submit_list (error_paragraph i v)"
  "acts_list (form_alert v) = {}" "\<not> has_submit_list (form_alert v)"
  "acts (password_toggle b a) = {a}" "\<not> has_submit (password_toggle b a)"
  by (auto simp: error_paragraph_def form_alert_def password_toggle_def attr_def)

lemma login_view_acts:
  "acts_list (login_view f) =
     {ToggleLoginPassword} \<union> range TypeLoginEmail \<union> range TypeLoginPassword \<union> (if lg_isSubmitting f then {} else {SubmitLogin})"
  by (auto simp: login_view_def login_email_field_def login_password_field_def attr_def)

section \<open>Registering\<close>

datatype register_action = TypeRegister sign_in_field jstr | ToggleRegisterPassword | SubmitRegistration

definition register_do :: "register_action \<Rightarrow> register_page \<Rightarrow> register_page" where
  "register_do a f =
     (case a of
        TypeRegister field v \<Rightarrow> register_change field v f
      | ToggleRegisterPassword \<Rightarrow> f\<lparr>rg_showPassword := \<not> rg_showPassword f\<rparr>
      | SubmitRegistration \<Rightarrow> fst (register_submit f))"

definition register_invalid :: "sign_in_field \<Rightarrow> string \<Rightarrow> register_page \<Rightarrow> attrs" where
  "register_invalid field i f =
     bool_attr ''aria-invalid'' (is_set (rg_fieldErrors f field))
     @ opt_attr ''aria-describedby'' (if is_set (rg_fieldErrors f field) then Some (js i) else None)"

definition register_name_field :: "register_page \<Rightarrow> register_action html" where
  "register_name_field f =
     El ''div'' [] []
       ([El ''label'' [(''for'', js ''register-display-name'')] [] [Txt (js ''Display name'')],
         El ''input''
           ([(''id'', js ''register-display-name''), (''name'', js ''name''), (''value'', rg_displayName f),
             (''autocomplete'', js ''name''), (''autofocus'', [])]
            @ register_invalid DisplayNameField ''register-display-name-error'' f @ [(''placeholder'', js ''Ada Lovelace'')])
           [(''change'', TypeRegister DisplayNameField)] []]
        @ error_paragraph ''register-display-name-error'' (rg_fieldErrors f DisplayNameField))"

definition register_email_field :: "register_page \<Rightarrow> register_action html" where
  "register_email_field f =
     El ''div'' [] []
       ([El ''label'' [(''for'', js ''register-email'')] [] [Txt (js ''Email address'')],
         El ''input''
           ([(''id'', js ''register-email''), (''name'', js ''email''), (''type'', js ''email''), (''value'', rg_email f),
             (''autocomplete'', js ''email''), (''autocapitalize'', js ''none''), (''spellcheck'', js ''false'')]
            @ register_invalid EmailField ''register-email-error'' f @ [(''placeholder'', js ''you@example.com'')])
           [(''change'', TypeRegister EmailField)] []]
        @ error_paragraph ''register-email-error'' (rg_fieldErrors f EmailField))"

definition register_password_field :: "register_page \<Rightarrow> register_action html" where
  "register_password_field f =
     El ''div'' [] []
       ([El ''label'' [(''for'', js ''register-password'')] [] [Txt (js ''Password'')],
         El ''div'' [] []
           [El ''input''
              ([(''id'', js ''register-password''), (''name'', js ''password''),
                (''type'', if rg_showPassword f then js ''text'' else js ''password''), (''value'', rg_password f),
                (''autocomplete'', js ''new-password'')]
               @ bool_attr ''aria-invalid'' (is_set (rg_fieldErrors f PasswordField))
               @ [(''aria-describedby'', js ''register-password-help register-password-error'')])
              [(''change'', TypeRegister PasswordField)] [],
            password_toggle (rg_showPassword f) ToggleRegisterPassword],
         El ''p'' [(''id'', js ''register-password-help'')] [] [Txt PASSWORD_POLICY_HELP]]
        @ error_paragraph ''register-password-error'' (rg_fieldErrors f PasswordField))"

definition register_confirmation_field :: "register_page \<Rightarrow> register_action html" where
  "register_confirmation_field f =
     El ''div'' [] []
       ([El ''label'' [(''for'', js ''register-password-confirmation'')] [] [Txt (js ''Confirm password'')],
         El ''input''
           ([(''id'', js ''register-password-confirmation''), (''name'', js ''password-confirmation''),
             (''type'', if rg_showPassword f then js ''text'' else js ''password''), (''value'', rg_passwordConfirmation f),
             (''autocomplete'', js ''new-password'')]
            @ register_invalid ConfirmationField ''register-password-confirmation-error'' f)
           [(''change'', TypeRegister ConfirmationField)] []]
        @ error_paragraph ''register-password-confirmation-error'' (rg_fieldErrors f ConfirmationField))"

definition register_view :: "register_page \<Rightarrow> register_action html list" where
  "register_view f =
     [El ''div'' [] []
        ([El ''p'' [] [] [Txt (js ''Create your workspace'')],
          El ''h1'' [] [] [Txt (js ''Start organizing what matters'')],
          El ''p'' [] [] [Txt (js ''Create your account, then connect Telegram when you are ready.'')]]
         @ form_alert (rg_error f)
         @ [El ''form'' [(''novalidate'', [])] [on ''submit'' SubmitRegistration]
              [register_name_field f, register_email_field f, register_password_field f, register_confirmation_field f,
               Button (Some (js ''submit'')) (flag ''disabled'' (rg_isSubmitting f)) []
                 [Txt (if rg_isSubmitting f then js ''Creating account'' @ ellipsis else js ''Create account'')]],
            El ''p'' [] []
              [Txt (js ''Already have an account? ''), El ''Link'' [(''to'', js ''/login'')] [] [Txt (js ''Sign in'')]]])]"

lemmas register_fields =
  register_name_field_def register_email_field_def register_password_field_def register_confirmation_field_def register_invalid_def

lemma register_field_acts [simp]:
  "acts (register_name_field f) = range (TypeRegister DisplayNameField)"
  "acts (register_email_field f) = range (TypeRegister EmailField)"
  "acts (register_password_field f) = insert ToggleRegisterPassword (range (TypeRegister PasswordField))"
  "acts (register_confirmation_field f) = range (TypeRegister ConfirmationField)"
  "\<not> has_submit (register_name_field f)" "\<not> has_submit (register_email_field f)"
  "\<not> has_submit (register_password_field f)" "\<not> has_submit (register_confirmation_field f)"
  by (simp_all add: register_fields)

lemma register_view_acts:
  "acts_list (register_view f) =
     insert ToggleRegisterPassword (\<Union>field. range (TypeRegister field)) \<union> (if rg_isSubmitting f then {} else {SubmitRegistration})"
proof -
  have "(UNIV :: sign_in_field set) = {DisplayNameField, EmailField, PasswordField, ConfirmationField}"
    using sign_in_field.exhaust by blast
  then have "(\<Union>field. range (TypeRegister field)) = range (TypeRegister DisplayNameField) \<union> range (TypeRegister EmailField)
      \<union> range (TypeRegister PasswordField) \<union> range (TypeRegister ConfirmationField)" by auto
  then show ?thesis by (simp add: register_view_def Un_ac)
qed

section \<open>Names and references\<close>

lemma error_paragraph_markup [simp]:
  "named_list ids b (error_paragraph i v)" "ids_of_list (error_paragraph i v) = (if is_set v then {js i} else {})"
  "refs_of_list (error_paragraph i v) = {}" "labelled_ids_list (error_paragraph i v) = {}"
  by (auto simp: error_paragraph_def shown_def is_set_def split: option.splits)

lemma form_alert_markup [simp]:
  "named_list ids b (form_alert v)" "ids_of_list (form_alert v) = {}" "refs_of_list (form_alert v) = {}"
  "labelled_ids_list (form_alert v) = {}"
  by (auto simp: form_alert_def shown_def split: option.splits)

lemma password_toggle_markup [simp]:
  "named ids b (password_toggle c a)" "ids_of (password_toggle c a) = {}" "refs_of (password_toggle c a) = {}"
  "labelled_ids (password_toggle c a) = {}"
  by (simp_all add: password_toggle_def has_label_attr_def is_ws_def)

lemma login_field_markup [simp]:
  "labelled_ids (login_email_field f) = {js ''login-email''}" "labelled_ids (login_password_field f) = {js ''login-password''}"
  "js ''login-email'' \<in> ids \<Longrightarrow> named ids False (login_email_field f)"
  "js ''login-password'' \<in> ids \<Longrightarrow> named ids False (login_password_field f)"
  "refs_of (login_email_field f) \<subseteq> ids_of (login_email_field f)"
  "refs_of (login_password_field f) \<subseteq> ids_of (login_password_field f)"
  by (simp_all add: login_email_field_def login_password_field_def is_ws_def)

lemma login_view_controls: "controls_named (login_view f)" "refs_resolve (login_view f)"
proof -
  show "controls_named (login_view f)"
    by (simp add: controls_named_def login_view_def Button_def is_ws_def)
  have "refs_of_list (login_view f) \<subseteq> refs_of (login_email_field f) \<union> refs_of (login_password_field f)"
    "ids_of (login_email_field f) \<union> ids_of (login_password_field f) \<subseteq> ids_of_list (login_view f)"
    by (auto simp: login_view_def Button_def)
  then show "refs_resolve (login_view f)" unfolding refs_resolve_def using login_field_markup(5,6) by blast
qed

lemma register_field_markup [simp]:
  "labelled_ids (register_name_field f) = {js ''register-display-name''}"
  "labelled_ids (register_email_field f) = {js ''register-email''}"
  "labelled_ids (register_password_field f) = {js ''register-password''}"
  "labelled_ids (register_confirmation_field f) = {js ''register-password-confirmation''}"
  "js ''register-display-name'' \<in> ids \<Longrightarrow> named ids False (register_name_field f)"
  "js ''register-email'' \<in> ids \<Longrightarrow> named ids False (register_email_field f)"
  "js ''register-password'' \<in> ids \<Longrightarrow> named ids False (register_password_field f)"
  "js ''register-password-confirmation'' \<in> ids \<Longrightarrow> named ids False (register_confirmation_field f)"
  by (simp_all add: register_fields is_ws_def)

lemma register_view_controls: "controls_named (register_view f)"
  by (simp add: controls_named_def register_view_def Button_def is_ws_def)

text \<open>The password field is described by an element that is there only with an error.\<close>

lemma register_password_refers_to_nothing:
  "rg_fieldErrors f PasswordField = None \<Longrightarrow>
     js ''register-password-error'' \<in> refs_of_list (register_view f) \<and> js ''register-password-error'' \<notin> ids_of_list (register_view f)"
  by (simp add: register_view_def register_fields Button_def is_set_def)

lemma password_input_markup [simp]:
  "nonblank (js l) \<Longrightarrow> named ids b (password_input l c act ac d i r)"
  "ids_of (password_input l c act ac d i r) = {}" "refs_of (password_input l c act ac d i r) = words (Some r)"
  "labelled_ids (password_input l c act ac d i r) = {}"
  by (simp_all add: password_input_def)

lemma settings_view_controls: "controls_named (settings_view s)" "refs_resolve (settings_view s)"
proof -
  have form: "named ids False (profile_form account s)" "named ids False (password_form s)" "named ids False (delete_section s)" for ids account
    by (simp_all add: profile_form_def password_form_def delete_section_def delete_confirmation_view_def Button_def is_ws_def)
  show "controls_named (settings_view s)"
    by (simp add: controls_named_def settings_view_def settings_loading_view_def settings_error_view_def form Button_def is_ws_def
        split: option.split)
  have "refs_of (profile_form account s) \<subseteq> ids_of (profile_form account s)" "refs_of (password_form s) \<subseteq> ids_of (password_form s)"
    "refs_of (delete_section s) \<subseteq> ids_of (delete_section s)" for account
    by (simp_all add: profile_form_def password_form_def delete_section_def delete_confirmation_view_def Button_def)
  then show "refs_resolve (settings_view s)"
    by (simp add: refs_resolve_def settings_view_def settings_loading_view_def settings_error_view_def Button_def subset_insertI2 le_supI1 le_supI2
        split: option.split)
qed

lemma sessions_view_controls: "controls_named (sessions_view date_text s)" "refs_resolve (sessions_view date_text s)"
proof -
  have row: "named ids b (session_row date_text r session)" "refs_of (session_row date_text r session) = {}"
    "labelled_ids (session_row date_text r session) = {}" for ids b r session
    by (simp_all add: session_row_def detail_pair_def Button_def has_label_attr_def is_ws_def js_Cons nonblank_iff)
  show "controls_named (sessions_view date_text s)"
    by (simp add: controls_named_def sessions_view_def sessions_body_def row Button_def is_ws_def
        split: option.split list.split)
  show "refs_resolve (sessions_view date_text s)"
    by (simp add: refs_resolve_def sessions_view_def sessions_body_def row Button_def split: option.split list.split)
qed

section \<open>Where the focus is while an account is deleted\<close>

datatype delete_focus = OnDeletePassword | OnDeleteConfirmation | OnDeleteTrigger | OffDelete

text \<open>\<open>shouldRestoreDeleteFocusRef\<close>, and the focus; the effect runs at the mount and when the question opens or closes.\<close>

record deletion_focus =
  df_focus :: delete_focus
  df_restore :: bool

definition delete_focus_effect :: "bool \<Rightarrow> deletion_focus \<Rightarrow> deletion_focus" where
  "delete_focus_effect isConfirmingDelete d =
     (if isConfirmingDelete then d\<lparr>df_focus := OnDeletePassword\<rparr>
      else if df_restore d then d\<lparr>df_focus := OnDeleteTrigger, df_restore := False\<rparr>
      else d)"

definition delete_click_focus :: "settings_action \<Rightarrow> account_settings \<Rightarrow> deletion_focus \<Rightarrow> deletion_focus" where
  "delete_click_focus a s d =
     (case a of
        BeginDelete \<Rightarrow> d\<lparr>df_restore := True\<rparr>
      | ConfirmDelete \<Rightarrow>
          if st_deletePassword s = [] then d\<lparr>df_focus := OnDeletePassword\<rparr>
          else if st_deleteConfirmation s \<noteq> js ''DELETE'' then d\<lparr>df_focus := OnDeleteConfirmation\<rparr>
          else d
      | _ \<Rightarrow> d)"

definition focused_do :: "settings_action \<Rightarrow> account_settings \<times> deletion_focus \<Rightarrow> account_settings \<times> deletion_focus" where
  "focused_do a sd =
     (let s' = settings_do a (fst sd);
          d = delete_click_focus a (fst sd) (snd sd)
      in (s', if st_isConfirmingDelete s' \<noteq> st_isConfirmingDelete (fst sd)
              then delete_focus_effect (st_isConfirmingDelete s') d else d))"

lemma settings_do_confirming:
  "st_isConfirmingDelete (settings_do a s) =
     (case a of BeginDelete \<Rightarrow> True | CancelDelete \<Rightarrow> False | _ \<Rightarrow> st_isConfirmingDelete s)"
  by (simp add: settings_do_def loadAccount_start_def handleProfileSubmit_start_def handlePasswordSubmit_start_def
      handleDeleteAccount_start_def delete_password_change_def delete_confirmation_change_def begin_delete_def cancel_delete_def
      make_call_def Let_def split: settings_action.split option.split)

text \<open>
  The question takes the focus to its password; whatever is typed, submitted or refused meanwhile,
  cancelling it brings the focus back to the button that opened it. Before that the page does not
  move the focus.
\<close>

lemma delete_focus_comes_back:
  fixes d :: deletion_focus
  assumes "\<not> st_isConfirmingDelete s" and "\<forall>a \<in> set as. a \<noteq> CancelDelete"
  defines "opened \<equiv> focused_do BeginDelete (s, d)"
  shows "df_focus (snd opened) = OnDeletePassword"
    and "df_focus (snd (focused_do CancelDelete (foldl (\<lambda>sd a. focused_do a sd) opened as))) = OnDeleteTrigger"
proof -
  have opened: "st_isConfirmingDelete (fst opened)" "df_restore (snd opened)" "df_focus (snd opened) = OnDeletePassword"
    using assms(1)
    by (simp_all add: opened_def focused_do_def Let_def settings_do_confirming delete_focus_effect_def delete_click_focus_def)
  then show "df_focus (snd opened) = OnDeletePassword" by simp
  let ?open = "\<lambda>sd. st_isConfirmingDelete (fst sd) \<and> df_restore (snd sd)"
  have "?open (focused_do a sd)" if "?open sd" "a \<noteq> CancelDelete" for a sd
    using that
    by (cases a) (simp_all add: focused_do_def Let_def settings_do_confirming delete_focus_effect_def delete_click_focus_def)
  then have "?open sd \<Longrightarrow> \<forall>a \<in> set as. a \<noteq> CancelDelete \<Longrightarrow> ?open (foldl (\<lambda>sd a. focused_do a sd) sd as)" for sd as
    by (induction as arbitrary: sd) auto
  with opened assms(2) have "?open (foldl (\<lambda>sd a. focused_do a sd) opened as)" by simp
  then show "df_focus (snd (focused_do CancelDelete (foldl (\<lambda>sd a. focused_do a sd) opened as))) = OnDeleteTrigger"
    by (simp add: focused_do_def Let_def settings_do_confirming delete_focus_effect_def delete_click_focus_def)
qed

lemma delete_focus_at_mount: "delete_focus_effect False \<lparr>df_focus = f, df_restore = False\<rparr> = \<lparr>df_focus = f, df_restore = False\<rparr>"
  by (simp add: delete_focus_effect_def)

end
