(* ===== verification/ConnectPage.thy ===== *)
theory ConnectPage
  imports ApiAccount
begin

text \<open>
  \<open>pages/connect-page.tsx\<close> with \<open>components/auth/connect-form.tsx\<close> and \<open>verify-code.tsx\<close>: the
  three steps of connecting Telegram. The page keeps one request active at a time; each
  handler is split at its \<open>await\<close>. An abstract wizard says what the page promises, and every
  step of the page is shown to be one of the wizard's or none.
\<close>

section \<open>The page\<close>

datatype connect_operation = LoadingStatus | RefreshingStatus | Connecting | Verifying | Disconnecting

datatype connect_request =
    StatusRequest
  | ConnectRequest connect_telegram_payload
  | VerifyRequest verify_telegram_payload
  | DisconnectRequest

text \<open>
  \<open>cp_requestId\<close> is \<open>requestIdRef\<close>, \<open>cp_active\<close> is \<open>activeRequestRef\<close>. \<open>cp_inflight\<close> holds the requests
  not yet answered with the number each drew, \<open>cp_sent\<close> every request ever sent.
\<close>

record connect_page =
  cp_connection :: "telegram_connection option"
  cp_operation :: "connect_operation option"
  cp_statusError :: "jstr option"
  cp_formError :: "jstr option"
  cp_active :: bool
  cp_requestId :: nat
  cp_mounted :: bool
  cp_inflight :: "(nat \<times> connect_request) list"
  cp_sent :: "connect_request list"

definition connect_initial :: connect_page where
  "connect_initial =
     \<lparr>cp_connection = None, cp_operation = Some LoadingStatus, cp_statusError = None, cp_formError = None,
      cp_active = True, cp_requestId = 0, cp_mounted = True, cp_inflight = [], cp_sent = []\<rparr>"

definition detail_text :: "jstr option \<Rightarrow> jstr option" where
  "detail_text detail =
     (if detail = Some (js ''telegram_account_already_connected'')
      then Some (js ''This Telegram account is already connected to another organizer account.'')
      else if detail = Some (js ''telegram_phone_mismatch'')
      then Some (js ''Telegram is already connected with a different phone number. Disconnect it before connecting a new one.'')
      else if detail = Some (js ''telegram_connection_failed'')
      then Some (js ''Telegram could not start the connection. Check the phone number and try again.'')
      else if detail = Some (js ''telegram_verification_failed'')
      then Some (js ''Telegram could not verify those credentials. Check the code or password and try again.'')
      else if detail = Some (js ''telegram_challenge_expired'')
      then Some (js ''This Telegram sign-in attempt expired. Start again with your phone number.'')
      else if detail = Some (js ''telegram_challenge_missing'')
      then Some (js ''No active Telegram sign-in attempt was found. Start again with your phone number.'')
      else None)"

definition connect_error_text :: "js_error \<Rightarrow> jstr" where
  "connect_error_text e =
     (let other = error_text e (js ''Request failed. Check your connection and try again.'')
      in case e of
           ApiRequestError m status detail \<Rightarrow>
             if status = 429 then js ''Too many Telegram sign-in attempts. Wait a moment and try again.''
             else (case detail_text detail of Some t \<Rightarrow> t | None \<Rightarrow> other)
         | _ \<Rightarrow> other)"

text \<open>What every handler does before its request, and after its answer.\<close>

definition begin_request :: "connect_operation \<Rightarrow> connect_request \<Rightarrow> connect_page \<Rightarrow> connect_page" where
  "begin_request op req s =
     s\<lparr>cp_active := True, cp_requestId := cp_requestId s + 1, cp_statusError := None, cp_formError := None,
       cp_operation := Some op, cp_inflight := (cp_requestId s + 1, req) # cp_inflight s,
       cp_sent := req # cp_sent s\<rparr>"

definition current_request :: "nat \<Rightarrow> connect_page \<Rightarrow> bool" where
  "current_request rid s \<longleftrightarrow> cp_mounted s \<and> rid = cp_requestId s"

definition end_request :: "nat \<Rightarrow> connect_page \<Rightarrow> connect_page" where
  "end_request rid s = (if current_request rid s then s\<lparr>cp_active := False, cp_operation := None\<rparr> else s)"

definition loadConnection_start :: "bool \<Rightarrow> connect_page \<Rightarrow> connect_page" where
  "loadConnection_start initial s =
     (if cp_active s \<and> \<not> initial then s
      else begin_request (if initial then LoadingStatus else RefreshingStatus) StatusRequest s)"

definition loadConnection_reply :: "nat \<Rightarrow> js_error + telegram_connection \<Rightarrow> connect_page \<Rightarrow> connect_page" where
  "loadConnection_reply rid result s =
     end_request rid
       (if \<not> current_request rid s then s
        else case result of Inr c \<Rightarrow> s\<lparr>cp_connection := Some c\<rparr>
             | Inl e \<Rightarrow> s\<lparr>cp_statusError := Some (connect_error_text e)\<rparr>)"

definition mount_effect :: "connect_page \<Rightarrow> connect_page" where
  "mount_effect s = loadConnection_start True (s\<lparr>cp_mounted := True\<rparr>)"

definition unmount_effect :: "connect_page \<Rightarrow> connect_page" where
  "unmount_effect s = s\<lparr>cp_mounted := False, cp_requestId := cp_requestId s + 1, cp_active := False\<rparr>"

definition handleConnect_start :: "connect_telegram_payload \<Rightarrow> connect_page \<Rightarrow> connect_page" where
  "handleConnect_start payload s = (if cp_active s then s else begin_request Connecting (ConnectRequest payload) s)"

definition handleConnect_reply :: "nat \<Rightarrow> js_error + telegram_connection \<Rightarrow> connect_page \<Rightarrow> connect_page" where
  "handleConnect_reply rid result s =
     end_request rid
       (if \<not> current_request rid s then s
        else case result of Inr c \<Rightarrow> s\<lparr>cp_connection := Some c\<rparr>
             | Inl e \<Rightarrow> s\<lparr>cp_formError := Some (connect_error_text e)\<rparr>)"

definition handleVerify_start :: "verify_telegram_payload \<Rightarrow> connect_page \<Rightarrow> connect_page" where
  "handleVerify_start payload s = (if cp_active s then s else begin_request Verifying (VerifyRequest payload) s)"

definition handleVerify_reply :: "nat \<Rightarrow> js_error + telegram_connection \<Rightarrow> connect_page \<Rightarrow> connect_page" where
  "handleVerify_reply rid result s =
     end_request rid
       (if \<not> current_request rid s then s
        else case result of Inr c \<Rightarrow> s\<lparr>cp_connection := Some c\<rparr>
             | Inl e \<Rightarrow> s\<lparr>cp_formError := Some (connect_error_text e)\<rparr>)"

definition can_disconnect :: "connect_page \<Rightarrow> bool" where
  "can_disconnect s \<longleftrightarrow> \<not> cp_active s \<and> cp_connection s \<noteq> None \<and> cp_connection s \<noteq> Some Disconnected"

definition handleDisconnect_start :: "bool \<Rightarrow> connect_page \<Rightarrow> connect_page" where
  "handleDisconnect_start confirmed s =
     (if \<not> can_disconnect s \<or> \<not> confirmed then s else begin_request Disconnecting DisconnectRequest s)"

definition handleDisconnect_reply :: "nat \<Rightarrow> js_error + telegram_connection \<Rightarrow> connect_page \<Rightarrow> connect_page" where
  "handleDisconnect_reply rid result s =
     end_request rid
       (if \<not> current_request rid s then s
        else case result of Inr c \<Rightarrow> s\<lparr>cp_connection := Some c\<rparr>
             | Inl e \<Rightarrow> s\<lparr>cp_statusError := Some (connect_error_text e)\<rparr>)"

lemmas connect_handlers =
  loadConnection_start_def loadConnection_reply_def mount_effect_def unmount_effect_def
  handleConnect_start_def handleConnect_reply_def handleVerify_start_def handleVerify_reply_def
  handleDisconnect_start_def handleDisconnect_reply_def begin_request_def end_request_def current_request_def

section \<open>What is shown\<close>

fun stateTitle :: "telegram_connection \<Rightarrow> jstr" where
  "stateTitle (CodeRequired p) = js ''Verification code required''"
| "stateTitle (PasswordRequired p) = js ''Two-step verification required''"
| "stateTitle (Connected a) = js ''Telegram connected''"
| "stateTitle Disconnected = js ''Not connected''"

definition challengePhone :: "jstr option \<Rightarrow> jstr" where
  "challengePhone phone_masked =
     (case phone_masked of
        Some p \<Rightarrow> if js_trim p = [] then js ''your Telegram account'' else js_trim p
      | None \<Rightarrow> js ''your Telegram account'')"

definition activeStep :: "connect_page \<Rightarrow> nat" where
  "activeStep s =
     (case cp_connection s of
        None \<Rightarrow> 1 | Some Disconnected \<Rightarrow> 1 | Some (Connected a) \<Rightarrow> 3 | _ \<Rightarrow> 2)"

definition is_busy :: "connect_page \<Rightarrow> bool" where
  "is_busy s \<longleftrightarrow> cp_operation s \<noteq> None"

definition disconnect_label :: "connect_page \<Rightarrow> jstr option" where
  "disconnect_label s =
     (case cp_connection s of
        None \<Rightarrow> None
      | Some Disconnected \<Rightarrow> None
      | Some (Connected a) \<Rightarrow>
          Some (if cp_operation s = Some Disconnecting then js ''Disconnecting...'' else js ''Disconnect Telegram'')
      | Some _ \<Rightarrow>
          Some (if cp_operation s = Some Disconnecting then js ''Cancelling...'' else js ''Use a different number''))"

definition account_title :: "telegram_account_summary option \<Rightarrow> jstr" where
  "account_title a =
     (case Option.bind a acc_display_name of
        Some n \<Rightarrow> if js_trim n = [] then js ''Your Telegram account'' else js_trim n
      | None \<Rightarrow> js ''Your Telegram account'') @ js '' is ready''"

definition nonempty :: "jstr option \<Rightarrow> jstr option" where
  "nonempty v = (if v = Some [] then None else v)"

definition account_line :: "telegram_account_summary option \<Rightarrow> jstr option" where
  "account_line a =
     (let username = nonempty (Option.bind a acc_username);
          phone_masked = nonempty (Option.bind a acc_phone_masked);
          handle = (\<lambda>n. 64 # (if starts_with n [64] then drop 1 n else n))
      in case (username, phone_masked) of
           (None, None) \<Rightarrow> None
         | (Some n, None) \<Rightarrow> Some (handle n)
         | (None, Some p) \<Rightarrow> Some p
         | (Some n, Some p) \<Rightarrow> Some (handle n @ [32, 183, 32] @ p))"

section \<open>The forms\<close>

record connect_form =
  cf_apiId :: jstr
  cf_apiHash :: jstr
  cf_phone :: jstr
  cf_localError :: "jstr option"

definition connect_form_initial :: connect_form where
  "connect_form_initial = \<lparr>cf_apiId = [], cf_apiHash = [], cf_phone = [], cf_localError = None\<rparr>"

definition connect_form_error_effect :: "jstr option \<Rightarrow> connect_form \<Rightarrow> connect_form" where
  "connect_form_error_effect error f = (if nonempty error \<noteq> None then f\<lparr>cf_localError := None\<rparr> else f)"

definition connect_form_visible_error :: "jstr option \<Rightarrow> connect_form \<Rightarrow> jstr option" where
  "connect_form_visible_error error f = (case cf_localError f of Some e \<Rightarrow> Some e | None \<Rightarrow> error)"

text \<open>\<open>Number\<close> of a text of digits, \<open>Number.isSafeInteger\<close>, and \<open>/^[0-9a-fA-F]{32}$/\<close>.\<close>

definition number_of_digits :: "jstr \<Rightarrow> jsnum" where
  "number_of_digits ds = round_double (digits_value ds)"

definition safe_integer :: "jsnum \<Rightarrow> int option" where
  "safe_integer x =
     (case x of
        Fin q \<Rightarrow> if of_int \<lfloor>q\<rfloor> = q \<and> \<bar>\<lfloor>q\<rfloor>\<bar> \<le> 2 ^ 53 - 1 then Some \<lfloor>q\<rfloor> else None
      | _ \<Rightarrow> None)"

definition is_hex_char :: "code_unit \<Rightarrow> bool" where
  "is_hex_char c \<longleftrightarrow> is_digit c \<or> (97 \<le> c \<and> c \<le> 102) \<or> (65 \<le> c \<and> c \<le> 70)"

definition valid_api_id :: "jstr \<Rightarrow> int option" where
  "valid_api_id t =
     (if t = [] \<or> \<not> list_all is_digit t then None
      else case safe_integer (number_of_digits t) of
             Some n \<Rightarrow> if n \<le> 0 \<or> n > 2147483647 then None else Some n
           | None \<Rightarrow> None)"

definition submit_connect :: "connect_form \<Rightarrow> connect_form \<times> connect_telegram_payload option" where
  "submit_connect f =
     (let normalizedApiHash = js_trim (cf_apiHash f); normalizedPhone = js_trim (cf_phone f)
      in case valid_api_id (js_trim (cf_apiId f)) of
           None \<Rightarrow> (f\<lparr>cf_localError := Some (js ''API ID must be a positive number.'')\<rparr>, None)
         | Some parsedApiId \<Rightarrow>
             if \<not> (length normalizedApiHash = 32 \<and> list_all is_hex_char normalizedApiHash)
             then (f\<lparr>cf_localError := Some (js ''API Hash must be exactly 32 hexadecimal characters.'')\<rparr>, None)
             else if length normalizedPhone < 5
             then (f\<lparr>cf_localError := Some (js ''Phone number looks too short.'')\<rparr>, None)
             else (f\<lparr>cf_localError := None\<rparr>,
                   Some \<lparr>apiId = parsedApiId, apiHash = normalizedApiHash, phone = normalizedPhone\<rparr>))"

record verify_form =
  vc_code :: jstr
  vc_password :: jstr
  vc_validationError :: "jstr option"

definition verify_form_initial :: verify_form where
  "verify_form_initial = \<lparr>vc_code = [], vc_password = [], vc_validationError = None\<rparr>"

text \<open>The effect that runs when \<open>passwordRequired\<close> changes.\<close>

definition verify_form_reset :: "verify_form \<Rightarrow> verify_form" where
  "verify_form_reset f = f\<lparr>vc_validationError := None, vc_code := [], vc_password := []\<rparr>"

definition verify_form_change :: "bool \<Rightarrow> jstr \<Rightarrow> verify_form \<Rightarrow> verify_form" where
  "verify_form_change passwordRequired v f =
     (if passwordRequired then f\<lparr>vc_password := v\<rparr> else f\<lparr>vc_code := v\<rparr>)"

definition submit_verify :: "bool \<Rightarrow> verify_form \<Rightarrow> verify_form \<times> verify_telegram_payload option" where
  "submit_verify passwordRequired f0 =
     (let f = f0\<lparr>vc_validationError := None\<rparr>
      in if passwordRequired then
           (if js_trim (vc_password f) = []
            then (f\<lparr>vc_validationError := Some (js ''Two-factor password is required.'')\<rparr>, None)
            else (f, Some (VerifyPassword (vc_password f))))
         else if js_trim (vc_code f) = []
         then (f\<lparr>vc_validationError := Some (js ''Verification code is required.'')\<rparr>, None)
         else (f, Some (VerifyCode (js_trim (vc_code f)))))"

section \<open>The page with its forms\<close>

record connect_screen =
  cs_page :: connect_page
  cs_connect :: connect_form
  cs_verify :: verify_form

definition screen_initial :: connect_screen where
  "screen_initial = \<lparr>cs_page = mount_effect connect_initial, cs_connect = connect_form_initial, cs_verify = verify_form_initial\<rparr>"

text \<open>\<open>connection.state\<close>, the key under which the form of a state is mounted.\<close>

fun connection_key :: "telegram_connection option \<Rightarrow> nat" where
  "connection_key None = 0"
| "connection_key (Some Disconnected) = 1"
| "connection_key (Some (CodeRequired p)) = 2"
| "connection_key (Some (PasswordRequired p)) = 3"
| "connection_key (Some (Connected a)) = 4"

text \<open>
  After a handler: a form whose key changed is a new one; the connect form sees a new error.
\<close>

definition rerender :: "connect_page \<Rightarrow> connect_screen \<Rightarrow> connect_screen" where
  "rerender p scr =
     (if connection_key (cp_connection p) \<noteq> connection_key (cp_connection (cs_page scr))
      then \<lparr>cs_page = p, cs_connect = connect_form_initial, cs_verify = verify_form_initial\<rparr>
      else scr\<lparr>cs_page := p,
               cs_connect := (if cp_formError p \<noteq> cp_formError (cs_page scr)
                              then connect_form_error_effect (cp_formError p) (cs_connect scr) else cs_connect scr)\<rparr>)"

datatype connect_event =
    Remount
  | Unmount
  | RefreshClicked
  | ConnectTyped jstr jstr jstr
  | ConnectSubmitted
  | VerifyTyped jstr
  | VerifySubmitted
  | DisconnectClicked bool
  | Answered nat "js_error + telegram_connection"

definition answer :: "nat \<Rightarrow> js_error + telegram_connection \<Rightarrow> connect_page \<Rightarrow> connect_page" where
  "answer rid result s =
     (case map_of (cp_inflight s) rid of
        None \<Rightarrow> s
      | Some req \<Rightarrow>
          (let s' = s\<lparr>cp_inflight := filter (\<lambda>p. fst p \<noteq> rid) (cp_inflight s)\<rparr>
           in case req of
                StatusRequest \<Rightarrow> loadConnection_reply rid result s'
              | ConnectRequest p \<Rightarrow> handleConnect_reply rid result s'
              | VerifyRequest p \<Rightarrow> handleVerify_reply rid result s'
              | DisconnectRequest \<Rightarrow> handleDisconnect_reply rid result s'))"

definition password_required :: "connect_page \<Rightarrow> bool" where
  "password_required s \<longleftrightarrow> connection_key (cp_connection s) = 3"

text \<open>The steps of the page, with the handler a form calls given its payload.\<close>

fun screen_step :: "connect_screen \<Rightarrow> connect_event \<Rightarrow> connect_screen" where
  "screen_step scr Remount = (if cp_mounted (cs_page scr) then scr else rerender (mount_effect (cs_page scr)) scr)"
| "screen_step scr Unmount = rerender (unmount_effect (cs_page scr)) scr"
| "screen_step scr RefreshClicked =
     (if cp_mounted (cs_page scr) \<and> \<not> is_busy (cs_page scr) then rerender (loadConnection_start False (cs_page scr)) scr else scr)"
| "screen_step scr (ConnectTyped i h p) =
     (if cp_mounted (cs_page scr) \<and> cp_operation (cs_page scr) \<noteq> Some Connecting
      then scr\<lparr>cs_connect := (cs_connect scr)\<lparr>cf_apiId := i, cf_apiHash := h, cf_phone := p\<rparr>\<rparr> else scr)"
| "screen_step scr ConnectSubmitted =
     (if cp_mounted (cs_page scr) \<and> cp_connection (cs_page scr) = Some Disconnected then
        (case submit_connect (cs_connect scr) of
           (f, None) \<Rightarrow> scr\<lparr>cs_connect := f\<rparr>
         | (f, Some payload) \<Rightarrow> rerender (handleConnect_start payload (cs_page scr)) (scr\<lparr>cs_connect := f\<rparr>))
      else scr)"
| "screen_step scr (VerifyTyped v) =
     (if cp_mounted (cs_page scr) \<and> cp_operation (cs_page scr) \<noteq> Some Verifying
      then scr\<lparr>cs_verify := verify_form_change (password_required (cs_page scr)) v (cs_verify scr)\<rparr> else scr)"
| "screen_step scr VerifySubmitted =
     (if cp_mounted (cs_page scr) \<and> connection_key (cp_connection (cs_page scr)) \<in> {2, 3} then
        (case submit_verify (password_required (cs_page scr)) (cs_verify scr) of
           (f, None) \<Rightarrow> scr\<lparr>cs_verify := f\<rparr>
         | (f, Some payload) \<Rightarrow> rerender (handleVerify_start payload (cs_page scr)) (scr\<lparr>cs_verify := f\<rparr>))
      else scr)"
| "screen_step scr (DisconnectClicked confirmed) =
     (if cp_mounted (cs_page scr) \<and> \<not> is_busy (cs_page scr)
      then rerender (handleDisconnect_start confirmed (cs_page scr)) scr else scr)"
| "screen_step scr (Answered rid result) = rerender (answer rid result (cs_page scr)) scr"

inductive connect_step :: "connect_screen \<Rightarrow> connect_event \<Rightarrow> connect_screen \<Rightarrow> bool" where
  "connect_step scr e (screen_step scr e)"

inductive_simps connect_step_iff: "connect_step scr e scr'"

inductive connect_reachable :: "connect_screen \<Rightarrow> bool" where
  start: "connect_reachable screen_initial"
| step: "connect_reachable scr \<Longrightarrow> connect_step scr e scr' \<Longrightarrow> connect_reachable scr'"

section \<open>One request at a time\<close>

fun fits :: "connect_request \<Rightarrow> connect_operation \<Rightarrow> bool" where
  "fits StatusRequest op = (op = LoadingStatus \<or> op = RefreshingStatus)"
| "fits (ConnectRequest p) op = (op = Connecting)"
| "fits (VerifyRequest p) op = (op = Verifying)"
| "fits DisconnectRequest op = (op = Disconnecting)"

definition connect_ok :: "connect_page \<Rightarrow> bool" where
  "connect_ok s \<longleftrightarrow>
     (\<forall>p \<in> set (cp_inflight s). fst p \<le> cp_requestId s) \<and>
     (if cp_mounted s \<and> cp_active s
      then \<exists>op req. cp_operation s = Some op \<and> map_of (cp_inflight s) (cp_requestId s) = Some req \<and> fits req op
      else map_of (cp_inflight s) (cp_requestId s) = None) \<and>
     (cp_mounted s \<and> \<not> cp_active s \<longrightarrow> cp_operation s = None)"

lemma connect_ok_begin: "connect_ok s \<Longrightarrow> cp_mounted s \<Longrightarrow> fits req op \<Longrightarrow> connect_ok (begin_request op req s)"
  by (auto simp: connect_ok_def begin_request_def)

lemma begin_remounted: "connect_ok s \<Longrightarrow> fits req op \<Longrightarrow> connect_ok (begin_request op req (s\<lparr>cp_mounted := True\<rparr>))"
  by (auto simp: connect_ok_def begin_request_def)

lemma connect_ok_unmount: "connect_ok s \<Longrightarrow> connect_ok (unmount_effect s)"
  by (fastforce simp: connect_ok_def unmount_effect_def map_of_eq_None_iff)

text \<open>All four replies settle the current request the same way.\<close>

fun form_request :: "connect_request \<Rightarrow> bool" where
  "form_request (ConnectRequest p) = True"
| "form_request (VerifyRequest p) = True"
| "form_request _ = False"

definition settled_page :: "connect_request \<Rightarrow> js_error + telegram_connection \<Rightarrow> connect_page \<Rightarrow> connect_page" where
  "settled_page req result s =
     (case result of
        Inr c \<Rightarrow> s\<lparr>cp_connection := Some c\<rparr>
      | Inl e \<Rightarrow> if form_request req then s\<lparr>cp_formError := Some (connect_error_text e)\<rparr>
                else s\<lparr>cp_statusError := Some (connect_error_text e)\<rparr>)\<lparr>cp_active := False, cp_operation := None\<rparr>"

lemma answer_eq:
  "answer rid result s =
     (case map_of (cp_inflight s) rid of
        None \<Rightarrow> s
      | Some req \<Rightarrow>
          (let s' = s\<lparr>cp_inflight := filter (\<lambda>p. fst p \<noteq> rid) (cp_inflight s)\<rparr>
           in if cp_mounted s \<and> rid = cp_requestId s then settled_page req result s' else s'))"
  by (auto simp: answer_def connect_handlers settled_page_def Let_def split: option.split connect_request.split sum.split)

lemma connect_ok_answer:
  assumes "connect_ok s"
  shows "connect_ok (answer rid result s)"
proof (cases "map_of (cp_inflight s) rid")
  case None
  with assms show ?thesis by (simp add: answer_eq)
next
  case (Some req)
  have other: "map_of (filter (\<lambda>p. fst p \<noteq> rid) xs) k = (if k = rid then None else map_of xs k)" for k and xs :: "(nat \<times> connect_request) list"
    by (induction xs) auto
  show ?thesis
  proof (cases "cp_mounted s \<and> rid = cp_requestId s")
    case True
    with assms Some other show ?thesis
      by (auto simp: answer_eq settled_page_def connect_ok_def Let_def split: sum.split)
  next
    case False
    with assms Some other show ?thesis
      by (auto simp: answer_eq connect_ok_def Let_def)
  qed
qed

lemma connect_ok_loads: "connect_ok s \<Longrightarrow> cp_mounted s \<Longrightarrow> connect_ok (loadConnection_start b s)"
  by (simp add: loadConnection_start_def connect_ok_begin)

lemma connect_ok_mount: "connect_ok s \<Longrightarrow> connect_ok (mount_effect s)"
  by (simp add: mount_effect_def loadConnection_start_def begin_remounted)

lemma rerender_page [simp]: "cs_page (rerender p scr) = p"
  by (simp add: rerender_def)

lemma submit_fields [simp]: "cs_page (scr\<lparr>cs_connect := f\<rparr>) = cs_page scr" "cs_page (scr\<lparr>cs_verify := v\<rparr>) = cs_page scr"
  by simp_all

lemma connect_ok_initial: "connect_ok (mount_effect connect_initial)"
  by (simp add: connect_ok_def mount_effect_def loadConnection_start_def begin_request_def connect_initial_def)

lemma connect_ok_step: "connect_ok (cs_page scr) \<Longrightarrow> connect_ok (cs_page (screen_step scr e))"
  by (cases e)
    (auto simp: connect_ok_mount connect_ok_unmount connect_ok_loads connect_ok_answer handleConnect_start_def
      handleVerify_start_def handleDisconnect_start_def intro: connect_ok_begin split: prod.split option.split)

lemma reachable_connect_ok: "connect_reachable scr \<Longrightarrow> connect_ok (cs_page scr)"
  by (induction rule: connect_reachable.induct)
    (auto simp: screen_initial_def connect_ok_initial connect_step_iff connect_ok_step)

text \<open>A reply that lost its turn changes nothing that is shown.\<close>

definition connect_view :: "connect_page \<Rightarrow> telegram_connection option \<times> connect_operation option \<times> jstr option \<times> jstr option \<times> bool" where
  "connect_view s = (cp_connection s, cp_operation s, cp_statusError s, cp_formError s, cp_active s)"

fun connect_ticket :: "connect_event \<Rightarrow> nat option" where
  "connect_ticket (Answered rid result) = Some rid"
| "connect_ticket _ = None"

lemma screen_version_mono: "cp_requestId (cs_page scr) \<le> cp_requestId (cs_page (screen_step scr e))"
  by (cases e)
    (auto simp: connect_handlers answer_eq settled_page_def Let_def split: prod.split option.split sum.split)

interpretation connect_requests: latest_wins "\<lambda>scr. cp_requestId (cs_page scr)" screen_step connect_ticket "\<lambda>scr. connect_view (cs_page scr)"
proof unfold_locales
  fix scr e v
  show "cp_requestId (cs_page scr) \<le> cp_requestId (cs_page (screen_step scr e))" by (rule screen_version_mono)
  assume "connect_ticket e = Some v" and "v \<noteq> cp_requestId (cs_page scr)"
  then show "connect_view (cs_page (screen_step scr e)) = connect_view (cs_page scr)"
    by (cases e) (auto simp: answer_eq connect_view_def Let_def split: option.split)
qed

text \<open>
  C29: The page is busy exactly while the request that will end it is in flight: in every
  reachable state of a mounted page with an operation under way, the request of that operation
  holds the current number and is unanswered, and whatever its answer is, it ends the
  operation; a success replaces the connection, an error leaves it and is shown in the form
  (connect, verify) or above it (status, disconnect).
\<close>

theorem connect_page_never_stuck:
  assumes "connect_reachable scr" and "cp_mounted (cs_page scr)" and "cp_operation (cs_page scr) = Some op"
  shows "\<exists>req. map_of (cp_inflight (cs_page scr)) (cp_requestId (cs_page scr)) = Some req \<and> fits req op
    \<and> (\<forall>result. let p = cs_page (screen_step scr (Answered (cp_requestId (cs_page scr)) result)) in
         cp_operation p = None \<and> \<not> cp_active p
         \<and> (case result of
              Inr c \<Rightarrow> cp_connection p = Some c
            | Inl e \<Rightarrow> cp_connection p = cp_connection (cs_page scr)
                \<and> (if op \<in> {Connecting, Verifying} then cp_formError p else cp_statusError p) = Some (connect_error_text e)))"
proof -
  have "cp_active (cs_page scr)" using reachable_connect_ok [OF assms(1)] assms by (auto simp: connect_ok_def)
  with reachable_connect_ok [OF assms(1)] assms obtain req
    where req: "map_of (cp_inflight (cs_page scr)) (cp_requestId (cs_page scr)) = Some req" "fits req op"
    by (auto simp: connect_ok_def)
  have "form_request req \<longleftrightarrow> op \<in> {Connecting, Verifying}" using req(2) by (cases req) auto
  with req assms(2) show ?thesis
    by (auto simp: answer_eq settled_page_def Let_def split: sum.split)
qed

lemma screen_initial_page [simp]:
  "cs_page screen_initial = mount_effect connect_initial"
  "cp_mounted (mount_effect connect_initial)" "cp_operation (mount_effect connect_initial) = Some LoadingStatus"
  "cp_requestId (mount_effect connect_initial) = 1" "cp_connection (mount_effect connect_initial) = None"
  "map_of (cp_inflight (mount_effect connect_initial)) 1 = Some StatusRequest"
  by (simp_all add: screen_initial_def mount_effect_def loadConnection_start_def begin_request_def connect_initial_def)

theorem connect_page_never_stuck_witness:
  "cp_operation (cs_page (screen_step screen_initial (Answered 1 (Inr Disconnected)))) = None"
  using connect_page_never_stuck [OF connect_reachable.start, of LoadingStatus] by (auto simp: Let_def)

text \<open>
  The wizard the page promises: a connection and an operation under way. An operation begins
  only when none is under way and only where it makes sense, and ends with a new connection or
  with the old one. Mounting the page starts over with a load.
\<close>

type_synonym wizard = "telegram_connection option \<times> connect_operation option"

fun makes_sense :: "connect_operation \<Rightarrow> telegram_connection option \<Rightarrow> bool" where
  "makes_sense Connecting c = (c = Some Disconnected)"
| "makes_sense Verifying c = (\<exists>p. c = Some (CodeRequired p) \<or> c = Some (PasswordRequired p))"
| "makes_sense Disconnecting c = (c \<noteq> None \<and> c \<noteq> Some Disconnected)"
| "makes_sense RefreshingStatus c = True"
| "makes_sense LoadingStatus c = False"

inductive wizard_step :: "wizard \<Rightarrow> wizard \<Rightarrow> bool" where
  begins: "makes_sense op c \<Longrightarrow> wizard_step (c, None) (c, Some op)"
| succeeds: "wizard_step (c, Some op) (Some c', None)"
| fails: "wizard_step (c, Some op) (c, None)"
| reloads: "wizard_step (c, op) (c, Some LoadingStatus)"

definition abs_wizard :: "connect_screen \<Rightarrow> wizard" where
  "abs_wizard scr = (cp_connection (cs_page scr), cp_operation (cs_page scr))"

lemma begin_request_shown [simp]:
  "cp_connection (begin_request op req s) = cp_connection s" "cp_operation (begin_request op req s) = Some op"
  by (simp_all add: begin_request_def)

lemma answer_wizard:
  assumes "connect_ok s" and "a = answer rid result s"
  shows "(cp_connection a, cp_operation a) = (cp_connection s, cp_operation s)
    \<or> wizard_step (cp_connection s, cp_operation s) (cp_connection a, cp_operation a)"
proof (cases "cp_mounted s \<and> rid = cp_requestId s \<and> map_of (cp_inflight s) rid \<noteq> None")
  case True
  then obtain req where req: "map_of (cp_inflight s) rid = Some req" by auto
  with assms(1) True obtain op where "cp_operation s = Some op" by (auto simp: connect_ok_def split: if_splits)
  with True req show ?thesis unfolding assms(2)
    by (cases result) (auto simp: answer_eq settled_page_def Let_def intro: wizard_step.intros)
next
  case False
  then show ?thesis unfolding assms(2) by (auto simp: answer_eq Let_def split: option.split)
qed

text \<open>
  C27: The page refines the wizard: from every reachable state, every event (a click, a
  submission, an answer early or late, unmounting and mounting again) either leaves connection
  and operation as they are or is a step of the wizard. So no operation begins while another
  is under way, Telegram is connected, verified and disconnected only in the states where that
  makes sense, and an outdated answer does nothing.
\<close>

theorem connect_page_refines_wizard:
  assumes "connect_reachable scr" and "connect_step scr e scr'"
  shows "abs_wizard scr' = abs_wizard scr \<or> wizard_step (abs_wizard scr) (abs_wizard scr')"
proof -
  have ok: "connect_ok (cs_page scr)" by (rule reachable_connect_ok [OF assms(1)])
  then have idle: "cp_mounted (cs_page scr) \<Longrightarrow> \<not> cp_active (cs_page scr) \<Longrightarrow> cp_operation (cs_page scr) = None"
    by (simp add: connect_ok_def)
  have scr': "scr' = screen_step scr e" using assms(2) by (simp add: connect_step_iff)
  have key: "connection_key c \<in> {2, 3} \<Longrightarrow> makes_sense Verifying c" for c
    by (cases c rule: connection_key.cases) auto
  show ?thesis
  proof (cases e)
    case Remount
    then show ?thesis unfolding scr' abs_wizard_def
      by (simp add: mount_effect_def loadConnection_start_def begin_request_def wizard_step.reloads)
  next
    case Unmount
    then show ?thesis unfolding scr' abs_wizard_def by (simp add: unmount_effect_def)
  next
    case RefreshClicked
    then show ?thesis unfolding scr' abs_wizard_def
      using wizard_step.begins by (simp add: is_busy_def loadConnection_start_def)
  next
    case ConnectSubmitted
    then show ?thesis unfolding scr' abs_wizard_def
      using idle wizard_step.begins by (simp add: handleConnect_start_def split: prod.split option.split)
  next
    case VerifySubmitted
    then show ?thesis unfolding scr' abs_wizard_def
      using idle key wizard_step.begins by (simp add: handleVerify_start_def split: prod.split option.split)
  next
    case (DisconnectClicked confirmed)
    then show ?thesis unfolding scr' abs_wizard_def
      using wizard_step.begins by (simp add: is_busy_def handleDisconnect_start_def can_disconnect_def)
  next
    case (Answered rid result)
    then show ?thesis unfolding scr' abs_wizard_def
      using answer_wizard [OF ok refl, of rid result] by simp
  qed (simp_all add: scr' abs_wizard_def)
qed

theorem connect_page_refines_wizard_witness:
  "abs_wizard (screen_step screen_initial (Answered 1 (Inr Disconnected))) = abs_wizard screen_initial
   \<or> wizard_step (None, Some LoadingStatus) (abs_wizard (screen_step screen_initial (Answered 1 (Inr Disconnected))))"
  using connect_page_refines_wizard [OF connect_reachable.start connect_step.intros, of "Answered 1 (Inr Disconnected)"]
  by (simp add: abs_wizard_def)

section \<open>What is sent\<close>

lemma round_double_large: "2 ^ 53 \<le> n \<Longrightarrow> round_double n = PosInf \<or> (\<exists>m \<ge> 2 ^ 53. round_double n = jint (int m))"
proof -
  assume n: "2 ^ 53 \<le> n"
  define L where "L = floorlog 2 n"
  have pos: "0 < n" using n by simp
  have up: "n < 2 ^ L" and low: "2 ^ (L - 1) \<le> n"
    unfolding L_def using floorlog_bounds [of n 2] pos by auto
  have "(2::nat) ^ 53 < 2 ^ L" using n up by linarith
  then have L: "53 < L" by (rule power_less_imp_less_exp [rotated]) simp
  define q where "q = n div 2 ^ (L - 53)"
  have e: "52 + (L - 53) = L - 1" using L by linarith
  have "(2::nat) ^ 52 * 2 ^ (L - 53) = 2 ^ (L - 1)"
    by (simp only: power_add [symmetric] e)
  with low have "2 ^ 52 * 2 ^ (L - 53) \<le> n" by (simp only:)
  moreover have "(0::nat) < 2 ^ (L - 53)" by simp
  ultimately have "2 ^ 52 \<le> q" unfolding q_def by (simp only: less_eq_div_iff_mult_less_eq)
  moreover have "(2::nat) ^ 1 \<le> 2 ^ (L - 53)" using L by (intro power_increasing) auto
  ultimately have "2 ^ 52 * 2 \<le> q' * 2 ^ (L - 53)" if "q \<le> q'" for q'
    using that by (intro mult_le_mono) auto
  then have big: "2 ^ 53 \<le> q' * 2 ^ (L - 53)" if "q = q' \<or> q' = Suc q" for q'
    using that by fastforce
  have eq: "round_double n =
      (let q' = (if 2 * (n mod 2 ^ (L - 53)) < 2 ^ (L - 53) \<or> 2 * (n mod 2 ^ (L - 53)) = 2 ^ (L - 53) \<and> even q then q else Suc q)
       in if q' * 2 ^ (L - 53) < 2 ^ 1024 then jint (int (q' * 2 ^ (L - 53))) else PosInf)"
    unfolding round_double_def L_def [symmetric] Let_def q_def using n by (simp only: not_less [symmetric] if_False)
  define q' where "q' = (if 2 * (n mod 2 ^ (L - 53)) < 2 ^ (L - 53) \<or> 2 * (n mod 2 ^ (L - 53)) = 2 ^ (L - 53) \<and> even q then q else Suc q)"
  have "round_double n = (if q' * 2 ^ (L - 53) < 2 ^ 1024 then jint (int (q' * 2 ^ (L - 53))) else PosInf)"
    unfolding eq q'_def Let_def by (rule refl)
  moreover have "2 ^ 53 \<le> q' * 2 ^ (L - 53)" by (rule big) (simp add: q'_def)
  ultimately show ?thesis by metis
qed

lemma safe_integer_jint: "safe_integer (jint n) = (if \<bar>n\<bar> \<le> 2 ^ 53 - 1 then Some n else None)"
  by (simp add: safe_integer_def)

lemma safe_integer_digits: "safe_integer (number_of_digits ds) = (if digits_value ds < 2 ^ 53 then Some (int (digits_value ds)) else None)"
proof (cases "digits_value ds < 2 ^ 53")
  case True
  then show ?thesis
    using safe_integer_jint [of "int (digits_value ds)"] by (simp add: number_of_digits_def round_double_small)
next
  case False
  then have "round_double (digits_value ds) = PosInf \<or> (\<exists>m \<ge> 2 ^ 53. round_double (digits_value ds) = jint (int m))"
    by (intro round_double_large) simp
  then show ?thesis
  proof (elim disjE exE conjE)
    assume "round_double (digits_value ds) = PosInf"
    with False show ?thesis by (simp add: number_of_digits_def safe_integer_def)
  next
    fix m
    assume "2 ^ 53 \<le> m" and "round_double (digits_value ds) = jint (int m)"
    with False show ?thesis
      using safe_integer_jint [of "int m"] by (simp add: number_of_digits_def)
  qed
qed

lemma valid_api_id_iff:
  "valid_api_id t = Some n \<longleftrightarrow>
     t \<noteq> [] \<and> list_all is_digit t \<and> n = int (digits_value t) \<and> 1 \<le> n \<and> n \<le> 2147483647"
  by (auto simp: valid_api_id_def safe_integer_digits)

lemma submit_connect_payload:
  "submit_connect f = (f', Some p) \<longleftrightarrow>
     f' = f\<lparr>cf_localError := None\<rparr> \<and> valid_api_id (js_trim (cf_apiId f)) = Some (apiId p)
     \<and> apiHash p = js_trim (cf_apiHash f) \<and> length (apiHash p) = 32 \<and> list_all is_hex_char (apiHash p)
     \<and> phone p = js_trim (cf_phone f) \<and> 5 \<le> length (phone p)"
  by (cases p) (auto simp: submit_connect_def Let_def split: option.split if_splits)

lemma submit_verify_payload:
  "submit_verify pr f = (f', Some v) \<Longrightarrow>
     (if pr then v = VerifyPassword (vc_password f) \<and> js_trim (vc_password f) \<noteq> []
      else v = VerifyCode (js_trim (vc_code f)) \<and> js_trim (vc_code f) \<noteq> [])"
  by (auto simp: submit_verify_def Let_def split: if_splits)

lemma begin_sent [simp]: "cp_sent (begin_request op req s) = req # cp_sent s"
  by (simp add: begin_request_def)

lemma answer_sent [simp]: "cp_sent (answer rid result s) = cp_sent s"
  by (simp add: answer_eq settled_page_def Let_def split: option.split sum.split)

text \<open>What justifies sending a request at an event.\<close>

fun justified :: "connect_screen \<Rightarrow> connect_event \<Rightarrow> connect_request \<Rightarrow> bool" where
  "justified scr e StatusRequest = (e = Remount \<or> e = RefreshClicked)"
| "justified scr e (ConnectRequest p) =
     (e = ConnectSubmitted \<and> cp_connection (cs_page scr) = Some Disconnected
      \<and> 1 \<le> apiId p \<and> apiId p \<le> 2147483647
      \<and> apiId p = int (digits_value (js_trim (cf_apiId (cs_connect scr))))
      \<and> length (apiHash p) = 32 \<and> list_all is_hex_char (apiHash p) \<and> apiHash p = js_trim (cf_apiHash (cs_connect scr))
      \<and> 5 \<le> length (phone p) \<and> phone p = js_trim (cf_phone (cs_connect scr)))"
| "justified scr e (VerifyRequest (VerifyCode c)) =
     (e = VerifySubmitted \<and> connection_key (cp_connection (cs_page scr)) = 2
      \<and> c \<noteq> [] \<and> c = js_trim (vc_code (cs_verify scr)))"
| "justified scr e (VerifyRequest (VerifyPassword w)) =
     (e = VerifySubmitted \<and> connection_key (cp_connection (cs_page scr)) = 3
      \<and> js_trim w \<noteq> [] \<and> w = vc_password (cs_verify scr))"
| "justified scr e DisconnectRequest =
     (e = DisconnectClicked True \<and> cp_connection (cs_page scr) \<noteq> None \<and> cp_connection (cs_page scr) \<noteq> Some Disconnected)"

text \<open>
  C28: Every request is asked for, complete and alone: an event sends at most one request, and
  only while none is active (mounting apart); a connect request carries exactly the trimmed
  fields, an API id from 1 to 2147483647, 32 hexadecimal digits and at least five characters of
  phone number; a code or password is never blank and belongs to the step that asks for it; and
  Telegram is disconnected only after the confirmation.
\<close>

theorem connect_requests_justified:
  assumes "connect_reachable scr" and "connect_step scr e scr'"
  shows "cp_sent (cs_page scr') = cp_sent (cs_page scr)
    \<or> (\<exists>req. cp_sent (cs_page scr') = req # cp_sent (cs_page scr) \<and> justified scr e req
         \<and> (cp_operation (cs_page scr) = None \<or> e = Remount))"
proof -
  have idle: "cp_mounted (cs_page scr) \<Longrightarrow> \<not> cp_active (cs_page scr) \<Longrightarrow> cp_operation (cs_page scr) = None"
    using reachable_connect_ok [OF assms(1)] by (simp add: connect_ok_def)
  have scr': "scr' = screen_step scr e" using assms(2) by (simp add: connect_step_iff)
  show ?thesis
  proof (cases e)
    case ConnectSubmitted
    then show ?thesis unfolding scr'
      using idle by (auto simp: handleConnect_start_def submit_connect_payload valid_api_id_iff split: prod.split option.split)
  next
    case VerifySubmitted
    then show ?thesis unfolding scr'
      using idle by (auto simp: handleVerify_start_def password_required_def split: prod.split option.split if_splits dest!: submit_verify_payload)
  next
    case (DisconnectClicked confirmed)
    then show ?thesis unfolding scr'
      by (simp add: is_busy_def handleDisconnect_start_def can_disconnect_def)
  qed (simp_all add: scr' mount_effect_def unmount_effect_def loadConnection_start_def is_busy_def)
qed

theorem connect_requests_justified_witness:
  "cp_sent (cs_page (screen_step screen_initial RefreshClicked)) = cp_sent (cs_page screen_initial)
   \<or> (\<exists>req. cp_sent (cs_page (screen_step screen_initial RefreshClicked)) = req # cp_sent (cs_page screen_initial)
        \<and> justified screen_initial RefreshClicked req)"
  using connect_requests_justified [OF connect_reachable.start connect_step.intros, of RefreshClicked] by blast

end
