(* ===== verification/ConnectViews.thy ===== *)
theory ConnectViews
  imports ConnectPage Markup
begin

text \<open>
  What the Telegram connection page and its two forms render (\<open>connect-page.tsx\<close>,
  \<open>connect-form.tsx\<close>, \<open>verify-code.tsx\<close>), and what each control that is shown enabled does.
\<close>

section \<open>The forms\<close>

definition connect_form_attrs :: "connect_page \<Rightarrow> jstr option \<Rightarrow> string option \<Rightarrow> attrs" where
  "connect_form_attrs p visibleError help =
     flag ''disabled'' (cp_operation p = Some Connecting)
     @ bool_attr ''aria-invalid'' (is_set visibleError)
     @ opt_attr ''aria-describedby'' (if is_set visibleError then Some (js ''telegram-connection-error'') else map_option js help)"

definition connect_form_view :: "connect_page \<Rightarrow> connect_form \<Rightarrow> connect_event html" where
  "connect_form_view p f =
     (let visibleError = connect_form_visible_error (cp_formError p) f;
          isSubmitting = (cp_operation p = Some Connecting)
      in El ''form'' [(''novalidate'', [])] [on ''submit'' ConnectSubmitted]
        ([El ''div'' [] []
            [El ''div'' [] []
               [El ''label'' [(''for'', js ''telegram-api-id'')] [] [Txt (js ''API ID'')],
                El ''input''
                  ([(''id'', js ''telegram-api-id''), (''inputmode'', js ''numeric''), (''autocomplete'', js ''off''), (''required'', [])]
                   @ connect_form_attrs p visibleError None @ [(''value'', cf_apiId f), (''placeholder'', js ''12345678'')])
                  [(''change'', \<lambda>v. ConnectTyped v (cf_apiHash f) (cf_phone f))] []],
             El ''div'' [] []
               [El ''label'' [(''for'', js ''telegram-api-hash'')] [] [Txt (js ''API Hash'')],
                El ''input''
                  ([(''id'', js ''telegram-api-hash''), (''type'', js ''password''), (''autocomplete'', js ''off''),
                    (''spellcheck'', js ''false''), (''required'', [])]
                   @ connect_form_attrs p visibleError None
                   @ [(''value'', cf_apiHash f), (''placeholder'', js ''32-character API hash'')])
                  [(''change'', \<lambda>v. ConnectTyped (cf_apiId f) v (cf_phone f))] []]],
          El ''p'' [] []
            [Txt (js ''Create your own Telegram application at ''),
             El ''a'' [(''href'', js ''https://my.telegram.org/apps''), (''target'', js ''_blank''), (''rel'', js ''noreferrer'')] []
               [Txt (js ''my.telegram.org/apps'')],
             Txt (js ''. Your API hash is encrypted for your account and is never shown again.'')],
          El ''div'' [] []
            [El ''label'' [(''for'', js ''telegram-phone'')] [] [Txt (js ''Phone Number'')],
             El ''input''
               ([(''id'', js ''telegram-phone''), (''type'', js ''tel''), (''autocomplete'', js ''tel''), (''required'', [])]
                @ connect_form_attrs p visibleError (Some ''telegram-phone-help'')
                @ [(''value'', cf_phone f), (''placeholder'', js ''+1 555 000 0000'')])
               [(''change'', \<lambda>v. ConnectTyped (cf_apiId f) (cf_apiHash f) v)] [],
             El ''p'' [(''id'', js ''telegram-phone-help'')] []
               [Txt (js ''Include the country calling code. Telegram will send a sign-in code to this account.'')]]]
         @ shown visibleError (\<lambda>e. [El ''p'' [(''id'', js ''telegram-connection-error''), (''role'', js ''alert'')] [] [Txt e]])
         @ [Button (Some (js ''submit'')) (flag ''disabled'' isSubmitting) []
              [Txt (if isSubmitting then js ''Sending code...'' else js ''Continue with Telegram'')]]))"

definition verify_form_view :: "bool \<Rightarrow> connect_page \<Rightarrow> verify_form \<Rightarrow> connect_event html" where
  "verify_form_view passwordRequired p f =
     (let displayError = (case vc_validationError f of Some e \<Rightarrow> Some e | None \<Rightarrow> cp_formError p);
          isSubmitting = (cp_operation p = Some Verifying);
          field_id = (if passwordRequired then js ''telegram-password'' else js ''telegram-verification-code'')
      in El ''form'' [(''novalidate'', [])] [on ''submit'' VerifySubmitted]
        ([El ''div'' [] []
            [El ''label'' [(''for'', field_id)] []
               [Txt (if passwordRequired then js ''Two-Factor Password'' else js ''Verification Code'')],
             El ''input''
               ([(''id'', field_id), (''type'', if passwordRequired then js ''password'' else js ''text''),
                 (''autocomplete'', if passwordRequired then js ''current-password'' else js ''one-time-code''),
                 (''value'', if passwordRequired then vc_password f else vc_code f),
                 (''placeholder'', if passwordRequired then js ''Your Telegram 2FA password'' else js ''12345'')]
                @ flag ''disabled'' isSubmitting
                @ opt_attr ''inputmode'' (if passwordRequired then None else Some (js ''numeric''))
                @ true_or_absent ''aria-invalid'' (is_set displayError)
                @ opt_attr ''aria-describedby'' (if is_set displayError then Some (js ''telegram-verification-error'') else None)
                @ [(''required'', [])])
               [(''change'', VerifyTyped)] []]]
         @ shown displayError (\<lambda>e. [El ''p'' [(''id'', js ''telegram-verification-error''), (''role'', js ''alert'')] [] [Txt e]])
         @ [Button (Some (js ''submit'')) (flag ''disabled'' isSubmitting) []
              [Txt (if isSubmitting then js ''Verifying...''
                    else if passwordRequired then js ''Verify Password'' else js ''Verify Code'')]]))"

section \<open>The page\<close>

definition step_item :: "nat \<Rightarrow> nat \<times> string \<Rightarrow> 'a html" where
  "step_item active = (\<lambda>(n, label).
     El ''li'' (opt_attr ''aria-current'' (if active = n then Some (js ''step'') else None)) []
       ((if active > n then [El ''span'' [] [] [Txt (js ''Completed: '')]] else []) @ [Txt (js label)]))"

definition connection_header :: "connect_page \<Rightarrow> connect_event html list" where
  "connection_header p =
     [El ''div'' [] []
        [El ''div'' [] []
           [El ''p'' [] [] [Txt (js ''Account connection'')],
            El ''h2'' [(''id'', js ''telegram-connection-title'')] [] [Txt (js ''Telegram connection'')],
            El ''p'' [] []
              [Txt (js ''Connect the Telegram account that contains the Saved Messages you want to organize. Enter your own Telegram API ID and API hash; they are encrypted for your website account.'')]],
         Button None (flag ''disabled'' (is_busy p)) [on ''click'' RefreshClicked]
           [Txt (if cp_operation p = Some RefreshingStatus then js ''Refreshing...'' else js ''Refresh status'')]],
      El ''ol'' [(''aria-label'', js ''Telegram connection progress'')] []
        (map (step_item (activeStep p)) [(1, ''Phone''), (2, ''Verify''), (3, ''Connected'')])]"

text \<open>The browser's confirmation before disconnecting gives the two events of that button.\<close>

definition connection_status :: "connect_page \<Rightarrow> connect_event html list" where
  "connection_status p =
     (case cp_connection p of
        None \<Rightarrow> []
      | Some c \<Rightarrow>
          [El ''div'' [] []
             ([El ''div'' [] [] [El ''p'' [] [] [Txt (js ''Current status'')], El ''h3'' [] [] [Txt (stateTitle c)]]]
              @ (case disconnect_label p of
                   None \<Rightarrow> []
                 | Some label \<Rightarrow>
                     [Button None (flag ''disabled'' (is_busy p))
                        [on ''click'' (DisconnectClicked True), on ''click'' (DisconnectClicked False)] [Txt label]]))])"

definition connection_error :: "connect_page \<Rightarrow> connect_event html list" where
  "connection_error p =
     shown (cp_statusError p) (\<lambda>e.
       [El ''div'' [(''role'', js ''alert'')] []
          ([El ''p'' [] [] [Txt e]]
           @ (if cp_connection p = None
              then [Button None (flag ''disabled'' (is_busy p)) [on ''click'' RefreshClicked] [Txt (js ''Try again'')]]
              else []))])"

definition connected_panel :: "telegram_account_summary option \<Rightarrow> 'a html" where
  "connected_panel a =
     El ''div'' [] []
       [El ''div'' [] []
          ([El ''h3'' [] [] [Txt (account_title a)]]
           @ (case account_line a of Some l \<Rightarrow> [El ''p'' [] [] [Txt l]] | None \<Rightarrow> [])
           @ [El ''p'' [] []
                [Txt (js ''You can now import and organize Saved Messages. Disconnecting later stops future imports but does not remove messages already imported into the organizer.'')]]),
        El ''div'' [] []
          [El ''div'' [] [] [Txt (js ''Ready to import'')], El ''Link'' [(''to'', js ''/'')] [] [Txt (js ''Open import dashboard'')]]]"

fun connection_panel :: "connect_screen \<Rightarrow> telegram_connection \<Rightarrow> connect_event html list" where
  "connection_panel scr Disconnected =
     [El ''div'' [] []
        [El ''div'' [] []
           [El ''h3'' [] [] [Txt (js ''Connect your account'')],
            El ''p'' [] []
              [Txt (js ''Enter your Telegram application credentials and phone number. You will confirm the connection using a code from Telegram and, if enabled, your two-step verification password.'')]],
         connect_form_view (cs_page scr) (cs_connect scr)]]"
| "connection_panel scr (CodeRequired p) =
     [El ''div'' [] []
        [El ''div'' [] []
           [El ''h3'' [] [] [Txt (js ''Enter the sign-in code'')],
            El ''p'' [] [] [Txt (js ''Telegram sent a sign-in code for '' @ challengePhone p @ js ''. Enter it below to continue.'')]],
         verify_form_view False (cs_page scr) (cs_verify scr),
         El ''p'' [] [] [Txt (js ''Having trouble? Check Telegram on your signed-in devices, or use a different number to restart.'')]]]"
| "connection_panel scr (PasswordRequired p) =
     [El ''div'' [] []
        [El ''div'' [] []
           [El ''h3'' [] [] [Txt (js ''Enter your Telegram password'')],
            El ''p'' [] []
              [Txt (js ''Telegram accepted the code for '' @ challengePhone p
                 @ js ''. Enter the two-step verification password to finish.'')]],
         verify_form_view True (cs_page scr) (cs_verify scr),
         El ''p'' [] [] [Txt (js ''Having trouble? Check Telegram on your signed-in devices, or use a different number to restart.'')]]]"
| "connection_panel scr (Connected a) = [connected_panel a]"

definition connection_page_view :: "connect_screen \<Rightarrow> connect_event html list" where
  "connection_page_view scr =
     (let p = cs_page scr
      in [El ''section'' [(''aria-labelledby'', js ''telegram-connection-title'')] []
            (connection_header p
             @ [El ''div'' [] []
                 (connection_status p @ connection_error p
                  @ [El ''div'' [(''aria-live'', js ''polite'')] []
                      ((if cp_operation p = Some LoadingStatus \<and> cp_connection p = None
                        then [El ''div'' [(''role'', js ''status'')] [] [Txt (js ''Loading Telegram connection...'')]] else [])
                       @ (case cp_connection p of
                            Some c \<Rightarrow> [El ''div'' [] [] (connection_panel scr c)]
                          | None \<Rightarrow> []))])])])"

section \<open>What the controls do\<close>

lemma connect_form_acts:
  "acts (connect_form_view p f) =
     (if cp_operation p = Some Connecting then {}
      else {ConnectSubmitted} \<union> range (\<lambda>v. ConnectTyped v (cf_apiHash f) (cf_phone f))
        \<union> range (\<lambda>v. ConnectTyped (cf_apiId f) v (cf_phone f)) \<union> range (\<lambda>v. ConnectTyped (cf_apiId f) (cf_apiHash f) v))"
  by (simp add: connect_form_view_def connect_form_attrs_def Let_def Un_ac)

lemma verify_form_acts:
  "acts (verify_form_view pr p f) = (if cp_operation p = Some Verifying then {} else insert VerifySubmitted (range VerifyTyped))"
  by (simp add: verify_form_view_def Let_def)

lemma step_item_facts [simp]: "acts (step_item n x) = {}" "\<not> has_submit (step_item n x)"
  by (simp_all add: step_item_def split: prod.split)

lemma connection_header_acts: "acts_list (connection_header p) = (if is_busy p then {} else {RefreshClicked})"
  by (simp add: connection_header_def)

lemma connection_status_acts:
  "acts_list (connection_status p) =
     (if is_busy p \<or> cp_connection p = None \<or> cp_connection p = Some Disconnected then {}
      else {DisconnectClicked True, DisconnectClicked False})"
  by (auto simp: connection_status_def disconnect_label_def split: option.split telegram_connection.split)

lemma connection_error_acts: "acts_list (connection_error p) \<subseteq> (if is_busy p then {} else {RefreshClicked})"
  by (auto simp: connection_error_def shown_def split: option.split if_splits)

lemma connected_panel_acts [simp]: "acts (connected_panel a) = {}"
  by (simp add: connected_panel_def split: option.split)

lemma connection_panel_acts:
  "acts_list (connection_panel scr c) =
     (case c of
        Disconnected \<Rightarrow> acts (connect_form_view (cs_page scr) (cs_connect scr))
      | CodeRequired p \<Rightarrow> acts (verify_form_view False (cs_page scr) (cs_verify scr))
      | PasswordRequired p \<Rightarrow> acts (verify_form_view True (cs_page scr) (cs_verify scr))
      | Connected a \<Rightarrow> {})"
  by (cases c) simp_all

lemma connection_page_acts:
  "acts_list (connection_page_view scr) \<subseteq>
     (if is_busy (cs_page scr) then {} else {RefreshClicked}) \<union> acts_list (connection_status (cs_page scr))
     \<union> (case cp_connection (cs_page scr) of Some c \<Rightarrow> acts_list (connection_panel scr c) | None \<Rightarrow> {})"
  using connection_error_acts [of "cs_page scr"]
  by (auto simp: connection_page_view_def Let_def connection_header_acts split: option.splits if_splits)

text \<open>What a control does on a page that is shown; a form that is valid is sent only by an idle page.\<close>

definition submit_outcome :: "jstr option \<Rightarrow> connect_request option \<Rightarrow> connect_screen \<Rightarrow> connect_screen \<Rightarrow> bool" where
  "submit_outcome refused req scr scr' =
     (case req of
        None \<Rightarrow> is_set refused \<and> cp_sent (cs_page scr') = cp_sent (cs_page scr)
      | Some r \<Rightarrow> cp_sent (cs_page scr') =
          (if is_busy (cs_page scr) then cp_sent (cs_page scr) else r # cp_sent (cs_page scr)))"

fun control_outcome :: "connect_screen \<Rightarrow> connect_event \<Rightarrow> connect_screen \<Rightarrow> bool" where
  "control_outcome scr RefreshClicked scr' = (cp_sent (cs_page scr') = StatusRequest # cp_sent (cs_page scr))"
| "control_outcome scr (DisconnectClicked confirmed) scr' =
     (cp_sent (cs_page scr') = (if confirmed then [DisconnectRequest] else []) @ cp_sent (cs_page scr))"
| "control_outcome scr (ConnectTyped i h p) scr' =
     (cf_apiId (cs_connect scr') = i \<and> cf_apiHash (cs_connect scr') = h \<and> cf_phone (cs_connect scr') = p)"
| "control_outcome scr (VerifyTyped v) scr' =
     ((if password_required (cs_page scr) then vc_password (cs_verify scr') else vc_code (cs_verify scr')) = v)"
| "control_outcome scr ConnectSubmitted scr' =
     submit_outcome (cf_localError (cs_connect scr')) (map_option ConnectRequest (snd (submit_connect (cs_connect scr)))) scr scr'"
| "control_outcome scr VerifySubmitted scr' =
     submit_outcome (vc_validationError (cs_verify scr'))
       (map_option VerifyRequest (snd (submit_verify (password_required (cs_page scr)) (cs_verify scr)))) scr scr'"
| "control_outcome scr e scr' = False"

lemma submit_connect_refused: "submit_connect f = (f', None) \<Longrightarrow> is_set (cf_localError f')"
  by (auto simp: submit_connect_def Let_def is_set_def split: option.splits if_splits)

lemma submit_verify_refused: "submit_verify pr f = (f', None) \<Longrightarrow> is_set (vc_validationError f')"
  by (auto simp: submit_verify_def Let_def is_set_def split: if_splits)

lemma connect_submitted_outcome:
  assumes "connect_ok (cs_page scr)" "cp_mounted (cs_page scr)" "cp_connection (cs_page scr) = Some Disconnected"
  shows "control_outcome scr ConnectSubmitted (screen_step scr ConnectSubmitted)"
  using assms by (auto simp: submit_outcome_def connect_ok_def is_busy_def handleConnect_start_def submit_connect_refused
      split: prod.split option.split if_splits)

lemma verify_submitted_outcome:
  assumes "connect_ok (cs_page scr)" "cp_mounted (cs_page scr)" "connection_key (cp_connection (cs_page scr)) \<in> {2, 3}"
  shows "control_outcome scr VerifySubmitted (screen_step scr VerifySubmitted)"
  using assms by (auto simp: submit_outcome_def connect_ok_def is_busy_def handleVerify_start_def submit_verify_refused
      split: prod.split option.split if_splits)

lemma panel_control_outcome:
  assumes "connect_ok (cs_page scr)" "cp_mounted (cs_page scr)" "cp_connection (cs_page scr) = Some c"
    and "e \<in> acts_list (connection_panel scr c)"
  shows "control_outcome scr e (screen_step scr e)"
proof (cases c)
  case Disconnected
  with assms(3,4) have "e = ConnectSubmitted \<or> cp_operation (cs_page scr) \<noteq> Some Connecting \<and> (\<exists>i h p. e = ConnectTyped i h p)"
    by (auto simp: connect_form_acts split: if_splits)
  then show ?thesis using connect_submitted_outcome [OF assms(1,2)] assms(2,3) Disconnected by auto
next
  case (CodeRequired p)
  with assms(3,4) have "e = VerifySubmitted \<or> cp_operation (cs_page scr) \<noteq> Some Verifying \<and> (\<exists>v. e = VerifyTyped v)"
    by (auto simp: verify_form_acts split: if_splits)
  then show ?thesis using verify_submitted_outcome [OF assms(1,2)] assms(2,3) CodeRequired
    by (auto simp: password_required_def verify_form_change_def)
next
  case (PasswordRequired p)
  with assms(3,4) have "e = VerifySubmitted \<or> cp_operation (cs_page scr) \<noteq> Some Verifying \<and> (\<exists>v. e = VerifyTyped v)"
    by (auto simp: verify_form_acts split: if_splits)
  then show ?thesis using verify_submitted_outcome [OF assms(1,2)] assms(2,3) PasswordRequired
    by (auto simp: password_required_def verify_form_change_def)
next
  case (Connected a)
  with assms(4) show ?thesis by simp
qed

text \<open>
  C35: Every control that the connection page shows enabled does what it says: a refresh and a
  confirmed disconnection send their request at once, a field takes what is typed into it, and a
  form that is submitted either shows what is wrong with it or sends exactly its request, unless
  another request of the page is running.
\<close>

theorem connect_controls_effective:
  assumes "connect_reachable scr" and "cp_mounted (cs_page scr)" and "e \<in> acts_list (connection_page_view scr)"
  shows "control_outcome scr e (screen_step scr e)"
proof -
  have ok: "connect_ok (cs_page scr)" by (rule reachable_connect_ok [OF assms(1)])
  from assms(3) consider "\<not> is_busy (cs_page scr)" "e = RefreshClicked"
    | "e \<in> acts_list (connection_status (cs_page scr))"
    | c where "cp_connection (cs_page scr) = Some c" "e \<in> acts_list (connection_panel scr c)"
    using connection_page_acts [of scr] by (auto split: if_splits option.splits)
  then show ?thesis
  proof cases
    case 1
    then show ?thesis using ok assms(2) by (auto simp: connect_ok_def is_busy_def loadConnection_start_def)
  next
    case 2
    then show ?thesis using ok assms(2)
      by (auto simp: connection_status_acts connect_ok_def is_busy_def handleDisconnect_start_def can_disconnect_def split: if_splits)
  next
    case 3
    then show ?thesis using panel_control_outcome [OF ok assms(2)] by blast
  qed
qed

theorem connect_controls_effective_witness:
  "cp_sent (cs_page (screen_step (screen_step screen_initial (Answered 1 (Inr Disconnected))) RefreshClicked)) =
     [StatusRequest, StatusRequest]"
proof -
  let ?scr = "screen_step screen_initial (Answered 1 (Inr Disconnected))"
  have r: "connect_reachable ?scr" by (rule connect_reachable.step [OF connect_reachable.start connect_step.intros])
  have page: "cs_page ?scr = settled_page StatusRequest (Inr Disconnected)
      ((mount_effect connect_initial)\<lparr>cp_inflight := []\<rparr>)"
    by (simp add: answer_eq mount_effect_def loadConnection_start_def begin_request_def connect_initial_def)
  have m: "cp_mounted (cs_page ?scr)" unfolding page by (simp add: settled_page_def)
  have "cp_sent (cs_page ?scr) = [StatusRequest]" "\<not> is_busy (cs_page ?scr)"
    unfolding page by (simp_all add: settled_page_def is_busy_def mount_effect_def loadConnection_start_def begin_request_def connect_initial_def)
  moreover from this have "RefreshClicked \<in> acts_list (connection_page_view ?scr)"
    by (simp add: connection_page_view_def Let_def connection_header_acts)
  ultimately show ?thesis
    using connect_controls_effective [OF r m, of RefreshClicked] by (simp only: control_outcome.simps simp_thms)
qed

text \<open>
  A form stays enabled while a refresh or a disconnection runs, but what is submitted then is
  dropped: nothing is sent and no error is shown.
\<close>

lemma connect_submit_dropped:
  assumes "cp_mounted (cs_page scr)" "cp_connection (cs_page scr) = Some Disconnected"
    and "cp_operation (cs_page scr) = Some RefreshingStatus" "cp_active (cs_page scr)"
    and "submit_connect (cs_connect scr) = (f, Some payload)"
  shows "ConnectSubmitted \<in> acts_list (connection_page_view scr)"
    and "cs_page (screen_step scr ConnectSubmitted) = cs_page scr"
    and "cf_localError (cs_connect (screen_step scr ConnectSubmitted)) = None"
proof -
  show "ConnectSubmitted \<in> acts_list (connection_page_view scr)"
    using assms(2,3) by (simp add: connection_page_view_def Let_def connect_form_acts)
  show "cs_page (screen_step scr ConnectSubmitted) = cs_page scr"
    using assms by (simp add: handleConnect_start_def)
  show "cf_localError (cs_connect (screen_step scr ConnectSubmitted)) = None"
    using assms iffD1 [OF submit_connect_payload assms(5)] by (simp add: handleConnect_start_def rerender_def)
qed

section \<open>Names and references\<close>

lemma connect_form_markup:
  "labelled_ids (connect_form_view p f) = {js ''telegram-api-id'', js ''telegram-api-hash'', js ''telegram-phone''}"
  "{js ''telegram-api-id'', js ''telegram-api-hash'', js ''telegram-phone''} \<subseteq> ids \<Longrightarrow> named ids False (connect_form_view p f)"
  "refs_of (connect_form_view p f) \<subseteq> ids_of (connect_form_view p f)"
  by (auto simp: connect_form_view_def connect_form_attrs_def Button_def Let_def is_ws_def shown_def is_set_def
      split: option.split)

lemma verify_form_markup:
  "labelled_ids (verify_form_view pr p f) = {if pr then js ''telegram-password'' else js ''telegram-verification-code''}"
  "(if pr then js ''telegram-password'' else js ''telegram-verification-code'') \<in> ids \<Longrightarrow> named ids False (verify_form_view pr p f)"
  "refs_of (verify_form_view pr p f) \<subseteq> ids_of (verify_form_view pr p f)"
  by (auto simp: verify_form_view_def Button_def Let_def is_ws_def shown_def is_set_def split: option.split)

lemma connection_parts_markup [simp]:
  "labelled_ids (step_item n x) = {}" "named ids b (step_item n x)" "refs_of (step_item n x) = {}"
  "labelled_ids_list (connection_header p) = {}" "named_list ids b (connection_header p)" "refs_of_list (connection_header p) = {}"
  "js ''telegram-connection-title'' \<in> ids_of_list (connection_header p)"
  "labelled_ids_list (connection_status p) = {}" "named_list ids b (connection_status p)" "refs_of_list (connection_status p) = {}"
  "labelled_ids_list (connection_error p) = {}" "named_list ids b (connection_error p)" "refs_of_list (connection_error p) = {}"
  "labelled_ids (connected_panel a) = {}" "named ids b (connected_panel a)" "refs_of (connected_panel a) = {}"
  by (simp_all add: step_item_def connection_header_def connection_status_def connection_error_def connected_panel_def
      disconnect_label_def Button_def is_ws_def split: prod.split option.split telegram_connection.split)

lemma connection_panel_markup:
  "named_list (labelled_ids_list (connection_panel scr c)) False (connection_panel scr c)"
  "refs_of_list (connection_panel scr c) \<subseteq> ids_of_list (connection_panel scr c)"
  by (cases c; simp add: connect_form_markup verify_form_markup)+

lemma connection_page_controls: "controls_named (connection_page_view scr)" "refs_resolve (connection_page_view scr)"
proof -
  show "controls_named (connection_page_view scr)"
    by (simp add: controls_named_def connection_page_view_def Let_def connection_panel_markup split: option.split)
  show "refs_resolve (connection_page_view scr)"
    using connection_panel_markup(2)
    by (auto simp: refs_resolve_def connection_page_view_def Let_def split: option.split dest: subsetD)
qed

end
