(* ===== verification/OrganizationPages.thy ===== *)
theory OrganizationPages
  imports ApiOrganization
begin

text \<open>
  \<open>pages/tags-page.tsx\<close> and \<open>pages/categories-page.tsx\<close> with their dialogs
  (\<open>tag-form-dialog.tsx\<close>, \<open>category-form-dialog.tsx\<close>). Both pages keep a form dialog and a
  confirmation dialog of the same shape: their invariant is proved once, in a locale that both
  pages interpret, and what they promise is an abstract machine, \<open>dialog_next\<close>.
\<close>

section \<open>The dialogs of a page\<close>

record 'a page_dialogs =
  dg_isFormOpen :: bool
  dg_editing :: "'a option"
  dg_deleting :: "'a option"
  dg_isSaving :: bool
  dg_isDeleting :: bool
  dg_formError :: "jstr option"
  dg_deleteError :: "jstr option"
  dg_successMessage :: "jstr option"

definition no_dialogs :: "'a page_dialogs" where
  "no_dialogs = \<lparr>dg_isFormOpen = False, dg_editing = None, dg_deleting = None, dg_isSaving = False, dg_isDeleting = False,
     dg_formError = None, dg_deleteError = None, dg_successMessage = None\<rparr>"

definition openCreateDialog :: "'a page_dialogs \<Rightarrow> 'a page_dialogs" where
  "openCreateDialog d = d\<lparr>dg_editing := None, dg_formError := None, dg_successMessage := None, dg_isFormOpen := True\<rparr>"

definition openEditDialog :: "'a \<Rightarrow> 'a page_dialogs \<Rightarrow> 'a page_dialogs" where
  "openEditDialog x d = d\<lparr>dg_editing := Some x, dg_formError := None, dg_successMessage := None, dg_isFormOpen := True\<rparr>"

definition closeFormDialog :: "'a page_dialogs \<Rightarrow> 'a page_dialogs" where
  "closeFormDialog d =
     (if dg_isSaving d then d else d\<lparr>dg_isFormOpen := False, dg_editing := None, dg_formError := None\<rparr>)"

definition openDeleteDialog :: "'a \<Rightarrow> 'a page_dialogs \<Rightarrow> 'a page_dialogs" where
  "openDeleteDialog x d = d\<lparr>dg_deleting := Some x, dg_deleteError := None, dg_successMessage := None\<rparr>"

definition closeDeleteDialog :: "'a page_dialogs \<Rightarrow> 'a page_dialogs" where
  "closeDeleteDialog d = (if dg_isDeleting d then d else d\<lparr>dg_deleting := None, dg_deleteError := None\<rparr>)"

definition save_begins :: "'a page_dialogs \<Rightarrow> 'a page_dialogs" where
  "save_begins d = d\<lparr>dg_isSaving := True, dg_formError := None\<rparr>"

definition save_ends :: "js_error + jstr \<Rightarrow> jstr \<Rightarrow> 'a page_dialogs \<Rightarrow> 'a page_dialogs" where
  "save_ends outcome fallback d =
     (case outcome of
        Inr message \<Rightarrow> d\<lparr>dg_successMessage := Some message, dg_isFormOpen := False, dg_editing := None\<rparr>
      | Inl e \<Rightarrow> d\<lparr>dg_formError := Some (error_text e fallback)\<rparr>)\<lparr>dg_isSaving := False\<rparr>"

definition delete_begins :: "'a page_dialogs \<Rightarrow> 'a page_dialogs" where
  "delete_begins d = (if dg_deleting d = None then d else d\<lparr>dg_isDeleting := True, dg_deleteError := None\<rparr>)"

definition delete_ends :: "js_error + jstr \<Rightarrow> jstr \<Rightarrow> 'a page_dialogs \<Rightarrow> 'a page_dialogs" where
  "delete_ends outcome fallback d =
     (case outcome of
        Inr message \<Rightarrow> d\<lparr>dg_successMessage := Some message, dg_deleting := None\<rparr>
      | Inl e \<Rightarrow> d\<lparr>dg_deleteError := Some (error_text e fallback)\<rparr>)\<lparr>dg_isDeleting := False\<rparr>"

definition messageCountLabel :: "int \<Rightarrow> jstr" where
  "messageCountLabel n = int_str n @ js '' '' @ (if n = 1 then js ''message'' else js ''messages'')"

section \<open>The tag form\<close>

record managed_tag =
  mt_id :: int
  mt_name :: jstr
  mt_color :: "jstr option"
  mt_message_count :: int

record tag_form =
  tf_name :: jstr
  tf_hasColor :: bool
  tf_color :: jstr

definition tag_form_effect :: "bool \<Rightarrow> managed_tag option \<Rightarrow> tag_form \<Rightarrow> tag_form" where
  "tag_form_effect isOpen tag f =
     (if \<not> isOpen then f
      else case tag of
             None \<Rightarrow> \<lparr>tf_name = [], tf_hasColor = True, tf_color = js ''#0EA5E9''\<rparr>
           | Some t \<Rightarrow> \<lparr>tf_name = mt_name t, tf_hasColor = (mt_color t \<noteq> None),
                        tf_color = (case mt_color t of Some c \<Rightarrow> c | None \<Rightarrow> js ''#0EA5E9'')\<rparr>)"

definition normalizedColor :: "host \<Rightarrow> jstr \<Rightarrow> jstr" where
  "normalizedColor H color = to_upper H (js_trim color)"

definition tag_form_can_submit :: "host \<Rightarrow> bool \<Rightarrow> tag_form \<Rightarrow> bool" where
  "tag_form_can_submit H isSubmitting f \<longleftrightarrow>
     js_trim (tf_name f) \<noteq> [] \<and> (\<not> tf_hasColor f \<or> is_hex_color (normalizedColor H (tf_color f))) \<and> \<not> isSubmitting"

definition tag_form_submit :: "host \<Rightarrow> bool \<Rightarrow> tag_form \<Rightarrow> create_tag_request option" where
  "tag_form_submit H isSubmitting f =
     (if \<not> tag_form_can_submit H isSubmitting f then None
      else Some \<lparr>ct_name = tf_name f, ct_color = (if tf_hasColor f then Some (normalizedColor H (tf_color f)) else None)\<rparr>)"

section \<open>The category form\<close>

record category_form =
  cfm_name :: jstr
  cfm_icon :: jstr
  cfm_color :: jstr
  cfm_position :: jsnum

definition category_form_effect :: "bool \<Rightarrow> category option \<Rightarrow> int \<Rightarrow> category_form \<Rightarrow> category_form" where
  "category_form_effect isOpen cat suggestedPosition f =
     (if \<not> isOpen then f
      else case cat of
             None \<Rightarrow> \<lparr>cfm_name = [], cfm_icon = js ''message-square'', cfm_color = js ''#0F766E'',
                       cfm_position = jint suggestedPosition\<rparr>
           | Some c \<Rightarrow> \<lparr>cfm_name = cat_name c, cfm_icon = cat_icon c, cfm_color = cat_color c,
                         cfm_position = jint (cat_position c)\<rparr>)"

text \<open>\<open>Number.parseInt(value, 10) || 0\<close>.\<close>

definition read_position :: "jstr \<Rightarrow> jsnum" where
  "read_position v = (if parse_int v = NaN then jint 0 else parse_int v)"

definition category_form_can_submit :: "host \<Rightarrow> bool \<Rightarrow> category_form \<Rightarrow> bool" where
  "category_form_can_submit H isSubmitting f \<longleftrightarrow>
     js_trim (cfm_name f) \<noteq> [] \<and> cfm_icon f \<noteq> [] \<and> is_hex_color (normalizedColor H (cfm_color f))
     \<and> cfm_position f \<noteq> NaN \<and> \<not> num_less (cfm_position f) (jint 0) \<and> \<not> isSubmitting"

definition category_form_submit :: "host \<Rightarrow> bool \<Rightarrow> category_form \<Rightarrow> category_input option" where
  "category_form_submit H isSubmitting f =
     (if \<not> category_form_can_submit H isSubmitting f then None
      else Some \<lparr>ci_name = cfm_name f, ci_icon = cfm_icon f, ci_color = normalizedColor H (cfm_color f),
                 ci_position = cfm_position f\<rparr>)"

section \<open>The tags page\<close>

text \<open>
  A load in flight keeps its revision, whether it runs in the background, and whether it was
  started with the mount's abort signal. \<open>tg_saving\<close> and \<open>tg_removing\<close> are the requests of the
  dialogs in flight, with what their closures captured.
\<close>

record tag_load =
  tl_revision :: nat
  tl_background :: bool
  tl_signalled :: bool

record tags_page =
  tg_tags :: "managed_tag list"
  tg_isLoading :: bool
  tg_loadError :: "jstr option"
  tg_dialogs :: "managed_tag page_dialogs"
  tg_loadRevision :: nat
  tg_hasLoaded :: bool
  tg_mounted :: bool
  tg_loads :: "tag_load list"
  tg_saving :: "(managed_tag option \<times> create_tag_request) option"
  tg_removing :: "managed_tag option"

definition compare_managed_tags :: "host \<Rightarrow> managed_tag \<Rightarrow> managed_tag \<Rightarrow> int" where
  "compare_managed_tags H a b = locale_compare H (mt_name a) (mt_name b)"

definition loadTags_start :: "bool \<Rightarrow> bool \<Rightarrow> tags_page \<Rightarrow> tags_page" where
  "loadTags_start signalled background p =
     (let revision = tg_loadRevision p + 1;
          p = p\<lparr>tg_loadRevision := revision,
                tg_loads := \<lparr>tl_revision = revision, tl_background = background, tl_signalled = signalled\<rparr> # tg_loads p\<rparr>
      in if background then p else p\<lparr>tg_isLoading := True, tg_loadError := None\<rparr>)"

definition loadTags_reply :: "tag_load \<Rightarrow> js_error + managed_tag list \<Rightarrow> tags_page \<Rightarrow> tags_page" where
  "loadTags_reply l result p =
     (let aborted = (tl_signalled l \<and> \<not> tg_mounted p)
      in if aborted \<or> tl_revision l \<noteq> tg_loadRevision p then p
         else (case result of
                 Inr nextTags \<Rightarrow> p\<lparr>tg_hasLoaded := True, tg_tags := nextTags, tg_loadError := None\<rparr>
               | Inl e \<Rightarrow> if \<not> tl_background l \<or> \<not> tg_hasLoaded p
                          then p\<lparr>tg_loadError := Some (error_text e (js ''Could not load your tags.''))\<rparr> else p)
              \<lparr>tg_isLoading := False\<rparr>)"

definition tags_initial :: tags_page where
  "tags_initial =
     loadTags_start True False
       \<lparr>tg_tags = [], tg_isLoading = True, tg_loadError = None, tg_dialogs = no_dialogs, tg_loadRevision = 0,
        tg_hasLoaded = False, tg_mounted = True, tg_loads = [], tg_saving = None, tg_removing = None\<rparr>"

text \<open>The cleanup of the effect that loads and subscribes.\<close>

definition tags_unmount :: "tags_page \<Rightarrow> tags_page" where
  "tags_unmount p = p\<lparr>tg_mounted := False, tg_loadRevision := tg_loadRevision p + 1\<rparr>"

text \<open>A change announced by this tab or another: the subscription's callback.\<close>

definition tags_changed :: "tags_page \<Rightarrow> tags_page" where
  "tags_changed p = (if tg_mounted p then loadTags_start False True p else p)"

definition on_dialogs :: "(managed_tag page_dialogs \<Rightarrow> managed_tag page_dialogs) \<Rightarrow> tags_page \<Rightarrow> tags_page" where
  "on_dialogs f p = p\<lparr>tg_dialogs := f (tg_dialogs p)\<rparr>"

definition tags_handleSave_start :: "create_tag_request \<Rightarrow> tags_page \<Rightarrow> tags_page" where
  "tags_handleSave_start payload p =
     on_dialogs save_begins (p\<lparr>tg_saving := Some (dg_editing (tg_dialogs p), payload)\<rparr>)"

text \<open>
  The request settled. \<open>createTag\<close> and \<open>updateTag\<close> announce the change before they return, so a
  success first starts a load in the background.
\<close>

definition tags_handleSave_reply :: "host \<Rightarrow> managed_tag option \<Rightarrow> js_error + message_tag \<Rightarrow> tags_page \<Rightarrow> tags_page" where
  "tags_handleSave_reply H editing result p =
     (case result of
        Inl e \<Rightarrow> on_dialogs (save_ends (Inl e) (js ''Could not save this tag.'')) p
      | Inr saved \<Rightarrow>
          (let p = tags_changed p;
               as_managed = (\<lambda>n. \<lparr>mt_id = tag_id saved, mt_name = tag_name saved, mt_color = tag_color saved, mt_message_count = n\<rparr>)
           in case editing of
                None \<Rightarrow>
                  on_dialogs (save_ends (Inr (js ''Created #'' @ tag_name saved @ js ''.'')) [])
                    (p\<lparr>tg_tags := js_sort (compare_managed_tags H) (tg_tags p @ [as_managed 0])\<rparr>)
              | Some t \<Rightarrow>
                  on_dialogs (save_ends (Inr (js ''Saved #'' @ tag_name saved @ js ''.'')) [])
                    (p\<lparr>tg_tags := js_sort (compare_managed_tags H)
                         (map (\<lambda>x. if mt_id x = tag_id saved then as_managed (mt_message_count x) else x) (tg_tags p))\<rparr>)))"

definition tags_handleDelete_start :: "tags_page \<Rightarrow> tags_page" where
  "tags_handleDelete_start p =
     (if dg_deleting (tg_dialogs p) = None then p
      else on_dialogs delete_begins (p\<lparr>tg_removing := dg_deleting (tg_dialogs p)\<rparr>))"

definition tags_handleDelete_reply :: "managed_tag \<Rightarrow> js_error + unit \<Rightarrow> tags_page \<Rightarrow> tags_page" where
  "tags_handleDelete_reply removed result p =
     (case result of
        Inl e \<Rightarrow> on_dialogs (delete_ends (Inl e) (js ''Could not delete this tag.'')) p
      | Inr _ \<Rightarrow>
          (let p = tags_changed p
           in on_dialogs (delete_ends (Inr (js ''Deleted #'' @ mt_name removed @ js '' and removed it from ''
                    @ messageCountLabel (mt_message_count removed) @ js ''.'')) [])
                (p\<lparr>tg_tags := filter (\<lambda>x. mt_id x \<noteq> mt_id removed) (tg_tags p)\<rparr>)))"

definition tags_new_enabled :: "tags_page \<Rightarrow> bool" where
  "tags_new_enabled p \<longleftrightarrow> \<not> tg_isLoading p \<and> tg_loadError p = None"

text \<open>A dialog is modal: what is behind it is inert.\<close>

definition modal_open :: "'a page_dialogs \<Rightarrow> bool" where
  "modal_open d \<longleftrightarrow> dg_isFormOpen d \<or> dg_deleting d \<noteq> None"

inductive tags_step :: "host \<Rightarrow> tags_page \<Rightarrow> tags_page \<Rightarrow> bool" for H where
  create: "tags_new_enabled p \<Longrightarrow> \<not> modal_open (tg_dialogs p) \<Longrightarrow> tags_step H p (on_dialogs openCreateDialog p)"
| edit: "tag \<in> set (tg_tags p) \<Longrightarrow> \<not> tg_isLoading p \<Longrightarrow> \<not> modal_open (tg_dialogs p) \<Longrightarrow> tags_step H p (on_dialogs (openEditDialog tag) p)"
| remove: "tag \<in> set (tg_tags p) \<Longrightarrow> \<not> tg_isLoading p \<Longrightarrow> \<not> modal_open (tg_dialogs p) \<Longrightarrow> tags_step H p (on_dialogs (openDeleteDialog tag) p)"
| close_form: "dg_isFormOpen (tg_dialogs p) \<Longrightarrow> tags_step H p (on_dialogs closeFormDialog p)"
| close_delete: "dg_deleting (tg_dialogs p) \<noteq> None \<Longrightarrow> tags_step H p (on_dialogs closeDeleteDialog p)"
| submit: "dg_isFormOpen (tg_dialogs p) \<Longrightarrow> tag_form_submit H (dg_isSaving (tg_dialogs p)) f = Some payload \<Longrightarrow>
    tags_step H p (tags_handleSave_start payload p)"
| saved: "tg_saving p = Some (editing, payload) \<Longrightarrow>
    tags_step H p (tags_handleSave_reply H editing result (p\<lparr>tg_saving := None\<rparr>))"
| confirm: "\<not> dg_isDeleting (tg_dialogs p) \<Longrightarrow> tags_step H p (tags_handleDelete_start p)"
| removed: "tg_removing p = Some tag \<Longrightarrow> tags_step H p (tags_handleDelete_reply tag result' (p\<lparr>tg_removing := None\<rparr>))"
| changed: "tags_step H p (tags_changed p)"
| retry: "tg_mounted p \<Longrightarrow> tg_loadError p \<noteq> None \<Longrightarrow> \<not> tg_isLoading p \<Longrightarrow> tags_step H p (loadTags_start False False p)"
| loaded: "l \<in> set (tg_loads p) \<Longrightarrow> tags_step H p (loadTags_reply l result'' (p\<lparr>tg_loads := remove1 l (tg_loads p)\<rparr>))"

inductive_cases tags_stepE: "tags_step H p p'"

section \<open>The categories page\<close>

record categories_page =
  cg_categories :: "category list"
  cg_isLoading :: bool
  cg_isFallback :: bool
  cg_dialogs :: "category page_dialogs"
  cg_form :: category_form
  cg_saving :: "(category option \<times> category_input) option"
  cg_removing :: "category option"
  cg_notified :: nat

definition suggestedPosition :: "category list \<Rightarrow> int" where
  "suggestedPosition cs = foldl (\<lambda>highest c. max highest (cat_position c)) 0 cs + 1"

definition fallbackCategoryName :: "category list \<Rightarrow> jstr" where
  "fallbackCategoryName cs =
     (case find (\<lambda>c. cat_system_key c = Some (js ''other'')) cs of Some c \<Rightarrow> cat_name c | None \<Rightarrow> js ''Other'')"

text \<open>
  The dialogs with the form, which is filled again whenever \<open>category\<close>, \<open>open\<close> or
  \<open>suggestedPosition\<close> differ from the render before.
\<close>

definition categories_render ::
    "category page_dialogs \<Rightarrow> category list \<Rightarrow> categories_page \<Rightarrow> categories_page" where
  "categories_render d cs p =
     (let form = (if dg_editing d \<noteq> dg_editing (cg_dialogs p) \<or> dg_isFormOpen d \<noteq> dg_isFormOpen (cg_dialogs p)
                     \<or> suggestedPosition cs \<noteq> suggestedPosition (cg_categories p)
                  then category_form_effect (dg_isFormOpen d) (dg_editing d) (suggestedPosition cs) (cg_form p)
                  else cg_form p)
      in p\<lparr>cg_dialogs := d, cg_categories := cs, cg_form := form\<rparr>)"

definition categories_dialogs :: "(category page_dialogs \<Rightarrow> category page_dialogs) \<Rightarrow> categories_page \<Rightarrow> categories_page" where
  "categories_dialogs f p = categories_render (f (cg_dialogs p)) (cg_categories p) p"

definition categories_received :: "category list \<Rightarrow> bool \<Rightarrow> bool \<Rightarrow> categories_page \<Rightarrow> categories_page" where
  "categories_received cs isLoading isFallback p =
     (categories_render (cg_dialogs p) cs p)\<lparr>cg_isLoading := isLoading, cg_isFallback := isFallback\<rparr>"

definition categories_initial :: "category list \<Rightarrow> categories_page" where
  "categories_initial cs =
     \<lparr>cg_categories = cs, cg_isLoading = True, cg_isFallback = False, cg_dialogs = no_dialogs,
      cg_form = \<lparr>cfm_name = [], cfm_icon = js ''message-square'', cfm_color = js ''#0F766E'',
                 cfm_position = jint (suggestedPosition cs)\<rparr>,
      cg_saving = None, cg_removing = None, cg_notified = 0\<rparr>"

definition categories_handleSave_start :: "category_input \<Rightarrow> categories_page \<Rightarrow> categories_page" where
  "categories_handleSave_start payload p =
     categories_dialogs save_begins (p\<lparr>cg_saving := Some (dg_editing (cg_dialogs p), payload)\<rparr>)"

definition quoted :: "jstr \<Rightarrow> jstr" where
  "quoted s = [8220] @ s @ [8221]"

definition categories_handleSave_reply :: "category option \<Rightarrow> js_error + category \<Rightarrow> categories_page \<Rightarrow> categories_page" where
  "categories_handleSave_reply editing result p =
     (case result of
        Inl e \<Rightarrow> categories_dialogs (save_ends (Inl e) (js ''Could not save this category.'')) p
      | Inr c \<Rightarrow>
          (categories_dialogs
             (save_ends (Inr ((if editing = None then js ''Created '' else js ''Saved '') @ quoted (cat_name c) @ js ''.'')) []) p)
          \<lparr>cg_notified := cg_notified p + 1\<rparr>)"

definition categories_handleDelete_start :: "categories_page \<Rightarrow> categories_page" where
  "categories_handleDelete_start p =
     (if dg_deleting (cg_dialogs p) = None then p
      else categories_dialogs delete_begins (p\<lparr>cg_removing := dg_deleting (cg_dialogs p)\<rparr>))"

definition categories_handleDelete_reply :: "category \<Rightarrow> js_error + int \<Rightarrow> categories_page \<Rightarrow> categories_page" where
  "categories_handleDelete_reply c result p =
     (case result of
        Inl e \<Rightarrow> categories_dialogs (delete_ends (Inl e) (js ''Could not delete this category.'')) p
      | Inr moved \<Rightarrow>
          (let movedSummary = (if moved > 0
                 then js '' '' @ messageCountLabel moved @ js '' moved to '' @ fallbackCategoryName (cg_categories p) @ js ''.''
                 else [])
           in (categories_dialogs (delete_ends (Inr (js ''Deleted '' @ quoted (cat_name c) @ js ''.'' @ movedSummary)) []) p)
              \<lparr>cg_notified := cg_notified p + 1\<rparr>))"

inductive categories_step :: "host \<Rightarrow> categories_page \<Rightarrow> categories_page \<Rightarrow> bool" for H where
  create: "\<not> cg_isLoading p \<Longrightarrow> \<not> cg_isFallback p \<Longrightarrow> \<not> modal_open (cg_dialogs p) \<Longrightarrow>
    categories_step H p (categories_dialogs openCreateDialog p)"
| edit: "c \<in> set (cg_categories p) \<Longrightarrow> \<not> modal_open (cg_dialogs p) \<Longrightarrow>
    categories_step H p (categories_dialogs (openEditDialog c) p)"
| remove: "c \<in> set (cg_categories p) \<Longrightarrow> \<not> cat_is_default c \<Longrightarrow> \<not> modal_open (cg_dialogs p) \<Longrightarrow>
    categories_step H p (categories_dialogs (openDeleteDialog c) p)"
| close_form: "dg_isFormOpen (cg_dialogs p) \<Longrightarrow> categories_step H p (categories_dialogs closeFormDialog p)"
| close_delete: "dg_deleting (cg_dialogs p) \<noteq> None \<Longrightarrow> categories_step H p (categories_dialogs closeDeleteDialog p)"
| typed: "dg_isFormOpen (cg_dialogs p) \<Longrightarrow> \<not> dg_isSaving (cg_dialogs p) \<Longrightarrow> categories_step H p (p\<lparr>cg_form := f\<rparr>)"
| submit: "dg_isFormOpen (cg_dialogs p) \<Longrightarrow> category_form_submit H (dg_isSaving (cg_dialogs p)) (cg_form p) = Some payload \<Longrightarrow>
    categories_step H p (categories_handleSave_start payload p)"
| saved: "cg_saving p = Some (editing, payload) \<Longrightarrow>
    categories_step H p (categories_handleSave_reply editing result (p\<lparr>cg_saving := None\<rparr>))"
| confirm: "\<not> dg_isDeleting (cg_dialogs p) \<Longrightarrow> categories_step H p (categories_handleDelete_start p)"
| removed: "cg_removing p = Some c \<Longrightarrow> categories_step H p (categories_handleDelete_reply c result' (p\<lparr>cg_removing := None\<rparr>))"
| received: "categories_step H p (categories_received cs isLoading isFallback p)"
| again: "cg_isFallback p \<Longrightarrow> \<not> modal_open (cg_dialogs p) \<Longrightarrow> categories_step H p (p\<lparr>cg_notified := cg_notified p + 1\<rparr>)"

inductive_cases categories_stepE: "categories_step H p p'"

section \<open>The dialogs of a page stay consistent\<close>

text \<open>The operations on the dialogs under the conditions in which both pages start them, to carry the invariant.\<close>

inductive dialog_step :: "'a page_dialogs \<Rightarrow> 'a page_dialogs \<Rightarrow> bool" where
  opens_create: "\<not> modal_open d \<Longrightarrow> dialog_step d (openCreateDialog d)"
| opens_edit: "\<not> modal_open d \<Longrightarrow> dialog_step d (openEditDialog x d)"
| opens_delete: "\<not> modal_open d \<Longrightarrow> dialog_step d (openDeleteDialog x d)"
| closes_form: "dg_isFormOpen d \<Longrightarrow> \<not> dg_isSaving d \<Longrightarrow> dialog_step d (closeFormDialog d)"
| closes_delete: "dg_deleting d \<noteq> None \<Longrightarrow> \<not> dg_isDeleting d \<Longrightarrow> dialog_step d (closeDeleteDialog d)"
| saves: "dg_isFormOpen d \<Longrightarrow> \<not> dg_isSaving d \<Longrightarrow> dialog_step d (save_begins d)"
| saved: "dg_isSaving d \<Longrightarrow> dialog_step d (save_ends outcome fallback d)"
| deletes: "dg_deleting d \<noteq> None \<Longrightarrow> \<not> dg_isDeleting d \<Longrightarrow> dialog_step d (delete_begins d)"
| deleted: "dg_isDeleting d \<Longrightarrow> dialog_step d (delete_ends outcome fallback d)"

lemmas dialog_operations =
  openCreateDialog_def openEditDialog_def openDeleteDialog_def closeFormDialog_def closeDeleteDialog_def
  save_begins_def save_ends_def delete_begins_def delete_ends_def

definition dialogs_ok :: "'a page_dialogs \<Rightarrow> bool" where
  "dialogs_ok d \<longleftrightarrow>
     (dg_isSaving d \<longrightarrow> dg_isFormOpen d) \<and> (dg_isDeleting d \<longrightarrow> dg_deleting d \<noteq> None) \<and>
     \<not> (dg_isFormOpen d \<and> dg_deleting d \<noteq> None) \<and> (dg_editing d \<noteq> None \<longrightarrow> dg_isFormOpen d) \<and>
     (dg_formError d \<noteq> None \<longrightarrow> dg_isFormOpen d \<and> \<not> dg_isSaving d) \<and>
     (dg_deleteError d \<noteq> None \<longrightarrow> dg_deleting d \<noteq> None \<and> \<not> dg_isDeleting d)"

lemma dialogs_ok_none: "dialogs_ok no_dialogs"
  by (simp add: dialogs_ok_def no_dialogs_def)

lemma dialogs_ok_save_ends: "dialogs_ok d \<Longrightarrow> dg_isSaving d \<Longrightarrow> dialogs_ok (save_ends outcome fallback d)"
  by (cases outcome) (auto simp: dialogs_ok_def save_ends_def)

lemma dialogs_ok_delete_ends: "dialogs_ok d \<Longrightarrow> dg_isDeleting d \<Longrightarrow> dialogs_ok (delete_ends outcome fallback d)"
  by (cases outcome) (auto simp: dialogs_ok_def delete_ends_def)

lemma dialogs_ok_step: "dialog_step d d' \<Longrightarrow> dialogs_ok d \<Longrightarrow> dialogs_ok d'"
proof (induction rule: dialog_step.induct)
  case (saved d outcome fallback)
  then show ?case by (simp add: dialogs_ok_save_ends)
next
  case (deleted d outcome fallback)
  then show ?case by (simp add: dialogs_ok_delete_ends)
qed (auto simp: dialogs_ok_def modal_open_def openCreateDialog_def openEditDialog_def openDeleteDialog_def
      closeFormDialog_def closeDeleteDialog_def save_begins_def delete_begins_def)

inductive run_reachable :: "('s \<Rightarrow> bool) \<Rightarrow> ('s \<Rightarrow> 's \<Rightarrow> bool) \<Rightarrow> 's \<Rightarrow> bool" for start step where
  run_start: "start s \<Longrightarrow> run_reachable start step s"
| run_step: "run_reachable start step s \<Longrightarrow> step s s' \<Longrightarrow> run_reachable start step s'"

text \<open>
  A page that hosts the dialogs: each of its steps is a step of the machine or leaves the
  dialogs alone, and its requests in flight are the ones the dialogs wait for.
\<close>

locale dialog_host =
  fixes start :: "'s \<Rightarrow> bool"
    and step :: "'s \<Rightarrow> 's \<Rightarrow> bool"
    and dialogs :: "'s \<Rightarrow> 'a page_dialogs"
    and saving :: "'s \<Rightarrow> bool"
    and removing :: "'s \<Rightarrow> bool"
  assumes starts: "start s \<Longrightarrow> dialogs s = no_dialogs \<and> \<not> saving s \<and> \<not> removing s"
    and refines: "step s s' \<Longrightarrow> dialogs_ok (dialogs s) \<Longrightarrow> saving s = dg_isSaving (dialogs s) \<Longrightarrow> removing s = dg_isDeleting (dialogs s) \<Longrightarrow>
      dialogs s' = dialogs s \<or> dialog_step (dialogs s) (dialogs s')"
    and in_flight: "step s s' \<Longrightarrow> dialogs_ok (dialogs s) \<Longrightarrow> saving s = dg_isSaving (dialogs s) \<Longrightarrow> removing s = dg_isDeleting (dialogs s) \<Longrightarrow>
      saving s' = dg_isSaving (dialogs s') \<and> removing s' = dg_isDeleting (dialogs s')"
begin

lemma reachable_ok:
  "run_reachable start step s \<Longrightarrow>
   dialogs_ok (dialogs s) \<and> saving s = dg_isSaving (dialogs s) \<and> removing s = dg_isDeleting (dialogs s)"
proof (induction rule: run_reachable.induct)
  case (run_start s)
  then show ?case using starts dialogs_ok_none by (simp add: no_dialogs_def)
next
  case (run_step s s')
  then show ?case using refines [of s s'] in_flight [of s s'] dialogs_ok_step by metis
qed

lemma reachable_refines:
  "run_reachable start step s \<Longrightarrow> step s s' \<Longrightarrow> dialogs s' = dialogs s \<or> dialog_step (dialogs s) (dialogs s')"
  using reachable_ok refines by blast

end

lemma tags_dialogs [simp]:
  "tg_dialogs (on_dialogs f p) = f (tg_dialogs p)" "tg_saving (on_dialogs f p) = tg_saving p"
  "tg_removing (on_dialogs f p) = tg_removing p"
  "tg_dialogs (tags_changed p) = tg_dialogs p" "tg_saving (tags_changed p) = tg_saving p" "tg_removing (tags_changed p) = tg_removing p"
  "tg_dialogs (loadTags_start b c p) = tg_dialogs p" "tg_saving (loadTags_start b c p) = tg_saving p"
  "tg_removing (loadTags_start b c p) = tg_removing p"
  "tg_dialogs (loadTags_reply l r p) = tg_dialogs p" "tg_saving (loadTags_reply l r p) = tg_saving p"
  "tg_removing (loadTags_reply l r p) = tg_removing p"
  by (simp_all add: on_dialogs_def tags_changed_def loadTags_start_def loadTags_reply_def Let_def split: sum.split)

lemma tag_saved_dialogs:
  "\<exists>outcome fallback. tg_dialogs (tags_handleSave_reply H editing result p) = save_ends outcome fallback (tg_dialogs p)"
  "tg_saving (tags_handleSave_reply H editing result p) = tg_saving p"
  "tg_removing (tags_handleSave_reply H editing result p) = tg_removing p"
  by (auto simp: tags_handleSave_reply_def Let_def split: sum.split option.split)

lemma tag_removed_dialogs:
  "\<exists>outcome fallback. tg_dialogs (tags_handleDelete_reply t result p) = delete_ends outcome fallback (tg_dialogs p)"
  "tg_saving (tags_handleDelete_reply t result p) = tg_saving p"
  "tg_removing (tags_handleDelete_reply t result p) = tg_removing p"
  by (auto simp: tags_handleDelete_reply_def Let_def split: sum.split)

lemma dialog_flags [simp]:
  "dg_isSaving (save_begins d) = True" "dg_isDeleting (save_begins d) = dg_isDeleting d"
  "dg_isSaving (save_ends outcome fallback d) = False" "dg_isDeleting (save_ends outcome fallback d) = dg_isDeleting d"
  "dg_isSaving (delete_ends outcome fallback d) = dg_isSaving d" "dg_isDeleting (delete_ends outcome fallback d) = False"
  "dg_isSaving (delete_begins d) = dg_isSaving d"
  "dg_isDeleting (delete_begins d) = (dg_isDeleting d \<or> dg_deleting d \<noteq> None)"
  "dg_isSaving (openCreateDialog d) = dg_isSaving d" "dg_isDeleting (openCreateDialog d) = dg_isDeleting d"
  "dg_isSaving (openEditDialog x d) = dg_isSaving d" "dg_isDeleting (openEditDialog x d) = dg_isDeleting d"
  "dg_isSaving (openDeleteDialog x d) = dg_isSaving d" "dg_isDeleting (openDeleteDialog x d) = dg_isDeleting d"
  "dg_isSaving (closeFormDialog d) = dg_isSaving d" "dg_isDeleting (closeFormDialog d) = dg_isDeleting d"
  "dg_isSaving (closeDeleteDialog d) = dg_isSaving d" "dg_isDeleting (closeDeleteDialog d) = dg_isDeleting d"
  by (simp_all add: dialog_operations split: sum.split)

lemma tag_submit_not_saving: "tag_form_submit H b f = Some payload \<Longrightarrow> \<not> b"
  by (simp add: tag_form_submit_def tag_form_can_submit_def split: if_splits)

lemma category_submit_not_saving: "category_form_submit H b f = Some payload \<Longrightarrow> \<not> b"
  by (simp add: category_form_submit_def category_form_can_submit_def split: if_splits)

lemma close_busy: "dg_isSaving d \<Longrightarrow> closeFormDialog d = d" "dg_isDeleting d \<Longrightarrow> closeDeleteDialog d = d"
  by (simp_all add: closeFormDialog_def closeDeleteDialog_def)

interpretation tags_host: dialog_host "\<lambda>p. p = tags_initial" "tags_step H" tg_dialogs
  "\<lambda>p. tg_saving p \<noteq> None" "\<lambda>p. tg_removing p \<noteq> None" for H
proof unfold_locales
  fix p
  assume "p = tags_initial"
  then show "tg_dialogs p = no_dialogs \<and> \<not> tg_saving p \<noteq> None \<and> \<not> tg_removing p \<noteq> None"
    by (simp add: tags_initial_def)
next
  fix p p'
  assume "tags_step H p p'" and ok: "dialogs_ok (tg_dialogs p)"
    and busy: "(tg_saving p \<noteq> None) = dg_isSaving (tg_dialogs p)" "(tg_removing p \<noteq> None) = dg_isDeleting (tg_dialogs p)"
  then show "tg_dialogs p' = tg_dialogs p \<or> dialog_step (tg_dialogs p) (tg_dialogs p')"
  proof cases
    case close_form
    then show ?thesis by (cases "dg_isSaving (tg_dialogs p)") (simp_all add: close_busy dialog_step.closes_form)
  next
    case close_delete
    then show ?thesis by (cases "dg_isDeleting (tg_dialogs p)") (simp_all add: close_busy dialog_step.closes_delete)
  next
    case (saved editing payload result)
    then have "dg_isSaving (tg_dialogs p)" using busy by simp
    with saved tag_saved_dialogs(1) [of H editing result "p\<lparr>tg_saving := None\<rparr>"] show ?thesis
      by (auto intro: dialog_step.saved)
  next
    case (removed tag result')
    then have "dg_isDeleting (tg_dialogs p)" using busy by simp
    with removed tag_removed_dialogs(1) [of tag result' "p\<lparr>tg_removing := None\<rparr>"] show ?thesis
      by (auto intro: dialog_step.deleted)
  next
    case (submit f payload)
    with tag_submit_not_saving [OF submit(3)] show ?thesis
      by (simp add: tags_handleSave_start_def dialog_step.saves)
  next
    case confirm
    then show ?thesis by (simp add: tags_handleDelete_start_def dialog_step.deletes)
  qed (simp_all add: dialog_step.intros)
next
  fix p p'
  assume "tags_step H p p'" and ok: "dialogs_ok (tg_dialogs p)"
    and busy: "(tg_saving p \<noteq> None) = dg_isSaving (tg_dialogs p)" "(tg_removing p \<noteq> None) = dg_isDeleting (tg_dialogs p)"
  then show "(tg_saving p' \<noteq> None) = dg_isSaving (tg_dialogs p') \<and> (tg_removing p' \<noteq> None) = dg_isDeleting (tg_dialogs p')"
  proof cases
    case (saved editing payload result)
    with busy tag_saved_dialogs [of H editing result "p\<lparr>tg_saving := None\<rparr>"] show ?thesis by auto
  next
    case (removed tag result')
    with busy tag_removed_dialogs [of tag result' "p\<lparr>tg_removing := None\<rparr>"] show ?thesis by auto
  qed (use busy in \<open>simp_all add: tags_handleSave_start_def tags_handleDelete_start_def\<close>)
qed

lemma categories_dialogs_fields [simp]:
  "cg_dialogs (categories_dialogs f p) = f (cg_dialogs p)" "cg_saving (categories_dialogs f p) = cg_saving p"
  "cg_removing (categories_dialogs f p) = cg_removing p" "cg_categories (categories_dialogs f p) = cg_categories p"
  "cg_dialogs (categories_received cs l b p) = cg_dialogs p" "cg_saving (categories_received cs l b p) = cg_saving p"
  "cg_removing (categories_received cs l b p) = cg_removing p"
  by (simp_all add: categories_dialogs_def categories_render_def categories_received_def Let_def)

lemma category_saved_dialogs:
  "\<exists>outcome fallback. cg_dialogs (categories_handleSave_reply editing result p) = save_ends outcome fallback (cg_dialogs p)"
  "cg_saving (categories_handleSave_reply editing result p) = cg_saving p"
  "cg_removing (categories_handleSave_reply editing result p) = cg_removing p"
  by (auto simp: categories_handleSave_reply_def split: sum.split)

lemma category_removed_dialogs:
  "\<exists>outcome fallback. cg_dialogs (categories_handleDelete_reply c result p) = delete_ends outcome fallback (cg_dialogs p)"
  "cg_saving (categories_handleDelete_reply c result p) = cg_saving p"
  "cg_removing (categories_handleDelete_reply c result p) = cg_removing p"
  by (auto simp: categories_handleDelete_reply_def Let_def split: sum.split)

interpretation categories_host: dialog_host "\<lambda>p. \<exists>cs. p = categories_initial cs" "categories_step H" cg_dialogs
  "\<lambda>p. cg_saving p \<noteq> None" "\<lambda>p. cg_removing p \<noteq> None" for H
proof unfold_locales
  fix p
  assume "\<exists>cs. p = categories_initial cs"
  then show "cg_dialogs p = no_dialogs \<and> \<not> cg_saving p \<noteq> None \<and> \<not> cg_removing p \<noteq> None"
    by (auto simp: categories_initial_def)
next
  fix p p'
  assume "categories_step H p p'" and ok: "dialogs_ok (cg_dialogs p)"
    and busy: "(cg_saving p \<noteq> None) = dg_isSaving (cg_dialogs p)" "(cg_removing p \<noteq> None) = dg_isDeleting (cg_dialogs p)"
  then show "cg_dialogs p' = cg_dialogs p \<or> dialog_step (cg_dialogs p) (cg_dialogs p')"
  proof cases
    case close_form
    then show ?thesis by (cases "dg_isSaving (cg_dialogs p)") (simp_all add: close_busy dialog_step.closes_form)
  next
    case close_delete
    then show ?thesis by (cases "dg_isDeleting (cg_dialogs p)") (simp_all add: close_busy dialog_step.closes_delete)
  next
    case (saved editing payload result)
    then have "dg_isSaving (cg_dialogs p)" using busy by simp
    with saved category_saved_dialogs(1) [of editing result "p\<lparr>cg_saving := None\<rparr>"] show ?thesis
      by (auto intro: dialog_step.saved)
  next
    case (removed c result')
    then have "dg_isDeleting (cg_dialogs p)" using busy by simp
    with removed category_removed_dialogs(1) [of c result' "p\<lparr>cg_removing := None\<rparr>"] show ?thesis
      by (auto intro: dialog_step.deleted)
  next
    case (submit payload)
    with category_submit_not_saving [OF submit(3)] show ?thesis
      by (simp add: categories_handleSave_start_def dialog_step.saves)
  next
    case confirm
    then show ?thesis by (simp add: categories_handleDelete_start_def dialog_step.deletes)
  qed (simp_all add: dialog_step.intros)
next
  fix p p'
  assume "categories_step H p p'" and ok: "dialogs_ok (cg_dialogs p)"
    and busy: "(cg_saving p \<noteq> None) = dg_isSaving (cg_dialogs p)" "(cg_removing p \<noteq> None) = dg_isDeleting (cg_dialogs p)"
  then show "(cg_saving p' \<noteq> None) = dg_isSaving (cg_dialogs p') \<and> (cg_removing p' \<noteq> None) = dg_isDeleting (cg_dialogs p')"
  proof cases
    case (saved editing payload result)
    with busy category_saved_dialogs [of editing result "p\<lparr>cg_saving := None\<rparr>"] show ?thesis by auto
  next
    case (removed c result')
    with busy category_removed_dialogs [of c result' "p\<lparr>cg_removing := None\<rparr>"] show ?thesis by auto
  qed (use busy in \<open>simp_all add: categories_handleSave_start_def categories_handleDelete_start_def\<close>)
qed

section \<open>What the dialogs promise\<close>

text \<open>
  The specification, without flags: no dialog, the form for a new item or for an item, or the
  question whether to delete an item; a dialog waits for its user, possibly with an error, or for the
  server. It opens only when none is open, closes when its user dismisses it unless it waits, and the
  server's answer closes it or shows the error in it.
\<close>

datatype dialog_wait = Ready "jstr option" | Waiting

datatype 'a dialog_view = NoDialog | FormShown "'a option" dialog_wait | QuestionShown 'a dialog_wait

datatype 'a dialog_input =
    OpenNew | OpenEdit 'a | OpenQuestion 'a | Dismiss | Proceed | Succeeded | Refused jstr | Unrelated

fun dialog_next :: "'a dialog_view \<Rightarrow> 'a dialog_input \<Rightarrow> 'a dialog_view" where
  "dialog_next NoDialog OpenNew = FormShown None (Ready None)"
| "dialog_next NoDialog (OpenEdit x) = FormShown (Some x) (Ready None)"
| "dialog_next NoDialog (OpenQuestion x) = QuestionShown x (Ready None)"
| "dialog_next (FormShown x (Ready e)) Dismiss = NoDialog"
| "dialog_next (FormShown x (Ready e)) Proceed = FormShown x Waiting"
| "dialog_next (FormShown x Waiting) Succeeded = NoDialog"
| "dialog_next (FormShown x Waiting) (Refused why) = FormShown x (Ready (Some why))"
| "dialog_next (QuestionShown x (Ready e)) Dismiss = NoDialog"
| "dialog_next (QuestionShown x (Ready e)) Proceed = QuestionShown x Waiting"
| "dialog_next (QuestionShown x Waiting) Succeeded = NoDialog"
| "dialog_next (QuestionShown x Waiting) (Refused why) = QuestionShown x (Ready (Some why))"
| "dialog_next d i = d"

text \<open>What a page's flags mean.\<close>

definition shown_dialog :: "'a page_dialogs \<Rightarrow> 'a dialog_view" where
  "shown_dialog d =
     (if dg_isFormOpen d then FormShown (dg_editing d) (if dg_isSaving d then Waiting else Ready (dg_formError d))
      else case dg_deleting d of
          Some x \<Rightarrow> QuestionShown x (if dg_isDeleting d then Waiting else Ready (dg_deleteError d))
        | None \<Rightarrow> NoDialog)"

definition answer_of :: "js_error + 'b \<Rightarrow> string \<Rightarrow> 'a dialog_input" where
  "answer_of result fallback = (case result of Inl e \<Rightarrow> Refused (error_text e (js fallback)) | Inr _ \<Rightarrow> Succeeded)"

lemma dialog_next_unrelated [simp]: "dialog_next (d :: 'a dialog_view) Unrelated = d"
  by (cases "(d, Unrelated :: 'a dialog_input)" rule: dialog_next.cases) simp_all

lemma dialog_next_waiting [simp]: "dialog_next (FormShown x Waiting) Dismiss = FormShown x Waiting"
  "dialog_next (QuestionShown y Waiting) Dismiss = QuestionShown y Waiting"
  by simp_all

lemma shown_open:
  assumes "dialogs_ok d" and "\<not> modal_open d"
  shows "shown_dialog (openCreateDialog d) = dialog_next (shown_dialog d) OpenNew"
    and "shown_dialog (openEditDialog x d) = dialog_next (shown_dialog d) (OpenEdit x)"
    and "shown_dialog (openDeleteDialog x d) = dialog_next (shown_dialog d) (OpenQuestion x)"
  using assms by (auto simp: shown_dialog_def dialogs_ok_def modal_open_def dialog_operations)

lemma shown_form:
  assumes "dialogs_ok d" and "dg_isFormOpen d"
  shows "shown_dialog (closeFormDialog d) = dialog_next (shown_dialog d) Dismiss"
    and "\<not> dg_isSaving d \<Longrightarrow> shown_dialog (save_begins d) = dialog_next (shown_dialog d) Proceed"
    and "dg_isSaving d \<Longrightarrow> shown_dialog (save_ends (Inr message) fallback d) = dialog_next (shown_dialog d) Succeeded"
    and "dg_isSaving d \<Longrightarrow> shown_dialog (save_ends (Inl e) fallback d) = dialog_next (shown_dialog d) (Refused (error_text e fallback))"
  using assms by (auto simp: shown_dialog_def dialogs_ok_def dialog_operations)

lemma shown_question:
  assumes "dialogs_ok d" and "dg_deleting d \<noteq> None"
  shows "shown_dialog (closeDeleteDialog d) = dialog_next (shown_dialog d) Dismiss"
    and "\<not> dg_isDeleting d \<Longrightarrow> shown_dialog (delete_begins d) = dialog_next (shown_dialog d) Proceed"
    and "dg_isDeleting d \<Longrightarrow> shown_dialog (delete_ends (Inr message) fallback d) = dialog_next (shown_dialog d) Succeeded"
    and "dg_isDeleting d \<Longrightarrow> shown_dialog (delete_ends (Inl e) fallback d) = dialog_next (shown_dialog d) (Refused (error_text e fallback))"
  using assms by (auto simp: shown_dialog_def dialogs_ok_def dialog_operations)

section \<open>The tag list\<close>

definition tags_loading_ok :: "tags_page \<Rightarrow> bool" where
  "tags_loading_ok p \<longleftrightarrow>
     tg_mounted p \<and> (\<forall>l \<in> set (tg_loads p). tl_revision l \<le> tg_loadRevision p) \<and>
     (tg_isLoading p \<longrightarrow> (\<exists>l \<in> set (tg_loads p). tl_revision l = tg_loadRevision p))"

lemma loading_on_dialogs [simp]: "tags_loading_ok (on_dialogs f p) = tags_loading_ok p"
  by (simp add: tags_loading_ok_def on_dialogs_def)

lemma loading_start: "tags_loading_ok p \<Longrightarrow> tags_loading_ok (loadTags_start b c p)"
  by (auto simp: tags_loading_ok_def loadTags_start_def Let_def)

lemma loading_changed: "tags_loading_ok p \<Longrightarrow> tags_loading_ok (tags_changed p)"
  by (simp add: tags_changed_def loading_start)

lemma loading_fields:
  "tags_loading_ok (p\<lparr>tg_tags := ts\<rparr>) = tags_loading_ok p" "tags_loading_ok (p\<lparr>tg_saving := sv\<rparr>) = tags_loading_ok p"
  "tags_loading_ok (p\<lparr>tg_removing := rm\<rparr>) = tags_loading_ok p"
  by (simp_all add: tags_loading_ok_def)

lemma loading_saved: "tags_loading_ok p \<Longrightarrow> tags_loading_ok (tags_handleSave_reply H editing result p)"
  by (simp add: tags_handleSave_reply_def Let_def loading_changed loading_fields split: sum.split option.split)

lemma loading_removed: "tags_loading_ok p \<Longrightarrow> tags_loading_ok (tags_handleDelete_reply t result p)"
  by (simp add: tags_handleDelete_reply_def Let_def loading_changed loading_fields split: sum.split)

lemma loading_loaded:
  assumes "tags_loading_ok p" and "l \<in> set (tg_loads p)"
  shows "tags_loading_ok (loadTags_reply l result (p\<lparr>tg_loads := remove1 l (tg_loads p)\<rparr>))"
proof -
  have all: "tl_revision x \<le> tg_loadRevision p" if "x \<in> set (remove1 l (tg_loads p))" for x
    using that assms(1) by (auto simp: tags_loading_ok_def dest: notin_set_remove1)
  show ?thesis
  proof (cases "tl_revision l = tg_loadRevision p")
    case True
    with assms all show ?thesis
      by (cases result) (auto simp: tags_loading_ok_def loadTags_reply_def Let_def)
  next
    case False
    then have "\<exists>x \<in> set (remove1 l (tg_loads p)). tl_revision x = tg_loadRevision p"
      if "\<exists>x \<in> set (tg_loads p). tl_revision x = tg_loadRevision p"
      using that by (metis in_set_remove1)
    with False assms all show ?thesis
      by (auto simp: tags_loading_ok_def loadTags_reply_def Let_def)
  qed
qed

lemma tags_loading_step: "tags_step H p p' \<Longrightarrow> tags_loading_ok p \<Longrightarrow> tags_loading_ok p'"
  by (induction rule: tags_step.induct)
    (simp_all add: loading_fields loading_start loading_changed loading_saved loading_removed loading_loaded
      tags_handleSave_start_def tags_handleDelete_start_def)

lemma tags_loading_reachable: "run_reachable (\<lambda>p. p = tags_initial) (tags_step H) p \<Longrightarrow> tags_loading_ok p"
  by (induction rule: run_reachable.induct)
    (simp add: tags_loading_ok_def tags_initial_def loadTags_start_def Let_def, rule tags_loading_step)

text \<open>
  The tag list follows the server: a reply of a load that a newer one superseded changes
  nothing; a page that shows the loading sign has the load of the current revision in flight,
  and any reply to it ends the sign; and when the list the server gave in the newest load
  arrives, it is the list shown.
\<close>

theorem tags_list_follows_server:
  assumes "run_reachable (\<lambda>p. p = tags_initial) (tags_step H) p"
  shows "(\<forall>l \<in> set (tg_loads p). tl_revision l \<noteq> tg_loadRevision p \<longrightarrow> loadTags_reply l result p = p)
    \<and> (tg_isLoading p \<longrightarrow>
        (\<exists>l \<in> set (tg_loads p). tl_revision l = tg_loadRevision p \<and> \<not> tg_isLoading (loadTags_reply l result p)))
    \<and> (\<forall>l \<in> set (tg_loads p). tl_revision l = tg_loadRevision p \<longrightarrow>
        tg_tags (loadTags_reply l (Inr ts) p) = ts \<and> tg_loadError (loadTags_reply l (Inr ts) p) = None)"
proof -
  have ok: "tags_loading_ok p" by (rule tags_loading_reachable [OF assms])
  have fresh: "\<not> tg_isLoading (loadTags_reply l r p)" if "tl_revision l = tg_loadRevision p" for l r
    using that ok by (simp add: loadTags_reply_def tags_loading_ok_def split: sum.split)
  have "tg_tags (loadTags_reply l (Inr ts) p) = ts \<and> tg_loadError (loadTags_reply l (Inr ts) p) = None"
    if "tl_revision l = tg_loadRevision p" for l
    using that ok by (simp add: loadTags_reply_def tags_loading_ok_def)
  with ok fresh show ?thesis
    by (auto simp: tags_loading_ok_def loadTags_reply_def)
qed

theorem tags_list_follows_server_witness:
  "\<exists>l \<in> set (tg_loads tags_initial). \<not> tg_isLoading (loadTags_reply l (Inr []) tags_initial)"
proof -
  have "run_reachable (\<lambda>p. p = tags_initial) (tags_step undefined) tags_initial" by (rule run_reachable.run_start) (rule refl)
  from tags_list_follows_server [OF this, of "Inr []"] show ?thesis
    by (auto simp: tags_initial_def loadTags_start_def)
qed

text \<open>
  An accepted tag change shows in the list at once: a new tag is added and every other stays,
  an edited one is replaced and keeps its number of messages, a deleted one goes; the list stays
  ordered by name; the newest load is then one started after the change, so that a list
  requested before it is not shown; a refused change leaves the list alone.
\<close>

theorem tag_changes_shown:
  assumes "tg_mounted p"
  shows "mset (tg_tags (tags_handleSave_reply H None (Inr saved) p)) =
      add_mset \<lparr>mt_id = tag_id saved, mt_name = tag_name saved, mt_color = tag_color saved, mt_message_count = 0\<rparr> (mset (tg_tags p))
    \<and> mset (tg_tags (tags_handleSave_reply H (Some t) (Inr saved) p)) =
      mset (map (\<lambda>x. if mt_id x = tag_id saved
                      then \<lparr>mt_id = tag_id saved, mt_name = tag_name saved, mt_color = tag_color saved, mt_message_count = mt_message_count x\<rparr>
                      else x) (tg_tags p))
    \<and> tg_tags (tags_handleDelete_reply d (Inr ()) p) = filter (\<lambda>x. mt_id x \<noteq> mt_id d) (tg_tags p)
    \<and> (js_comparator (compare_managed_tags H) \<longrightarrow>
        sorted_wrt (\<lambda>x y. compare_managed_tags H x y \<le> 0) (tg_tags (tags_handleSave_reply H editing (Inr saved) p)))
    \<and> (\<forall>q \<in> {tags_handleSave_reply H editing (Inr saved) p, tags_handleDelete_reply d (Inr ()) p}.
        tg_loadRevision q = tg_loadRevision p + 1 \<and> tl_revision (hd (tg_loads q)) = tg_loadRevision q)
    \<and> tg_tags (tags_handleSave_reply H editing (Inl e) p) = tg_tags p
    \<and> tg_tags (tags_handleDelete_reply d (Inl e) p) = tg_tags p"
proof -
  have rev: "tg_loadRevision (tags_changed p) = tg_loadRevision p + 1"
      "tl_revision (hd (tg_loads (tags_changed p))) = tg_loadRevision p + 1" "tg_tags (tags_changed p) = tg_tags p"
    using assms by (simp_all add: tags_changed_def loadTags_start_def Let_def)
  have keep: "tg_loadRevision (on_dialogs f q) = tg_loadRevision q" "tg_loads (on_dialogs f q) = tg_loads q"
      "tg_tags (on_dialogs f q) = tg_tags q" for f q
    by (simp_all add: on_dialogs_def)
  show ?thesis
    using js_comparator.sorted_js_sort [of "compare_managed_tags H"]
    by (cases editing) (simp_all add: tags_handleSave_reply_def tags_handleDelete_reply_def Let_def rev keep)
qed

theorem tag_changes_shown_witness:
  "tg_tags (tags_handleDelete_reply \<lparr>mt_id = 7, mt_name = [], mt_color = None, mt_message_count = 0\<rparr> (Inr ())
     (tags_initial\<lparr>tg_tags := [\<lparr>mt_id = 7, mt_name = [], mt_color = None, mt_message_count = 0\<rparr>]\<rparr>)) = []"
proof -
  have "tg_mounted (tags_initial\<lparr>tg_tags := [\<lparr>mt_id = 7, mt_name = [], mt_color = None, mt_message_count = 0\<rparr>]\<rparr>)"
    by (simp add: tags_initial_def loadTags_start_def)
  from tag_changes_shown [OF this] show ?thesis by simp
qed

text \<open>
  A load that another change started can bring the new tag before the answer of its own creation
  does; the answer then adds it a second time.
\<close>

lemma created_tag_listed_twice:
  assumes "x \<in> set (tg_tags p)" and "mt_id x = tag_id saved" and "tg_mounted p"
  shows "2 \<le> length (filter (\<lambda>y. mt_id y = tag_id saved) (tg_tags (tags_handleSave_reply H None (Inr saved) p)))"
proof -
  define new where "new = \<lparr>mt_id = tag_id saved, mt_name = tag_name saved, mt_color = tag_color saved, mt_message_count = 0\<rparr>"
  have "mset (tg_tags (tags_handleSave_reply H None (Inr saved) p)) = add_mset new (mset (tg_tags p))"
    using assms(3) by (simp add: new_def tags_handleSave_reply_def on_dialogs_def Let_def tags_changed_def loadTags_start_def)
  then have "size (filter_mset (\<lambda>y. mt_id y = tag_id saved) (mset (tg_tags (tags_handleSave_reply H None (Inr saved) p)))) =
      size (filter_mset (\<lambda>y. mt_id y = tag_id saved) (add_mset new (mset (tg_tags p))))" by (simp only:)
  moreover have "filter (\<lambda>y. mt_id y = tag_id saved) (tg_tags p) \<noteq> []"
    using assms by (auto simp: filter_empty_conv)
  then have "1 \<le> length (filter (\<lambda>y. mt_id y = tag_id saved) (tg_tags p))" by (cases "filter (\<lambda>y. mt_id y = tag_id saved) (tg_tags p)") auto
  ultimately show ?thesis by (simp add: new_def flip: mset_filter)
qed

section \<open>The category form\<close>

text \<open>
  The form of a new category is filled again when the list of categories changes its highest
  position while the dialog is open: what was typed is lost.
\<close>

lemma category_form_refilled:
  assumes "dg_isFormOpen (cg_dialogs p)" and "dg_editing (cg_dialogs p) = None"
    and "suggestedPosition cs \<noteq> suggestedPosition (cg_categories p)"
  shows "cfm_name (cg_form (categories_received cs l b p)) = []"
  using assms by (simp add: categories_received_def categories_render_def category_form_effect_def Let_def)

lemma hex_color_trimmed: "is_hex_color s \<Longrightarrow> js_trim s = s"
proof (rule js_trim_trimmed)
  assume hex: "is_hex_color s"
  then obtain t where s: "s = 35 # t" and len: "length t = 6" and all: "list_all is_upper_hex t"
    by (cases s) (auto simp: is_hex_color_def)
  from len have t: "t \<noteq> []" by auto
  with all have "is_upper_hex (last t)" by (simp add: list_all_iff)
  then show "trimmed s" using s t by (auto simp: trimmed_def is_upper_hex_def is_digit_def is_ws_def)
qed

text \<open>
  What the forms submit is what the requests accept. A tag form submits a name that is not
  blank and a colour that is a six-digit hex colour or none; a category form submits an input that
  \<open>normalizeCategoryInput\<close> accepts, unless its icon is blank or the sort order overflowed to
  infinity. Upper-casing is assumed to leave a text of upper-case hex digits alone.
\<close>

theorem forms_submit_valid:
  assumes "\<And>s. is_hex_color s \<Longrightarrow> to_upper H s = s"
  shows "(tag_form_submit H b f = Some t \<longrightarrow>
            js_trim (ct_name t) \<noteq> [] \<and> (\<forall>c. ct_color t = Some c \<longrightarrow> is_hex_color c))
    \<and> (category_form_submit H b g = Some c \<and> js_trim (ci_icon c) \<noteq> [] \<and> ci_position c \<noteq> PosInf \<longrightarrow>
            (\<exists>n. normalizeCategoryInput H c = Inr n \<and> ci_color n = ci_color c))"
proof (intro conjI impI)
  assume "tag_form_submit H b f = Some t"
  then show "js_trim (ct_name t) \<noteq> []" "\<forall>c. ct_color t = Some c \<longrightarrow> is_hex_color c"
    by (auto simp: tag_form_submit_def tag_form_can_submit_def split: if_splits)
next
  assume *: "category_form_submit H b g = Some c \<and> js_trim (ci_icon c) \<noteq> [] \<and> ci_position c \<noteq> PosInf"
  then have can: "category_form_can_submit H b g" and c: "c = \<lparr>ci_name = cfm_name g, ci_icon = cfm_icon g,
      ci_color = normalizedColor H (cfm_color g), ci_position = cfm_position g\<rparr>"
    by (auto simp: category_form_submit_def split: if_splits)
  have hex: "is_hex_color (ci_color c)" using can c by (simp add: category_form_can_submit_def)
  have trim: "js_trim (ci_color c) = ci_color c"
    by (rule hex_color_trimmed [OF hex])
  obtain q where q: "ci_position c = Fin q" "0 \<le> q"
    using * can c by (cases "cfm_position g") (auto simp: category_form_can_submit_def)
  have name: "collapse_ws (js_trim (ci_name c)) \<noteq> []"
    using can c by (simp add: category_form_can_submit_def)
  show "\<exists>n. normalizeCategoryInput H c = Inr n \<and> ci_color n = ci_color c"
    using * name q by (simp add: normalizeCategoryInput_def Let_def trim assms [OF hex] hex)
qed

definition plain_host :: host where
  "plain_host = \<lparr>to_lower = id, to_upper = id, locale_compare = (\<lambda>s t. 0)\<rparr>"

theorem forms_submit_valid_witness:
  "tag_form_submit plain_host False \<lparr>tf_name = js ''a'', tf_hasColor = False, tf_color = []\<rparr> \<noteq> None
   \<and> (\<forall>t. tag_form_submit plain_host False \<lparr>tf_name = js ''a'', tf_hasColor = False, tf_color = []\<rparr> = Some t \<longrightarrow>
        js_trim (ct_name t) \<noteq> [])"
proof -
  have "to_upper plain_host s = s" for s by (simp add: plain_host_def)
  then have "\<forall>t. tag_form_submit plain_host False \<lparr>tf_name = js ''a'', tf_hasColor = False, tf_color = []\<rparr> = Some t \<longrightarrow>
        js_trim (ct_name t) \<noteq> []"
    using forms_submit_valid [of plain_host False "\<lparr>tf_name = js ''a'', tf_hasColor = False, tf_color = []\<rparr>"] by blast
  moreover have "tag_form_submit plain_host False \<lparr>tf_name = js ''a'', tf_hasColor = False, tf_color = []\<rparr> \<noteq> None"
    by (simp add: tag_form_submit_def tag_form_can_submit_def js_trim_Nil_iff js_def is_ws_def)
  ultimately show ?thesis by blast
qed

end
