(* ===== verification/TagsView.thy ===== *)
theory TagsView
  imports OrganizationPages Markup
begin

text \<open>
  What the tags page renders with its dialogs (\<open>tags-page.tsx\<close>, \<open>tag-form-dialog.tsx\<close>,
  \<open>delete-confirmation-dialog.tsx\<close>): every control that is shown enabled is a step of the page.
\<close>

section \<open>The confirmation dialog\<close>

definition delete_dialog ::
    "bool \<Rightarrow> jstr \<Rightarrow> jstr \<Rightarrow> jstr \<Rightarrow> bool \<Rightarrow> jstr option \<Rightarrow> 'a \<Rightarrow> 'a \<Rightarrow> 'a html list" where
  "delete_dialog isOpen title description confirmLabel isSubmitting errorMessage close confirm =
     (if \<not> isOpen then []
      else modal_frame close
        [(''aria-labelledby'', js ''delete-organization-item-title''), (''aria-describedby'', js ''delete-organization-item-description'')]
        ([El ''div'' [] []
            [El ''h3'' [(''id'', js ''delete-organization-item-title'')] [] [Txt title],
             El ''p'' [(''id'', js ''delete-organization-item-description'')] [] [Txt description]]]
         @ shown errorMessage (\<lambda>e. [El ''p'' [(''role'', js ''alert'')] [] [Txt e]])
         @ [El ''div'' [] []
              [Button (Some (js ''button'')) (flag ''disabled'' isSubmitting) [on ''click'' close] [Txt (js ''Cancel'')],
               Button (Some (js ''button'')) (flag ''disabled'' isSubmitting) [on ''click'' confirm]
                 [Txt (if isSubmitting then js ''Deleting'' @ ellipsis else confirmLabel)]]]))"

section \<open>The tags page\<close>

datatype tags_action =
    NewTag | EditTag managed_tag | RemoveTag managed_tag | LoadTagsAgain
  | TypeTagName jstr | SetTagHasColor bool | PickTagColor jstr | TypeTagColor jstr
  | SubmitTag | CloseTagForm | CloseTagDeletion | ConfirmTagDeletion

record tags_screen =
  ts_form :: tag_form
  ts_page :: tags_page

definition tags_screen_initial :: tags_screen where
  "tags_screen_initial = \<lparr>ts_form = \<lparr>tf_name = [], tf_hasColor = True, tf_color = js ''#0EA5E9''\<rparr>, ts_page = tags_initial\<rparr>"

text \<open>The form is filled by its effect when the dialog opens or its tag changes.\<close>

definition tags_rerender :: "tags_page \<Rightarrow> tags_screen \<Rightarrow> tags_screen" where
  "tags_rerender p s =
     (let d = tg_dialogs p; before = tg_dialogs (ts_page s)
      in \<lparr>ts_form = (if dg_isFormOpen d \<noteq> dg_isFormOpen before \<or> dg_editing d \<noteq> dg_editing before
                      then tag_form_effect (dg_isFormOpen d) (dg_editing d) (ts_form s) else ts_form s),
          ts_page = p\<rparr>)"

definition tags_do :: "host \<Rightarrow> tags_action \<Rightarrow> tags_screen \<Rightarrow> tags_screen" where
  "tags_do H a s =
     (let p = ts_page s; f = ts_form s
      in case a of
           NewTag \<Rightarrow> tags_rerender (on_dialogs openCreateDialog p) s
         | EditTag t \<Rightarrow> tags_rerender (on_dialogs (openEditDialog t) p) s
         | RemoveTag t \<Rightarrow> tags_rerender (on_dialogs (openDeleteDialog t) p) s
         | LoadTagsAgain \<Rightarrow> tags_rerender (loadTags_start False False p) s
         | TypeTagName v \<Rightarrow> s\<lparr>ts_form := f\<lparr>tf_name := v\<rparr>\<rparr>
         | SetTagHasColor b \<Rightarrow> s\<lparr>ts_form := f\<lparr>tf_hasColor := b\<rparr>\<rparr>
         | PickTagColor v \<Rightarrow> s\<lparr>ts_form := f\<lparr>tf_color := to_upper H v\<rparr>\<rparr>
         | TypeTagColor v \<Rightarrow> s\<lparr>ts_form := f\<lparr>tf_color := v\<rparr>\<rparr>
         | SubmitTag \<Rightarrow> (case tag_form_submit H (dg_isSaving (tg_dialogs p)) f of
                           None \<Rightarrow> s | Some payload \<Rightarrow> tags_rerender (tags_handleSave_start payload p) s)
         | CloseTagForm \<Rightarrow> tags_rerender (on_dialogs closeFormDialog p) s
         | CloseTagDeletion \<Rightarrow> tags_rerender (on_dialogs closeDeleteDialog p) s
         | ConfirmTagDeletion \<Rightarrow> tags_rerender (tags_handleDelete_start p) s)"

definition tag_form_fields :: "host \<Rightarrow> bool \<Rightarrow> tag_form \<Rightarrow> tags_action html list" where
  "tag_form_fields H isSubmitting f =
     (let hasValidColor = is_hex_color (normalizedColor H (tf_color f))
      in [El ''label'' [] []
            [Txt (js ''Name''),
             El ''input''
               ([(''value'', tf_name f), (''placeholder'', js ''e.g. read-later''), (''maxlength'', js ''100''), (''autocomplete'', js ''off'')]
                @ flag ''disabled'' isSubmitting)
               [(''change'', TypeTagName)] []],
          El ''label'' [] []
            [El ''input'' ([(''type'', js ''checkbox'')] @ flag ''checked'' (tf_hasColor f) @ flag ''disabled'' isSubmitting)
               [on ''change'' (SetTagHasColor (\<not> tf_hasColor f))] [],
             Txt (js ''Use a custom color'')]]
         @ (if tf_hasColor f
            then [El ''label'' [] []
                    [Txt (js ''Color''),
                     El ''div'' [] []
                       [El ''input''
                          ([(''type'', js ''color''),
                            (''value'', if hasValidColor then normalizedColor H (tf_color f) else js ''#0EA5E9''),
                            (''aria-label'', js ''Choose tag color'')] @ flag ''disabled'' isSubmitting)
                          [(''change'', PickTagColor)] [],
                        El ''input''
                          ([(''value'', tf_color f), (''placeholder'', js ''#0EA5E9''), (''maxlength'', js ''7''), (''spellcheck'', js ''false'')]
                           @ flag ''disabled'' isSubmitting @ true_or_absent ''aria-invalid'' (\<not> hasValidColor))
                          [(''change'', TypeTagColor)] []]]]
            else []))"

definition tag_form_dialog :: "host \<Rightarrow> managed_tag page_dialogs \<Rightarrow> tag_form \<Rightarrow> tags_action html list" where
  "tag_form_dialog H d f =
     (if \<not> dg_isFormOpen d then []
      else modal_frame CloseTagForm [(''aria-labelledby'', js ''tag-form-title'')]
        [El ''div'' [] []
           [El ''h3'' [(''id'', js ''tag-form-title'')] []
              [Txt (case dg_editing d of Some t \<Rightarrow> js ''Edit #'' @ mt_name t | None \<Rightarrow> js ''Create tag'')],
            El ''p'' [] [] [Txt (js ''Tags can be reused across any number of messages.'')]],
         El ''form'' [(''novalidate'', [])] [on ''submit'' SubmitTag]
           (tag_form_fields H (dg_isSaving d) f
            @ shown (dg_formError d) (\<lambda>e. [El ''p'' [(''role'', js ''alert'')] [] [Txt e]])
            @ [El ''div'' [] []
                 [Button (Some (js ''button'')) (flag ''disabled'' (dg_isSaving d)) [on ''click'' CloseTagForm] [Txt (js ''Cancel'')],
                  Button (Some (js ''submit'')) (flag ''disabled'' (\<not> tag_form_can_submit H (dg_isSaving d) f)) []
                    [Txt (if dg_isSaving d then js ''Saving'' @ ellipsis
                          else if dg_editing d \<noteq> None then js ''Save changes'' else js ''Create tag'')]]])])"

definition tag_item :: "managed_tag \<Rightarrow> tags_action html" where
  "tag_item t =
     El ''li'' [] []
       [El ''div'' [] []
          [El ''span'' [] [] [El ''span'' [] [] [Txt (35 # mt_name t)]],
           El ''p'' [] [] [Txt (messageCountLabel (mt_message_count t))],
           El ''Link''
             [(''to'', js ''/messages?tag='' @ the (encode_uri_component (mt_name t))),
              (''aria-label'', js ''View messages tagged #'' @ mt_name t)] []
             [Txt (js ''View messages'')]],
        El ''div'' [] []
          [Button None [(''aria-label'', js ''Edit #'' @ mt_name t), (''title'', js ''Edit tag'')] [on ''click'' (EditTag t)] [],
           Button None [(''aria-label'', js ''Delete #'' @ mt_name t), (''title'', js ''Delete tag'')] [on ''click'' (RemoveTag t)] []]]"

definition tags_body :: "tags_page \<Rightarrow> tags_action html" where
  "tags_body p =
     (if tg_isLoading p then El ''div'' [(''role'', js ''status'')] [] [Txt (js ''Loading tags'' @ ellipsis)]
      else if is_set (tg_loadError p)
      then StatePanel ErrorTone (js ''Could not load your tags'') (tg_loadError p)
             (Some (Button None [] [on ''click'' LoadTagsAgain] [Txt (js ''Try again'')]))
      else if tg_tags p = []
      then StatePanel DefaultTone (js ''No tags yet'')
             (Some (js ''Create a reusable tag here, or create and attach one from any message.''))
             (Some (Button None [] [on ''click'' NewTag] [Txt (js ''Create tag'')]))
      else El ''ul'' [(''aria-label'', js ''Tags'')] [] (map tag_item (tg_tags p)))"

definition tag_delete_dialog :: "managed_tag page_dialogs \<Rightarrow> tags_action html list" where
  "tag_delete_dialog d =
     delete_dialog (dg_deleting d \<noteq> None)
       (case dg_deleting d of Some t \<Rightarrow> js ''Delete #'' @ mt_name t @ js ''?'' | None \<Rightarrow> js ''Delete tag?'')
       (case dg_deleting d of
          Some t \<Rightarrow> js ''This tag will be removed from '' @ messageCountLabel (mt_message_count t) @ js ''. Messages themselves will not be deleted.''
        | None \<Rightarrow> js ''Messages themselves will not be deleted.'')
       (js ''Delete tag'') (dg_isDeleting d) (dg_deleteError d) CloseTagDeletion ConfirmTagDeletion"

text \<open>
  The page, inert behind an open modal, and the dialogs in the body of the document. A listed name
  that cannot be percent-encoded makes the rendering throw: nothing of the page is left.
\<close>

definition tags_listed :: "tags_page \<Rightarrow> managed_tag list" where
  "tags_listed p = (if tg_isLoading p \<or> is_set (tg_loadError p) then [] else tg_tags p)"

definition tags_view :: "host \<Rightarrow> tags_screen \<Rightarrow> tags_action html list" where
  "tags_view H s =
     (let p = ts_page s; d = tg_dialogs p
      in if list_ex (\<lambda>t. encode_uri_component (mt_name t) = None) (tags_listed p) then []
         else [El ''section'' (flag ''inert'' (modal_open d)) []
            ([El ''div'' [] []
                [El ''div'' [] []
                   [El ''h2'' [] [] [Txt (js ''Tags'')],
                    El ''p'' [] []
                      [Txt (js ''Maintain reusable labels for cross-category topics, projects, and follow-up states. Changes apply everywhere a tag is attached.'')]],
                 Button None (flag ''disabled'' (\<not> tags_new_enabled p)) [on ''click'' NewTag] [Txt (js ''New tag'')]]]
             @ shown (dg_successMessage d) (\<lambda>m. [StatePanel SuccessTone m None None])
             @ [tags_body p])]
         @ tag_form_dialog H d (ts_form s) @ tag_delete_dialog d)"

lemma modal_frame_acts [simp]: "acts_list (modal_frame close as cs) = (if has_attr ''inert'' as then {close} else insert close (acts_list cs))"
  by (simp add: modal_frame_def)

lemma delete_dialog_acts:
  "acts_list (delete_dialog isOpen t d l busy e close confirm) =
     (if \<not> isOpen then {} else insert close (if busy then {} else {confirm}))"
  by (auto simp: delete_dialog_def)

lemma tag_form_fields_acts:
  "acts_list (tag_form_fields H busy f) =
     (if busy then {}
      else range TypeTagName \<union> {SetTagHasColor (\<not> tf_hasColor f)} \<union> (if tf_hasColor f then range PickTagColor \<union> range TypeTagColor else {}))"
  "\<not> has_submit_list (tag_form_fields H busy f)"
  by (simp_all add: tag_form_fields_def Let_def Un_ac)

lemma tag_form_dialog_acts:
  "acts_list (tag_form_dialog H d f) =
     (if \<not> dg_isFormOpen d then {}
      else insert CloseTagForm (acts_list (tag_form_fields H (dg_isSaving d) f)
             \<union> (if tag_form_can_submit H (dg_isSaving d) f then {SubmitTag} else {})))"
  by (auto simp add: tag_form_dialog_def tag_form_fields_acts(2))

lemma tag_item_acts: "acts (tag_item t) = {EditTag t, RemoveTag t}"
  by (auto simp: tag_item_def)

lemma tags_body_acts:
  "acts (tags_body p) =
     (if tg_isLoading p then {} else if is_set (tg_loadError p) then {LoadTagsAgain}
      else if tg_tags p = [] then {NewTag} else \<Union>t \<in> set (tg_tags p). {EditTag t, RemoveTag t})"
  by (simp add: tags_body_def tag_item_acts)

lemma tags_view_acts:
  "acts_list (tags_view H s) \<subseteq>
     (if modal_open (tg_dialogs (ts_page s)) then {}
      else (if tags_new_enabled (ts_page s) then {NewTag} else {}) \<union> acts (tags_body (ts_page s)))
     \<union> acts_list (tag_form_dialog H (tg_dialogs (ts_page s)) (ts_form s))
     \<union> (if dg_deleting (tg_dialogs (ts_page s)) = None then {}
        else insert CloseTagDeletion (if dg_isDeleting (tg_dialogs (ts_page s)) then {} else {ConfirmTagDeletion}))"
  by (auto simp: tags_view_def Let_def tag_delete_dialog_def delete_dialog_acts)

text \<open>Each action the page offers, with what makes it so.\<close>

lemma tags_view_cases:
  assumes "a \<in> acts_list (tags_view H s)"
  obtains
    (new) "a = NewTag" "\<not> modal_open (tg_dialogs (ts_page s))" "\<not> tg_isLoading (ts_page s)" "\<not> is_set (tg_loadError (ts_page s))"
  | (item) t where "a = EditTag t \<or> a = RemoveTag t" "t \<in> set (tg_tags (ts_page s))"
      "\<not> modal_open (tg_dialogs (ts_page s))" "\<not> tg_isLoading (ts_page s)"
  | (again) "a = LoadTagsAgain" "\<not> modal_open (tg_dialogs (ts_page s))" "\<not> tg_isLoading (ts_page s)" "is_set (tg_loadError (ts_page s))"
  | (form) "dg_isFormOpen (tg_dialogs (ts_page s))" "\<not> dg_isSaving (tg_dialogs (ts_page s))"
      "a \<in> {SetTagHasColor (\<not> tf_hasColor (ts_form s))} \<union> range TypeTagName \<union> range PickTagColor \<union> range TypeTagColor"
  | (submit) "dg_isFormOpen (tg_dialogs (ts_page s))" "a = SubmitTag" "tag_form_can_submit H (dg_isSaving (tg_dialogs (ts_page s))) (ts_form s)"
  | (close) "dg_isFormOpen (tg_dialogs (ts_page s))" "a = CloseTagForm"
  | (close_deletion) "dg_deleting (tg_dialogs (ts_page s)) \<noteq> None" "a = CloseTagDeletion"
  | (confirm) "dg_deleting (tg_dialogs (ts_page s)) \<noteq> None" "\<not> dg_isDeleting (tg_dialogs (ts_page s))" "a = ConfirmTagDeletion"
proof -
  from subsetD [OF tags_view_acts assms] consider
      "\<not> modal_open (tg_dialogs (ts_page s))" "tags_new_enabled (ts_page s)" "a = NewTag"
    | "\<not> modal_open (tg_dialogs (ts_page s))" "a \<in> acts (tags_body (ts_page s))"
    | "a \<in> acts_list (tag_form_dialog H (tg_dialogs (ts_page s)) (ts_form s))"
    | "dg_deleting (tg_dialogs (ts_page s)) \<noteq> None" "a = CloseTagDeletion"
    | "dg_deleting (tg_dialogs (ts_page s)) \<noteq> None" "\<not> dg_isDeleting (tg_dialogs (ts_page s))" "a = ConfirmTagDeletion"
    by (auto split: if_splits)
  then show thesis
  proof cases
    case 1
    then show thesis using new by (simp add: tags_new_enabled_def is_set_def)
  next
    case 2
    then show thesis using new item again by (auto simp: tags_body_acts split: if_splits)
  next
    case 3
    then have "dg_isFormOpen (tg_dialogs (ts_page s))" by (simp add: tag_form_dialog_acts split: if_splits)
    with 3 show thesis using form submit close
      by (auto simp: tag_form_dialog_acts tag_form_fields_acts split: if_splits)
  qed (use close_deletion confirm in auto)
qed

lemma tags_rerender_page [simp]: "ts_page (tags_rerender p s) = p"
  by (simp add: tags_rerender_def Let_def)

lemma tags_error_kept [simp]: "tg_loadError (on_dialogs f p) = tg_loadError p"
  "tg_loadError (tags_changed p) = tg_loadError p"
  "tg_loadError (tags_handleSave_start x p) = tg_loadError p"
  "tg_loadError (tags_handleDelete_start p) = tg_loadError p"
  "tg_loadError (tags_handleSave_reply H e r p) = tg_loadError p"
  "tg_loadError (tags_handleDelete_reply t r' p) = tg_loadError p"
  by (simp_all add: on_dialogs_def tags_changed_def loadTags_start_def tags_handleSave_start_def tags_handleDelete_start_def
      tags_handleSave_reply_def tags_handleDelete_reply_def Let_def split: sum.split option.split)

lemma error_text_nonempty: "error_text e (js (c # cs)) \<noteq> []"
  by (auto simp: error_text_def js_trim_def js_trim_end_def split: option.split)

lemma tags_error_step: "tags_step H p p' \<Longrightarrow> tg_loadError p \<noteq> Some [] \<Longrightarrow> tg_loadError p' \<noteq> Some []"
  by (induction rule: tags_step.induct)
    (auto simp: loadTags_start_def loadTags_reply_def Let_def error_text_nonempty split: sum.split)

lemma tags_error_not_empty: "run_reachable (\<lambda>p. p = tags_initial) (tags_step H) p \<Longrightarrow> tg_loadError p \<noteq> Some []"
  by (induction rule: run_reachable.induct) (auto simp: tags_initial_def loadTags_start_def dest: tags_error_step)

lemma offered_tags_step:
  assumes "run_reachable (\<lambda>p. p = tags_initial) (tags_step H) (ts_page s)" and "a \<in> acts_list (tags_view H s)"
  shows "ts_page (tags_do H a s) = ts_page s \<or> tags_step H (ts_page s) (ts_page (tags_do H a s))"
proof -
  have err: "\<not> is_set (tg_loadError (ts_page s)) \<longleftrightarrow> tg_loadError (ts_page s) = None"
    using tags_error_not_empty [OF assms(1)] by (auto simp: is_set_def split: option.splits)
  have mounted: "tg_mounted (ts_page s)" using tags_loading_reachable [OF assms(1)] by (simp add: tags_loading_ok_def)
  from assms(2) show ?thesis
  proof (cases rule: tags_view_cases)
    case new
    then show ?thesis using err tags_step.create [of "ts_page s" H] by (simp add: tags_do_def Let_def tags_new_enabled_def)
  next
    case (item t)
    then show ?thesis using tags_step.edit [of t "ts_page s" H] tags_step.remove [of t "ts_page s" H] by (auto simp: tags_do_def Let_def)
  next
    case again
    then show ?thesis using mounted err tags_step.retry [of "ts_page s" H] by (simp add: tags_do_def Let_def)
  next
    case submit
    then show ?thesis using tags_step.submit [of "ts_page s" H "ts_form s"] by (simp add: tags_do_def Let_def split: option.split)
  next
    case close
    then show ?thesis using tags_step.close_form [of "ts_page s" H] by (simp add: tags_do_def Let_def)
  next
    case close_deletion
    then show ?thesis using tags_step.close_delete [of "ts_page s" H] by (simp add: tags_do_def Let_def)
  next
    case confirm
    then show ?thesis using tags_step.confirm [of "ts_page s" H] by (simp add: tags_do_def Let_def)
  qed (auto simp: tags_do_def Let_def)
qed

text \<open>
  What happens without a control: answers, announced changes, loads, and the Escape key of a dialog;
  each with what it means to the dialogs.
\<close>

inductive tags_env :: "host \<Rightarrow> tags_screen \<Rightarrow> managed_tag dialog_input \<Rightarrow> tags_screen \<Rightarrow> bool" for H where
  tag_saved: "tg_saving (ts_page s) = Some (editing, payload) \<Longrightarrow>
    tags_env H s (answer_of result ''Could not save this tag.'')
      (tags_rerender (tags_handleSave_reply H editing result ((ts_page s)\<lparr>tg_saving := None\<rparr>)) s)"
| tag_removed: "tg_removing (ts_page s) = Some tag \<Longrightarrow>
    tags_env H s (answer_of result' ''Could not delete this tag.'')
      (tags_rerender (tags_handleDelete_reply tag result' ((ts_page s)\<lparr>tg_removing := None\<rparr>)) s)"
| tag_change_heard: "tags_env H s Unrelated (tags_rerender (tags_changed (ts_page s)) s)"
| tags_loaded: "l \<in> set (tg_loads (ts_page s)) \<Longrightarrow>
    tags_env H s Unrelated
      (tags_rerender (loadTags_reply l result'' ((ts_page s)\<lparr>tg_loads := remove1 l (tg_loads (ts_page s))\<rparr>)) s)"
| tag_form_escaped: "dg_isFormOpen (tg_dialogs (ts_page s)) \<Longrightarrow> tags_env H s Dismiss (tags_do H CloseTagForm s)"
| tag_question_escaped: "dg_deleting (tg_dialogs (ts_page s)) \<noteq> None \<Longrightarrow> tags_env H s Dismiss (tags_do H CloseTagDeletion s)"

lemma tags_env_step: "tags_env H s i s' \<Longrightarrow> tags_step H (ts_page s) (ts_page s')"
  by (induction rule: tags_env.induct) (auto simp: tags_do_def Let_def intro: tags_step.intros)

interpretation tags_rendered: rendered_page "\<lambda>s. s = tags_screen_initial" "tags_view H" "tags_do H" "\<lambda>s s'. \<exists>i. tags_env H s i s'"
  "\<lambda>s. run_reachable (\<lambda>p. p = tags_initial) (tags_step H) (ts_page s)" for H
proof unfold_locales
  fix s a
  assume r: "run_reachable (\<lambda>p. p = tags_initial) (tags_step H) (ts_page s)" and "a \<in> acts_list (tags_view H s)"
  from offered_tags_step [OF this] r show "run_reachable (\<lambda>p. p = tags_initial) (tags_step H) (ts_page (tags_do H a s))"
    by (auto intro: run_reachable.run_step)
qed (auto simp: tags_screen_initial_def intro: run_reachable.intros dest: tags_env_step)

section \<open>Names and references\<close>

lemma delete_dialog_markup [simp]:
  "labelled_ids_list (delete_dialog isOpen t d l busy e close confirm) = {}"
  "nonblank l \<Longrightarrow> named_list ids b (delete_dialog isOpen t d l busy e close confirm)"
  "refs_of_list (delete_dialog isOpen t d l busy e close confirm) \<subseteq> ids_of_list (delete_dialog isOpen t d l busy e close confirm)"
  by (simp_all add: delete_dialog_def modal_frame_def Button_def is_ws_def)

lemma tag_parts_markup [simp]:
  "labelled_ids_list (tag_form_fields H busy f) = {}" "named_list ids b (tag_form_fields H busy f)"
  "refs_of_list (tag_form_fields H busy f) = {}"
  "labelled_ids (tag_item t) = {}" "named ids b (tag_item t)" "refs_of (tag_item t) = {}"
  by (simp_all add: tag_form_fields_def tag_item_def Button_def has_label_attr_def Let_def is_ws_def)

lemma tag_form_dialog_markup [simp]:
  "labelled_ids_list (tag_form_dialog H d f) = {}" "named_list ids b (tag_form_dialog H d f)"
  "refs_of_list (tag_form_dialog H d f) \<subseteq> ids_of_list (tag_form_dialog H d f)"
  by (simp_all add: tag_form_dialog_def modal_frame_def Button_def is_ws_def)

lemma tags_body_markup [simp]:
  "labelled_ids (tags_body p) = {}" "named ids b (tags_body p)" "refs_of (tags_body p) = {}"
  by (simp_all add: tags_body_def Button_def is_ws_def)

lemma tags_view_controls: "controls_named (tags_view H s)" "refs_resolve (tags_view H s)"
proof -
  show "controls_named (tags_view H s)"
    by (simp add: controls_named_def tags_view_def tag_delete_dialog_def Button_def Let_def is_ws_def)
  show "refs_resolve (tags_view H s)"
    by (simp add: refs_resolve_def tags_view_def tag_delete_dialog_def Button_def Let_def le_supI1 le_supI2)
qed

end
