(* ===== verification/CategoriesView.thy ===== *)
theory CategoriesView
  imports TagsView Categories
begin

text \<open>
  What the categories page renders with its dialogs (\<open>categories-page.tsx\<close>,
  \<open>category-form-dialog.tsx\<close>): every control that is shown enabled is a step of the page.
\<close>

section \<open>The categories page\<close>

datatype categories_action =
    NewCategory | EditCategory category | RemoveCategory category | LoadCategoriesAgain
  | TypeCategoryName jstr | ChooseIcon jstr | PickCategoryColor jstr | TypeCategoryColor jstr | TypePosition jstr
  | SubmitCategory | CloseCategoryForm | CloseCategoryDeletion | ConfirmCategoryDeletion

text \<open>\<open>LoadCategoriesAgain\<close> announces a change to the hook, which loads again.\<close>

definition categories_do :: "host \<Rightarrow> categories_action \<Rightarrow> categories_page \<Rightarrow> categories_page" where
  "categories_do H a p =
     (let f = cg_form p
      in case a of
           NewCategory \<Rightarrow> categories_dialogs openCreateDialog p
         | EditCategory c \<Rightarrow> categories_dialogs (openEditDialog c) p
         | RemoveCategory c \<Rightarrow> categories_dialogs (openDeleteDialog c) p
         | LoadCategoriesAgain \<Rightarrow> p\<lparr>cg_notified := cg_notified p + 1\<rparr>
         | TypeCategoryName v \<Rightarrow> p\<lparr>cg_form := f\<lparr>cfm_name := v\<rparr>\<rparr>
         | ChooseIcon v \<Rightarrow> p\<lparr>cg_form := f\<lparr>cfm_icon := v\<rparr>\<rparr>
         | PickCategoryColor v \<Rightarrow> p\<lparr>cg_form := f\<lparr>cfm_color := to_upper H v\<rparr>\<rparr>
         | TypeCategoryColor v \<Rightarrow> p\<lparr>cg_form := f\<lparr>cfm_color := v\<rparr>\<rparr>
         | TypePosition v \<Rightarrow> p\<lparr>cg_form := f\<lparr>cfm_position := read_position v\<rparr>\<rparr>
         | SubmitCategory \<Rightarrow> (case category_form_submit H (dg_isSaving (cg_dialogs p)) f of
                                None \<Rightarrow> p | Some payload \<Rightarrow> categories_handleSave_start payload p)
         | CloseCategoryForm \<Rightarrow> categories_dialogs closeFormDialog p
         | CloseCategoryDeletion \<Rightarrow> categories_dialogs closeDeleteDialog p
         | ConfirmCategoryDeletion \<Rightarrow> categories_handleDelete_start p)"

definition icon_choice :: "jstr \<Rightarrow> bool \<Rightarrow> jstr \<times> string \<times> category_icon \<Rightarrow> categories_action html" where
  "icon_choice icon isSubmitting = (\<lambda>(name, label, i).
     El ''label'' [(''title'', js label)] []
       [El ''input''
          ([(''type'', js ''radio''), (''name'', js ''category-icon''), (''value'', name)] @ flag ''checked'' (icon = name)
           @ flag ''disabled'' isSubmitting @ [(''aria-label'', js label)])
          [on ''change'' (ChooseIcon name)] []])"

text \<open>\<open>number_text\<close> is how the browser writes a number.\<close>

definition category_form_fields :: "host \<Rightarrow> (jsnum \<Rightarrow> jstr) \<Rightarrow> bool \<Rightarrow> category_form \<Rightarrow> categories_action html list" where
  "category_form_fields H number_text isSubmitting f =
     (let hasValidColor = is_hex_color (normalizedColor H (cfm_color f))
      in [El ''label'' [] []
            [Txt (js ''Name''),
             El ''input''
               ([(''value'', cfm_name f), (''placeholder'', js ''e.g. Read later''), (''maxlength'', js ''100''), (''autocomplete'', js ''off'')]
                @ flag ''disabled'' isSubmitting)
               [(''change'', TypeCategoryName)] []],
          El ''fieldset'' [] []
            [El ''legend'' [] [] [Txt (js ''Icon'')],
             El ''div'' [] [] (map (icon_choice (cfm_icon f) isSubmitting) CATEGORY_ICON_CHOICES)],
          El ''div'' [] []
            [El ''label'' [] []
               [Txt (js ''Color''),
                El ''div'' [] []
                  [El ''input''
                     ([(''type'', js ''color''),
                       (''value'', if hasValidColor then normalizedColor H (cfm_color f) else js ''#0F766E''),
                       (''aria-label'', js ''Choose category color'')] @ flag ''disabled'' isSubmitting)
                     [(''change'', PickCategoryColor)] [],
                   El ''input''
                     ([(''value'', cfm_color f), (''placeholder'', js ''#0F766E''), (''maxlength'', js ''7''), (''spellcheck'', js ''false'')]
                      @ flag ''disabled'' isSubmitting @ true_or_absent ''aria-invalid'' (\<not> hasValidColor))
                     [(''change'', TypeCategoryColor)] []]],
             El ''label'' [] []
               [Txt (js ''Sort order''),
                El ''input''
                  ([(''type'', js ''number''), (''min'', js ''0''), (''step'', js ''1''), (''value'', number_text (cfm_position f))]
                   @ flag ''disabled'' isSubmitting)
                  [(''change'', TypePosition)] []]]])"

definition category_form_dialog ::
    "host \<Rightarrow> (jsnum \<Rightarrow> jstr) \<Rightarrow> category page_dialogs \<Rightarrow> category_form \<Rightarrow> categories_action html list" where
  "category_form_dialog H number_text d f =
     (if \<not> dg_isFormOpen d then []
      else modal_frame CloseCategoryForm [(''aria-labelledby'', js ''category-form-title'')]
        [El ''div'' [] []
           [El ''h3'' [(''id'', js ''category-form-title'')] []
              [Txt (case dg_editing d of Some c \<Rightarrow> js ''Edit '' @ cat_name c | None \<Rightarrow> js ''Create category'')],
            El ''p'' [] [] [Txt (js ''Categories are shown in this order throughout your workspace.'')]],
         El ''form'' [(''novalidate'', [])] [on ''submit'' SubmitCategory]
           (category_form_fields H number_text (dg_isSaving d) f
            @ (case dg_editing d of
                 Some c \<Rightarrow>
                   if cat_is_default c
                   then [El ''p'' [] [] [Txt (js ''This built-in category keeps its scanner role when you change its display name, icon, color, or order.'')]]
                   else []
               | None \<Rightarrow> [])
            @ shown (dg_formError d) (\<lambda>e. [El ''p'' [(''role'', js ''alert'')] [] [Txt e]])
            @ [El ''div'' [] []
                 [Button (Some (js ''button'')) (flag ''disabled'' (dg_isSaving d)) [on ''click'' CloseCategoryForm] [Txt (js ''Cancel'')],
                  Button (Some (js ''submit'')) (flag ''disabled'' (\<not> category_form_can_submit H (dg_isSaving d) f)) []
                    [Txt (if dg_isSaving d then js ''Saving'' @ ellipsis
                          else if dg_editing d \<noteq> None then js ''Save changes'' else js ''Create category'')]]])])"

definition category_item :: "category \<Rightarrow> categories_action html" where
  "category_item c =
     (let description_id = js ''category-'' @ int_str (cat_id c) @ js ''-delete-description''
      in El ''li'' [] []
        [El ''div'' [] []
           [El ''div'' [] []
              [El ''h3'' [] [] [Txt (cat_name c)], El ''span'' [] [] [Txt (if cat_is_default c then js ''Built in'' else js ''Custom'')]],
            El ''p'' [] []
              [Txt (messageCountLabel (cat_message_count c) @ [32, 183, 32] @ js ''Order '' @ int_str (cat_position c)
                 @ [32, 183, 32, 47] @ cat_slug c)]],
         El ''div'' [] []
           ([Button None [(''aria-label'', js ''Edit '' @ cat_name c)] [on ''click'' (EditCategory c)] [Txt (js ''Edit'')],
             Button None
               (flag ''disabled'' (cat_is_default c) @ [(''aria-label'', js ''Delete '' @ cat_name c)]
                @ opt_attr ''aria-describedby'' (if cat_is_default c then Some description_id else None)
                @ opt_attr ''title'' (if cat_is_default c
                    then Some (quoted (cat_name c) @ js '' is built in and cannot be deleted'') else None))
               [on ''click'' (RemoveCategory c)] [Txt (js ''Delete'')]]
            @ (if cat_is_default c
               then [El ''span'' [(''id'', description_id)] []
                       [Txt (js ''Built-in categories can be edited, but they cannot be deleted.'')]] else [])
            @ [El ''Link''
                 [(''to'', js ''/messages?category='' @ the (encode_uri_component (cat_slug c))),
                  (''aria-label'', js ''View messages in '' @ cat_name c)] [] [Txt (js ''View messages'')]])])"

definition categories_body :: "jstr option \<Rightarrow> categories_page \<Rightarrow> categories_action html" where
  "categories_body error p =
     (if cg_isLoading p then El ''div'' [(''role'', js ''status'')] [] [Txt (js ''Loading categories'' @ ellipsis)]
      else if cg_isFallback p
      then StatePanel ErrorTone (js ''Could not load your categories'')
             (Some (case error of Some e \<Rightarrow> e | None \<Rightarrow> js ''The category service returned an unexpected response.''))
             (Some (Button None [] [on ''click'' LoadCategoriesAgain] [Txt (js ''Try again'')]))
      else if cg_categories p = []
      then StatePanel DefaultTone (js ''No categories yet'') (Some (js ''Create a category to start organizing messages.''))
             (Some (Button None [] [on ''click'' NewCategory] [Txt (js ''Create category'')]))
      else El ''ul'' [(''aria-label'', js ''Categories'')] [] (map category_item (cg_categories p)))"

definition category_delete_dialog :: "categories_page \<Rightarrow> categories_action html list" where
  "category_delete_dialog p =
     (let d = cg_dialogs p
      in delete_dialog (dg_deleting d \<noteq> None)
           (case dg_deleting d of Some c \<Rightarrow> js ''Delete '' @ quoted (cat_name c) @ js ''?'' | None \<Rightarrow> js ''Delete category?'')
           (case dg_deleting d of
              Some c \<Rightarrow> messageCountLabel (cat_message_count c) @ js '' will be moved to '' @ fallbackCategoryName (cg_categories p)
                @ js ''. This category itself cannot be recovered.''
            | None \<Rightarrow> js ''This category cannot be recovered.'')
           (js ''Delete category'') (dg_isDeleting d) (dg_deleteError d) CloseCategoryDeletion ConfirmCategoryDeletion)"

definition categories_listed :: "categories_page \<Rightarrow> category list" where
  "categories_listed p = (if cg_isLoading p \<or> cg_isFallback p then [] else cg_categories p)"

definition categories_view :: "host \<Rightarrow> (jsnum \<Rightarrow> jstr) \<Rightarrow> jstr option \<Rightarrow> categories_page \<Rightarrow> categories_action html list" where
  "categories_view H number_text error p =
     (let d = cg_dialogs p
      in if list_ex (\<lambda>c. encode_uri_component (cat_slug c) = None) (categories_listed p) then []
         else [El ''section'' (flag ''inert'' (modal_open d)) []
            ([El ''div'' [] []
                [El ''div'' [] []
                   [El ''h2'' [] [] [Txt (js ''Categories'')],
                    El ''p'' [] []
                      [Txt (js ''Shape the main folders used by the scanner, sidebar, and message filters. Built-in categories can be styled and reordered, while custom categories can also be removed.'')]],
                 Button None (flag ''disabled'' (cg_isLoading p \<or> cg_isFallback p)) [on ''click'' NewCategory] [Txt (js ''New category'')]]]
             @ shown (dg_successMessage d) (\<lambda>m. [StatePanel SuccessTone m None None])
             @ [categories_body error p])]
         @ category_form_dialog H number_text d (cg_form p) @ category_delete_dialog p)"

lemma icon_choice_acts:
  "acts (icon_choice icon busy c) = (if busy then {} else {ChooseIcon (fst c)})" "\<not> has_submit (icon_choice icon busy c)"
  by (simp_all add: icon_choice_def split: prod.split)

lemma category_form_fields_acts:
  "acts_list (category_form_fields H nt busy f) =
     (if busy then {}
      else range TypeCategoryName \<union> (\<Union>c \<in> set CATEGORY_ICON_CHOICES. {ChooseIcon (fst c)})
        \<union> range PickCategoryColor \<union> range TypeCategoryColor \<union> range TypePosition)"
  "\<not> has_submit_list (category_form_fields H nt busy f)"
  by (simp_all add: category_form_fields_def Let_def icon_choice_acts Un_ac)

lemma category_form_dialog_acts:
  "acts_list (category_form_dialog H nt d f) =
     (if \<not> dg_isFormOpen d then {}
      else insert CloseCategoryForm (acts_list (category_form_fields H nt (dg_isSaving d) f)
             \<union> (if category_form_can_submit H (dg_isSaving d) f then {SubmitCategory} else {})))"
  by (auto simp: category_form_dialog_def category_form_fields_acts(2) split: option.split)

lemma category_item_acts: "acts (category_item c) = insert (EditCategory c) (if cat_is_default c then {} else {RemoveCategory c})"
  by (simp add: category_item_def Let_def)

lemma categories_body_acts:
  "acts (categories_body error p) =
     (if cg_isLoading p then {} else if cg_isFallback p then {LoadCategoriesAgain}
      else if cg_categories p = [] then {NewCategory}
      else \<Union>c \<in> set (cg_categories p). insert (EditCategory c) (if cat_is_default c then {} else {RemoveCategory c}))"
  by (simp add: categories_body_def category_item_acts)

lemma categories_view_acts:
  "acts_list (categories_view H nt error p) \<subseteq>
     (if modal_open (cg_dialogs p) then {}
      else (if cg_isLoading p \<or> cg_isFallback p then {} else {NewCategory}) \<union> acts (categories_body error p))
     \<union> acts_list (category_form_dialog H nt (cg_dialogs p) (cg_form p))
     \<union> (if dg_deleting (cg_dialogs p) = None then {}
        else insert CloseCategoryDeletion (if dg_isDeleting (cg_dialogs p) then {} else {ConfirmCategoryDeletion}))"
  by (auto simp: categories_view_def Let_def category_delete_dialog_def delete_dialog_acts)

lemma categories_view_cases:
  assumes "a \<in> acts_list (categories_view H nt error p)"
  obtains
    (new) "a = NewCategory" "\<not> modal_open (cg_dialogs p)" "\<not> cg_isLoading p" "\<not> cg_isFallback p"
  | (edit) c where "a = EditCategory c" "c \<in> set (cg_categories p)" "\<not> modal_open (cg_dialogs p)"
  | (remove) c where "a = RemoveCategory c" "c \<in> set (cg_categories p)" "\<not> cat_is_default c" "\<not> modal_open (cg_dialogs p)"
  | (again) "a = LoadCategoriesAgain" "\<not> modal_open (cg_dialogs p)" "cg_isFallback p"
  | (form) f where "dg_isFormOpen (cg_dialogs p)" "\<not> dg_isSaving (cg_dialogs p)"
      "a \<in> range TypeCategoryName \<union> range ChooseIcon \<union> range PickCategoryColor \<union> range TypeCategoryColor \<union> range TypePosition"
      "categories_do H a p = p\<lparr>cg_form := f\<rparr>"
  | (submit) "dg_isFormOpen (cg_dialogs p)" "a = SubmitCategory" "category_form_can_submit H (dg_isSaving (cg_dialogs p)) (cg_form p)"
  | (close) "dg_isFormOpen (cg_dialogs p)" "a = CloseCategoryForm"
  | (close_deletion) "dg_deleting (cg_dialogs p) \<noteq> None" "a = CloseCategoryDeletion"
  | (confirm) "dg_deleting (cg_dialogs p) \<noteq> None" "\<not> dg_isDeleting (cg_dialogs p)" "a = ConfirmCategoryDeletion"
proof -
  from subsetD [OF categories_view_acts assms] consider
      "\<not> modal_open (cg_dialogs p)" "\<not> cg_isLoading p" "\<not> cg_isFallback p" "a = NewCategory"
    | "\<not> modal_open (cg_dialogs p)" "a \<in> acts (categories_body error p)"
    | "a \<in> acts_list (category_form_dialog H nt (cg_dialogs p) (cg_form p))"
    | "dg_deleting (cg_dialogs p) \<noteq> None" "a = CloseCategoryDeletion"
    | "dg_deleting (cg_dialogs p) \<noteq> None" "\<not> dg_isDeleting (cg_dialogs p)" "a = ConfirmCategoryDeletion"
    by (auto split: if_splits)
  then show thesis
  proof cases
    case 2
    then show thesis using new edit remove again by (auto simp: categories_body_acts split: if_splits)
  next
    case 3
    then have o: "dg_isFormOpen (cg_dialogs p)" by (simp add: category_form_dialog_acts split: if_splits)
    show thesis
    proof (cases "a \<in> {SubmitCategory, CloseCategoryForm}")
      case True
      with 3 o show thesis using submit close by (auto simp: category_form_dialog_acts category_form_fields_acts split: if_splits)
    next
      case False
      with 3 o have saving: "\<not> dg_isSaving (cg_dialogs p)" and
        a: "a \<in> range TypeCategoryName \<union> range ChooseIcon \<union> range PickCategoryColor \<union> range TypeCategoryColor \<union> range TypePosition"
        by (auto simp: category_form_dialog_acts category_form_fields_acts split: if_splits)
      moreover from a have "\<exists>f. categories_do H a p = p\<lparr>cg_form := f\<rparr>"
        by (auto simp: categories_do_def Let_def)
      ultimately show thesis using form o by blast
    qed
  qed (use new close_deletion confirm in auto)
qed

lemma offered_categories_step:
  assumes "a \<in> acts_list (categories_view H nt error p)"
  shows "categories_step H p (categories_do H a p)"
  using assms
proof (cases rule: categories_view_cases)
  case new
  then show ?thesis using categories_step.create [of p H] by (simp add: categories_do_def)
next
  case (edit c)
  then show ?thesis using categories_step.edit [of c p H] by (simp add: categories_do_def)
next
  case (remove c)
  then show ?thesis using categories_step.remove [of c p H] by (simp add: categories_do_def)
next
  case (form f)
  then show ?thesis using categories_step.typed [of p H f] by simp
next
  case submit
  then show ?thesis using categories_step.submit [of p H]
    by (simp add: categories_do_def category_form_submit_def Let_def)
next
  case close
  then show ?thesis using categories_step.close_form [of p H] by (simp add: categories_do_def)
next
  case close_deletion
  then show ?thesis using categories_step.close_delete [of p H] by (simp add: categories_do_def)
next
  case confirm
  then show ?thesis using categories_step.confirm [of p H] by (simp add: categories_do_def)
next
  case again
  then show ?thesis using categories_step.again [of p H] by (simp add: categories_do_def)
qed

text \<open>
  What happens without a control: answers, a new list from the hook, and the Escape key of a dialog;
  each with what it means to the dialogs.
\<close>

inductive categories_env :: "host \<Rightarrow> categories_page \<Rightarrow> category dialog_input \<Rightarrow> categories_page \<Rightarrow> bool" for H where
  category_saved: "cg_saving p = Some (editing, payload) \<Longrightarrow>
    categories_env H p (answer_of result ''Could not save this category.'')
      (categories_handleSave_reply editing result (p\<lparr>cg_saving := None\<rparr>))"
| category_removed: "cg_removing p = Some c \<Longrightarrow>
    categories_env H p (answer_of result' ''Could not delete this category.'')
      (categories_handleDelete_reply c result' (p\<lparr>cg_removing := None\<rparr>))"
| categories_heard: "categories_env H p Unrelated (categories_received cs isLoading isFallback p)"
| category_form_escaped: "dg_isFormOpen (cg_dialogs p) \<Longrightarrow> categories_env H p Dismiss (categories_do H CloseCategoryForm p)"
| category_question_escaped:
    "dg_deleting (cg_dialogs p) \<noteq> None \<Longrightarrow> categories_env H p Dismiss (categories_do H CloseCategoryDeletion p)"

lemma categories_env_step: "categories_env H p i p' \<Longrightarrow> categories_step H p p'"
  by (induction rule: categories_env.induct) (auto simp: categories_do_def Let_def intro: categories_step.intros)

interpretation categories_rendered: rendered_page "\<lambda>p. \<exists>cs. p = categories_initial cs" "categories_view H nt error"
  "categories_do H" "\<lambda>p p'. \<exists>i. categories_env H p i p'" "run_reachable (\<lambda>p. \<exists>cs. p = categories_initial cs) (categories_step H)"
  for H nt error
  by unfold_locales (auto intro: run_reachable.intros dest: offered_categories_step categories_env_step)

section \<open>Names and references\<close>

lemma icon_choice_markup [simp]:
  "labelled_ids (icon_choice icon busy c) = {}" "refs_of (icon_choice icon busy c) = {}"
  "c \<in> set CATEGORY_ICON_CHOICES \<Longrightarrow> named ids b (icon_choice icon busy c)"
  by (auto simp: icon_choice_def CATEGORY_ICON_CHOICES_def has_label_attr_def is_ws_def split: prod.split)

lemma words_of_int [simp]: "words (Some (js ''category-'' @ int_str n @ js ''-delete-description'')) = {js ''category-'' @ int_str n @ js ''-delete-description''}"
proof -
  have "32 \<notin> set (int_str n)" by (auto simp: int_str_def is_digit_def dest: nat_str_digits)
  then have "32 \<notin> set (js ''category-'' @ int_str n @ js ''-delete-description'')" by (simp add: js_Cons)
  from split_on_no_sep [OF this] show ?thesis by (simp add: words_def)
qed

lemma category_parts_markup [simp]:
  "labelled_ids_list (category_form_fields H nt busy f) = {}" "named_list ids b (category_form_fields H nt busy f)"
  "refs_of_list (category_form_fields H nt busy f) = {}"
  "labelled_ids (category_item c) = {}" "named ids b (category_item c)"
  "refs_of (category_item c) \<subseteq> ids_of (category_item c)"
  by (simp_all add: category_form_fields_def category_item_def Button_def has_label_attr_def Let_def is_ws_def)

lemma category_form_dialog_markup [simp]:
  "labelled_ids_list (category_form_dialog H nt d f) = {}" "named_list ids b (category_form_dialog H nt d f)"
  "refs_of_list (category_form_dialog H nt d f) \<subseteq> ids_of_list (category_form_dialog H nt d f)"
  by (simp_all add: category_form_dialog_def modal_frame_def Button_def is_ws_def split: option.split)

lemma categories_body_markup [simp]:
  "labelled_ids (categories_body error p) = {}" "named ids b (categories_body error p)"
  "refs_of (categories_body error p) \<subseteq> ids_of (categories_body error p)"
proof -
  show "labelled_ids (categories_body error p) = {}" "named ids b (categories_body error p)"
    by (simp_all add: categories_body_def Button_def is_ws_def)
  show "refs_of (categories_body error p) \<subseteq> ids_of (categories_body error p)"
    by (simp add: categories_body_def Button_def UN_mono)
qed

lemma categories_view_controls: "controls_named (categories_view H nt error p)" "refs_resolve (categories_view H nt error p)"
proof -
  show "controls_named (categories_view H nt error p)"
    by (simp add: controls_named_def categories_view_def category_delete_dialog_def Button_def Let_def is_ws_def)
  show "refs_resolve (categories_view H nt error p)"
    by (simp add: refs_resolve_def categories_view_def category_delete_dialog_def Button_def Let_def le_supI1 le_supI2)
qed

end
