(* ===== verification/OrganizationUse.thy ===== *)
theory OrganizationUse
  imports CategoriesView
begin

text \<open>
  The tags page and the categories page as they are used: their dialogs follow the specification
  \<open>dialog_next\<close>, and each of their controls does what it says.
\<close>

section \<open>The pages as they are used\<close>

definition tags_used :: "host \<Rightarrow> tags_screen \<Rightarrow> bool" where
  "tags_used H = rendered (\<lambda>s. s = tags_screen_initial) (tags_view H) (tags_do H) (\<lambda>s s'. \<exists>i. tags_env H s i s')"

definition categories_used :: "host \<Rightarrow> (jsnum \<Rightarrow> jstr) \<Rightarrow> jstr option \<Rightarrow> categories_page \<Rightarrow> bool" where
  "categories_used H nt error =
     rendered (\<lambda>p. \<exists>cs. p = categories_initial cs) (categories_view H nt error) (categories_do H)
       (\<lambda>p p'. \<exists>i. categories_env H p i p')"

lemma tags_used_ok:
  assumes "tags_used H s"
  shows "run_reachable (\<lambda>p. p = tags_initial) (tags_step H) (ts_page s)"
    "dialogs_ok (tg_dialogs (ts_page s))" "(tg_saving (ts_page s) \<noteq> None) = dg_isSaving (tg_dialogs (ts_page s))"
    "(tg_removing (ts_page s) \<noteq> None) = dg_isDeleting (tg_dialogs (ts_page s))"
proof -
  from assms show r: "run_reachable (\<lambda>p. p = tags_initial) (tags_step H) (ts_page s)"
    unfolding tags_used_def by (rule tags_rendered.rendered_reachable)
  show "dialogs_ok (tg_dialogs (ts_page s))" "(tg_saving (ts_page s) \<noteq> None) = dg_isSaving (tg_dialogs (ts_page s))"
    "(tg_removing (ts_page s) \<noteq> None) = dg_isDeleting (tg_dialogs (ts_page s))"
    using tags_host.reachable_ok [OF r] by simp_all
qed

lemma categories_used_ok:
  assumes "categories_used H nt error p"
  shows "dialogs_ok (cg_dialogs p)" "(cg_saving p \<noteq> None) = dg_isSaving (cg_dialogs p)"
    "(cg_removing p \<noteq> None) = dg_isDeleting (cg_dialogs p)"
  using categories_host.reachable_ok [OF categories_rendered.rendered_reachable, of H nt error p] assms
  by (simp_all add: categories_used_def)

lemma dialogs_ok_open: "dialogs_ok d \<Longrightarrow> dg_isSaving d \<Longrightarrow> dg_isFormOpen d" "dialogs_ok d \<Longrightarrow> dg_isDeleting d \<Longrightarrow> dg_deleting d \<noteq> None"
  by (simp_all add: dialogs_ok_def)

section \<open>The dialogs\<close>

text \<open>What each control is to the dialogs.\<close>

fun tags_input :: "tags_action \<Rightarrow> managed_tag dialog_input" where
  "tags_input NewTag = OpenNew"
| "tags_input (EditTag t) = OpenEdit t"
| "tags_input (RemoveTag t) = OpenQuestion t"
| "tags_input SubmitTag = Proceed"
| "tags_input ConfirmTagDeletion = Proceed"
| "tags_input CloseTagForm = Dismiss"
| "tags_input CloseTagDeletion = Dismiss"
| "tags_input a = Unrelated"

fun categories_input :: "categories_action \<Rightarrow> category dialog_input" where
  "categories_input NewCategory = OpenNew"
| "categories_input (EditCategory c) = OpenEdit c"
| "categories_input (RemoveCategory c) = OpenQuestion c"
| "categories_input SubmitCategory = Proceed"
| "categories_input ConfirmCategoryDeletion = Proceed"
| "categories_input CloseCategoryForm = Dismiss"
| "categories_input CloseCategoryDeletion = Dismiss"
| "categories_input a = Unrelated"

definition tags_dialog :: "tags_screen \<Rightarrow> managed_tag dialog_view" where
  "tags_dialog s = shown_dialog (tg_dialogs (ts_page s))"

definition categories_dialog :: "categories_page \<Rightarrow> category dialog_view" where
  "categories_dialog p = shown_dialog (cg_dialogs p)"

lemma tags_control_refines:
  assumes used: "tags_used H s" and a: "a \<in> acts_list (tags_view H s)"
  shows "tags_dialog (tags_do H a s) = dialog_next (tags_dialog s) (tags_input a)"
  using a
proof (cases rule: tags_view_cases)
  case new
  with shown_open(1) [OF tags_used_ok(2) [OF used]] show ?thesis by (simp add: tags_dialog_def tags_do_def Let_def)
next
  case (item t)
  with shown_open(2,3) [OF tags_used_ok(2) [OF used]] show ?thesis by (auto simp: tags_dialog_def tags_do_def Let_def)
next
  case again
  then show ?thesis by (simp add: tags_dialog_def tags_do_def Let_def)
next
  case form
  then show ?thesis by (auto simp: tags_dialog_def tags_do_def Let_def)
next
  case submit
  then have "\<not> dg_isSaving (tg_dialogs (ts_page s))" by (simp add: tag_form_can_submit_def)
  with submit shown_form(2) [OF tags_used_ok(2) [OF used]] show ?thesis
    by (simp add: tags_dialog_def tags_do_def tag_form_submit_def tags_handleSave_start_def Let_def)
next
  case close
  with shown_form(1) [OF tags_used_ok(2) [OF used]] show ?thesis by (simp add: tags_dialog_def tags_do_def Let_def)
next
  case close_deletion
  with shown_question(1) [OF tags_used_ok(2) [OF used]] show ?thesis by (simp add: tags_dialog_def tags_do_def Let_def)
next
  case confirm
  with shown_question(2) [OF tags_used_ok(2) [OF used]] show ?thesis
    by (auto simp: tags_dialog_def tags_do_def tags_handleDelete_start_def Let_def)
qed

lemma tags_env_refines:
  assumes used: "tags_used H s" and "tags_env H s i s'"
  shows "tags_dialog s' = dialog_next (tags_dialog s) i"
  using assms(2)
proof cases
  case (tag_saved editing payload result)
  then have "dg_isSaving (tg_dialogs (ts_page s))" using tags_used_ok(3) [OF used] by simp
  with tag_saved shown_form(3,4) [OF tags_used_ok(2) [OF used]] dialogs_ok_open(1) [OF tags_used_ok(2) [OF used]] show ?thesis
    by (auto simp: tags_dialog_def tags_handleSave_reply_def answer_of_def Let_def split: sum.split option.split)
next
  case (tag_removed t result)
  then have "dg_isDeleting (tg_dialogs (ts_page s))" using tags_used_ok(4) [OF used] by simp
  with tag_removed shown_question(3,4) [OF tags_used_ok(2) [OF used]] dialogs_ok_open(2) [OF tags_used_ok(2) [OF used]] show ?thesis
    by (auto simp: tags_dialog_def tags_handleDelete_reply_def answer_of_def Let_def split: sum.split)
next
  case tag_form_escaped
  with shown_form(1) [OF tags_used_ok(2) [OF used]] show ?thesis by (simp add: tags_dialog_def tags_do_def Let_def)
next
  case tag_question_escaped
  with shown_question(1) [OF tags_used_ok(2) [OF used]] show ?thesis by (simp add: tags_dialog_def tags_do_def Let_def)
qed (simp_all add: tags_dialog_def)

lemma categories_control_refines:
  assumes used: "categories_used H nt error p" and a: "a \<in> acts_list (categories_view H nt error p)"
  shows "categories_dialog (categories_do H a p) = dialog_next (categories_dialog p) (categories_input a)"
  using a
proof (cases rule: categories_view_cases)
  case new
  with shown_open(1) [OF categories_used_ok(1) [OF used]] show ?thesis by (simp add: categories_dialog_def categories_do_def Let_def)
next
  case (edit c)
  with shown_open(2) [OF categories_used_ok(1) [OF used]] show ?thesis by (simp add: categories_dialog_def categories_do_def Let_def)
next
  case (remove c)
  with shown_open(3) [OF categories_used_ok(1) [OF used]] show ?thesis by (simp add: categories_dialog_def categories_do_def Let_def)
next
  case again
  then show ?thesis by (simp add: categories_dialog_def categories_do_def Let_def)
next
  case (form f)
  then show ?thesis by (auto simp: categories_dialog_def categories_do_def Let_def)
next
  case submit
  then have "\<not> dg_isSaving (cg_dialogs p)" by (simp add: category_form_can_submit_def)
  with submit shown_form(2) [OF categories_used_ok(1) [OF used]] show ?thesis
    by (simp add: categories_dialog_def categories_do_def category_form_submit_def categories_handleSave_start_def Let_def)
next
  case close
  with shown_form(1) [OF categories_used_ok(1) [OF used]] show ?thesis by (simp add: categories_dialog_def categories_do_def Let_def)
next
  case close_deletion
  with shown_question(1) [OF categories_used_ok(1) [OF used]] show ?thesis
    by (simp add: categories_dialog_def categories_do_def Let_def)
next
  case confirm
  with shown_question(2) [OF categories_used_ok(1) [OF used]] show ?thesis
    by (auto simp: categories_dialog_def categories_do_def categories_handleDelete_start_def Let_def)
qed

lemma categories_env_refines:
  assumes used: "categories_used H nt error p" and "categories_env H p i p'"
  shows "categories_dialog p' = dialog_next (categories_dialog p) i"
  using assms(2)
proof cases
  case (category_saved editing payload result)
  then have "dg_isSaving (cg_dialogs p)" using categories_used_ok(2) [OF used] by simp
  with category_saved shown_form(3,4) [OF categories_used_ok(1) [OF used]] dialogs_ok_open(1) [OF categories_used_ok(1) [OF used]]
  show ?thesis
    by (auto simp: categories_dialog_def categories_handleSave_reply_def answer_of_def Let_def split: sum.split)
next
  case (category_removed c result)
  then have "dg_isDeleting (cg_dialogs p)" using categories_used_ok(3) [OF used] by simp
  with category_removed shown_question(3,4) [OF categories_used_ok(1) [OF used]] dialogs_ok_open(2) [OF categories_used_ok(1) [OF used]]
  show ?thesis
    by (auto simp: categories_dialog_def categories_handleDelete_reply_def answer_of_def Let_def split: sum.split)
next
  case category_form_escaped
  with shown_form(1) [OF categories_used_ok(1) [OF used]] show ?thesis by (simp add: categories_dialog_def categories_do_def Let_def)
next
  case category_question_escaped
  with shown_question(1) [OF categories_used_ok(1) [OF used]] show ?thesis
    by (simp add: categories_dialog_def categories_do_def Let_def)
qed (simp_all add: categories_dialog_def)

text \<open>
  C32: The dialogs of both organization pages implement their specification. However a page is used,
  each control that it offers moves its dialogs as \<open>dialog_next\<close> says for that control, and so do
  answers, announced changes and the Escape key: a dialog opens only when none is open, with nothing
  else in it than what it was opened for; Cancel and Escape close it, unless it waits for the server;
  submitting makes it wait; an accepted request closes it and a refused one shows why in it.
\<close>

theorem organization_dialogs_refine:
  "(tags_used H s \<longrightarrow>
      (\<forall>a \<in> acts_list (tags_view H s). tags_dialog (tags_do H a s) = dialog_next (tags_dialog s) (tags_input a))
      \<and> (\<forall>i s'. tags_env H s i s' \<longrightarrow> tags_dialog s' = dialog_next (tags_dialog s) i))
   \<and> (categories_used H nt error p \<longrightarrow>
      (\<forall>a \<in> acts_list (categories_view H nt error p).
         categories_dialog (categories_do H a p) = dialog_next (categories_dialog p) (categories_input a))
      \<and> (\<forall>i p'. categories_env H p i p' \<longrightarrow> categories_dialog p' = dialog_next (categories_dialog p) i))"
  using tags_control_refines tags_env_refines categories_control_refines categories_env_refines by blast

text \<open>The tags page after its first load, which brought nothing.\<close>

definition loaded_tags :: tags_screen where
  "loaded_tags =
     tags_rerender (loadTags_reply \<lparr>tl_revision = 1, tl_background = False, tl_signalled = True\<rparr> (Inr [])
       (tags_initial\<lparr>tg_loads := []\<rparr>)) tags_screen_initial"

lemma loaded_tags_facts:
  "tags_used plain_host loaded_tags" "NewTag \<in> acts_list (tags_view plain_host loaded_tags)"
  "tags_dialog loaded_tags = NoDialog"
proof -
  let ?l = "\<lparr>tl_revision = 1, tl_background = False, tl_signalled = True\<rparr>"
  have loads: "tg_loads tags_initial = [?l]" "ts_page tags_screen_initial = tags_initial"
    by (simp_all add: tags_screen_initial_def tags_initial_def loadTags_start_def Let_def)
  have "tags_env plain_host tags_screen_initial Unrelated
      (tags_rerender (loadTags_reply ?l (Inr []) ((ts_page tags_screen_initial)
         \<lparr>tg_loads := remove1 ?l (tg_loads (ts_page tags_screen_initial))\<rparr>)) tags_screen_initial)"
    by (rule tags_env.tags_loaded) (simp add: loads)
  then have "tags_env plain_host tags_screen_initial Unrelated loaded_tags" by (simp add: loads loaded_tags_def)
  then show "tags_used plain_host loaded_tags"
    unfolding tags_used_def by (blast intro: rendered_reply rendered_start)
  show "NewTag \<in> acts_list (tags_view plain_host loaded_tags)" "tags_dialog loaded_tags = NoDialog"
    by (simp_all add: loaded_tags_def tags_view_def Let_def tags_listed_def loadTags_reply_def tags_initial_def loadTags_start_def
        modal_open_def no_dialogs_def tags_new_enabled_def tags_dialog_def shown_dialog_def)
qed

theorem organization_dialogs_refine_witness:
  "tags_dialog (tags_do plain_host NewTag loaded_tags) = FormShown None (Ready None)"
  using organization_dialogs_refine [of plain_host loaded_tags] loaded_tags_facts by fastforce

section \<open>The controls\<close>

text \<open>What a control promises; nothing is sent but by submitting a form and confirming a deletion.\<close>

fun tags_outcome :: "host \<Rightarrow> tags_screen \<Rightarrow> tags_action \<Rightarrow> tags_screen \<Rightarrow> bool" where
  "tags_outcome H s SubmitTag s' \<longleftrightarrow>
     (let f = ts_form s; c = normalizedColor H (tf_color f)
      in tg_saving (ts_page s') =
           Some (dg_editing (tg_dialogs (ts_page s)), \<lparr>ct_name = tf_name f, ct_color = if tf_hasColor f then Some c else None\<rparr>)
         \<and> js_trim (tf_name f) \<noteq> [] \<and> (tf_hasColor f \<longrightarrow> is_hex_color c) \<and> ts_form s' = f)"
| "tags_outcome H s ConfirmTagDeletion s' \<longleftrightarrow>
     dg_deleting (tg_dialogs (ts_page s)) \<noteq> None \<and> tg_removing (ts_page s') = dg_deleting (tg_dialogs (ts_page s))"
| "tags_outcome H s NewTag s' \<longleftrightarrow>
     dg_isFormOpen (tg_dialogs (ts_page s')) \<and> dg_editing (tg_dialogs (ts_page s')) = None
     \<and> ts_form s' = \<lparr>tf_name = [], tf_hasColor = True, tf_color = js ''#0EA5E9''\<rparr>"
| "tags_outcome H s (EditTag t) s' \<longleftrightarrow>
     t \<in> set (tg_tags (ts_page s)) \<and> dg_isFormOpen (tg_dialogs (ts_page s')) \<and> dg_editing (tg_dialogs (ts_page s')) = Some t
     \<and> tf_name (ts_form s') = mt_name t \<and> tf_hasColor (ts_form s') = (mt_color t \<noteq> None)
     \<and> (\<forall>c. mt_color t = Some c \<longrightarrow> tf_color (ts_form s') = c)"
| "tags_outcome H s (RemoveTag t) s' \<longleftrightarrow>
     t \<in> set (tg_tags (ts_page s)) \<and> dg_deleting (tg_dialogs (ts_page s')) = Some t"
| "tags_outcome H s LoadTagsAgain s' \<longleftrightarrow>
     tg_isLoading (ts_page s') \<and> tg_loadError (ts_page s') = None \<and> tg_loadRevision (ts_page s') = tg_loadRevision (ts_page s) + 1
     \<and> (\<exists>l. tg_loads (ts_page s') = l # tg_loads (ts_page s) \<and> tl_revision l = tg_loadRevision (ts_page s') \<and> \<not> tl_background l)"
| "tags_outcome H s (TypeTagName v) s' \<longleftrightarrow> s' = s\<lparr>ts_form := (ts_form s)\<lparr>tf_name := v\<rparr>\<rparr>"
| "tags_outcome H s (SetTagHasColor b) s' \<longleftrightarrow> b = (\<not> tf_hasColor (ts_form s)) \<and> s' = s\<lparr>ts_form := (ts_form s)\<lparr>tf_hasColor := b\<rparr>\<rparr>"
| "tags_outcome H s (PickTagColor v) s' \<longleftrightarrow> s' = s\<lparr>ts_form := (ts_form s)\<lparr>tf_color := to_upper H v\<rparr>\<rparr>"
| "tags_outcome H s (TypeTagColor v) s' \<longleftrightarrow> s' = s\<lparr>ts_form := (ts_form s)\<lparr>tf_color := v\<rparr>\<rparr>"
| "tags_outcome H s CloseTagForm s' \<longleftrightarrow>
     dg_isFormOpen (tg_dialogs (ts_page s')) = dg_isSaving (tg_dialogs (ts_page s)) \<and> tg_tags (ts_page s') = tg_tags (ts_page s)"
| "tags_outcome H s CloseTagDeletion s' \<longleftrightarrow>
     (dg_deleting (tg_dialogs (ts_page s')) \<noteq> None) = dg_isDeleting (tg_dialogs (ts_page s)) \<and> tg_tags (ts_page s') = tg_tags (ts_page s)"

definition tags_quiet :: "tags_screen \<Rightarrow> tags_action \<Rightarrow> tags_screen \<Rightarrow> bool" where
  "tags_quiet s a s' \<longleftrightarrow>
     (a = SubmitTag \<or> tg_saving (ts_page s') = tg_saving (ts_page s))
     \<and> (a = ConfirmTagDeletion \<or> tg_removing (ts_page s') = tg_removing (ts_page s))"

fun categories_outcome :: "host \<Rightarrow> categories_page \<Rightarrow> categories_action \<Rightarrow> categories_page \<Rightarrow> bool" where
  "categories_outcome H p SubmitCategory p' \<longleftrightarrow>
     (let f = cg_form p; c = normalizedColor H (cfm_color f)
      in cg_saving p' =
           Some (dg_editing (cg_dialogs p),
             \<lparr>ci_name = cfm_name f, ci_icon = cfm_icon f, ci_color = c, ci_position = cfm_position f\<rparr>)
         \<and> js_trim (cfm_name f) \<noteq> [] \<and> cfm_icon f \<noteq> [] \<and> is_hex_color c
         \<and> cfm_position f \<noteq> NaN \<and> \<not> num_less (cfm_position f) (jint 0) \<and> cg_form p' = f)"
| "categories_outcome H p ConfirmCategoryDeletion p' \<longleftrightarrow>
     dg_deleting (cg_dialogs p) \<noteq> None \<and> cg_removing p' = dg_deleting (cg_dialogs p)"
| "categories_outcome H p NewCategory p' \<longleftrightarrow>
     dg_isFormOpen (cg_dialogs p') \<and> dg_editing (cg_dialogs p') = None
     \<and> cg_form p' = \<lparr>cfm_name = [], cfm_icon = js ''message-square'', cfm_color = js ''#0F766E'',
                     cfm_position = jint (suggestedPosition (cg_categories p))\<rparr>"
| "categories_outcome H p (EditCategory c) p' \<longleftrightarrow>
     c \<in> set (cg_categories p) \<and> dg_isFormOpen (cg_dialogs p') \<and> dg_editing (cg_dialogs p') = Some c
     \<and> cg_form p' = \<lparr>cfm_name = cat_name c, cfm_icon = cat_icon c, cfm_color = cat_color c, cfm_position = jint (cat_position c)\<rparr>"
| "categories_outcome H p (RemoveCategory c) p' \<longleftrightarrow>
     c \<in> set (cg_categories p) \<and> \<not> cat_is_default c \<and> dg_deleting (cg_dialogs p') = Some c"
| "categories_outcome H p LoadCategoriesAgain p' \<longleftrightarrow> p' = p\<lparr>cg_notified := cg_notified p + 1\<rparr>"
| "categories_outcome H p (TypeCategoryName v) p' \<longleftrightarrow> p' = p\<lparr>cg_form := (cg_form p)\<lparr>cfm_name := v\<rparr>\<rparr>"
| "categories_outcome H p (ChooseIcon v) p' \<longleftrightarrow>
     v \<in> fst ` set CATEGORY_ICON_CHOICES \<and> p' = p\<lparr>cg_form := (cg_form p)\<lparr>cfm_icon := v\<rparr>\<rparr>"
| "categories_outcome H p (PickCategoryColor v) p' \<longleftrightarrow> p' = p\<lparr>cg_form := (cg_form p)\<lparr>cfm_color := to_upper H v\<rparr>\<rparr>"
| "categories_outcome H p (TypeCategoryColor v) p' \<longleftrightarrow> p' = p\<lparr>cg_form := (cg_form p)\<lparr>cfm_color := v\<rparr>\<rparr>"
| "categories_outcome H p (TypePosition v) p' \<longleftrightarrow> p' = p\<lparr>cg_form := (cg_form p)\<lparr>cfm_position := read_position v\<rparr>\<rparr>"
| "categories_outcome H p CloseCategoryForm p' \<longleftrightarrow>
     dg_isFormOpen (cg_dialogs p') = dg_isSaving (cg_dialogs p) \<and> cg_categories p' = cg_categories p"
| "categories_outcome H p CloseCategoryDeletion p' \<longleftrightarrow>
     (dg_deleting (cg_dialogs p') \<noteq> None) = dg_isDeleting (cg_dialogs p) \<and> cg_categories p' = cg_categories p"

definition categories_quiet :: "categories_page \<Rightarrow> categories_action \<Rightarrow> categories_page \<Rightarrow> bool" where
  "categories_quiet p a p' \<longleftrightarrow>
     (a = SubmitCategory \<or> cg_saving p' = cg_saving p) \<and> (a = ConfirmCategoryDeletion \<or> cg_removing p' = cg_removing p)"

lemma opened_dialogs [simp]:
  "dg_isFormOpen (openCreateDialog d)" "dg_editing (openCreateDialog d) = None"
  "dg_isFormOpen (openEditDialog x d)" "dg_editing (openEditDialog x d) = Some x" "dg_deleting (openDeleteDialog x d) = Some x"
  by (simp_all add: dialog_operations)

lemma closed_dialogs:
  "dialogs_ok d \<Longrightarrow> dg_isFormOpen (closeFormDialog d) = dg_isSaving d"
  "dialogs_ok d \<Longrightarrow> (dg_deleting (closeDeleteDialog d) \<noteq> None) = dg_isDeleting d"
  by (auto simp: dialog_operations dialogs_ok_def)

lemma on_dialogs_tags [simp]: "tg_tags (on_dialogs f p) = tg_tags p"
  by (simp add: on_dialogs_def)

lemma tags_control_outcome:
  assumes used: "tags_used H s" and a: "a \<in> acts_list (tags_view H s)"
  shows "tags_outcome H s a (tags_do H a s)"
  using a
proof (cases rule: tags_view_cases)
  case submit
  then show ?thesis
    by (auto simp: tags_do_def Let_def tag_form_submit_def tag_form_can_submit_def tags_handleSave_start_def tags_rerender_def
        save_begins_def on_dialogs_def)
next
  case again
  then show ?thesis by (simp add: tags_do_def Let_def loadTags_start_def)
next
  case close
  with closed_dialogs(1) [OF tags_used_ok(2) [OF used]] show ?thesis by (simp add: tags_do_def Let_def)
next
  case close_deletion
  with closed_dialogs(2) [OF tags_used_ok(2) [OF used]] show ?thesis by (simp add: tags_do_def Let_def)
qed (auto simp: tags_do_def Let_def tags_rerender_def tag_form_effect_def modal_open_def tags_handleDelete_start_def)

lemma tags_control_quiet: "tags_quiet s a (tags_do H a s)"
  by (cases a) (simp_all add: tags_quiet_def tags_do_def Let_def tags_handleSave_start_def tags_handleDelete_start_def split: option.split)

lemma offered_icon: "ChooseIcon v \<in> acts_list (categories_view H nt error p) \<Longrightarrow> v \<in> fst ` set CATEGORY_ICON_CHOICES"
  using categories_view_acts [of H nt error p]
  by (auto simp: categories_body_acts category_form_dialog_acts category_form_fields_acts split: if_splits)

lemma categories_control_outcome:
  assumes used: "categories_used H nt error p" and a: "a \<in> acts_list (categories_view H nt error p)"
  shows "categories_outcome H p a (categories_do H a p)"
  using a
proof (cases rule: categories_view_cases)
  case submit
  then show ?thesis
    by (auto simp: categories_do_def Let_def category_form_submit_def category_form_can_submit_def categories_handleSave_start_def
        categories_dialogs_def categories_render_def save_begins_def)
next
  case (form f)
  with a offered_icon show ?thesis by (auto simp: categories_do_def Let_def)
next
  case close
  with closed_dialogs(1) [OF categories_used_ok(1) [OF used]] show ?thesis by (simp add: categories_do_def Let_def)
next
  case close_deletion
  with closed_dialogs(2) [OF categories_used_ok(1) [OF used]] show ?thesis by (simp add: categories_do_def Let_def)
qed (auto simp: categories_do_def Let_def categories_dialogs_def categories_render_def category_form_effect_def modal_open_def
      categories_handleDelete_start_def)

lemma categories_control_quiet: "categories_quiet p a (categories_do H a p)"
  by (cases a) (simp_all add: categories_quiet_def categories_do_def Let_def categories_handleSave_start_def
      categories_handleDelete_start_def split: option.split)



end
