(* ===== verification/MessagesFilters.thy ===== *)
theory MessagesFilters
  imports ApiMessages Categories
begin

text \<open>
  The pure half of \<open>pages/messages-page.tsx\<close>: reading the filters from the URL, writing them
  back, the pages of a listing, merging tags and deriving what the loaded messages tell.
\<close>

section \<open>Constants and readers\<close>

definition capitalize :: "host \<Rightarrow> jstr \<Rightarrow> jstr" where
  "capitalize H word = to_upper H (take 1 word) @ drop 1 word"

definition formatCategoryFilter :: "host \<Rightarrow> jstr \<Rightarrow> jstr" where
  "formatCategoryFilter H slug = join_with (js '' '') (map (capitalize H) (split_on 45 slug))"

definition sortOptions :: "(sort_option \<times> string) list" where
  "sortOptions = [(DateDesc, ''Date (newest)''), (DateAsc, ''Date (oldest)''), (ByCategory, ''Category''), (BySender, ''Sender'')]"

definition messageKindOptions :: "(message_kind \<times> string) list" where
  "messageKindOptions =
     [(KMixed, ''Mixed media''), (KImage, ''Images only''), (KVideo, ''Videos only''), (KAudio, ''Audio only''),
      (KDocument, ''Documents only''), (KLink, ''Links only''), (KText, ''Text only''), (KOther, ''Other media only'')]"

definition DEFAULT_SORT_OPTION :: sort_option where "DEFAULT_SORT_OPTION = DateDesc"
definition DEFAULT_ITEMS_PER_PAGE :: int where "DEFAULT_ITEMS_PER_PAGE = 60"
definition MAX_PAGE_NUMBER :: int where "MAX_PAGE_NUMBER = 1000000"
definition MAX_SEARCH_LENGTH :: nat where "MAX_SEARCH_LENGTH = 500"
definition MAX_TAG_FILTERS :: nat where "MAX_TAG_FILTERS = 20"
definition MAX_TAG_NAME_LENGTH :: nat where "MAX_TAG_NAME_LENGTH = 100"
definition itemsPerPageOptions :: "int list" where "itemsPerPageOptions = [30, 60, 120, 200]"

text \<open>The option a text names, where the code tests \<open>isSortOption\<close> and \<open>isMessageKind\<close>.\<close>

definition read_sort_option :: "jstr option \<Rightarrow> sort_option option" where
  "read_sort_option value =
     map_option fst (find (\<lambda>(v, _). value = Some (sort_str v)) sortOptions)"

definition read_message_kind :: "jstr option \<Rightarrow> message_kind option" where
  "read_message_kind value =
     map_option fst (find (\<lambda>(v, _). value = Some (kind_str v)) messageKindOptions)"

definition only_digits :: "jstr \<Rightarrow> bool" where
  "only_digits s \<longleftrightarrow> s \<noteq> [] \<and> list_all is_digit s"

definition num_is_safe_integer :: "jsnum \<Rightarrow> bool" where
  "num_is_safe_integer x \<longleftrightarrow> num_is_integer x \<and> \<not> num_less (jint (2 ^ 53 - 1)) x \<and> \<not> num_less x (jint (- (2 ^ 53 - 1)))"

definition readPageNumber :: "jstr option \<Rightarrow> int" where
  "readPageNumber value =
     (case value of
        None \<Rightarrow> 1
      | Some s \<Rightarrow>
          if \<not> only_digits s then 1
          else let parsed = parse_int s
               in if num_less (jint 0) parsed \<and> \<not> num_less (jint MAX_PAGE_NUMBER) parsed \<and> num_is_safe_integer parsed
                  then the (trunc_int parsed) else 1)"

definition readItemsPerPage :: "jstr option \<Rightarrow> int" where
  "readItemsPerPage value =
     (case value of
        None \<Rightarrow> DEFAULT_ITEMS_PER_PAGE
      | Some s \<Rightarrow>
          if \<not> only_digits s then DEFAULT_ITEMS_PER_PAGE
          else let parsed = parse_int s
               in if parsed \<in> set (map jint itemsPerPageOptions) then the (trunc_int parsed) else DEFAULT_ITEMS_PER_PAGE)"

definition readSearchQuery :: "jstr option \<Rightarrow> jstr" where
  "readSearchQuery value =
     (let normalized = (case value of Some s \<Rightarrow> js_trim s | None \<Rightarrow> [])
      in if length normalized \<le> MAX_SEARCH_LENGTH then normalized else [])"

definition normalizeTagKey :: "host \<Rightarrow> jstr \<Rightarrow> jstr" where
  "normalizeTagKey H name = to_lower H (js_trim name)"

section \<open>Tags and categories of the loaded messages\<close>

definition compare_tags :: "host \<Rightarrow> message_tag \<Rightarrow> message_tag \<Rightarrow> int" where
  "compare_tags H first second = locale_compare H (tag_name first) (tag_name second)"

definition tags_by_id :: "message_tag list \<Rightarrow> (int \<times> message_tag) list \<Rightarrow> (int \<times> message_tag) list" where
  "tags_by_id = put_all AList.update tag_id"

definition mergeTags :: "host \<Rightarrow> message_tag list \<Rightarrow> message_tag list \<Rightarrow> message_tag list" where
  "mergeTags H current incoming =
     js_sort (compare_tags H) (map snd (tags_by_id incoming (tags_by_id current [])))"

definition deriveTagsFromMessages :: "host \<Rightarrow> message_item list \<Rightarrow> message_tag list" where
  "deriveTagsFromMessages H messages = mergeTags H [] (concat (map msg_tags messages))"

definition category_of_message :: "message_item \<Rightarrow> category" where
  "category_of_message m =
     (let c = msg_category m
      in \<lparr>cat_id = mc_id c, cat_name = mc_name c, cat_slug = mc_slug c, cat_system_key = None, cat_icon = mc_icon c,
          cat_color = mc_color c, cat_position = mc_id c, cat_is_default = False, cat_message_count = 1\<rparr>)"

definition count_category :: "message_item \<Rightarrow> (int \<times> category) list \<Rightarrow> (int \<times> category) list" where
  "count_category m byId =
     (case map_of byId (mc_id (msg_category m)) of
        Some existing \<Rightarrow>
          AList.update (mc_id (msg_category m)) (existing\<lparr>cat_message_count := cat_message_count existing + 1\<rparr>) byId
      | None \<Rightarrow> AList.update (mc_id (msg_category m)) (category_of_message m) byId)"

definition compare_positions :: "category \<Rightarrow> category \<Rightarrow> int" where
  "compare_positions first second =
     (if cat_position first \<noteq> cat_position second then cat_position first - cat_position second
      else cat_id first - cat_id second)"

definition deriveCategoriesFromMessages :: "message_item list \<Rightarrow> category list" where
  "deriveCategoriesFromMessages messages =
     js_sort compare_positions (map snd (foldl (\<lambda>byId m. count_category m byId) [] messages))"

text \<open>\<open>now\<close> is the ISO text of the current time.\<close>

definition localMoveMessages :: "jstr \<Rightarrow> message_item list \<Rightarrow> int list \<Rightarrow> category \<Rightarrow> message_item list" where
  "localMoveMessages now messages messageIds targetCategory =
     map (\<lambda>message.
       if msg_id message \<notin> set messageIds then message
       else message\<lparr>msg_category_id := cat_id targetCategory,
              msg_category := \<lparr>mc_id = cat_id targetCategory, mc_name = cat_name targetCategory,
                mc_slug = cat_slug targetCategory, mc_icon = cat_icon targetCategory, mc_color = cat_color targetCategory\<rparr>,
              msg_updated_at := now\<rparr>) messages"

section \<open>The filters in the URL\<close>

record page_filters =
  pf_search :: jstr
  pf_category :: jstr
  pf_tags :: "jstr list"
  pf_sort :: sort_option
  pf_kind :: "message_kind option"
  pf_page :: int
  pf_per_page :: int

definition read_filters :: "host \<Rightarrow> params \<Rightarrow> page_filters" where
  "read_filters H searchParams =
     \<lparr>pf_search = readSearchQuery (sp_get searchParams (js ''q'')),
      pf_category = (case sp_get searchParams (js ''category'') of Some c \<Rightarrow> to_lower H (js_trim c) | None \<Rightarrow> []),
      pf_tags = take MAX_TAG_FILTERS (js_unique
        (filter (\<lambda>tag. tag \<noteq> [] \<and> length tag \<le> MAX_TAG_NAME_LENGTH)
          (map (normalizeTagKey H) (sp_get_all searchParams (js ''tag''))))),
      pf_sort = (case read_sort_option (sp_get searchParams (js ''sort'')) of Some s \<Rightarrow> s | None \<Rightarrow> DEFAULT_SORT_OPTION),
      pf_kind = read_message_kind (sp_get searchParams (js ''kind'')),
      pf_page = readPageNumber (sp_get searchParams (js ''page'')),
      pf_per_page = readItemsPerPage (sp_get searchParams (js ''per_page''))\<rparr>"

text \<open>The query \<open>hydrateMessages\<close> sends for the filters; an empty text counts as none.\<close>

definition non_empty :: "'a list \<Rightarrow> 'a list option" where
  "non_empty xs = (if xs = [] then None else Some xs)"

definition filters_query :: "host \<Rightarrow> page_filters \<Rightarrow> message_list_query" where
  "filters_query H f =
     \<lparr>q_page = Some (jint (pf_page f)), q_per_page = Some (jint (pf_per_page f)), q_sort = Some (pf_sort f),
      q_category = non_empty (pf_category f), q_search = non_empty (to_lower H (pf_search f)),
      q_tag = non_empty (pf_tags f), q_kind = pf_kind f\<rparr>"

definition setCategoryParam :: "jstr \<Rightarrow> params \<Rightarrow> params" where
  "setCategoryParam nextCategory ps =
     sp_delete (if nextCategory = [] then sp_delete ps (js ''category'') else sp_set ps (js ''category'') nextCategory)
       (js ''page'')"

definition toggled_tags :: "jstr list \<Rightarrow> jstr \<Rightarrow> jstr list" where
  "toggled_tags selected tagKey =
     (if tagKey \<in> set selected then filter (\<lambda>t. t \<noteq> tagKey) selected else selected @ [tagKey])"

definition toggleTagFilter :: "host \<Rightarrow> jstr \<Rightarrow> params \<Rightarrow> params" where
  "toggleTagFilter H tagKey ps =
     sp_delete (sp_append_all (sp_delete ps (js ''tag'')) (js ''tag'') (toggled_tags (pf_tags (read_filters H ps)) tagKey))
       (js ''page'')"

definition setSortParam :: "sort_option \<Rightarrow> params \<Rightarrow> params" where
  "setSortParam nextSort ps =
     sp_delete (if nextSort = DEFAULT_SORT_OPTION then sp_delete ps (js ''sort'') else sp_set ps (js ''sort'') (sort_str nextSort))
       (js ''page'')"

definition setMessageKindParam :: "message_kind option \<Rightarrow> params \<Rightarrow> params" where
  "setMessageKindParam nextKind ps =
     sp_delete (case nextKind of None \<Rightarrow> sp_delete ps (js ''kind'') | Some k \<Rightarrow> sp_set ps (js ''kind'') (kind_str k))
       (js ''page'')"

definition setItemsPerPageParam :: "int \<Rightarrow> params \<Rightarrow> params" where
  "setItemsPerPageParam n ps =
     sp_delete (if n = DEFAULT_ITEMS_PER_PAGE then sp_delete ps (js ''per_page'') else sp_set ps (js ''per_page'') (int_str n))
       (js ''page'')"

definition clear_filter_params :: "params \<Rightarrow> params" where
  "clear_filter_params ps =
     foldl sp_delete ps [js ''q'', js ''category'', js ''tag'', js ''kind'', js ''sort'', js ''page'']"

text \<open>The debounced write of the search box.\<close>

definition search_params_written :: "jstr \<Rightarrow> params \<Rightarrow> params" where
  "search_params_written query ps =
     sp_delete (if js_trim query = [] then sp_delete ps (js ''q'') else sp_set ps (js ''q'') (js_trim query))
       (js ''page'')"

definition page_param :: "int \<Rightarrow> params \<Rightarrow> params" where
  "page_param page ps = (if page = 1 then sp_delete ps (js ''page'') else sp_set ps (js ''page'') (int_str page))"

section \<open>Pages\<close>

definition total_pages :: "int \<Rightarrow> int \<Rightarrow> int" where
  "total_pages totalMessages itemsPerPage = max 1 (- ((- totalMessages) div itemsPerPage))"

definition go_to_page :: "int \<Rightarrow> int \<Rightarrow> params \<Rightarrow> params" where
  "go_to_page totalPages page ps = page_param (max 1 (min page totalPages)) ps"

text \<open>The page buttons; \<open>None\<close> is an ellipsis.\<close>

definition shown_page :: "int \<Rightarrow> int \<Rightarrow> int \<Rightarrow> bool" where
  "shown_page totalPages safePage page \<longleftrightarrow>
     totalPages \<le> 7 \<or> page = 1 \<or> page = totalPages \<or> \<bar>page - safePage\<bar> \<le> 1"

fun with_ellipses :: "int list \<Rightarrow> int option list" where
  "with_ellipses [] = []"
| "with_ellipses [p] = [Some p]"
| "with_ellipses (p # q # ps) = Some p # (if q - p > 1 then [None] else []) @ with_ellipses (q # ps)"

definition page_items :: "int \<Rightarrow> int \<Rightarrow> int option list" where
  "page_items totalPages safePage = with_ellipses (filter (shown_page totalPages safePage) [1..totalPages])"

section \<open>What the readers admit\<close>

lemma readPageNumber_bounds: "1 \<le> readPageNumber v \<and> readPageNumber v \<le> 1000000"
proof -
  have "1 \<le> the (trunc_int x) \<and> the (trunc_int x) \<le> 1000000"
    if "num_less (jint 0) x" "\<not> num_less (jint MAX_PAGE_NUMBER) x" "num_is_safe_integer x" for x
  proof (cases x)
    case (Fin q)
    with that have q: "0 < q" "q \<le> 1000000" "of_int \<lfloor>q\<rfloor> = q"
      by (auto simp: MAX_PAGE_NUMBER_def num_is_safe_integer_def num_is_integer_def)
    from q(3) obtain n where n: "q = of_int n" by metis
    have "0 < n" using q(1) unfolding n by (simp only: of_int_0_less_iff)
    then have "0 < \<lfloor>q\<rfloor>" using n by simp
    moreover have "\<lfloor>q\<rfloor> \<le> 1000000" using q(2) by (simp add: floor_le_iff)
    ultimately show ?thesis using Fin q(1) by (simp add: trunc_int_def)
  qed (use that in \<open>simp_all add: num_is_safe_integer_def num_is_integer_def\<close>)
  then show ?thesis by (simp add: readPageNumber_def Let_def split: option.splits)
qed

lemma readPageNumber_int_str:
  assumes "1 \<le> k" and "k \<le> 1000000"
  shows "readPageNumber (Some (int_str k)) = k"
proof -
  have p: "parse_int (int_str k) = jint k" using assms by (intro parse_int_int_str) simp
  have "only_digits (int_str k)"
    using assms nat_str_digits by (auto simp: only_digits_def int_str_def list_all_iff)
  then show ?thesis
    using assms unfolding readPageNumber_def option.case p Let_def
    by (simp add: MAX_PAGE_NUMBER_def num_is_safe_integer_def trunc_int_def num_is_integer_def)
qed

lemma readItemsPerPage_options: "readItemsPerPage v \<in> set itemsPerPageOptions"
  by (auto simp: readItemsPerPage_def itemsPerPageOptions_def DEFAULT_ITEMS_PER_PAGE_def trunc_int_def Let_def
      split: option.splits)

lemma readItemsPerPage_int_str:
  assumes "n \<in> set itemsPerPageOptions"
  shows "readItemsPerPage (Some (int_str n)) = n"
proof -
  have n: "0 \<le> n" "n < 2 ^ 53" using assms by (auto simp: itemsPerPageOptions_def)
  then have p: "parse_int (int_str n) = jint n" by (intro parse_int_int_str) simp
  have "only_digits (int_str n)"
    using n nat_str_digits by (auto simp: only_digits_def int_str_def list_all_iff)
  moreover have "jint n \<in> set (map jint itemsPerPageOptions)" using assms by auto
  ultimately show ?thesis
    unfolding readItemsPerPage_def option.case p Let_def using n by (simp add: trunc_int_def)
qed

lemma length_readSearchQuery: "length (readSearchQuery v) \<le> 500 \<and> trimmed (readSearchQuery v)"
  by (simp add: readSearchQuery_def MAX_SEARCH_LENGTH_def Let_def trimmed_def [of "[]"] split: option.splits)

lemma pf_tags_facts:
  "distinct (pf_tags (read_filters H ps)) \<and> length (pf_tags (read_filters H ps)) \<le> 20 \<and>
   (\<forall>t \<in> set (pf_tags (read_filters H ps)). t \<noteq> [] \<and> length t \<le> 100 \<and> (\<exists>s. t = normalizeTagKey H s))"
  by (auto simp: read_filters_def MAX_TAG_FILTERS_def MAX_TAG_NAME_LENGTH_def dest!: in_set_takeD)

text \<open>
  C8: no URL makes the page ask for something absurd. Whatever the address bar holds, the
  filters read from it have a page from 1 to 1,000,000, a page size among the offered ones, at
  most twenty distinct non-empty tags of at most 100 characters and a trimmed search text of
  at most 500; and the query sent for them carries exactly that page and page size.
\<close>

theorem url_filters_bounded:
  "1 \<le> pf_page (read_filters H ps) \<and> pf_page (read_filters H ps) \<le> 1000000 \<and>
   pf_per_page (read_filters H ps) \<in> {30, 60, 120, 200} \<and>
   distinct (pf_tags (read_filters H ps)) \<and> length (pf_tags (read_filters H ps)) \<le> 20 \<and>
   (\<forall>t \<in> set (pf_tags (read_filters H ps)). t \<noteq> [] \<and> length t \<le> 100) \<and>
   trimmed (pf_search (read_filters H ps)) \<and> length (pf_search (read_filters H ps)) \<le> 500 \<and>
   sp_get_all (query_params (filters_query H (read_filters H ps))) (js ''page'') = [int_str (pf_page (read_filters H ps))] \<and>
   sp_get_all (query_params (filters_query H (read_filters H ps))) (js ''per_page'') = [int_str (pf_per_page (read_filters H ps))]"
proof -
  let ?f = "read_filters H ps"
  have page: "1 \<le> pf_page ?f" "pf_page ?f \<le> 1000000"
    using readPageNumber_bounds by (simp_all add: read_filters_def)
  have per: "pf_per_page ?f \<in> set itemsPerPageOptions"
    using readItemsPerPage_options by (simp add: read_filters_def)
  have "pf_per_page ?f \<in> {30, 60, 120, 200}" using per by (simp add: itemsPerPageOptions_def)
  moreover have "sp_get_all (query_params (filters_query H ?f)) (js ''page'') = [int_str (pf_page ?f)]"
    unfolding query_page using page by (simp add: filters_query_def num_max_def)
  moreover have "sp_get_all (query_params (filters_query H ?f)) (js ''per_page'') = [int_str (pf_per_page ?f)]"
    unfolding query_per_page using per by (auto simp: filters_query_def num_max_def num_min_def itemsPerPageOptions_def)
  moreover have "trimmed (pf_search ?f)" "length (pf_search ?f) \<le> 500"
    using length_readSearchQuery by (simp_all add: read_filters_def)
  ultimately show ?thesis using page pf_tags_facts by blast
qed

theorem url_filters_bounded_witness:
  "pf_per_page (read_filters \<lparr>to_lower = id, to_upper = id, locale_compare = (\<lambda>_ _. 0)\<rparr> [(js ''per_page'', js ''7'')]) \<in> {30, 60, 120, 200}"
  using url_filters_bounded by blast

section \<open>Writing the filters\<close>

lemma read_sort_option_str [simp]: "read_sort_option (Some (sort_str v)) = Some v"
  by (cases v) (simp_all add: read_sort_option_def sortOptions_def)

lemma read_sort_option_None [simp]: "read_sort_option None = None"
  by (simp add: read_sort_option_def sortOptions_def)

lemma read_message_kind_str [simp]: "read_message_kind (Some (kind_str v)) = Some v"
  by (cases v) (simp_all add: read_message_kind_def messageKindOptions_def)

lemma read_message_kind_None [simp]: "read_message_kind None = None"
  by (simp add: read_message_kind_def messageKindOptions_def)

lemma readPageNumber_None [simp]: "readPageNumber None = 1"
  by (simp add: readPageNumber_def)

text \<open>Lower-casing a trimmed text twice is lower-casing it once, and leaves it trimmed.\<close>

definition lower_stable :: "host \<Rightarrow> bool" where
  "lower_stable H \<longleftrightarrow> (\<forall>s. normalizeTagKey H (normalizeTagKey H s) = normalizeTagKey H s)"

lemma lower_stableD:
  "lower_stable H \<Longrightarrow> to_lower H (js_trim (to_lower H (js_trim s))) = to_lower H (js_trim s)"
  by (simp add: lower_stable_def normalizeTagKey_def)

lemma set_category_read:
  assumes "lower_stable H"
  shows "read_filters H (setCategoryParam (to_lower H (js_trim c)) ps) =
    (read_filters H ps)\<lparr>pf_category := to_lower H (js_trim c), pf_page := 1\<rparr>"
  using lower_stableD [OF assms, of c]
  by (simp add: read_filters_def setCategoryParam_def sp_get_all_set sp_get_all_delete)

lemma set_sort_read:
  "read_filters H (setSortParam v ps) = (read_filters H ps)\<lparr>pf_sort := v, pf_page := 1\<rparr>"
  by (simp add: read_filters_def setSortParam_def DEFAULT_SORT_OPTION_def sp_get_all_set sp_get_all_delete)

lemma set_kind_read:
  "read_filters H (setMessageKindParam v ps) = (read_filters H ps)\<lparr>pf_kind := v, pf_page := 1\<rparr>"
  by (simp add: read_filters_def setMessageKindParam_def sp_get_all_set sp_get_all_delete split: option.splits)

lemma set_per_page_read:
  "n \<in> set itemsPerPageOptions \<Longrightarrow>
     read_filters H (setItemsPerPageParam n ps) = (read_filters H ps)\<lparr>pf_per_page := n, pf_page := 1\<rparr>"
  using readItemsPerPage_int_str [of n]
  by (simp add: read_filters_def setItemsPerPageParam_def sp_get_all_set sp_get_all_delete readItemsPerPage_def [of None])

lemma search_written_read:
  "length (js_trim v) \<le> 500 \<Longrightarrow>
     read_filters H (search_params_written v ps) = (read_filters H ps)\<lparr>pf_search := js_trim v, pf_page := 1\<rparr>"
  by (simp add: read_filters_def search_params_written_def readSearchQuery_def MAX_SEARCH_LENGTH_def
      sp_get_all_set sp_get_all_delete)

lemma cleared_read:
  "read_filters H (clear_filter_params ps) =
     \<lparr>pf_search = [], pf_category = [], pf_tags = [], pf_sort = DateDesc, pf_kind = None, pf_page = 1,
      pf_per_page = pf_per_page (read_filters H ps)\<rparr>"
  by (simp add: read_filters_def clear_filter_params_def readSearchQuery_def DEFAULT_SORT_OPTION_def sp_get_all_delete)

lemma page_param_read:
  "1 \<le> k \<Longrightarrow> k \<le> 1000000 \<Longrightarrow> read_filters H (page_param k ps) = (read_filters H ps)\<lparr>pf_page := k\<rparr>"
  using readPageNumber_int_str [of k]
  by (simp add: read_filters_def page_param_def sp_get_all_set sp_get_all_delete)

lemma toggle_read:
  assumes H: "lower_stable H" and k: "normalizeTagKey H k = k" "k \<noteq> []" "length k \<le> 100"
    and room: "length (pf_tags (read_filters H ps)) < 20"
  shows "read_filters H (toggleTagFilter H k ps) =
    (read_filters H ps)\<lparr>pf_tags := toggled_tags (pf_tags (read_filters H ps)) k, pf_page := 1\<rparr>"
proof -
  let ?tags = "toggled_tags (pf_tags (read_filters H ps)) k"
  note facts = pf_tags_facts [of H ps]
  have stable: "normalizeTagKey H t = t" if "t \<in> set ?tags" for t
    using that facts k(1) H by (auto simp: toggled_tags_def lower_stable_def split: if_splits)
  have keep: "t \<noteq> [] \<and> length t \<le> MAX_TAG_NAME_LENGTH" if "t \<in> set ?tags" for t
    using that facts k by (auto simp: toggled_tags_def MAX_TAG_NAME_LENGTH_def split: if_splits)
  have "map (normalizeTagKey H) ?tags = ?tags" using stable by (simp add: map_idI)
  moreover have "filter (\<lambda>t. t \<noteq> [] \<and> length t \<le> MAX_TAG_NAME_LENGTH) ?tags = ?tags" using keep by simp
  moreover have "distinct ?tags" using facts by (auto simp: toggled_tags_def)
  moreover have "length ?tags \<le> MAX_TAG_FILTERS"
    using facts room by (auto simp: toggled_tags_def MAX_TAG_FILTERS_def intro: le_trans [OF length_filter_le])
  ultimately have "take MAX_TAG_FILTERS (js_unique (filter (\<lambda>t. t \<noteq> [] \<and> length t \<le> MAX_TAG_NAME_LENGTH)
      (map (normalizeTagKey H) ?tags))) = ?tags"
    by (simp add: js_unique_distinct)
  then show ?thesis
    by (simp add: read_filters_def toggleTagFilter_def sp_append_all_def url_params.get_all_append_all
        sp_get_all_delete sp_get_append_all [unfolded sp_append_all_def])
qed

text \<open>
  C7: the filter controls and the address bar agree. Reading the URL after a control was used
  gives exactly the chosen value, leaves every other filter as it was and goes back to the
  first page; clearing keeps only the page size; going to a page changes only the page.
  (\<open>lower_stable\<close>: lower-casing a lower-cased, trimmed text changes nothing.)
\<close>

theorem filter_controls_read_back:
  assumes "lower_stable H"
  shows "read_filters H (setCategoryParam (to_lower H (js_trim c)) ps) =
      (read_filters H ps)\<lparr>pf_category := to_lower H (js_trim c), pf_page := 1\<rparr> \<and>
    read_filters H (setSortParam srt ps) = (read_filters H ps)\<lparr>pf_sort := srt, pf_page := 1\<rparr> \<and>
    read_filters H (setMessageKindParam kind ps) = (read_filters H ps)\<lparr>pf_kind := kind, pf_page := 1\<rparr> \<and>
    (n \<in> {30, 60, 120, 200} \<longrightarrow>
      read_filters H (setItemsPerPageParam n ps) = (read_filters H ps)\<lparr>pf_per_page := n, pf_page := 1\<rparr>) \<and>
    (length (js_trim text) \<le> 500 \<longrightarrow>
      read_filters H (search_params_written text ps) = (read_filters H ps)\<lparr>pf_search := js_trim text, pf_page := 1\<rparr>) \<and>
    (normalizeTagKey H k = k \<and> k \<noteq> [] \<and> length k \<le> 100 \<and> length (pf_tags (read_filters H ps)) < 20 \<longrightarrow>
      read_filters H (toggleTagFilter H k ps) =
        (read_filters H ps)\<lparr>pf_tags := toggled_tags (pf_tags (read_filters H ps)) k, pf_page := 1\<rparr>) \<and>
    read_filters H (clear_filter_params ps) =
      \<lparr>pf_search = [], pf_category = [], pf_tags = [], pf_sort = DateDesc, pf_kind = None, pf_page = 1,
       pf_per_page = pf_per_page (read_filters H ps)\<rparr> \<and>
    (pages \<le> 1000000 \<longrightarrow>
      read_filters H (go_to_page pages page ps) = (read_filters H ps)\<lparr>pf_page := max 1 (min page pages)\<rparr>)"
  using set_category_read [OF assms] set_sort_read set_kind_read set_per_page_read [of n] search_written_read
    toggle_read [OF assms] cleared_read page_param_read [of "max 1 (min page pages)"]
  by (simp add: itemsPerPageOptions_def go_to_page_def)

definition plain_host :: host where
  "plain_host = \<lparr>to_lower = id, to_upper = id, locale_compare = (\<lambda>x y. num_compare (jint (int (length x))) (jint (int (length y))))\<rparr>"

theorem filter_controls_read_back_witness:
  "pf_tags (read_filters plain_host (toggleTagFilter plain_host (js ''work'') [(js ''page'', js ''3'')])) = [js ''work''] \<and>
   pf_page (read_filters plain_host (setSortParam BySender [(js ''page'', js ''3'')])) = 1"
proof -
  have H: "lower_stable plain_host" by (simp add: lower_stable_def normalizeTagKey_def plain_host_def)
  have k: "normalizeTagKey plain_host (js ''work'') = js ''work''"
    by (simp add: normalizeTagKey_def plain_host_def js_trim_trimmed trimmed_def js_def is_ws_def)
  have none: "pf_tags (read_filters plain_host [(js ''page'', js ''3'')]) = []"
    by (simp add: read_filters_def sp_get_all_def)
  have "length (js ''work'') \<le> 100" by (simp add: js_def)
  with filter_controls_read_back [OF H, where ps = "[(js ''page'', js ''3'')]" and k = "js ''work''" and srt = BySender] k none
  show ?thesis by (simp add: toggled_tags_def)
qed

section \<open>Pages\<close>

fun bridged :: "int option list \<Rightarrow> bool" where
  "bridged [] = True"
| "bridged [Some p] = True"
| "bridged (Some p # Some q # r) = (q = p + 1 \<and> bridged (Some q # r))"
| "bridged (Some p # None # Some q # r) = (q > p + 1 \<and> bridged (Some q # r))"
| "bridged _ = False"

lemma with_ellipses_Cons: "\<exists>r. with_ellipses (p # ps) = Some p # r"
  by (cases ps) auto

lemma bridged_with_ellipses: "sorted_wrt (<) ps \<Longrightarrow> bridged (with_ellipses ps)"
proof (induction ps rule: with_ellipses.induct)
  case (3 p q ps)
  obtain r where r: "with_ellipses (q # ps) = Some q # r" using with_ellipses_Cons by blast
  have "p < q" using 3(2) by simp
  moreover have "bridged (Some q # r)" using 3 r by simp
  ultimately show ?case using r by auto
qed simp_all

lemma numbers_with_ellipses: "map the (filter (\<lambda>x. x \<noteq> None) (with_ellipses ps)) = ps"
  by (induction ps rule: with_ellipses.induct) auto

lemma strict_upto: "sorted_wrt (<) [i..j]"
proof (induction i j rule: upto.induct)
  case (1 i j)
  then show ?case by (cases "i \<le> j") (simp_all add: upto_rec1)
qed

lemma strict_filter: "sorted_wrt P xs \<Longrightarrow> sorted_wrt P (filter Q xs)"
  by (induction xs) auto

lemma few_pages:
  assumes "1 \<le> (pages :: int)"
  shows "length (filter (shown_page pages safe) [1..pages]) \<le> 7"
proof (cases "pages \<le> 7")
  case True
  then have "length [1..pages] \<le> 7" by simp
  then show ?thesis using length_filter_le le_trans by blast
next
  case False
  have "set (filter (shown_page pages safe) [1..pages]) \<subseteq> set [1, pages, safe - 1, safe, safe + 1]"
    using False by (auto simp: shown_page_def)
  then have "card (set (filter (shown_page pages safe) [1..pages])) \<le> card (set [1, pages, safe - 1, safe, safe + 1])"
    by (intro card_mono) simp_all
  also have "\<dots> \<le> 5" using card_length [of "[1, pages, safe - 1, safe, safe + 1]"] by simp
  finally have "length (filter (shown_page pages safe) [1..pages]) \<le> 5"
    by (subst (asm) distinct_card) simp_all
  then show ?thesis by simp
qed

text \<open>
  C9: the page bar is complete and honest. Its buttons ascend, include the first, the last, the
  current page and its neighbours, and number at most seven; two buttons stand next to each
  other exactly when their pages are consecutive, and an ellipsis stands only where pages are
  left out. The number of pages is the least that holds all messages.
\<close>

theorem page_bar_complete:
  assumes "0 \<le> messages" and "0 < per" and "pages = total_pages messages per" and "1 \<le> safe" and "safe \<le> pages"
  shows "messages \<le> pages * per \<and> (1 < pages \<longrightarrow> (pages - 1) * per < messages) \<and>
    (let numbers = map the (filter (\<lambda>x. x \<noteq> None) (page_items pages safe))
     in sorted_wrt (<) numbers \<and> length numbers \<le> 7 \<and> set numbers \<subseteq> {1..pages} \<and>
        {1, pages, safe} \<union> ({safe - 1, safe + 1} \<inter> {1..pages}) \<subseteq> set numbers \<and>
        (pages \<le> 7 \<longrightarrow> numbers = [1..pages])) \<and>
    bridged (page_items pages safe)"
proof -
  have one: "1 \<le> pages" using assms(3) by (simp add: total_pages_def)
  have "messages \<le> pages * per"
  proof -
    have "messages \<le> - ((- messages) div per) * per"
      using assms(2) by (metis div_mult_mod_eq minus_equation_iff minus_mult_left neg_le_iff_le le_add_same_cancel1 pos_mod_sign)
    also have "\<dots> \<le> pages * per" using assms(2,3) by (intro mult_right_mono) (simp_all add: total_pages_def)
    finally show ?thesis .
  qed
  moreover have "(pages - 1) * per < messages" if "1 < pages"
  proof -
    have t: "pages = - ((- messages) div per)" using that assms(3) by (simp add: total_pages_def max_def split: if_splits)
    define d r where "d = (- messages) div per" and "r = (- messages) mod per"
    have "r < per" using assms(2) by (simp add: r_def)
    moreover have "- messages = d * per + r" by (simp add: d_def r_def)
    moreover have "pages = - d" using t by (simp add: d_def)
    ultimately show ?thesis by (simp add: algebra_simps)
  qed
  moreover have "sorted_wrt (<) (filter (shown_page pages safe) [1..pages])"
    by (intro strict_filter strict_upto)
  moreover have "filter (shown_page pages safe) [1..pages] = [1..pages]" if "pages \<le> 7"
    using that by (simp add: shown_page_def)
  ultimately show ?thesis
    using few_pages [OF one, of safe] bridged_with_ellipses assms(4,5) one
    unfolding page_items_def numbers_with_ellipses Let_def by (auto simp: shown_page_def)
qed

theorem page_bar_complete_witness:
  "bridged (page_items 20 10) \<and> page_items 20 10 = [Some 1, None, Some 9, Some 10, Some 11, None, Some 20]"
proof -
  have "(20 :: int) = total_pages 1200 60" by (simp add: total_pages_def)
  from page_bar_complete [OF _ _ this, of 10] have "bridged (page_items 20 10)" by simp
  moreover have "page_items 20 10 = [Some 1, None, Some 9, Some 10, Some 11, None, Some 20]"
    by (simp add: page_items_def upto.simps shown_page_def)
  ultimately show ?thesis by blast
qed

section \<open>Merging tags\<close>

lemma put_all_append: "put_all put key (xs @ ys) m = put_all put key ys (put_all put key xs m)"
  by (simp add: put_all_def)

lemma tags_by_id_facts:
  "distinct (map fst (tags_by_id xs m)) = distinct (map fst (tags_by_id xs m)) \<and>
   (distinct (map fst m) \<longrightarrow> distinct (map fst (tags_by_id xs m))) \<and>
   fst ` set (tags_by_id xs m) = fst ` set m \<union> tag_id ` set xs"
  using js_map.distinct_put_all [of m tag_id xs] js_map.keys_put_all [of tag_id xs m] by (simp add: tags_by_id_def)

lemma tags_by_id_key: "(\<forall>(k, t) \<in> set m. tag_id t = k) \<Longrightarrow> \<forall>(k, t) \<in> set (tags_by_id xs m). tag_id t = k"
proof (induction xs arbitrary: m)
  case (Cons x xs)
  have "\<forall>(k, t) \<in> set (AList.update (tag_id x) x m). tag_id t = k"
    using Cons.prems by (induction m) auto
  from Cons.IH [OF this] show ?case by (simp add: tags_by_id_def put_all_def)
qed (simp add: tags_by_id_def put_all_def)

definition merged_map :: "message_tag list \<Rightarrow> message_tag list \<Rightarrow> (int \<times> message_tag) list" where
  "merged_map current incoming = tags_by_id incoming (tags_by_id current [])"

lemma merged_map_facts:
  "distinct (map fst (merged_map c i))" "fst ` set (merged_map c i) = tag_id ` set c \<union> tag_id ` set i"
  "map tag_id (map snd (merged_map c i)) = map fst (merged_map c i)"
proof -
  show "distinct (map fst (merged_map c i))" and "fst ` set (merged_map c i) = tag_id ` set c \<union> tag_id ` set i"
    using tags_by_id_facts [of c "[]"] tags_by_id_facts [of i "tags_by_id c []"] by (simp_all add: merged_map_def)
  have "\<forall>(k, t) \<in> set (merged_map c i). tag_id t = k"
    unfolding merged_map_def by (intro tags_by_id_key) simp
  then show "map tag_id (map snd (merged_map c i)) = map fst (merged_map c i)" by auto
qed

lemma last_wins:
  assumes "distinct (map tag_id i)" and "t \<in> set i"
  shows "t \<in> snd ` set (merged_map c i)"
proof -
  have "map_of (rev (map (\<lambda>x. (tag_id x, x)) i)) (tag_id t) = Some t"
    using assms by (intro map_of_is_SomeI) (simp_all add: rev_map [symmetric] o_def image_iff)
  then have "map_of (merged_map c i) (tag_id t) = Some t"
    by (simp add: merged_map_def tags_by_id_def js_map.get_put_all)
  then show ?thesis by (force dest: map_of_SomeD)
qed

definition total_preorder :: "('a \<Rightarrow> 'a \<Rightarrow> int) \<Rightarrow> bool" where
  "total_preorder cmp \<longleftrightarrow>
     (\<forall>x y. cmp x y \<le> 0 \<or> cmp y x \<le> 0) \<and> (\<forall>x y z. cmp x y \<le> 0 \<longrightarrow> cmp y z \<le> 0 \<longrightarrow> cmp x z \<le> 0)"

lemma total_preorder_comparator: "total_preorder cmp \<Longrightarrow> js_comparator cmp"
  unfolding total_preorder_def by unfold_locales blast+

lemma total_preorder_on: "total_preorder cmp \<Longrightarrow> total_preorder (\<lambda>x y. cmp (f x) (f y))"
  unfolding total_preorder_def by blast

lemma compare_tags_comparator: "total_preorder (locale_compare H) \<Longrightarrow> js_comparator (compare_tags H)"
  using total_preorder_comparator [OF total_preorder_on, of "locale_compare H" tag_name]
  by (simp add: compare_tags_def [abs_def])

text \<open>
  merging tags loses and repeats none. The merged list has every id of both lists exactly
  once and no other; a tag that came in stands with its new name and colour; and the list is
  ordered by name whenever the locale's comparison is a total preorder.
\<close>

theorem merge_tags_correct:
  assumes "distinct (map tag_id incoming)"
  shows "distinct (map tag_id (mergeTags H current incoming)) \<and>
    tag_id ` set (mergeTags H current incoming) = tag_id ` set current \<union> tag_id ` set incoming \<and>
    set incoming \<subseteq> set (mergeTags H current incoming) \<and>
    (total_preorder (locale_compare H) \<longrightarrow>
      sorted_wrt (\<lambda>x y. locale_compare H (tag_name x) (tag_name y) \<le> 0) (mergeTags H current incoming))"
proof -
  let ?ts = "map snd (merged_map current incoming)"
  have m: "mergeTags H current incoming = js_sort (compare_tags H) ?ts"
    by (simp add: mergeTags_def merged_map_def)
  have "distinct (map tag_id ?ts)" unfolding merged_map_facts(3) by (rule merged_map_facts(1))
  moreover have "tag_id ` set ?ts = tag_id ` set current \<union> tag_id ` set incoming"
    using merged_map_facts(2,3) by (metis set_map)
  moreover have "set incoming \<subseteq> set ?ts"
    using last_wins [OF assms] by auto
  moreover have "sorted_wrt (\<lambda>x y. compare_tags H x y \<le> 0) (js_sort (compare_tags H) ?ts)"
    if "js_comparator (compare_tags H)"
    by (rule js_comparator.sorted_js_sort [OF that])
  ultimately show ?thesis
    unfolding m using compare_tags_comparator [of H] by (auto simp: compare_tags_def)
qed

theorem merge_tags_correct_witness:
  "distinct (map tag_id (mergeTags plain_host [\<lparr>tag_id = 1, tag_name = js ''old'', tag_color = None\<rparr>]
     [\<lparr>tag_id = 1, tag_name = js ''new'', tag_color = None\<rparr>]))"
proof -
  have "distinct (map tag_id [\<lparr>tag_id = 1, tag_name = js ''new'', tag_color = None\<rparr>])" by simp
  from merge_tags_correct [OF this] show ?thesis by blast
qed

end
