(* ===== verification/MessagesPage.thy ===== *)
theory MessagesPage
  imports MessagesFilters
begin

text \<open>
  \<open>pages/messages-page.tsx\<close>: the library page. Its state, the effects React runs after a change
  and the handlers, each asynchronous one split at its \<open>await\<close>. A continuation gets the
  state its handler was created in (\<open>c\<close>): what the code reads from its closure is read there,
  what it updates with a function of the current value is updated in the current state.
\<close>

section \<open>State\<close>

datatype bulk_action = BulkMove | BulkTag | BulkDelete

text \<open>Every request the page sends, in order.\<close>

datatype page_request =
    ListSent nat message_list_query
  | TagsSent nat
  | MoveSent int int
  | AddTagSent int int
  | RemoveTagSent int int
  | CreateTagSent jstr
  | DeleteSent int bool
  | BulkMoveSent "int list" int
  | BulkTagSent "int list" int
  | BulkDeleteSent "int list" bool

text \<open>
  \<open>mp_listing\<close> counts the arrays \<open>setMessages\<close> was given: effects that depend on the messages run when
  the array is another one, whatever it holds.
\<close>

record page_state =
  mp_params :: params
  mp_messages :: "message_item list"
  mp_listing :: nat
  mp_knownTags :: "message_tag list"
  mp_hasLoadedTags :: bool
  mp_isInitialLoading :: bool
  mp_isRefreshing :: bool
  mp_loadError :: "jstr option"
  mp_total :: int
  mp_reload :: nat
  mp_pageError :: "jstr option"
  mp_searchQuery :: jstr
  mp_moveDialog :: "int option"
  mp_tagDialog :: "int option"
  mp_detailDialog :: "int option"
  mp_pendingDelete :: "int option"
  mp_isMoveSubmitting :: bool
  mp_isTagSubmitting :: bool
  mp_bulkMode :: bool
  mp_selected :: "int list"
  mp_bulkCategory :: "int option"
  mp_bulkTag :: "int option"
  mp_bulkPending :: "bulk_action option"
  mp_moveError :: "jstr option"
  mp_tagError :: "jstr option"
  mp_bulkError :: "jstr option"
  mp_bulkSuccess :: "jstr option"
  mp_hasCompletedInitialLoad :: bool
  mp_load_run :: nat
  mp_tags_run :: nat
  mp_fetched :: "category list"
  mp_isFallback :: bool
  mp_announced :: nat
  mp_sent :: "page_request list"

definition page_initial :: "params \<Rightarrow> category list \<Rightarrow> bool \<Rightarrow> page_state" where
  "page_initial ps fetched fallback =
     \<lparr>mp_params = ps, mp_messages = [], mp_listing = 0, mp_knownTags = [], mp_hasLoadedTags = False, mp_isInitialLoading = True,
      mp_isRefreshing = False, mp_loadError = None, mp_total = 0, mp_reload = 0, mp_pageError = None,
      mp_searchQuery = readSearchQuery (sp_get ps (js ''q'')), mp_moveDialog = None, mp_tagDialog = None,
      mp_detailDialog = None, mp_pendingDelete = None, mp_isMoveSubmitting = False, mp_isTagSubmitting = False,
      mp_bulkMode = False, mp_selected = [], mp_bulkCategory = None, mp_bulkTag = None, mp_bulkPending = None,
      mp_moveError = None, mp_tagError = None, mp_bulkError = None, mp_bulkSuccess = None,
      mp_hasCompletedInitialLoad = False, mp_load_run = 0, mp_tags_run = 0, mp_fetched = fetched,
      mp_isFallback = fallback, mp_announced = 0, mp_sent = []\<rparr>"

definition send :: "page_request \<Rightarrow> page_state \<Rightarrow> page_state" where
  "send q p = p\<lparr>mp_sent := mp_sent p @ [q]\<rparr>"

definition notifyCategoriesChanged :: "page_state \<Rightarrow> page_state" where
  "notifyCategoriesChanged p = p\<lparr>mp_announced := mp_announced p + 1\<rparr>"

section \<open>What is derived from the state\<close>

definition filters_of :: "host \<Rightarrow> page_state \<Rightarrow> page_filters" where
  "filters_of H p = read_filters H (mp_params p)"

definition urlSearchQuery :: "page_state \<Rightarrow> jstr" where
  "urlSearchQuery p = readSearchQuery (sp_get (mp_params p) (js ''q''))"

definition visible_ids :: "page_state \<Rightarrow> int set" where
  "visible_ids p = msg_id ` set (mp_messages p)"

definition actionCategories :: "page_state \<Rightarrow> category list" where
  "actionCategories p =
     (if \<not> mp_isFallback p \<and> mp_fetched p \<noteq> [] then mp_fetched p
      else deriveCategoriesFromMessages (mp_messages p))"

definition availableTags :: "host \<Rightarrow> page_state \<Rightarrow> message_tag list" where
  "availableTags H p =
     (if mp_hasLoadedTags p then mp_knownTags p
      else mergeTags H (mp_knownTags p) (deriveTagsFromMessages H (mp_messages p)))"

definition page_count :: "host \<Rightarrow> page_state \<Rightarrow> int" where
  "page_count H p = total_pages (mp_total p) (pf_per_page (filters_of H p))"

definition safePage :: "host \<Rightarrow> page_state \<Rightarrow> int" where
  "safePage H p = min (pf_page (filters_of H p)) (page_count H p)"

definition find_message :: "int \<Rightarrow> page_state \<Rightarrow> message_item option" where
  "find_message i p = find (\<lambda>m. msg_id m = i) (mp_messages p)"

definition active_message :: "int option \<Rightarrow> page_state \<Rightarrow> message_item option" where
  "active_message dialog p = (case dialog of Some i \<Rightarrow> find_message i p | None \<Rightarrow> None)"

definition hasActiveFilters :: "host \<Rightarrow> page_state \<Rightarrow> bool" where
  "hasActiveFilters H p \<longleftrightarrow>
     to_lower H (js_trim (mp_searchQuery p)) \<noteq> [] \<or> pf_category (filters_of H p) \<noteq> [] \<or>
     pf_tags (filters_of H p) \<noteq> [] \<or> pf_kind (filters_of H p) \<noteq> None \<or> pf_sort (filters_of H p) \<noteq> DateDesc"

section \<open>Loading\<close>

definition hydrateMessages_start :: "host \<Rightarrow> page_state \<Rightarrow> page_state" where
  "hydrateMessages_start H p =
     (let p = p\<lparr>mp_load_run := mp_load_run p + 1\<rparr>;
          p = (if \<not> mp_hasCompletedInitialLoad p then p\<lparr>mp_isInitialLoading := True\<rparr> else p\<lparr>mp_isRefreshing := True\<rparr>);
          p = p\<lparr>mp_loadError := None\<rparr>
      in send (ListSent (mp_load_run p) (filters_query H (filters_of H p))) p)"

text \<open>A later run of the effect cancels an earlier one, so the run that counts is the last.\<close>

definition hydrateMessages_reply ::
    "host \<Rightarrow> nat \<Rightarrow> bool \<Rightarrow> js_error + (message_item list \<times> int) \<Rightarrow> page_state \<Rightarrow> page_state" where
  "hydrateMessages_reply H run isFirstLoad result p =
     (if run \<noteq> mp_load_run p then p
      else
        let p = (case result of
            Inr (items, shown_total) \<Rightarrow>
              (let p = p\<lparr>mp_messages := items, mp_listing := mp_listing p + 1, mp_total := shown_total\<rparr>
               in if \<not> mp_hasLoadedTags p
                  then p\<lparr>mp_knownTags := mergeTags H (mp_knownTags p) (deriveTagsFromMessages H items)\<rparr> else p)
          | Inl e \<Rightarrow>
              (let p = (if isFirstLoad then p\<lparr>mp_messages := [], mp_listing := mp_listing p + 1, mp_total := 0\<rparr> else p)
               in p\<lparr>mp_loadError := Some (error_text e (js ''Unable to load your messages right now.''))\<rparr>))
        in p\<lparr>mp_hasCompletedInitialLoad := True, mp_isInitialLoading := False, mp_isRefreshing := False\<rparr>)"

definition hydrateTags_start :: "page_state \<Rightarrow> page_state" where
  "hydrateTags_start p =
     (let p = p\<lparr>mp_tags_run := mp_tags_run p + 1\<rparr> in send (TagsSent (mp_tags_run p)) p)"

definition hydrateTags_reply :: "nat \<Rightarrow> js_error + message_tag list \<Rightarrow> page_state \<Rightarrow> page_state" where
  "hydrateTags_reply run result p =
     (case result of
        Inr apiTags \<Rightarrow> if run = mp_tags_run p then p\<lparr>mp_hasLoadedTags := True, mp_knownTags := apiTags\<rparr> else p
      | Inl _ \<Rightarrow> p)"

section \<open>Effects\<close>

text \<open>
  An effect runs when one of its dependencies is another one than in the last render (\<open>before\<close>). The
  load depends on the tags of the URL, an array that is made anew whenever the URL's parameters
  change, so any change of them loads again.
\<close>

definition load_deps :: "page_state \<Rightarrow> params \<times> nat" where
  "load_deps p = (mp_params p, mp_reload p)"

definition default_choice :: "int option \<Rightarrow> int list \<Rightarrow> int option" where
  "default_choice current ids =
     (if ids = [] then None
      else case current of Some i \<Rightarrow> if i \<in> set ids then Some i else Some (hd ids) | None \<Rightarrow> Some (hd ids))"

definition search_effect :: "page_state \<Rightarrow> page_state \<Rightarrow> page_state" where
  "search_effect before p =
     (if urlSearchQuery p \<noteq> urlSearchQuery before then p\<lparr>mp_searchQuery := urlSearchQuery p\<rparr> else p)"

definition load_effect :: "host \<Rightarrow> page_state \<Rightarrow> page_state \<Rightarrow> page_state" where
  "load_effect H before p = (if load_deps p \<noteq> load_deps before then hydrateMessages_start H p else p)"

definition bulk_category_effect :: "page_state \<Rightarrow> page_state \<Rightarrow> page_state" where
  "bulk_category_effect before p =
     (if actionCategories p \<noteq> actionCategories before
      then p\<lparr>mp_bulkCategory := default_choice (mp_bulkCategory p) (map cat_id (actionCategories p))\<rparr> else p)"

definition bulk_tag_effect :: "host \<Rightarrow> page_state \<Rightarrow> page_state \<Rightarrow> page_state" where
  "bulk_tag_effect H before p =
     (if availableTags H p \<noteq> availableTags H before
      then p\<lparr>mp_bulkTag := default_choice (mp_bulkTag p) (map tag_id (availableTags H p))\<rparr> else p)"

definition page_deps :: "host \<Rightarrow> page_state \<Rightarrow> int \<times> bool \<times> int" where
  "page_deps H p = (pf_page (filters_of H p), mp_isInitialLoading p, page_count H p)"

definition page_effect :: "host \<Rightarrow> page_state \<Rightarrow> page_state \<Rightarrow> page_state" where
  "page_effect H before p =
     (if page_deps H p \<noteq> page_deps H before \<and> \<not> mp_isInitialLoading p \<and> page_count H p < pf_page (filters_of H p)
      then p\<lparr>mp_params := page_param (page_count H p) (mp_params p)\<rparr> else p)"

definition selection_deps :: "page_state \<Rightarrow> nat \<times> bool" where
  "selection_deps p = (mp_listing p, mp_bulkMode p)"

definition selection_effect :: "page_state \<Rightarrow> page_state \<Rightarrow> page_state" where
  "selection_effect before p =
     (if selection_deps p \<noteq> selection_deps before \<and> mp_bulkMode p
      then p\<lparr>mp_selected := filter (\<lambda>i. i \<in> visible_ids p) (mp_selected p)\<rparr> else p)"

definition leave_bulk_effect :: "page_state \<Rightarrow> page_state \<Rightarrow> page_state" where
  "leave_bulk_effect before p =
     (if mp_bulkMode p \<noteq> mp_bulkMode before \<and> \<not> mp_bulkMode p
      then p\<lparr>mp_selected := [], mp_bulkError := None, mp_bulkSuccess := None\<rparr> else p)"

text \<open>A dialog is closed when its message is gone; the effect depends on the dialog's id and message.\<close>

definition close_if_gone :: "page_state \<Rightarrow> int option \<Rightarrow> page_state \<Rightarrow> int option \<Rightarrow> int option" where
  "close_if_gone before dialog_before p dialog =
     (if (dialog, active_message dialog p) \<noteq> (dialog_before, active_message dialog_before before)
        \<and> dialog \<noteq> None \<and> active_message dialog p = None
      then None else dialog)"

definition dialogs_effect :: "page_state \<Rightarrow> page_state \<Rightarrow> page_state" where
  "dialogs_effect before p =
     p\<lparr>mp_moveDialog := close_if_gone before (mp_moveDialog before) p (mp_moveDialog p),
       mp_tagDialog := close_if_gone before (mp_tagDialog before) p (mp_tagDialog p),
       mp_detailDialog := close_if_gone before (mp_detailDialog before) p (mp_detailDialog p)\<rparr>"

definition page_effects :: "host \<Rightarrow> page_state \<Rightarrow> page_state \<Rightarrow> page_state" where
  "page_effects H before p =
     dialogs_effect before (leave_bulk_effect before (selection_effect before (page_effect H before
       (bulk_tag_effect H before (bulk_category_effect before (load_effect H before (search_effect before p)))))))"

text \<open>
  An effect that sets state renders again and the effects run once more; a second round is
  enough, since only the page number in the URL feeds an effect again.
\<close>

definition commit :: "host \<Rightarrow> page_state \<Rightarrow> page_state \<Rightarrow> page_state" where
  "commit H before p = (let p1 = page_effects H before p in page_effects H p p1)"

text \<open>
  The first render: the loads of the tags and of the messages start, the choices of the bulk actions
  are made; the other effects find nothing to do.
\<close>

definition mount_page :: "host \<Rightarrow> params \<Rightarrow> category list \<Rightarrow> bool \<Rightarrow> page_state" where
  "mount_page H ps fetched fallback =
     (let p0 = page_initial ps fetched fallback;
          p = hydrateMessages_start H (hydrateTags_start p0)
      in p\<lparr>mp_bulkCategory := default_choice None (map cat_id (actionCategories p)),
           mp_bulkTag := default_choice None (map tag_id (availableTags H p))\<rparr>)"

section \<open>Selection and dialogs\<close>

definition clear_bulk_notes :: "page_state \<Rightarrow> page_state" where
  "clear_bulk_notes p = p\<lparr>mp_bulkError := None, mp_bulkSuccess := None\<rparr>"

definition activateBulkSelectionMode :: "page_state \<Rightarrow> page_state" where
  "activateBulkSelectionMode p = (clear_bulk_notes p)\<lparr>mp_bulkMode := True\<rparr>"

definition exitBulkSelectionMode :: "page_state \<Rightarrow> page_state" where
  "exitBulkSelectionMode p = p\<lparr>mp_bulkMode := False\<rparr>"

definition handleMessageSelectionChange :: "int \<Rightarrow> bool \<Rightarrow> page_state \<Rightarrow> page_state" where
  "handleMessageSelectionChange i isSelected p =
     (if mp_bulkPending p \<noteq> None then p
      else
        let p = clear_bulk_notes p;
            p = (if isSelected then p\<lparr>mp_bulkMode := True\<rparr> else p)
        in if isSelected
           then (if i \<in> set (mp_selected p) then p else p\<lparr>mp_selected := mp_selected p @ [i]\<rparr>)
           else p\<lparr>mp_selected := filter (\<lambda>j. j \<noteq> i) (mp_selected p)\<rparr>)"

definition handleSelectAllFiltered :: "page_state \<Rightarrow> page_state" where
  "handleSelectAllFiltered p =
     (clear_bulk_notes p)\<lparr>mp_bulkMode := True, mp_selected := map msg_id (mp_messages p)\<rparr>"

definition clearSelectedMessages :: "page_state \<Rightarrow> page_state" where
  "clearSelectedMessages p = (clear_bulk_notes p)\<lparr>mp_selected := []\<rparr>"

definition choose_bulk_category :: "int option \<Rightarrow> page_state \<Rightarrow> page_state" where
  "choose_bulk_category i p = clear_bulk_notes (p\<lparr>mp_bulkCategory := i\<rparr>)"

definition choose_bulk_tag :: "int option \<Rightarrow> page_state \<Rightarrow> page_state" where
  "choose_bulk_tag i p = clear_bulk_notes (p\<lparr>mp_bulkTag := i\<rparr>)"

definition open_detail :: "int \<Rightarrow> page_state \<Rightarrow> page_state" where
  "open_detail i p = p\<lparr>mp_detailDialog := Some i\<rparr>"

definition open_move :: "int \<Rightarrow> page_state \<Rightarrow> page_state" where
  "open_move i p = p\<lparr>mp_moveError := None, mp_moveDialog := Some i\<rparr>"

definition open_tags :: "int \<Rightarrow> page_state \<Rightarrow> page_state" where
  "open_tags i p = p\<lparr>mp_tagError := None, mp_tagDialog := Some i\<rparr>"

text \<open>The same from the detail dialog, which closes.\<close>

definition open_move_from_detail :: "int \<Rightarrow> page_state \<Rightarrow> page_state" where
  "open_move_from_detail i p = p\<lparr>mp_detailDialog := None, mp_moveError := None, mp_moveDialog := Some i\<rparr>"

definition open_tags_from_detail :: "int \<Rightarrow> page_state \<Rightarrow> page_state" where
  "open_tags_from_detail i p = p\<lparr>mp_detailDialog := None, mp_tagError := None, mp_tagDialog := Some i\<rparr>"

definition close_detail :: "page_state \<Rightarrow> page_state" where
  "close_detail p = p\<lparr>mp_detailDialog := None\<rparr>"

definition close_move :: "page_state \<Rightarrow> page_state" where
  "close_move p = p\<lparr>mp_moveError := None, mp_moveDialog := None\<rparr>"

definition close_tags :: "page_state \<Rightarrow> page_state" where
  "close_tags p = p\<lparr>mp_tagError := None, mp_tagDialog := None\<rparr>"

definition clearFilters :: "page_state \<Rightarrow> page_state" where
  "clearFilters p = p\<lparr>mp_searchQuery := [], mp_params := clear_filter_params (mp_params p)\<rparr>"

text \<open>The timer that writes the search box into the URL.\<close>

definition search_timeout :: "host \<Rightarrow> page_state \<Rightarrow> page_state" where
  "search_timeout H p =
     (if to_lower H (js_trim (mp_searchQuery p)) = to_lower H (urlSearchQuery p) then p
      else p\<lparr>mp_params := search_params_written (mp_searchQuery p) (mp_params p)\<rparr>)"

section \<open>Moving and tagging one message\<close>

definition replace_message :: "int \<Rightarrow> (message_item \<Rightarrow> message_item) \<Rightarrow> page_state \<Rightarrow> page_state" where
  "replace_message i f p =
     p\<lparr>mp_messages := map (\<lambda>m. if msg_id m = i then f m else m) (mp_messages p), mp_listing := mp_listing p + 1\<rparr>"

definition reload_if :: "bool \<Rightarrow> page_state \<Rightarrow> page_state" where
  "reload_if filtered p = (if filtered then p\<lparr>mp_reload := mp_reload p + 1\<rparr> else p)"

definition moveSingleMessage_done :: "host \<Rightarrow> page_state \<Rightarrow> int \<Rightarrow> message_item \<Rightarrow> page_state \<Rightarrow> page_state" where
  "moveSingleMessage_done H c i updatedMessage p =
     notifyCategoriesChanged (reload_if (hasActiveFilters H c) (replace_message i (\<lambda>_. updatedMessage) p))"

definition handleDropToCategory_start :: "dom_event \<Rightarrow> page_state \<Rightarrow> page_state" where
  "handleDropToCategory_start ev p =
     (case readMessageDropToCategoryEvent ev of
        None \<Rightarrow> p
      | Some d \<Rightarrow>
          case find_message (dd_messageId d) p of
            None \<Rightarrow> p
          | Some target \<Rightarrow>
              if msg_category_id target = dd_categoryId d then p
              else send (MoveSent (dd_messageId d) (dd_categoryId d)) (p\<lparr>mp_pageError := None\<rparr>))"

definition handleDropToCategory_reply :: "host \<Rightarrow> page_state \<Rightarrow> int \<Rightarrow> js_error + message_item \<Rightarrow> page_state \<Rightarrow> page_state" where
  "handleDropToCategory_reply H c i result p =
     (case result of
        Inr updated \<Rightarrow> moveSingleMessage_done H c i updated p
      | Inl e \<Rightarrow> p\<lparr>mp_pageError := Some (error_text e (js ''Unable to move this message right now.''))\<rparr>)"

definition handleMoveMessage_start :: "int \<Rightarrow> int \<Rightarrow> page_state \<Rightarrow> page_state" where
  "handleMoveMessage_start i categoryId p =
     send (MoveSent i categoryId) (p\<lparr>mp_moveError := None, mp_isMoveSubmitting := True\<rparr>)"

definition handleMoveMessage_reply :: "host \<Rightarrow> page_state \<Rightarrow> int \<Rightarrow> js_error + message_item \<Rightarrow> page_state \<Rightarrow> page_state" where
  "handleMoveMessage_reply H c i result p =
     (let p = (case result of
          Inr updated \<Rightarrow> (moveSingleMessage_done H c i updated p)\<lparr>mp_moveDialog := None\<rparr>
        | Inl e \<Rightarrow> p\<lparr>mp_moveError := Some (error_text e (js ''Unable to move this message right now.''))\<rparr>)
      in p\<lparr>mp_isMoveSubmitting := False\<rparr>)"

definition merge_known_tags :: "host \<Rightarrow> message_tag list \<Rightarrow> page_state \<Rightarrow> page_state" where
  "merge_known_tags H tags p = p\<lparr>mp_knownTags := mergeTags H (mp_knownTags p) tags\<rparr>"

definition apply_message_tags :: "host \<Rightarrow> page_state \<Rightarrow> int \<Rightarrow> message_tag list \<Rightarrow> page_state \<Rightarrow> page_state" where
  "apply_message_tags H c i updatedTags p =
     reload_if (hasActiveFilters H c)
       (replace_message i (\<lambda>m. m\<lparr>msg_tags := updatedTags\<rparr>) (merge_known_tags H updatedTags p))"

definition tag_change_start :: "page_request \<Rightarrow> page_state \<Rightarrow> page_state" where
  "tag_change_start q p = send q (p\<lparr>mp_tagError := None, mp_isTagSubmitting := True\<rparr>)"

definition tag_change_reply ::
    "host \<Rightarrow> string \<Rightarrow> page_state \<Rightarrow> int \<Rightarrow> js_error + message_tag list \<Rightarrow> page_state \<Rightarrow> page_state" where
  "tag_change_reply H fallback c i result p =
     (let p = (case result of
          Inr updatedTags \<Rightarrow> apply_message_tags H c i updatedTags p
        | Inl e \<Rightarrow> p\<lparr>mp_tagError := Some (error_text e (js fallback))\<rparr>)
      in p\<lparr>mp_isTagSubmitting := False\<rparr>)"

definition handleAddTag_start :: "int \<Rightarrow> int \<Rightarrow> page_state \<Rightarrow> page_state" where
  "handleAddTag_start i tagId = tag_change_start (AddTagSent i tagId)"

definition handleAddTag_reply :: "host \<Rightarrow> page_state \<Rightarrow> int \<Rightarrow> js_error + message_tag list \<Rightarrow> page_state \<Rightarrow> page_state" where
  "handleAddTag_reply H = tag_change_reply H ''Unable to add that tag.''"

definition handleRemoveTag_start :: "int \<Rightarrow> int \<Rightarrow> page_state \<Rightarrow> page_state" where
  "handleRemoveTag_start i tagId = tag_change_start (RemoveTagSent i tagId)"

definition handleRemoveTag_reply :: "host \<Rightarrow> page_state \<Rightarrow> int \<Rightarrow> js_error + message_tag list \<Rightarrow> page_state \<Rightarrow> page_state" where
  "handleRemoveTag_reply H = tag_change_reply H ''Unable to remove that tag.''"

text \<open>
  \<open>handleCreateAndAttachTag\<close> awaits twice. Each part gives \<open>Some\<close> of the value the promise
  resolves with, or \<open>None\<close> while it goes on.
\<close>

definition handleCreateAndAttachTag_start :: "jstr \<Rightarrow> page_state \<Rightarrow> bool option \<times> page_state" where
  "handleCreateAndAttachTag_start name p =
     (let normalizedName = normal_name name
      in if normalizedName = [] \<or> active_message (mp_tagDialog p) p = None then (Some False, p)
         else (None, tag_change_start (CreateTagSent normalizedName) p))"

definition handleCreateAndAttachTag_created ::
    "host \<Rightarrow> page_state \<Rightarrow> js_error + message_tag \<Rightarrow> page_state \<Rightarrow> bool option \<times> page_state" where
  "handleCreateAndAttachTag_created H c result p =
     (case result of
        Inl e \<Rightarrow> (Some False, p\<lparr>mp_tagError := Some (error_text e (js ''Unable to create tag.'')), mp_isTagSubmitting := False\<rparr>)
      | Inr created \<Rightarrow>
          (case active_message (mp_tagDialog c) c of
             Some m \<Rightarrow> (None, send (AddTagSent (msg_id m) (tag_id created)) (merge_known_tags H [created] p))
           | None \<Rightarrow> (Some False, p)))"

definition handleCreateAndAttachTag_attached ::
    "host \<Rightarrow> page_state \<Rightarrow> message_tag \<Rightarrow> js_error + message_tag list \<Rightarrow> page_state \<Rightarrow> bool option \<times> page_state" where
  "handleCreateAndAttachTag_attached H c created result p =
     (case active_message (mp_tagDialog c) c of
        None \<Rightarrow> (Some False, p)
      | Some m \<Rightarrow>
          (let p = (case result of
               Inr updatedTags \<Rightarrow> apply_message_tags H c (msg_id m) updatedTags p
             | Inl e \<Rightarrow>
                 p\<lparr>mp_tagError := Some (js ''Created #'' @ tag_name created @ js '', but it could not be attached. '' @
                     error_text e (js ''Try attaching it from the existing tags above.''))\<rparr>)
           in (Some True, p\<lparr>mp_isTagSubmitting := False\<rparr>)))"

section \<open>Deleting\<close>

text \<open>The errors on which the code offers to delete locally only.\<close>

definition offers_local_delete :: "js_error \<Rightarrow> bool" where
  "offers_local_delete e \<longleftrightarrow> e = TelegramNotConnectedError \<or> e = TelegramConnectionChangedError"

definition remove_messages :: "int set \<Rightarrow> int \<Rightarrow> page_state \<Rightarrow> page_state" where
  "remove_messages ids n p =
     p\<lparr>mp_messages := filter (\<lambda>m. msg_id m \<notin> ids) (mp_messages p), mp_listing := mp_listing p + 1,
       mp_total := max 0 (mp_total p - n)\<rparr>"

definition close_dialogs_of :: "page_state \<Rightarrow> int set \<Rightarrow> page_state \<Rightarrow> page_state" where
  "close_dialogs_of c ids p =
     (let shows = (\<lambda>dialog. case dialog of Some i \<Rightarrow> i \<in> ids | None \<Rightarrow> False);
          p = (if shows (mp_moveDialog c) then p\<lparr>mp_moveDialog := None\<rparr> else p);
          p = (if shows (mp_tagDialog c) then p\<lparr>mp_tagDialog := None\<rparr> else p)
      in if shows (mp_detailDialog c) then p\<lparr>mp_detailDialog := None\<rparr> else p)"

definition delete_begin :: "int \<Rightarrow> bool \<Rightarrow> page_state \<Rightarrow> page_state" where
  "delete_begin i localOnly p =
     send (DeleteSent i localOnly) (p\<lparr>mp_pageError := None, mp_pendingDelete := Some i\<rparr>)"

definition handleDeleteMessage_start :: "int \<Rightarrow> bool \<Rightarrow> page_state \<Rightarrow> page_state" where
  "handleDeleteMessage_start i hasConfirmed p = (if \<not> hasConfirmed then p else delete_begin i False p)"

text \<open>
  The continuation; \<open>deleteLocally\<close> is the answer to the question the local-only errors raise.
  The nested call sends the local-only request, and its own continuation ends the whole.
\<close>

definition handleDeleteMessage_reply :: "page_state \<Rightarrow> int \<Rightarrow> js_error + unit \<Rightarrow> bool \<Rightarrow> page_state \<Rightarrow> page_state" where
  "handleDeleteMessage_reply c i result deleteLocally p =
     (case result of
        Inr _ \<Rightarrow>
          (let p = notifyCategoriesChanged (remove_messages {i} 1 p);
               p = p\<lparr>mp_selected := filter (\<lambda>j. j \<noteq> i) (mp_selected p)\<rparr>
           in (close_dialogs_of c {i} p)\<lparr>mp_pendingDelete := None\<rparr>)
      | Inl e \<Rightarrow>
          if offers_local_delete e then
            (if deleteLocally then delete_begin i True p else p\<lparr>mp_pendingDelete := None\<rparr>)
          else p\<lparr>mp_pageError := Some (error_text e (js ''Unable to delete this message right now.'')),
                 mp_pendingDelete := None\<rparr>)"

section \<open>Bulk actions\<close>

definition bulk_begin :: "bulk_action \<Rightarrow> page_request \<Rightarrow> page_state \<Rightarrow> page_state" where
  "bulk_begin a q p =
     send q (p\<lparr>mp_pageError := None, mp_bulkError := None, mp_bulkSuccess := None, mp_bulkPending := Some a\<rparr>)"

definition bulk_failed :: "js_error \<Rightarrow> string \<Rightarrow> page_state \<Rightarrow> page_state" where
  "bulk_failed e fallback p = p\<lparr>mp_bulkError := Some (error_text e (js fallback)), mp_bulkPending := None\<rparr>"

definition bulk_move_target :: "page_state \<Rightarrow> category option" where
  "bulk_move_target p =
     (case mp_bulkCategory p of
        None \<Rightarrow> None
      | Some i \<Rightarrow> find (\<lambda>c. cat_id c = i) (actionCategories p))"

definition handleBulkMove_start :: "page_state \<Rightarrow> page_state" where
  "handleBulkMove_start p =
     (if mp_selected p = [] then p
      else case mp_bulkCategory p of
          None \<Rightarrow> p\<lparr>mp_bulkError := Some (js ''Select a category before moving messages.'')\<rparr>
        | Some i \<Rightarrow>
            (case bulk_move_target p of
               None \<Rightarrow> p\<lparr>mp_bulkError := Some (js ''Selected category was not found.'')\<rparr>
             | Some _ \<Rightarrow> bulk_begin BulkMove (BulkMoveSent (mp_selected p) i) p))"

definition handleBulkMove_reply :: "host \<Rightarrow> jstr \<Rightarrow> page_state \<Rightarrow> js_error + unit \<Rightarrow> page_state \<Rightarrow> page_state" where
  "handleBulkMove_reply H now c result p =
     (case (result, bulk_move_target c) of
        (Inr _, Some targetCategory) \<Rightarrow>
          (let p = p\<lparr>mp_messages := localMoveMessages now (mp_messages p) (mp_selected c) targetCategory,
                     mp_listing := mp_listing p + 1\<rparr>;
               p = notifyCategoriesChanged (reload_if (hasActiveFilters H c) p)
           in p\<lparr>mp_selected := [], mp_bulkPending := None\<rparr>)
      | (Inr _, None) \<Rightarrow> p\<lparr>mp_bulkPending := None\<rparr>
      | (Inl e, _) \<Rightarrow> bulk_failed e ''Unable to move selected messages right now.'' p)"

definition bulk_tag_target :: "host \<Rightarrow> page_state \<Rightarrow> message_tag option" where
  "bulk_tag_target H p =
     (case mp_bulkTag p of None \<Rightarrow> None | Some i \<Rightarrow> find (\<lambda>t. tag_id t = i) (availableTags H p))"

definition handleBulkTag_start :: "host \<Rightarrow> page_state \<Rightarrow> page_state" where
  "handleBulkTag_start H p =
     (if mp_selected p = [] \<or> mp_bulkPending p \<noteq> None then p
      else case mp_bulkTag p of
          None \<Rightarrow> p\<lparr>mp_bulkError := Some (js ''Select a tag before tagging messages.''), mp_bulkSuccess := None\<rparr>
        | Some _ \<Rightarrow>
            (case bulk_tag_target H p of
               None \<Rightarrow> p\<lparr>mp_bulkError := Some (js ''Selected tag was not found.''), mp_bulkSuccess := None\<rparr>
             | Some t \<Rightarrow> bulk_begin BulkTag (BulkTagSent (mp_selected p) (tag_id t)) p))"

definition bulk_tag_text :: "jstr \<Rightarrow> nat \<Rightarrow> int \<Rightarrow> int \<Rightarrow> jstr" where
  "bulk_tag_text label targets assignment_count updated_count =
     (if assignment_count = 0
      then js ''#'' @ label @ js '' was already attached to '' @
        (if targets = 1 then js ''the selected message''
         else js ''all '' @ nat_str targets @ js '' selected messages'') @ js ''.''
      else js ''Added #'' @ label @ js '' to '' @ int_str updated_count @ js '' selected '' @
        (if updated_count = 1 then js ''message'' else js ''messages'') @ js ''.'')"

definition handleBulkTag_reply :: "host \<Rightarrow> page_state \<Rightarrow> js_error + (int \<times> int) \<Rightarrow> page_state \<Rightarrow> page_state" where
  "handleBulkTag_reply H c result p =
     (case (result, bulk_tag_target H c) of
        (Inr (assignment_count, updated_count), Some messageTag) \<Rightarrow>
          (let p = p\<lparr>mp_messages := map (\<lambda>m. if msg_id m \<in> set (mp_selected c)
                 then m\<lparr>msg_tags := mergeTags H (msg_tags m) [messageTag]\<rparr> else m) (mp_messages p),
                     mp_listing := mp_listing p + 1\<rparr>;
               p = merge_known_tags H [messageTag] p
           in p\<lparr>mp_bulkSuccess := Some (bulk_tag_text (tag_name messageTag) (length (mp_selected c)) assignment_count updated_count),
                mp_bulkPending := None\<rparr>)
      | (Inr _, None) \<Rightarrow> p\<lparr>mp_bulkPending := None\<rparr>
      | (Inl e, _) \<Rightarrow> bulk_failed e ''Unable to tag selected messages right now.'' p)"

definition bulk_delete_begin :: "int list \<Rightarrow> bool \<Rightarrow> page_state \<Rightarrow> page_state" where
  "bulk_delete_begin ids localOnly p = bulk_begin BulkDelete (BulkDeleteSent ids localOnly) p"

definition handleBulkDelete_start :: "bool \<Rightarrow> page_state \<Rightarrow> page_state" where
  "handleBulkDelete_start hasConfirmed p =
     (if mp_selected p = [] \<or> \<not> hasConfirmed then p else bulk_delete_begin (mp_selected p) False p)"

definition handleBulkDelete_reply :: "page_state \<Rightarrow> js_error + unit \<Rightarrow> bool \<Rightarrow> page_state \<Rightarrow> page_state" where
  "handleBulkDelete_reply c result deleteLocally p =
     (let ids = mp_selected c
      in case result of
          Inr _ \<Rightarrow>
            (let p = notifyCategoriesChanged (remove_messages (set ids) (int (length ids)) p);
                 p = p\<lparr>mp_selected := []\<rparr>
             in (close_dialogs_of c (set ids) p)\<lparr>mp_bulkPending := None\<rparr>)
        | Inl e \<Rightarrow>
            if offers_local_delete e then
              (if deleteLocally then bulk_delete_begin ids True p else p\<lparr>mp_bulkPending := None\<rparr>)
            else bulk_failed e ''Unable to delete selected messages right now.'' p)"

text \<open>Which controls of \<open>components/messages/bulk-actions.tsx\<close> are enabled.\<close>

definition canBulkMove :: "page_state \<Rightarrow> bool" where
  "canBulkMove p \<longleftrightarrow> mp_selected p \<noteq> [] \<and> mp_bulkCategory p \<noteq> None \<and> mp_bulkPending p = None"

definition canBulkTag :: "host \<Rightarrow> page_state \<Rightarrow> bool" where
  "canBulkTag H p \<longleftrightarrow>
     mp_selected p \<noteq> [] \<and> mp_bulkTag p \<noteq> None \<and> availableTags H p \<noteq> [] \<and> mp_bulkPending p = None"

definition canBulkDelete :: "page_state \<Rightarrow> bool" where
  "canBulkDelete p \<longleftrightarrow> mp_selected p \<noteq> [] \<and> mp_bulkPending p = None"

definition canSelectVisible :: "page_state \<Rightarrow> bool" where
  "canSelectVisible p \<longleftrightarrow> mp_messages p \<noteq> [] \<and> mp_bulkPending p = None"

definition canClearSelection :: "page_state \<Rightarrow> bool" where
  "canClearSelection p \<longleftrightarrow> mp_selected p \<noteq> [] \<and> mp_bulkPending p = None"

definition canExitBulk :: "page_state \<Rightarrow> bool" where
  "canExitBulk p \<longleftrightarrow> mp_bulkPending p = None"

section \<open>What the page shows\<close>

datatype page_body = LoadingSkeleton | MessageGrid | NoMatches | NoMessagesYet

text \<open>The empty-state panel and the page bar of the rendered page.\<close>

definition page_body_of :: "host \<Rightarrow> page_state \<Rightarrow> page_body" where
  "page_body_of H p =
     (if mp_isInitialLoading p then LoadingSkeleton
      else if mp_loadError p = None \<and> mp_messages p = [] then
        (if hasActiveFilters H p then NoMatches else NoMessagesYet)
      else MessageGrid)"

definition shows_page_bar :: "host \<Rightarrow> page_state \<Rightarrow> bool" where
  "shows_page_bar H p \<longleftrightarrow> \<not> mp_isInitialLoading p \<and> mp_loadError p = None \<and> page_count H p > 1"

section \<open>Events\<close>

datatype page_event =
    Navigate params
  | TypeSearch jstr
  | SearchTimeout
  | ChooseCategory jstr
  | ToggleTag jstr
  | ChooseSort sort_option
  | ChooseKind "message_kind option"
  | ChoosePerPage int
  | ClearFilters
  | GoToPage int
  | Retry
  | CategoriesLoaded "category list" bool
  | TagsChanged
  | ActivateBulk | ExitBulk
  | SelectMessage int bool | SelectAll | ClearSelection
  | ChooseBulkCategory "int option" | ChooseBulkTag "int option"
  | OpenDetail int | OpenMove int | OpenTags int
  | OpenMoveFromDetail int | OpenTagsFromDetail int
  | CloseDetail | CloseMove | CloseTags
  | DropMessage dom_event
  | MoveMessage int int
  | AddTag int int | RemoveTag int int | CreateTag jstr
  | DeleteMessage int bool
  | MoveSelected | TagSelected | DeleteSelected bool
  | ListReply nat bool "js_error + (message_item list \<times> int)"
  | TagsReply nat "js_error + message_tag list"
  | DropReply page_state int "js_error + message_item"
  | MoveReply page_state int "js_error + message_item"
  | AddTagReply page_state int "js_error + message_tag list"
  | RemoveTagReply page_state int "js_error + message_tag list"
  | CreateTagReply page_state "js_error + message_tag"
  | AttachTagReply page_state message_tag "js_error + message_tag list"
  | DeleteReply page_state int "js_error + unit" bool
  | BulkMoveReply jstr page_state "js_error + unit"
  | BulkTagReply page_state "js_error + (int \<times> int)"
  | BulkDeleteReply page_state "js_error + unit" bool

fun page_react :: "host \<Rightarrow> page_event \<Rightarrow> page_state \<Rightarrow> page_state" where
  "page_react H (Navigate ps) p = p\<lparr>mp_params := ps\<rparr>"
| "page_react H (TypeSearch v) p = p\<lparr>mp_searchQuery := v\<rparr>"
| "page_react H SearchTimeout p = search_timeout H p"
| "page_react H (ChooseCategory v) p = p\<lparr>mp_params := setCategoryParam (to_lower H (js_trim v)) (mp_params p)\<rparr>"
| "page_react H (ToggleTag k) p = p\<lparr>mp_params := toggleTagFilter H k (mp_params p)\<rparr>"
| "page_react H (ChooseSort v) p = p\<lparr>mp_params := setSortParam v (mp_params p)\<rparr>"
| "page_react H (ChooseKind v) p = p\<lparr>mp_params := setMessageKindParam v (mp_params p)\<rparr>"
| "page_react H (ChoosePerPage n) p = p\<lparr>mp_params := setItemsPerPageParam n (mp_params p)\<rparr>"
| "page_react H ClearFilters p = clearFilters p"
| "page_react H (GoToPage n) p = p\<lparr>mp_params := go_to_page (page_count H p) n (mp_params p)\<rparr>"
| "page_react H Retry p = p\<lparr>mp_reload := mp_reload p + 1\<rparr>"
| "page_react H (CategoriesLoaded cs fallback) p = p\<lparr>mp_fetched := cs, mp_isFallback := fallback\<rparr>"
| "page_react H TagsChanged p = hydrateTags_start p"
| "page_react H ActivateBulk p = activateBulkSelectionMode p"
| "page_react H ExitBulk p = exitBulkSelectionMode p"
| "page_react H (SelectMessage i b) p = handleMessageSelectionChange i b p"
| "page_react H SelectAll p = handleSelectAllFiltered p"
| "page_react H ClearSelection p = clearSelectedMessages p"
| "page_react H (ChooseBulkCategory i) p = choose_bulk_category i p"
| "page_react H (ChooseBulkTag i) p = choose_bulk_tag i p"
| "page_react H (OpenDetail i) p = open_detail i p"
| "page_react H (OpenMove i) p = open_move i p"
| "page_react H (OpenTags i) p = open_tags i p"
| "page_react H (OpenMoveFromDetail i) p = open_move_from_detail i p"
| "page_react H (OpenTagsFromDetail i) p = open_tags_from_detail i p"
| "page_react H CloseDetail p = close_detail p"
| "page_react H CloseMove p = close_move p"
| "page_react H CloseTags p = close_tags p"
| "page_react H (DropMessage ev) p = handleDropToCategory_start ev p"
| "page_react H (MoveMessage i c) p = handleMoveMessage_start i c p"
| "page_react H (AddTag i t) p = handleAddTag_start i t p"
| "page_react H (RemoveTag i t) p = handleRemoveTag_start i t p"
| "page_react H (CreateTag name) p = snd (handleCreateAndAttachTag_start name p)"
| "page_react H (DeleteMessage i confirmed) p = handleDeleteMessage_start i confirmed p"
| "page_react H MoveSelected p = handleBulkMove_start p"
| "page_react H TagSelected p = handleBulkTag_start H p"
| "page_react H (DeleteSelected confirmed) p = handleBulkDelete_start confirmed p"
| "page_react H (ListReply run isFirst r) p = hydrateMessages_reply H run isFirst r p"
| "page_react H (TagsReply run r) p = hydrateTags_reply run r p"
| "page_react H (DropReply c i r) p = handleDropToCategory_reply H c i r p"
| "page_react H (MoveReply c i r) p = handleMoveMessage_reply H c i r p"
| "page_react H (AddTagReply c i r) p = handleAddTag_reply H c i r p"
| "page_react H (RemoveTagReply c i r) p = handleRemoveTag_reply H c i r p"
| "page_react H (CreateTagReply c r) p = snd (handleCreateAndAttachTag_created H c r p)"
| "page_react H (AttachTagReply c t r) p = snd (handleCreateAndAttachTag_attached H c t r p)"
| "page_react H (DeleteReply c i r locally) p = handleDeleteMessage_reply c i r locally p"
| "page_react H (BulkMoveReply now c r) p = handleBulkMove_reply H now c r p"
| "page_react H (BulkTagReply c r) p = handleBulkTag_reply H c r p"
| "page_react H (BulkDeleteReply c r locally) p = handleBulkDelete_reply c r locally p"

definition page_step :: "host \<Rightarrow> page_state \<Rightarrow> page_event \<Rightarrow> page_state" where
  "page_step H p e = commit H p (page_react H e p)"

text \<open>
  The cards to select are those of the listed messages, and the choices of the bulk actions those of
  their lists. Everything else, replies and events from elsewhere included, may come at any time. (A
  card that is being animated out of the grid counts as gone: see \<open>exiting_card_selected\<close>.)
\<close>

fun page_enabled :: "host \<Rightarrow> page_state \<Rightarrow> page_event \<Rightarrow> bool" where
  "page_enabled H p (SelectMessage i b) \<longleftrightarrow> i \<in> visible_ids p"
| "page_enabled H p (ChooseBulkCategory c) \<longleftrightarrow> (\<forall>i. c = Some i \<longrightarrow> i \<in> cat_id ` set (actionCategories p))"
| "page_enabled H p (ChooseBulkTag t) \<longleftrightarrow> (\<forall>i. t = Some i \<longrightarrow> i \<in> tag_id ` set (availableTags H p))"
| "page_enabled H p e \<longleftrightarrow> True"

inductive page_reachable :: "host \<Rightarrow> page_state \<Rightarrow> bool" for H where
  page_mounted: "page_reachable H (mount_page H ps fetched fallback)"
| page_stepped: "page_reachable H p \<Longrightarrow> page_enabled H p e \<Longrightarrow> page_reachable H (page_step H p e)"

section \<open>Effects leave the loaded data alone\<close>

lemmas effect_defs =
  search_effect_def load_effect_def bulk_category_effect_def bulk_tag_effect_def page_effect_def
  selection_effect_def leave_bulk_effect_def dialogs_effect_def hydrateMessages_start_def send_def

lemma search_effect_same [simp]:
  "mp_messages (search_effect b p) = mp_messages p" "mp_total (search_effect b p) = mp_total p"
  "mp_knownTags (search_effect b p) = mp_knownTags p" "mp_bulkMode (search_effect b p) = mp_bulkMode p"
  "mp_announced (search_effect b p) = mp_announced p" "mp_reload (search_effect b p) = mp_reload p"
  "mp_pageError (search_effect b p) = mp_pageError p"
  "mp_pendingDelete (search_effect b p) = mp_pendingDelete p"
  "mp_bulkPending (search_effect b p) = mp_bulkPending p"
  "mp_hasLoadedTags (search_effect b p) = mp_hasLoadedTags p" "mp_fetched (search_effect b p) = mp_fetched p"
  "mp_isFallback (search_effect b p) = mp_isFallback p" "mp_tags_run (search_effect b p) = mp_tags_run p"
  "mp_hasCompletedInitialLoad (search_effect b p) = mp_hasCompletedInitialLoad p"
  "mp_selected (search_effect b p) = mp_selected p" "mp_params (search_effect b p) = mp_params p"
  "mp_isInitialLoading (search_effect b p) = mp_isInitialLoading p"
  "mp_load_run (search_effect b p) = mp_load_run p"
  by (simp_all add: search_effect_def)

lemma load_effect_same [simp]:
  "mp_messages (load_effect H b p) = mp_messages p" "mp_total (load_effect H b p) = mp_total p"
  "mp_knownTags (load_effect H b p) = mp_knownTags p" "mp_bulkMode (load_effect H b p) = mp_bulkMode p"
  "mp_announced (load_effect H b p) = mp_announced p" "mp_reload (load_effect H b p) = mp_reload p"
  "mp_pageError (load_effect H b p) = mp_pageError p"
  "mp_pendingDelete (load_effect H b p) = mp_pendingDelete p"
  "mp_bulkPending (load_effect H b p) = mp_bulkPending p"
  "mp_hasLoadedTags (load_effect H b p) = mp_hasLoadedTags p" "mp_fetched (load_effect H b p) = mp_fetched p"
  "mp_isFallback (load_effect H b p) = mp_isFallback p" "mp_tags_run (load_effect H b p) = mp_tags_run p"
  "mp_hasCompletedInitialLoad (load_effect H b p) = mp_hasCompletedInitialLoad p"
  "mp_selected (load_effect H b p) = mp_selected p" "mp_params (load_effect H b p) = mp_params p"
  by (simp_all add: load_effect_def hydrateMessages_start_def send_def Let_def)

lemma bulk_category_effect_same [simp]:
  "mp_messages (bulk_category_effect b p) = mp_messages p" "mp_total (bulk_category_effect b p) = mp_total p"
  "mp_knownTags (bulk_category_effect b p) = mp_knownTags p"
  "mp_bulkMode (bulk_category_effect b p) = mp_bulkMode p"
  "mp_announced (bulk_category_effect b p) = mp_announced p"
  "mp_reload (bulk_category_effect b p) = mp_reload p"
  "mp_pageError (bulk_category_effect b p) = mp_pageError p"
  "mp_pendingDelete (bulk_category_effect b p) = mp_pendingDelete p"
  "mp_bulkPending (bulk_category_effect b p) = mp_bulkPending p"
  "mp_hasLoadedTags (bulk_category_effect b p) = mp_hasLoadedTags p"
  "mp_fetched (bulk_category_effect b p) = mp_fetched p"
  "mp_isFallback (bulk_category_effect b p) = mp_isFallback p"
  "mp_tags_run (bulk_category_effect b p) = mp_tags_run p"
  "mp_hasCompletedInitialLoad (bulk_category_effect b p) = mp_hasCompletedInitialLoad p"
  "mp_selected (bulk_category_effect b p) = mp_selected p"
  "mp_params (bulk_category_effect b p) = mp_params p"
  "mp_isInitialLoading (bulk_category_effect b p) = mp_isInitialLoading p"
  "mp_load_run (bulk_category_effect b p) = mp_load_run p"
  by (simp_all add: bulk_category_effect_def)

lemma bulk_tag_effect_same [simp]:
  "mp_messages (bulk_tag_effect H b p) = mp_messages p" "mp_total (bulk_tag_effect H b p) = mp_total p"
  "mp_knownTags (bulk_tag_effect H b p) = mp_knownTags p"
  "mp_bulkMode (bulk_tag_effect H b p) = mp_bulkMode p"
  "mp_announced (bulk_tag_effect H b p) = mp_announced p" "mp_reload (bulk_tag_effect H b p) = mp_reload p"
  "mp_pageError (bulk_tag_effect H b p) = mp_pageError p"
  "mp_pendingDelete (bulk_tag_effect H b p) = mp_pendingDelete p"
  "mp_bulkPending (bulk_tag_effect H b p) = mp_bulkPending p"
  "mp_hasLoadedTags (bulk_tag_effect H b p) = mp_hasLoadedTags p"
  "mp_fetched (bulk_tag_effect H b p) = mp_fetched p"
  "mp_isFallback (bulk_tag_effect H b p) = mp_isFallback p"
  "mp_tags_run (bulk_tag_effect H b p) = mp_tags_run p"
  "mp_hasCompletedInitialLoad (bulk_tag_effect H b p) = mp_hasCompletedInitialLoad p"
  "mp_selected (bulk_tag_effect H b p) = mp_selected p" "mp_params (bulk_tag_effect H b p) = mp_params p"
  "mp_isInitialLoading (bulk_tag_effect H b p) = mp_isInitialLoading p"
  "mp_load_run (bulk_tag_effect H b p) = mp_load_run p"
  by (simp_all add: bulk_tag_effect_def)

lemma page_effect_same [simp]:
  "mp_messages (page_effect H b p) = mp_messages p" "mp_total (page_effect H b p) = mp_total p"
  "mp_knownTags (page_effect H b p) = mp_knownTags p" "mp_bulkMode (page_effect H b p) = mp_bulkMode p"
  "mp_announced (page_effect H b p) = mp_announced p" "mp_reload (page_effect H b p) = mp_reload p"
  "mp_pageError (page_effect H b p) = mp_pageError p" "mp_pendingDelete (page_effect H b p) = mp_pendingDelete p"
  "mp_bulkPending (page_effect H b p) = mp_bulkPending p"
  "mp_hasLoadedTags (page_effect H b p) = mp_hasLoadedTags p" "mp_fetched (page_effect H b p) = mp_fetched p"
  "mp_isFallback (page_effect H b p) = mp_isFallback p" "mp_tags_run (page_effect H b p) = mp_tags_run p"
  "mp_hasCompletedInitialLoad (page_effect H b p) = mp_hasCompletedInitialLoad p"
  "mp_selected (page_effect H b p) = mp_selected p"
  "mp_isInitialLoading (page_effect H b p) = mp_isInitialLoading p"
  "mp_load_run (page_effect H b p) = mp_load_run p"
  by (simp_all add: page_effect_def)

lemma selection_effect_same [simp]:
  "mp_messages (selection_effect b p) = mp_messages p" "mp_total (selection_effect b p) = mp_total p"
  "mp_knownTags (selection_effect b p) = mp_knownTags p" "mp_bulkMode (selection_effect b p) = mp_bulkMode p"
  "mp_announced (selection_effect b p) = mp_announced p" "mp_reload (selection_effect b p) = mp_reload p"
  "mp_pageError (selection_effect b p) = mp_pageError p"
  "mp_pendingDelete (selection_effect b p) = mp_pendingDelete p"
  "mp_bulkPending (selection_effect b p) = mp_bulkPending p"
  "mp_hasLoadedTags (selection_effect b p) = mp_hasLoadedTags p"
  "mp_fetched (selection_effect b p) = mp_fetched p" "mp_isFallback (selection_effect b p) = mp_isFallback p"
  "mp_tags_run (selection_effect b p) = mp_tags_run p"
  "mp_hasCompletedInitialLoad (selection_effect b p) = mp_hasCompletedInitialLoad p"
  "mp_params (selection_effect b p) = mp_params p"
  "mp_isInitialLoading (selection_effect b p) = mp_isInitialLoading p"
  "mp_load_run (selection_effect b p) = mp_load_run p"
  by (simp_all add: selection_effect_def)

lemma leave_bulk_effect_same [simp]:
  "mp_messages (leave_bulk_effect b p) = mp_messages p" "mp_total (leave_bulk_effect b p) = mp_total p"
  "mp_knownTags (leave_bulk_effect b p) = mp_knownTags p"
  "mp_bulkMode (leave_bulk_effect b p) = mp_bulkMode p"
  "mp_announced (leave_bulk_effect b p) = mp_announced p" "mp_reload (leave_bulk_effect b p) = mp_reload p"
  "mp_pageError (leave_bulk_effect b p) = mp_pageError p"
  "mp_pendingDelete (leave_bulk_effect b p) = mp_pendingDelete p"
  "mp_bulkPending (leave_bulk_effect b p) = mp_bulkPending p"
  "mp_hasLoadedTags (leave_bulk_effect b p) = mp_hasLoadedTags p"
  "mp_fetched (leave_bulk_effect b p) = mp_fetched p"
  "mp_isFallback (leave_bulk_effect b p) = mp_isFallback p"
  "mp_tags_run (leave_bulk_effect b p) = mp_tags_run p"
  "mp_hasCompletedInitialLoad (leave_bulk_effect b p) = mp_hasCompletedInitialLoad p"
  "mp_params (leave_bulk_effect b p) = mp_params p"
  "mp_isInitialLoading (leave_bulk_effect b p) = mp_isInitialLoading p"
  "mp_load_run (leave_bulk_effect b p) = mp_load_run p"
  by (simp_all add: leave_bulk_effect_def)

lemma dialogs_effect_same [simp]:
  "mp_messages (dialogs_effect b p) = mp_messages p" "mp_total (dialogs_effect b p) = mp_total p"
  "mp_knownTags (dialogs_effect b p) = mp_knownTags p" "mp_bulkMode (dialogs_effect b p) = mp_bulkMode p"
  "mp_announced (dialogs_effect b p) = mp_announced p" "mp_reload (dialogs_effect b p) = mp_reload p"
  "mp_pageError (dialogs_effect b p) = mp_pageError p"
  "mp_pendingDelete (dialogs_effect b p) = mp_pendingDelete p"
  "mp_bulkPending (dialogs_effect b p) = mp_bulkPending p"
  "mp_hasLoadedTags (dialogs_effect b p) = mp_hasLoadedTags p" "mp_fetched (dialogs_effect b p) = mp_fetched p"
  "mp_isFallback (dialogs_effect b p) = mp_isFallback p" "mp_tags_run (dialogs_effect b p) = mp_tags_run p"
  "mp_hasCompletedInitialLoad (dialogs_effect b p) = mp_hasCompletedInitialLoad p"
  "mp_selected (dialogs_effect b p) = mp_selected p" "mp_params (dialogs_effect b p) = mp_params p"
  "mp_isInitialLoading (dialogs_effect b p) = mp_isInitialLoading p"
  "mp_load_run (dialogs_effect b p) = mp_load_run p"
  by (simp_all add: dialogs_effect_def)

lemma effects_listing [simp]:
  "mp_listing (search_effect b p) = mp_listing p" "mp_listing (load_effect H b p) = mp_listing p"
  "mp_listing (bulk_category_effect b p) = mp_listing p" "mp_listing (bulk_tag_effect H b p) = mp_listing p"
  "mp_listing (page_effect H b p) = mp_listing p" "mp_listing (selection_effect b p) = mp_listing p"
  "mp_listing (leave_bulk_effect b p) = mp_listing p" "mp_listing (dialogs_effect b p) = mp_listing p"
  by (simp_all add: effect_defs Let_def)

lemma effects_dialogs [simp]:
  "mp_moveDialog (search_effect b p) = mp_moveDialog p" "mp_tagDialog (search_effect b p) = mp_tagDialog p" "mp_detailDialog (search_effect b p) = mp_detailDialog p"
  "mp_moveDialog (load_effect H b p) = mp_moveDialog p" "mp_tagDialog (load_effect H b p) = mp_tagDialog p" "mp_detailDialog (load_effect H b p) = mp_detailDialog p"
  "mp_moveDialog (bulk_category_effect b p) = mp_moveDialog p" "mp_tagDialog (bulk_category_effect b p) = mp_tagDialog p" "mp_detailDialog (bulk_category_effect b p) = mp_detailDialog p"
  "mp_moveDialog (bulk_tag_effect H b p) = mp_moveDialog p" "mp_tagDialog (bulk_tag_effect H b p) = mp_tagDialog p" "mp_detailDialog (bulk_tag_effect H b p) = mp_detailDialog p"
  "mp_moveDialog (page_effect H b p) = mp_moveDialog p" "mp_tagDialog (page_effect H b p) = mp_tagDialog p" "mp_detailDialog (page_effect H b p) = mp_detailDialog p"
  "mp_moveDialog (selection_effect b p) = mp_moveDialog p" "mp_tagDialog (selection_effect b p) = mp_tagDialog p" "mp_detailDialog (selection_effect b p) = mp_detailDialog p"
  "mp_moveDialog (leave_bulk_effect b p) = mp_moveDialog p" "mp_tagDialog (leave_bulk_effect b p) = mp_tagDialog p" "mp_detailDialog (leave_bulk_effect b p) = mp_detailDialog p"
  by (simp_all add: effect_defs Let_def)

lemma page_effects_same [simp]:
  "mp_messages (page_effects H b p) = mp_messages p" "mp_total (page_effects H b p) = mp_total p"
  "mp_knownTags (page_effects H b p) = mp_knownTags p" "mp_bulkMode (page_effects H b p) = mp_bulkMode p"
  "mp_announced (page_effects H b p) = mp_announced p" "mp_reload (page_effects H b p) = mp_reload p"
  "mp_pageError (page_effects H b p) = mp_pageError p" "mp_pendingDelete (page_effects H b p) = mp_pendingDelete p"
  "mp_bulkPending (page_effects H b p) = mp_bulkPending p" "mp_hasLoadedTags (page_effects H b p) = mp_hasLoadedTags p"
  "mp_fetched (page_effects H b p) = mp_fetched p" "mp_isFallback (page_effects H b p) = mp_isFallback p"
  "mp_tags_run (page_effects H b p) = mp_tags_run p"
  "mp_hasCompletedInitialLoad (page_effects H b p) = mp_hasCompletedInitialLoad p"
  "mp_listing (page_effects H b p) = mp_listing p"
  by (simp_all add: page_effects_def)

lemma load_effect_run: "mp_load_run p \<le> mp_load_run (load_effect H b p)"
  by (simp add: load_effect_def hydrateMessages_start_def send_def Let_def)

lemma page_effects_run: "mp_load_run p \<le> mp_load_run (page_effects H b p)"
  using load_effect_run [of "search_effect b p" H b] by (simp add: page_effects_def)

lemma commit_same [simp]:
  "mp_messages (commit H b p) = mp_messages p" "mp_total (commit H b p) = mp_total p"
  "mp_knownTags (commit H b p) = mp_knownTags p" "mp_bulkMode (commit H b p) = mp_bulkMode p"
  "mp_announced (commit H b p) = mp_announced p" "mp_reload (commit H b p) = mp_reload p"
  "mp_pageError (commit H b p) = mp_pageError p" "mp_pendingDelete (commit H b p) = mp_pendingDelete p"
  "mp_bulkPending (commit H b p) = mp_bulkPending p" "mp_hasLoadedTags (commit H b p) = mp_hasLoadedTags p"
  "mp_listing (commit H b p) = mp_listing p"
  by (simp_all add: commit_def Let_def)

text \<open>Without a change no effect runs.\<close>

lemma effects_unchanged [simp]: "page_effects H p p = p" "commit H p p = p"
proof -
  show "page_effects H p p = p"
    by (simp add: page_effects_def search_effect_def load_effect_def bulk_category_effect_def bulk_tag_effect_def page_effect_def
        selection_effect_def leave_bulk_effect_def dialogs_effect_def close_if_gone_def)
  then show "commit H p p = p" by (simp add: commit_def Let_def)
qed

lemma commit_run: "mp_load_run p \<le> mp_load_run (commit H b p)"
  unfolding commit_def Let_def by (rule le_trans [OF page_effects_run page_effects_run])

lemmas page_handlers =
  hydrateMessages_start_def hydrateMessages_reply_def hydrateTags_start_def hydrateTags_reply_def
  activateBulkSelectionMode_def exitBulkSelectionMode_def handleMessageSelectionChange_def
  handleSelectAllFiltered_def clearSelectedMessages_def choose_bulk_category_def choose_bulk_tag_def
  clear_bulk_notes_def open_detail_def open_move_def open_tags_def open_move_from_detail_def open_tags_from_detail_def
  close_detail_def close_move_def close_tags_def
  clearFilters_def search_timeout_def send_def

lemmas message_handlers =
  replace_message_def reload_if_def moveSingleMessage_done_def handleDropToCategory_start_def
  handleDropToCategory_reply_def handleMoveMessage_start_def handleMoveMessage_reply_def merge_known_tags_def
  apply_message_tags_def tag_change_start_def tag_change_reply_def handleAddTag_start_def handleAddTag_reply_def
  handleRemoveTag_start_def handleRemoveTag_reply_def handleCreateAndAttachTag_start_def
  handleCreateAndAttachTag_created_def handleCreateAndAttachTag_attached_def notifyCategoriesChanged_def

lemmas delete_handlers =
  remove_messages_def close_dialogs_of_def delete_begin_def handleDeleteMessage_start_def
  handleDeleteMessage_reply_def bulk_begin_def bulk_failed_def handleBulkMove_start_def handleBulkMove_reply_def
  handleBulkTag_start_def handleBulkTag_reply_def bulk_delete_begin_def handleBulkDelete_start_def
  handleBulkDelete_reply_def

lemma react_run: "mp_load_run p \<le> mp_load_run (page_react H e p)"
  by (cases e) (auto simp: page_handlers message_handlers delete_handlers Let_def
      split: sum.splits option.splits prod.splits)

fun page_ticket :: "page_event \<Rightarrow> nat option" where
  "page_ticket (ListReply run _ _) = Some run"
| "page_ticket _ = None"

interpretation message_listing: latest_wins mp_load_run "page_step H" page_ticket "\<lambda>p. p"
proof unfold_locales
  fix p e v
  show "mp_load_run p \<le> mp_load_run (page_step H p e)"
    unfolding page_step_def by (rule le_trans [OF react_run commit_run])
  assume "page_ticket e = Some v" and "v \<noteq> mp_load_run p"
  then show "page_step H p e = p"
    by (cases e) (simp_all add: page_step_def hydrateMessages_reply_def)
qed

section \<open>Selection, dialogs and page number\<close>

definition dialog_ok :: "page_state \<Rightarrow> int option \<Rightarrow> bool" where
  "dialog_ok p dialog \<longleftrightarrow> (\<forall>i. dialog = Some i \<longrightarrow> i \<in> visible_ids p)"

definition page_ok :: "host \<Rightarrow> page_state \<Rightarrow> bool" where
  "page_ok H p \<longleftrightarrow>
     (\<not> mp_bulkMode p \<longrightarrow> mp_selected p = []) \<and>
     set (mp_selected p) \<subseteq> visible_ids p \<and>
     dialog_ok p (mp_moveDialog p) \<and> dialog_ok p (mp_tagDialog p) \<and> dialog_ok p (mp_detailDialog p) \<and>
     (\<not> mp_isInitialLoading p \<longrightarrow> pf_page (filters_of H p) \<le> page_count H p)"

lemma dialog_ok_iff: "dialog_ok p dialog \<longleftrightarrow> dialog = None \<or> active_message dialog p \<noteq> None"
  by (cases dialog) (auto simp: dialog_ok_def active_message_def find_message_def visible_ids_def find_None_iff)

lemma close_if_gone_ok: "dialog_ok b db \<or> dialog_ok p d \<Longrightarrow> dialog_ok p (close_if_gone b db p d)"
  by (auto simp: dialog_ok_iff close_if_gone_def)

definition page_number_ok :: "host \<Rightarrow> page_state \<Rightarrow> bool" where
  "page_number_ok H p \<longleftrightarrow> (\<not> mp_isInitialLoading p \<longrightarrow> pf_page (filters_of H p) \<le> page_count H p)"

lemma page_count_pos: "1 \<le> page_count H p"
  by (simp add: page_count_def total_pages_def)

lemma page_number_ok_deps: "page_deps H q = page_deps H p \<Longrightarrow> page_number_ok H q = page_number_ok H p"
  by (simp add: page_number_ok_def page_deps_def)

lemma page_effect_ok:
  assumes "page_number_ok H b \<or> page_number_ok H p"
  shows "page_number_ok H (page_effect H b p)"
proof (cases "page_deps H p \<noteq> page_deps H b \<and> \<not> mp_isInitialLoading p \<and> page_count H p < pf_page (filters_of H p)")
  case True
  have "pf_page (filters_of H p) \<le> 1000000"
    using readPageNumber_bounds by (simp add: filters_of_def read_filters_def)
  with True have "page_count H p \<le> 1000000" by linarith
  then have read: "read_filters H (page_param (page_count H p) (mp_params p)) =
      (read_filters H (mp_params p))\<lparr>pf_page := page_count H p\<rparr>"
    by (intro page_param_read page_count_pos)
  show ?thesis
    using True by (simp add: page_number_ok_def page_effect_def page_count_def filters_of_def read [unfolded page_count_def filters_of_def])
next
  case False
  then have "page_effect H b p = p" by (auto simp: page_effect_def)
  with False assms page_number_ok_deps [of H p b] show ?thesis by (auto simp: page_number_ok_def)
qed

lemma page_number_ok_cong:
  "mp_params q = mp_params p \<Longrightarrow> mp_total q = mp_total p \<Longrightarrow> (mp_isInitialLoading p \<Longrightarrow> mp_isInitialLoading q) \<Longrightarrow>
     page_number_ok H p \<Longrightarrow> page_number_ok H q"
  by (auto simp: page_number_ok_def page_count_def filters_of_def)

lemma page_number_ok_effects:
  assumes "page_number_ok H b \<or> page_number_ok H p"
  shows "page_number_ok H (page_effects H b p)"
proof -
  let ?l = "bulk_tag_effect H b (bulk_category_effect b (load_effect H b (search_effect b p)))"
  have "page_number_ok H p \<Longrightarrow> page_number_ok H ?l"
    by (rule page_number_ok_cong) (simp_all add: load_effect_def hydrateMessages_start_def send_def Let_def)
  with assms have "page_number_ok H (page_effect H b ?l)" by (intro page_effect_ok) blast
  then show ?thesis
    by (rule page_number_ok_cong [rotated 3])
      (simp_all add: page_effects_def dialogs_effect_def leave_bulk_effect_def selection_effect_def)
qed

definition dialogs_ok :: "page_state \<Rightarrow> bool" where
  "dialogs_ok p \<longleftrightarrow> dialog_ok p (mp_moveDialog p) \<and> dialog_ok p (mp_tagDialog p) \<and> dialog_ok p (mp_detailDialog p)"

lemma dialogs_effect_ok:
  assumes "dialogs_ok b \<or> dialogs_ok q"
  shows "dialogs_ok (dialogs_effect b q)"
proof -
  have "dialog_ok (dialogs_effect b q) d = dialog_ok q d" for d by (simp add: dialog_ok_def visible_ids_def)
  moreover have "mp_moveDialog (dialogs_effect b q) = close_if_gone b (mp_moveDialog b) q (mp_moveDialog q)"
    "mp_tagDialog (dialogs_effect b q) = close_if_gone b (mp_tagDialog b) q (mp_tagDialog q)"
    "mp_detailDialog (dialogs_effect b q) = close_if_gone b (mp_detailDialog b) q (mp_detailDialog q)"
    by (simp_all add: dialogs_effect_def)
  ultimately show ?thesis using assms close_if_gone_ok unfolding dialogs_ok_def by metis
qed

lemma dialogs_ok_effects:
  assumes "dialogs_ok b \<or> dialogs_ok p"
  shows "dialogs_ok (page_effects H b p)"
proof -
  let ?l = "leave_bulk_effect b (selection_effect b (page_effect H b
      (bulk_tag_effect H b (bulk_category_effect b (load_effect H b (search_effect b p))))))"
  have "dialog_ok ?l d = dialog_ok p d" for d by (simp add: dialog_ok_def visible_ids_def)
  then have "dialogs_ok b \<or> dialogs_ok ?l" using assms by (simp add: dialogs_ok_def)
  then show ?thesis unfolding page_effects_def by (rule dialogs_effect_ok)
qed

lemma selected_effects:
  "mp_selected (page_effects H b p) =
     (if mp_bulkMode p
      then (if selection_deps p = selection_deps b then mp_selected p else filter (\<lambda>i. i \<in> visible_ids p) (mp_selected p))
      else if mp_bulkMode b then [] else mp_selected p)"
  by (simp add: page_effects_def leave_bulk_effect_def [of b] selection_effect_def visible_ids_def selection_deps_def)

lemma selected_commit: "mp_selected (commit H b p) = mp_selected (page_effects H b p)"
  using selected_effects [of H p "page_effects H b p"] by (simp add: commit_def Let_def selection_deps_def)

lemma page_ok_alt:
  "page_ok H p \<longleftrightarrow>
     (\<not> mp_bulkMode p \<longrightarrow> mp_selected p = []) \<and> set (mp_selected p) \<subseteq> visible_ids p \<and> dialogs_ok p \<and> page_number_ok H p"
  by (auto simp: page_ok_def dialogs_ok_def page_number_ok_def)

lemma page_ok_commit:
  assumes before: "page_ok H b" and off: "\<not> mp_bulkMode p \<Longrightarrow> \<not> mp_bulkMode b \<Longrightarrow> mp_selected p = []"
    and same: "selection_deps p = selection_deps b \<Longrightarrow> mp_bulkMode p \<Longrightarrow> set (mp_selected p) \<subseteq> visible_ids p"
  shows "page_ok H (commit H b p)"
proof -
  have "page_number_ok H (commit H b p)" "dialogs_ok (commit H b p)"
    using before unfolding commit_def Let_def page_ok_alt by (blast intro: page_number_ok_effects dialogs_ok_effects)+
  moreover have "visible_ids (commit H b p) = visible_ids p" by (simp add: visible_ids_def)
  ultimately show ?thesis
    using off same by (auto simp: page_ok_alt selected_commit selected_effects)
qed

lemma react_selection:
  "(\<not> mp_bulkMode p \<Longrightarrow> mp_selected p = []) \<Longrightarrow> \<not> mp_bulkMode (page_react H e p) \<Longrightarrow> \<not> mp_bulkMode p \<Longrightarrow>
     mp_selected (page_react H e p) = []"
  by (cases e) (auto simp: page_handlers message_handlers delete_handlers Let_def
      split: sum.splits option.splits prod.splits if_splits)

text \<open>A handler that leaves the list alone selects only what is listed.\<close>

lemma react_listing: "mp_listing (page_react H e p) = mp_listing p \<Longrightarrow> mp_messages (page_react H e p) = mp_messages p"
  by (cases e) (auto simp: page_handlers message_handlers delete_handlers close_dialogs_of_def Let_def
      split: sum.splits option.splits prod.splits if_splits)

lemma react_selected:
  "set (mp_selected p) \<subseteq> visible_ids p \<Longrightarrow> page_enabled H p e \<Longrightarrow> set (mp_selected (page_react H e p)) \<subseteq> visible_ids p"
  by (cases e) (auto simp: page_handlers message_handlers delete_handlers visible_ids_def Let_def
      split: sum.splits option.splits prod.splits if_splits)

lemma page_ok_step: "page_ok H p \<Longrightarrow> page_enabled H p e \<Longrightarrow> page_ok H (page_step H p e)"
  unfolding page_step_def
proof (intro page_ok_commit react_selection)
  assume ok: "page_ok H p" and enabled: "page_enabled H p e"
    and deps: "selection_deps (page_react H e p) = selection_deps p"
  from deps have "visible_ids (page_react H e p) = visible_ids p"
    using react_listing [of H e p] by (simp add: selection_deps_def visible_ids_def)
  with ok enabled react_selected [of p H e] show "set (mp_selected (page_react H e p)) \<subseteq> visible_ids (page_react H e p)"
    by (simp add: page_ok_def)
qed (simp_all add: page_ok_def)

lemma page_ok_mount: "page_ok H (mount_page H ps fetched fallback)"
  by (simp add: page_ok_def mount_page_def page_initial_def hydrateMessages_start_def hydrateTags_start_def send_def
      dialog_ok_def Let_def)

lemma reachable_page_ok: "page_reachable H p \<Longrightarrow> page_ok H p"
  by (induction rule: page_reachable.induct) (simp_all add: page_ok_mount page_ok_step)

text \<open>
  C2: the page never acts on what it does not show. Whatever is selected or opened on its cards,
  listed, moved, deleted and answered, in every reachable state the selected messages are among the
  listed ones, and there are none outside bulk mode; an open move, tag or detail dialog belongs to a
  listed message; and once the first load is over the page number in the address bar does not exceed
  the number of pages. A message is selected on a card of the grid; one that is being animated out
  of it is not among these (\<open>exiting_card_selected\<close>).
\<close>

theorem selection_and_dialogs_visible:
  assumes "page_reachable H p"
  shows "set (mp_selected p) \<subseteq> visible_ids p \<and> (\<not> mp_bulkMode p \<longrightarrow> mp_selected p = []) \<and>
    (\<forall>i. mp_moveDialog p = Some i \<or> mp_tagDialog p = Some i \<or> mp_detailDialog p = Some i \<longrightarrow> i \<in> visible_ids p) \<and>
    (\<not> mp_isInitialLoading p \<longrightarrow> pf_page (filters_of H p) \<le> page_count H p)"
  using reachable_page_ok [OF assms] by (auto simp: page_ok_def dialog_ok_def)

text \<open>
  The cleanup of the selection runs when the list or the mode changes, not when a message is selected:
  in bulk mode a message that is no longer listed, selected on its card while that is still animated
  out of the grid, stays selected.
\<close>

lemma exiting_card_selected:
  assumes "mp_bulkMode p" and "mp_bulkPending p = None" and "i \<notin> visible_ids p"
  shows "i \<in> set (mp_selected (page_step H p (SelectMessage i True))) - visible_ids (page_step H p (SelectMessage i True))"
proof -
  let ?q = "page_react H (SelectMessage i True) p"
  have q: "mp_bulkMode ?q" "selection_deps ?q = selection_deps p" "mp_messages ?q = mp_messages p" "i \<in> set (mp_selected ?q)"
    using assms(1,2) by (simp_all add: page_handlers selection_deps_def Let_def)
  with assms(3) show ?thesis by (simp add: page_step_def selected_commit selected_effects visible_ids_def)
qed

definition sample_message :: "int \<Rightarrow> message_item" where
  "sample_message i =
     \<lparr>msg_id = i, msg_telegram_id = i, msg_content = None, msg_media_type = None, msg_file_name = None,
      msg_file_size = None, msg_mime_type = None, msg_media_url = None, msg_url = None, msg_sender_name = None,
      msg_date = [], msg_category_id = 4, msg_raw_data = JNull, msg_created_at = [], msg_updated_at = [],
      msg_category = \<lparr>mc_id = 4, mc_name = js ''Work'', mc_slug = js ''work'', mc_icon = js ''folder'', mc_color = js ''#112233''\<rparr>,
      msg_tags = []\<rparr>"

definition selecting_page :: page_state where
  "selecting_page =
     page_step plain_host
       (page_step plain_host (mount_page plain_host [] [] True) (ListReply 1 True (Inr ([sample_message 7], 1))))
       (SelectMessage 7 True)"

lemma selecting_page_facts: "page_reachable plain_host selecting_page" "mp_messages selecting_page = [sample_message 7]"
proof -
  let ?p = "page_step plain_host (mount_page plain_host [] [] True) (ListReply 1 True (Inr ([sample_message 7], 1)))"
  have listed: "mp_messages ?p = [sample_message 7]"
    by (simp add: page_step_def mount_page_def page_initial_def hydrateMessages_start_def hydrateTags_start_def
        hydrateMessages_reply_def send_def Let_def)
  have "page_reachable plain_host ?p" by (rule page_stepped [OF page_mounted]) simp
  moreover have "visible_ids ?p = msg_id ` set [sample_message 7]" by (simp only: visible_ids_def listed)
  then have "page_enabled plain_host ?p (SelectMessage 7 True)" by (simp add: sample_message_def)
  ultimately show "page_reachable plain_host selecting_page" unfolding selecting_page_def by (rule page_stepped)
  have "mp_messages (page_step H q (SelectMessage i b)) = mp_messages q" for H q i b
    by (simp add: page_step_def handleMessageSelectionChange_def clear_bulk_notes_def Let_def)
  then show "mp_messages selecting_page = [sample_message 7]" by (simp only: selecting_page_def listed)
qed

theorem selection_and_dialogs_visible_witness:
  "mp_selected (page_step plain_host selecting_page (DeleteReply selecting_page 7 (Inr ()) False)) = []"
proof -
  let ?p = "page_step plain_host selecting_page (DeleteReply selecting_page 7 (Inr ()) False)"
  have "page_reachable plain_host ?p" by (rule page_stepped [OF selecting_page_facts(1)]) simp
  moreover have "visible_ids ?p = {}"
    by (simp add: page_step_def visible_ids_def handleDeleteMessage_reply_def close_dialogs_of_def remove_messages_def
        notifyCategoriesChanged_def selecting_page_facts(2) sample_message_def Let_def)
  ultimately show ?thesis using selection_and_dialogs_visible by fastforce
qed

text \<open>
  C4: an outdated listing is never shown. Once a newer load of the messages has started
  (another filter, page or retry), the replies of earlier ones, successes and failures, change
  nothing of the page's state, in whatever order they arrive and whatever happens in between.
\<close>

theorem outdated_listing_ignored:
  assumes "\<forall>e \<in> set es. \<exists>run. page_ticket e = Some run \<and> run < mp_load_run p"
  shows "foldl (page_step H) p es = p \<and>
    (\<forall>later old run. page_ticket old = Some run \<and> run < mp_load_run p \<longrightarrow>
       page_step H (foldl (page_step H) p later) old = foldl (page_step H) p later)"
  using message_listing.stale_run_ignored [OF assms, of H] message_listing.superseded_forever [of _ _ p H] by blast

theorem outdated_listing_ignored_witness:
  "foldl (page_step plain_host) (page_step plain_host (mount_page plain_host [] [] True) Retry)
     [ListReply 1 True (Inr ([], 99)), ListReply 1 True (Inl NonError)] =
   page_step plain_host (mount_page plain_host [] [] True) Retry"
proof -
  let ?p = "page_step plain_host (mount_page plain_host [] [] True) Retry"
  have run: "mp_load_run ?p \<ge> 2"
    by (simp add: page_step_def commit_def page_effects_def mount_page_def page_initial_def load_effect_def load_deps_def
        hydrateMessages_start_def hydrateTags_start_def send_def search_effect_def filters_of_def Let_def)
  have "\<forall>e \<in> set [ListReply 1 True (Inr ([], 99)), ListReply 1 True (Inl NonError)].
      \<exists>run. page_ticket e = Some run \<and> run < mp_load_run ?p"
    using run by simp
  then show ?thesis using outdated_listing_ignored by blast
qed

section \<open>What is sent\<close>

definition only_listings :: "page_request list \<Rightarrow> bool" where
  "only_listings qs \<longleftrightarrow> (\<forall>q \<in> set qs. \<exists>run query. q = ListSent run query)"

lemma effect_sent [simp]:
  "mp_sent (search_effect b p) = mp_sent p" "mp_sent (bulk_category_effect b p) = mp_sent p"
  "mp_sent (bulk_tag_effect H b p) = mp_sent p" "mp_sent (page_effect H b p) = mp_sent p"
  "mp_sent (selection_effect b p) = mp_sent p" "mp_sent (leave_bulk_effect b p) = mp_sent p"
  "mp_sent (dialogs_effect b p) = mp_sent p"
  by (simp_all add: search_effect_def bulk_category_effect_def bulk_tag_effect_def page_effect_def
      selection_effect_def leave_bulk_effect_def dialogs_effect_def)

lemma load_effect_sent: "\<exists>qs. mp_sent (load_effect H b p) = mp_sent p @ qs \<and> only_listings qs"
  by (auto simp: load_effect_def hydrateMessages_start_def send_def only_listings_def Let_def)

lemma commit_sent: "\<exists>qs. mp_sent (commit H b p) = mp_sent p @ qs \<and> only_listings qs"
proof -
  have one: "\<exists>qs. mp_sent (page_effects H b p) = mp_sent p @ qs \<and> only_listings qs" for b p
    using load_effect_sent [of H b "search_effect b p"] by (simp add: page_effects_def)
  from one [of b p] one [of p "page_effects H b p"] show ?thesis
    unfolding commit_def Let_def only_listings_def by (metis Un_iff append.assoc set_append)
qed

definition new_requests :: "host \<Rightarrow> page_state \<Rightarrow> page_event \<Rightarrow> page_request list" where
  "new_requests H p e = drop (length (mp_sent p)) (mp_sent (page_step H p e))"

fun deletes :: "page_request \<Rightarrow> bool" where
  "deletes (DeleteSent _ _) = True"
| "deletes (BulkDeleteSent _ _) = True"
| "deletes _ = False"

definition deletes_sent :: "page_state \<Rightarrow> page_event \<Rightarrow> page_request list" where
  "deletes_sent p e =
     (case e of
        DeleteMessage i True \<Rightarrow> [DeleteSent i False]
      | DeleteReply c i (Inl err) True \<Rightarrow> if offers_local_delete err then [DeleteSent i True] else []
      | DeleteSelected True \<Rightarrow> if mp_selected p = [] then [] else [BulkDeleteSent (mp_selected p) False]
      | BulkDeleteReply c (Inl err) True \<Rightarrow> if offers_local_delete err then [BulkDeleteSent (mp_selected c) True] else []
      | _ \<Rightarrow> [])"

lemma react_sent:
  "\<exists>qs. mp_sent (page_react H e p) = mp_sent p @ qs \<and> filter deletes qs = deletes_sent p e"
  by (cases e)
    (auto simp: deletes_sent_def page_handlers message_handlers delete_handlers Let_def
      split: sum.splits option.splits prod.splits)

lemma filter_deletes_listings: "only_listings qs \<Longrightarrow> filter deletes qs = []"
  by (auto simp: only_listings_def filter_empty_conv)

lemma deletes_new: "filter deletes (new_requests H p e) = deletes_sent p e"
proof -
  obtain qs where q: "mp_sent (page_react H e p) = mp_sent p @ qs" "filter deletes qs = deletes_sent p e"
    using react_sent by blast
  obtain ls where "mp_sent (page_step H p e) = mp_sent (page_react H e p) @ ls" "only_listings ls"
    using commit_sent unfolding page_step_def by blast
  with q show ?thesis by (simp add: new_requests_def filter_deletes_listings)
qed

text \<open>
  C1: nothing is deleted without the user's word. A step sends a delete to Telegram only when
  the user confirmed that very delete, and then exactly for the chosen message or the current
  selection, whose messages are all on the page; it sends a local-only delete only when the
  server refused because Telegram is not connected or the connection changed, the user agreed
  to delete locally, and for the same messages; and never more than one delete.
\<close>

theorem deletes_need_consent:
  assumes "page_reachable H p"
  shows "(DeleteSent i False \<in> set (new_requests H p e) \<longrightarrow> e = DeleteMessage i True) \<and>
    (BulkDeleteSent ids False \<in> set (new_requests H p e) \<longrightarrow>
       e = DeleteSelected True \<and> ids = mp_selected p \<and> ids \<noteq> [] \<and> set ids \<subseteq> visible_ids p) \<and>
    (DeleteSent i True \<in> set (new_requests H p e) \<longrightarrow>
       (\<exists>c err. e = DeleteReply c i (Inl err) True \<and> err \<in> {TelegramNotConnectedError, TelegramConnectionChangedError})) \<and>
    (BulkDeleteSent ids True \<in> set (new_requests H p e) \<longrightarrow>
       (\<exists>c err. e = BulkDeleteReply c (Inl err) True \<and> ids = mp_selected c \<and>
          err \<in> {TelegramNotConnectedError, TelegramConnectionChangedError})) \<and>
    length (filter deletes (new_requests H p e)) \<le> 1"
proof -
  have d: "q \<in> set (new_requests H p e) \<and> deletes q \<longleftrightarrow> q \<in> set (deletes_sent p e)" for q
    unfolding deletes_new [of H p e, symmetric] by auto
  have visible: "set (mp_selected p) \<subseteq> visible_ids p"
  using reachable_page_ok [OF assms] by (simp add: page_ok_def)
  have "DeleteSent i l \<in> set (new_requests H p e) \<longleftrightarrow> DeleteSent i l \<in> set (deletes_sent p e)" for l
    using d [of "DeleteSent i l"] by simp
  moreover have "BulkDeleteSent ids l \<in> set (new_requests H p e) \<longleftrightarrow> BulkDeleteSent ids l \<in> set (deletes_sent p e)" for l
    using d [of "BulkDeleteSent ids l"] by simp
  ultimately show ?thesis
    unfolding deletes_new using visible
    by (cases e) (auto simp: deletes_sent_def offers_local_delete_def split: sum.splits bool.splits if_splits)
qed

theorem deletes_need_consent_witness:
  "DeleteSent 5 True \<notin> set (new_requests plain_host (mount_page plain_host [] [] True) (DeleteMessage 5 True))"
  using deletes_need_consent [OF page_mounted, of 5 plain_host "[]" "[]" True "DeleteMessage 5 True" "[]"] by blast

section \<open>Deleting and moving\<close>

lemma react_of_commit [simp]:
  "mp_messages (page_step H p e) = mp_messages (page_react H e p)"
  "mp_total (page_step H p e) = mp_total (page_react H e p)"
  "mp_announced (page_step H p e) = mp_announced (page_react H e p)"
  "mp_reload (page_step H p e) = mp_reload (page_react H e p)"
  "mp_pageError (page_step H p e) = mp_pageError (page_react H e p)"
  "mp_pendingDelete (page_step H p e) = mp_pendingDelete (page_react H e p)"
  "mp_bulkPending (page_step H p e) = mp_bulkPending (page_react H e p)"
  "mp_knownTags (page_step H p e) = mp_knownTags (page_react H e p)"
  "mp_bulkMode (page_step H p e) = mp_bulkMode (page_react H e p)"
  by (simp_all add: page_step_def)

lemma close_dialogs_same [simp]:
  "mp_messages (close_dialogs_of c ids p) = mp_messages p" "mp_total (close_dialogs_of c ids p) = mp_total p"
  "mp_announced (close_dialogs_of c ids p) = mp_announced p" "mp_selected (close_dialogs_of c ids p) = mp_selected p"
  "mp_bulkMode (close_dialogs_of c ids p) = mp_bulkMode p" "mp_params (close_dialogs_of c ids p) = mp_params p"
  "mp_isInitialLoading (close_dialogs_of c ids p) = mp_isInitialLoading p" "mp_sent (close_dialogs_of c ids p) = mp_sent p"
  "mp_loadError (close_dialogs_of c ids p) = mp_loadError p" "mp_searchQuery (close_dialogs_of c ids p) = mp_searchQuery p"
  "mp_reload (close_dialogs_of c ids p) = mp_reload p"
  by (simp_all add: close_dialogs_of_def Let_def)

definition removed_ok :: "page_state \<Rightarrow> int set \<Rightarrow> int \<Rightarrow> page_state \<Rightarrow> bool" where
  "removed_ok p ids n q \<longleftrightarrow>
     mp_messages q = filter (\<lambda>m. msg_id m \<notin> ids) (mp_messages p) \<and>
     mp_total q = max 0 (mp_total p - n) \<and> mp_announced q = mp_announced p + 1 \<and>
     set (mp_selected q) \<inter> ids = {} \<and>
     (\<forall>i \<in> ids. mp_moveDialog q \<noteq> Some i \<and> mp_tagDialog q \<noteq> Some i \<and> mp_detailDialog q \<noteq> Some i)"

lemma gone_after_step:
  assumes "page_ok H (page_step H p e)" and "mp_messages (page_step H p e) = filter (\<lambda>m. msg_id m \<notin> ids) (mp_messages p)"
  shows "set (mp_selected (page_step H p e)) \<inter> ids = {} \<and>
     (\<forall>i \<in> ids. mp_moveDialog (page_step H p e) \<noteq> Some i \<and> mp_tagDialog (page_step H p e) \<noteq> Some i \<and>
        mp_detailDialog (page_step H p e) \<noteq> Some i)"
proof -
  have "visible_ids (page_step H p e) \<inter> ids = {}"
    unfolding visible_ids_def assms(2) by auto
  with assms(1) show ?thesis by (auto simp: page_ok_def dialog_ok_def)
qed

text \<open>
  C3: a delete removes exactly what was deleted. When the server confirms, the deleted messages
  leave the list and every other stays where it is, the total drops by their number (not below
  zero), the category counts are refreshed once, and neither the selection nor an open dialog
  refers to them any longer; when it refuses for another reason, the list, the total and the
  selection stay and the reason is shown.
\<close>

theorem delete_removes_exactly:
  assumes "page_reachable H p"
  shows "removed_ok p {i} 1 (page_step H p (DeleteReply c i (Inr ()) answer)) \<and>
    removed_ok p (set (mp_selected c)) (int (length (mp_selected c))) (page_step H p (BulkDeleteReply c (Inr ()) answer)) \<and>
    (\<forall>err. err \<notin> {TelegramNotConnectedError, TelegramConnectionChangedError} \<longrightarrow>
       mp_messages (page_step H p (DeleteReply c i (Inl err) answer)) = mp_messages p \<and>
       mp_total (page_step H p (DeleteReply c i (Inl err) answer)) = mp_total p \<and>
       mp_selected (page_step H p (DeleteReply c i (Inl err) answer)) = mp_selected p \<and>
       mp_pageError (page_step H p (DeleteReply c i (Inl err) answer)) =
         Some (error_text err (js ''Unable to delete this message right now.'')) \<and>
       mp_pendingDelete (page_step H p (DeleteReply c i (Inl err) answer)) = None)"
proof -
  note ok = reachable_page_ok [OF assms]
  have "removed_ok p {i} 1 (page_step H p (DeleteReply c i (Inr ()) answer))"
    using gone_after_step [OF page_ok_step [OF ok], of "DeleteReply c i (Inr ()) answer" "{i}"]
    by (simp add: removed_ok_def handleDeleteMessage_reply_def notifyCategoriesChanged_def remove_messages_def Let_def)
  moreover have "removed_ok p (set (mp_selected c)) (int (length (mp_selected c))) (page_step H p (BulkDeleteReply c (Inr ()) answer))"
    using gone_after_step [OF page_ok_step [OF ok], of "BulkDeleteReply c (Inr ()) answer" "set (mp_selected c)"]
    by (simp add: removed_ok_def handleBulkDelete_reply_def notifyCategoriesChanged_def remove_messages_def Let_def)
  moreover have "mp_selected (page_step H p (DeleteReply c i (Inl err) answer)) = mp_selected p"
    if "err \<notin> {TelegramNotConnectedError, TelegramConnectionChangedError}" for err
  proof -
    let ?q = "p\<lparr>mp_pageError := Some (error_text err (js ''Unable to delete this message right now.'')), mp_pendingDelete := None\<rparr>"
    have "page_step H p (DeleteReply c i (Inl err) answer) = commit H p ?q"
      using that by (simp add: page_step_def handleDeleteMessage_reply_def offers_local_delete_def)
    then show ?thesis
      using ok by (auto simp: selected_commit selected_effects selection_deps_def page_ok_def)
  qed
  ultimately show ?thesis
    by (simp add: handleDeleteMessage_reply_def offers_local_delete_def)
qed

theorem delete_removes_exactly_witness:
  "removed_ok (mount_page plain_host [] [] True) {3} 1 (page_step plain_host (mount_page plain_host [] [] True)
     (DeleteReply (mount_page plain_host [] [] True) 3 (Inr ()) False))"
  using delete_removes_exactly [OF page_mounted] by blast

text \<open>
  C5: moving in bulk changes the selected messages' category and nothing else. When the server
  confirms, the list keeps its messages in their order; each selected one has the target
  category (its id, name, slug, icon and colour) and a new change date, every other is
  unchanged; the selection is empty, the counts are refreshed once, and the list is loaded
  again exactly when filters were active.
\<close>

theorem bulk_move_exact:
  assumes "bulk_move_target c = Some target"
  shows "map msg_id (mp_messages (page_step H p (BulkMoveReply now c (Inr ())))) = map msg_id (mp_messages p) \<and>
    (\<forall>k < length (mp_messages p).
       let old = mp_messages p ! k; new = mp_messages (page_step H p (BulkMoveReply now c (Inr ()))) ! k
       in if msg_id old \<in> set (mp_selected c)
          then new = old\<lparr>msg_category_id := cat_id target, msg_updated_at := now,
                 msg_category := \<lparr>mc_id = cat_id target, mc_name = cat_name target, mc_slug = cat_slug target,
                   mc_icon = cat_icon target, mc_color = cat_color target\<rparr>\<rparr>
          else new = old) \<and>
    mp_selected (page_step H p (BulkMoveReply now c (Inr ()))) = [] \<and>
    mp_announced (page_step H p (BulkMoveReply now c (Inr ()))) = mp_announced p + 1 \<and>
    mp_reload (page_step H p (BulkMoveReply now c (Inr ()))) = mp_reload p + (if hasActiveFilters H c then 1 else 0)"
proof -
  have "mp_messages (page_step H p (BulkMoveReply now c (Inr ()))) =
      localMoveMessages now (mp_messages p) (mp_selected c) target"
    by (simp add: assms handleBulkMove_reply_def notifyCategoriesChanged_def reload_if_def Let_def)
  moreover have "mp_selected (page_react H (BulkMoveReply now c (Inr ())) p) = []"
    by (simp add: assms handleBulkMove_reply_def Let_def)
  then have "mp_selected (page_step H p (BulkMoveReply now c (Inr ()))) = []"
    unfolding page_step_def selected_commit selected_effects by simp
  ultimately show ?thesis
    by (simp add: localMoveMessages_def comp_def assms handleBulkMove_reply_def notifyCategoriesChanged_def
        reload_if_def Let_def)
qed

definition sample_category :: category where
  "sample_category = default_category 4 ''Work'' ''work'' ''folder'' ''#112233''"

theorem bulk_move_exact_witness:
  "mp_announced (page_step plain_host (mount_page plain_host [] [sample_category] False)
     (BulkMoveReply (js ''t'') (mount_page plain_host [] [sample_category] False) (Inr ()))) = 1"
proof -
  let ?p = "mount_page plain_host [] [sample_category] False"
  have b: "mp_bulkCategory ?p = Some 4" and a: "actionCategories ?p = [sample_category]" and n: "mp_announced ?p = 0"
    by (simp_all add: mount_page_def page_initial_def hydrateMessages_start_def hydrateTags_start_def send_def
        dialogs_effect_def actionCategories_def default_choice_def sample_category_def default_category_def Let_def)
  then have "bulk_move_target ?p = Some sample_category"
    by (simp add: bulk_move_target_def sample_category_def default_category_def)
  from bulk_move_exact [OF this] n show ?thesis by simp
qed

section \<open>Creating and attaching a tag\<close>

lemma replace_message_others:
  "k < length (mp_messages p) \<Longrightarrow> msg_id (mp_messages p ! k) \<noteq> i \<Longrightarrow>
     mp_messages (replace_message i f p) ! k = mp_messages p ! k"
  by (simp add: replace_message_def)

lemma apply_message_tags_messages:
  "mp_messages (apply_message_tags H c i tags p) =
     map (\<lambda>m. if msg_id m = i then m\<lparr>msg_tags := tags\<rparr> else m) (mp_messages p)"
  by (simp add: apply_message_tags_def reload_if_def replace_message_def merge_known_tags_def)

text \<open>
  C6: creating a tag from the dialog keeps its promise at every outcome. A blank name or a
  dialog without message sends nothing and answers \<open>false\<close>; otherwise the trimmed name is
  created first; a failed creation answers \<open>false\<close>, shows why and changes no message; after a
  successful one the new tag is known and attached to the dialog's message; the answer is then
  \<open>true\<close>, with only that message's tags changed, or, if attaching failed, none changed and an
  error that names the created tag; and the dialog is never left busy.
\<close>

theorem create_and_attach_outcomes:
  assumes "active_message (mp_tagDialog c) c = Some m"
  shows "(normal_name name = [] \<or> active_message (mp_tagDialog p) p = None \<longrightarrow>
       handleCreateAndAttachTag_start name p = (Some False, p)) \<and>
    (normal_name name \<noteq> [] \<and> active_message (mp_tagDialog p) p \<noteq> None \<longrightarrow>
       mp_sent (snd (handleCreateAndAttachTag_start name p)) = mp_sent p @ [CreateTagSent (normal_name name)]) \<and>
    (let (answer, q) = handleCreateAndAttachTag_created H c (Inl err) p
     in answer = Some False \<and> mp_tagError q = Some (error_text err (js ''Unable to create tag.'')) \<and>
        mp_messages q = mp_messages p \<and> \<not> mp_isTagSubmitting q) \<and>
    (let (answer, q) = handleCreateAndAttachTag_created H c (Inr created) p
     in answer = None \<and> created \<in> set (mp_knownTags q) \<and>
        mp_sent q = mp_sent p @ [AddTagSent (msg_id m) (tag_id created)]) \<and>
    (let (answer, q) = handleCreateAndAttachTag_attached H c created (Inr tags) p
     in answer = Some True \<and> \<not> mp_isTagSubmitting q \<and>
        mp_messages q = map (\<lambda>x. if msg_id x = msg_id m then x\<lparr>msg_tags := tags\<rparr> else x) (mp_messages p)) \<and>
    (let (answer, q) = handleCreateAndAttachTag_attached H c created (Inl err) p
     in answer = Some True \<and> \<not> mp_isTagSubmitting q \<and> mp_messages q = mp_messages p \<and>
        mp_knownTags q = mp_knownTags p \<and>
        (\<exists>why. mp_tagError q = Some (js ''Created #'' @ tag_name created @ js '', but it could not be attached. '' @ why)))"
proof -
  have "created \<in> set (mergeTags H (mp_knownTags p) [created])"
  proof -
    have "created \<in> snd ` set (merged_map (mp_knownTags p) [created])" by (rule last_wins) simp_all
    then show ?thesis by (simp add: mergeTags_def merged_map_def)
  qed
  then show ?thesis
    using assms by (simp add: handleCreateAndAttachTag_start_def handleCreateAndAttachTag_created_def
        handleCreateAndAttachTag_attached_def tag_change_start_def send_def merge_known_tags_def
        apply_message_tags_messages Let_def)
qed

theorem create_and_attach_outcomes_witness:
  "mp_sent (snd (handleCreateAndAttachTag_created plain_host
     ((mount_page plain_host [] [] True)\<lparr>mp_messages := [sample_message 9], mp_tagDialog := Some 9\<rparr>)
     (Inr \<lparr>tag_id = 2, tag_name = js ''new'', tag_color = None\<rparr>) (page_initial [] [] True))) = [AddTagSent 9 2]"
proof -
  let ?c = "(mount_page plain_host [] [] True)\<lparr>mp_messages := [sample_message 9], mp_tagDialog := Some 9\<rparr>"
  let ?t = "\<lparr>tag_id = 2, tag_name = js ''new'', tag_color = None\<rparr>"
  have "active_message (mp_tagDialog ?c) ?c = Some (sample_message 9)"
    by (simp add: active_message_def find_message_def sample_message_def)
  from create_and_attach_outcomes [OF this, of "[]" "page_initial [] [] True" plain_host NonError ?t "[]"]
  have "mp_sent (snd (handleCreateAndAttachTag_created plain_host ?c (Inr ?t) (page_initial [] [] True))) =
      mp_sent (page_initial [] [] True) @ [AddTagSent (msg_id (sample_message 9)) (tag_id ?t)]"
    by (simp add: split_beta Let_def)
  then show ?thesis by (simp add: page_initial_def sample_message_def)
qed

section \<open>A page emptied by deleting\<close>

lemma unchanged_search: "urlSearchQuery p = urlSearchQuery b \<Longrightarrow> search_effect b p = p"
  by (simp add: search_effect_def)

text \<open>
  Deleting every message of the first page of several loads nothing: the filters did not
  change, so the list stays empty and the page says that there are no messages yet.
\<close>

lemma emptied_page_claims_no_messages:
  assumes all: "mp_selected c = map msg_id (mp_messages p)" and bulk: "mp_bulkMode p"
    and first: "pf_page (filters_of H p) = 1" and loaded: "\<not> mp_isInitialLoading p" "mp_loadError p = None"
    and plain: "\<not> hasActiveFilters H p" and more: "int (length (mp_messages p)) < mp_total p"
  shows "page_body_of H (page_step H p (BulkDeleteReply c (Inr ()) answer)) = NoMessagesYet \<and>
    0 < mp_total (page_step H p (BulkDeleteReply c (Inr ()) answer)) \<and>
    mp_sent (page_step H p (BulkDeleteReply c (Inr ()) answer)) = mp_sent p"
proof -
  let ?r = "page_react H (BulkDeleteReply c (Inr ()) answer) p"
  have r: "mp_params ?r = mp_params p" "mp_searchQuery ?r = mp_searchQuery p" "mp_reload ?r = mp_reload p"
      "mp_isInitialLoading ?r = mp_isInitialLoading p" "mp_loadError ?r = mp_loadError p" "mp_sent ?r = mp_sent p"
      "mp_messages ?r = []" "mp_total ?r = mp_total p - int (length (mp_messages p))"
    using all more by (simp_all add: handleBulkDelete_reply_def notifyCategoriesChanged_def remove_messages_def Let_def)
  define keeps where "keeps q \<longleftrightarrow> mp_params q = mp_params p \<and> mp_searchQuery q = mp_searchQuery p \<and>
      mp_reload q = mp_reload p \<and> mp_isInitialLoading q = mp_isInitialLoading p \<and>
      mp_loadError q = mp_loadError p \<and> mp_sent q = mp_sent p" for q :: page_state
  have step: "keeps (page_effects H b q)" if "keeps b" "keeps q" for b q
  proof -
    have s: "search_effect b q = q" using that by (intro unchanged_search) (simp add: keeps_def urlSearchQuery_def)
    have l: "load_effect H b q = q" using that by (simp add: keeps_def load_effect_def load_deps_def filters_of_def)
    have k: "keeps (bulk_category_effect b q)" "keeps (bulk_tag_effect H b q)" "keeps (selection_effect b q)"
      "keeps (leave_bulk_effect b q)" "keeps (dialogs_effect b q)" if "keeps q" for b q
      using that by (simp_all add: keeps_def bulk_category_effect_def bulk_tag_effect_def selection_effect_def
          leave_bulk_effect_def dialogs_effect_def)
    have g: "keeps (page_effect H b q)" if "keeps q" for b q
    proof -
      have "pf_page (filters_of H q) = 1" using that first by (simp add: keeps_def filters_of_def)
      then have "\<not> page_count H q < pf_page (filters_of H q)" using page_count_pos [of H q] by simp
      with that show ?thesis by (simp add: page_effect_def)
    qed
    show ?thesis unfolding page_effects_def s l using that(2) by (intro k g)
  qed
  have "keeps p" and "keeps ?r" using r by (simp_all add: keeps_def)
  then have keeps: "keeps (page_step H p (BulkDeleteReply c (Inr ()) answer))"
    unfolding page_step_def commit_def Let_def by (intro step)
  have "\<not> hasActiveFilters H (page_step H p (BulkDeleteReply c (Inr ()) answer))"
    using plain keeps by (simp add: keeps_def hasActiveFilters_def filters_of_def)
  then show ?thesis
    using keeps loaded more r(7,8) by (simp add: page_body_of_def keeps_def)
qed

end
