(* ===== verification/MessageContent.thy ===== *)
theory MessageContent
  imports ApiOrganization SearchParams
begin

text \<open>
  \<open>lib/message-content.ts\<close> and \<open>components/messages/message-content.tsx\<close>: finding the links
  in a message, what is shown of it and where its links lead. The parser behind \<open>new URL\<close>
  is a parameter (\<open>None\<close>: it throws).
\<close>

section \<open>URLs\<close>

record url =
  url_href :: jstr
  url_protocol :: jstr
  url_hostname :: jstr
  url_pathname :: jstr
  url_searchParams :: params

type_synonym url_parser = "jstr \<Rightarrow> url option"

datatype link_provider = GitHub | YouTube | Twitter | Generic

text \<open>
  A value that is a string, \<open>null\<close> or \<open>undefined\<close>; a template string and \<open>RegExp.test\<close> turn
  it into text.
\<close>

datatype js_text = UndefinedText | NullText | TextOf jstr

fun as_text :: "js_text \<Rightarrow> jstr" where
  "as_text UndefinedText = js ''undefined''"
| "as_text NullText = js ''null''"
| "as_text (TextOf s) = s"

record message_link =
  ml_url :: jstr
  ml_provider :: link_provider
  ml_providerLabel :: jstr
  ml_hostname :: jstr
  ml_title :: jstr
  ml_description :: jstr
  ml_youtubeVideoId :: js_text

record content_analysis =
  ca_text :: "jstr option"
  ca_isPureUrl :: bool
  ca_link :: "message_link option"

text \<open>Case-insensitive comparison of a regular expression, on ASCII letters.\<close>

definition starts_with_ci :: "jstr \<Rightarrow> jstr \<Rightarrow> bool" where
  "starts_with_ci s p = starts_with (ascii_lower s) p"

definition url_stop :: "code_unit \<Rightarrow> bool" where
  "url_stop c \<longleftrightarrow> is_ws c \<or> c \<in> {60, 62, 34, 39}"

text \<open>\<open>URL_CANDIDATE_PATTERN\<close> at the start of a text: the length of its match.\<close>

definition match_candidate :: "jstr \<Rightarrow> nat option" where
  "match_candidate s =
     (let prefix = (if starts_with_ci s (js ''https://'') then 8
                    else if starts_with_ci s (js ''http://'') then 7
                    else if starts_with_ci s (js ''www.'') then 4 else 0);
          run = length (takeWhile (\<lambda>c. \<not> url_stop c) (drop prefix s))
      in if prefix = 0 \<or> run = 0 then None else Some (prefix + run))"

text \<open>The next match: the text before it, the match, the text after it.\<close>

fun find_url :: "jstr \<Rightarrow> (jstr \<times> jstr \<times> jstr) option" where
  "find_url [] = None"
| "find_url (c # s) =
     (case match_candidate (c # s) of
        Some n \<Rightarrow> Some ([], take n (c # s), drop n (c # s))
      | None \<Rightarrow> map_option (\<lambda>(before, m, rest). (c # before, m, rest)) (find_url s))"

definition SIMPLE_TRAILING_PUNCTUATION :: "code_unit list" where
  "SIMPLE_TRAILING_PUNCTUATION = js ''.,!?;:'' @ [34, 39]"

definition CLOSING_PAIRS :: "code_unit \<Rightarrow> code_unit option" where
  "CLOSING_PAIRS c = (if c = 41 then Some 40 else if c = 93 then Some 91 else if c = 125 then Some 123 else None)"

definition occurrences :: "jstr \<Rightarrow> code_unit \<Rightarrow> nat" where
  "occurrences s c = length (filter (\<lambda>d. d = c) s)"

definition trailing_dropped :: "jstr \<Rightarrow> bool" where
  "trailing_dropped s \<longleftrightarrow>
     last s \<in> set SIMPLE_TRAILING_PUNCTUATION \<or>
     (case CLOSING_PAIRS (last s) of
        Some opening \<Rightarrow> occurrences s (last s) > occurrences s opening
      | None \<Rightarrow> False)"

function trim_trailing :: "jstr \<Rightarrow> jstr" where
  "trim_trailing s = (if s = [] then [] else if trailing_dropped s then trim_trailing (butlast s) else s)"
  by pat_completeness auto
termination
  by (relation "measure length") auto

declare trim_trailing.simps [simp del]

definition trimUrlPunctuation :: "jstr \<Rightarrow> jstr" where
  "trimUrlPunctuation value = trim_trailing (js_trim value)"

definition is_http :: "url \<Rightarrow> bool" where
  "is_http u \<longleftrightarrow> url_protocol u = js ''http:'' \<or> url_protocol u = js ''https:''"

definition parseHttpUrl :: "url_parser \<Rightarrow> jstr option \<Rightarrow> url option" where
  "parseHttpUrl new_url value =
     (case value of
        None \<Rightarrow> None
      | Some v \<Rightarrow>
          if js_trim v = [] then None
          else let candidate = trimUrlPunctuation v
               in case new_url (if starts_with_ci candidate (js ''www.'') then js ''https://'' @ candidate else candidate) of
                    Some parsed \<Rightarrow> if is_http parsed then Some parsed else None
                  | None \<Rightarrow> None)"

lemma match_candidate_length: "match_candidate s = Some n \<Longrightarrow> 0 < n \<and> n \<le> length s"
proof -
  assume *: "match_candidate s = Some n"
  have len: "length p \<le> length s" if "starts_with_ci s p" for p
  proof -
    obtain r where "ascii_lower s = p @ r" using \<open>starts_with_ci s p\<close> by (auto simp: starts_with_ci_def starts_with_iff)
    then have "length (ascii_lower s) = length p + length r" by simp
    then show ?thesis by (simp add: ascii_lower_def)
  qed
  have run: "k + length (takeWhile P (drop k s)) \<le> length s" if "k \<le> length s" for P k
    using that length_takeWhile_le [of P "drop k s"] by simp
  show ?thesis
    using * len [of "js ''https://''"] len [of "js ''http://''"] len [of "js ''www.''"] run
    by (auto simp: match_candidate_def Let_def split: if_splits)
qed

lemma find_url_parts: "find_url s = Some (before, m, rest) \<Longrightarrow> s = before @ m @ rest \<and> match_candidate (m @ rest) = Some (length m)"
proof (induction s arbitrary: before)
  case (Cons c s)
  show ?case
  proof (cases "match_candidate (c # s)")
    case None
    with Cons show ?thesis by auto
  next
    case (Some n)
    with match_candidate_length [OF Some] Cons.prems show ?thesis by auto
  qed
qed simp

lemma find_url_not_Nil: "find_url s = Some (before, m, rest) \<Longrightarrow> m \<noteq> []"
  using find_url_parts [of s before m rest] match_candidate_length [of "m @ rest" "length m"] by auto

lemma find_url_less: "find_url s = Some (before, m, rest) \<Longrightarrow> length rest < length s"
  using find_url_parts [of s before m rest] find_url_not_Nil [of s before m rest] by auto

text \<open>All matches, in order (\<open>matchAll\<close>), and the first of them that is an HTTP URL.\<close>

function all_urls :: "jstr \<Rightarrow> jstr list" where
  "all_urls s = (case find_url s of None \<Rightarrow> [] | Some (_, m, rest) \<Rightarrow> m # all_urls rest)"
  by pat_completeness auto
termination
  by (relation "measure length") (auto simp: find_url_less)

declare all_urls.simps [simp del]

definition extractFirstHttpUrl :: "url_parser \<Rightarrow> jstr \<Rightarrow> url option" where
  "extractFirstHttpUrl new_url content =
     (case List.map_filter (\<lambda>m. parseHttpUrl new_url (Some m)) (all_urls content) of
        [] \<Rightarrow> None
      | u # _ \<Rightarrow> Some u)"

section \<open>Classifying a link\<close>

definition decoded :: "jstr \<Rightarrow> jstr" where
  "decoded value = (case decode_uri_component value of Some t \<Rightarrow> t | None \<Rightarrow> value)"

definition pathSegments :: "url \<Rightarrow> jstr list" where
  "pathSegments u = map decoded (filter (\<lambda>w. w \<noteq> []) (split_on 47 (url_pathname u)))"

text \<open>\<open>xs[n]\<close>, \<open>undefined\<close> past the end.\<close>

definition at_index :: "'a list \<Rightarrow> nat \<Rightarrow> 'a option" where
  "at_index xs n = (if n < length xs then Some (xs ! n) else None)"

definition text_at :: "jstr list \<Rightarrow> nat \<Rightarrow> js_text" where
  "text_at xs n = (case at_index xs n of Some t \<Rightarrow> TextOf t | None \<Rightarrow> UndefinedText)"

definition js_ends_with :: "jstr \<Rightarrow> jstr \<Rightarrow> bool" where
  "js_ends_with s p = starts_with (rev s) (rev p)"

text \<open>\<open>s.replace(/^www\./i, "")\<close> and \<open>s.replace(/\.git$/i, "")\<close>.\<close>

definition strip_www :: "jstr \<Rightarrow> jstr" where
  "strip_www s = (if starts_with_ci s (js ''www.'') then drop 4 s else s)"

definition strip_git :: "jstr \<Rightarrow> jstr" where
  "strip_git s = (if js_ends_with (ascii_lower s) (js ''.git'') then take (length s - 4) s else s)"

definition github_description :: "host \<Rightarrow> jstr list \<Rightarrow> jstr \<Rightarrow> jstr" where
  "github_description H segments repository =
     (let resource = map_option (to_lower H) (at_index segments 2)
      in case (at_index segments 3, resource) of
           (_, None) \<Rightarrow> js ''Repository''
         | (resourceId, Some r) \<Rightarrow>
             if r = js ''issues'' \<and> resourceId \<noteq> None then js ''Issue #'' @ the resourceId
             else if r = js ''pull'' \<and> resourceId \<noteq> None then js ''Pull request #'' @ the resourceId
             else if r = js ''commit'' \<and> resourceId \<noteq> None then js ''Commit '' @ take 7 (the resourceId)
             else if r = js ''blob'' then
               js ''Code '' @ [183, 32] @ (if segments = [] then repository else last segments)
             else if r = js ''tree'' then js ''Repository directory''
             else if r = js ''releases'' then js ''Releases''
             else js ''Repository'')"

definition githubLink :: "host \<Rightarrow> url \<Rightarrow> message_link" where
  "githubLink H u =
     (let segments = pathSegments u;
          owner = at_index segments 0;
          repository = map_option strip_git (at_index segments 1)
      in \<lparr>ml_url = url_href u, ml_provider = GitHub, ml_providerLabel = js ''GitHub'',
          ml_hostname = js ''github.com'',
          ml_title = (case (owner, repository) of
                        (Some ow, Some rep) \<Rightarrow> ow @ js ''/'' @ rep | _ \<Rightarrow> js ''GitHub''),
          ml_description = (case (owner, repository) of
                        (Some ow, Some rep) \<Rightarrow> github_description H segments rep | _ \<Rightarrow> js ''GitHub''),
          ml_youtubeVideoId = NullText\<rparr>)"

text \<open>\<open>/^[a-z0-9_-]{6,20}$/i\<close>.\<close>

definition video_id_char :: "code_unit \<Rightarrow> bool" where
  "video_id_char c \<longleftrightarrow> is_digit c \<or> (65 \<le> c \<and> c \<le> 90) \<or> (97 \<le> c \<and> c \<le> 122) \<or> c = 95 \<or> c = 45"

definition video_id_pattern :: "jstr \<Rightarrow> bool" where
  "video_id_pattern s \<longleftrightarrow> 6 \<le> length s \<and> length s \<le> 20 \<and> list_all video_id_char s"

definition video_candidate :: "host \<Rightarrow> url \<Rightarrow> js_text" where
  "video_candidate H u =
     (let segments = pathSegments u
      in if to_lower H (strip_www (url_hostname u)) = js ''youtu.be'' then text_at segments 0
         else case sp_get (url_searchParams u) (js ''v'') of
                Some v \<Rightarrow> TextOf v
              | None \<Rightarrow>
                  if (case at_index segments 0 of Some w \<Rightarrow> w | None \<Rightarrow> [])
                       \<in> {js ''shorts'', js ''embed'', js ''live''}
                  then text_at segments 1 else NullText)"

definition youtubeVideoId :: "host \<Rightarrow> url \<Rightarrow> js_text" where
  "youtubeVideoId H u =
     (let candidate = video_candidate H u
      in if candidate \<noteq> NullText \<and> video_id_pattern (as_text candidate) then candidate else NullText)"

definition youtubeLink :: "host \<Rightarrow> url \<Rightarrow> message_link" where
  "youtubeLink H u =
     (let videoId = youtubeVideoId H u
      in \<lparr>ml_url = url_href u, ml_provider = YouTube, ml_providerLabel = js ''YouTube'',
          ml_hostname = strip_www (url_hostname u),
          ml_title = (if videoId = NullText then js ''YouTube'' else js ''Watch on YouTube''),
          ml_description = (if videoId = NullText then js ''Video link''
                            else js ''Video '' @ [183, 32] @ as_text videoId),
          ml_youtubeVideoId = videoId\<rparr>)"

definition twitterLink :: "host \<Rightarrow> url \<Rightarrow> message_link" where
  "twitterLink H u =
     (let segments = pathSegments u
      in \<lparr>ml_url = url_href u, ml_provider = Twitter, ml_providerLabel = js ''X / Twitter'',
          ml_hostname = strip_www (url_hostname u),
          ml_title = (case at_index segments 0 of Some account \<Rightarrow> js ''@'' @ account | None \<Rightarrow> js ''X / Twitter''),
          ml_description =
            (case at_index segments 2 of
               Some post \<Rightarrow>
                 if map_option (to_lower H) (at_index segments 1) = Some (js ''status'')
                 then js ''Post on X '' @ [183, 32] @ post else js ''Profile on X''
             | None \<Rightarrow> js ''Profile on X''),
          ml_youtubeVideoId = NullText\<rparr>)"

definition genericLink :: "url \<Rightarrow> message_link" where
  "genericLink u =
     (let hostname = strip_www (url_hostname u);
          whole = decoded (url_pathname u);
          path = (if js_ends_with whole (js ''/'') then butlast whole else whole);
          pathLabel = (if 1 < length path then path else js ''Website'')
      in \<lparr>ml_url = url_href u, ml_provider = Generic, ml_providerLabel = js ''Web link'',
          ml_hostname = hostname,
          ml_title = (if hostname = [] then js ''Web link'' else hostname),
          ml_description = (if 72 < length pathLabel then take 71 pathLabel @ [8230] else pathLabel),
          ml_youtubeVideoId = NullText\<rparr>)"

definition classifyLink :: "host \<Rightarrow> url \<Rightarrow> message_link" where
  "classifyLink H u =
     (let hostname = to_lower H (strip_www (url_hostname u))
      in if hostname = js ''github.com'' \<or> js_ends_with hostname (js ''.github.com'') then githubLink H u
         else if hostname = js ''youtu.be'' \<or> hostname = js ''youtube.com''
              \<or> js_ends_with hostname (js ''.youtube.com'') \<or> hostname = js ''youtube-nocookie.com''
         then youtubeLink H u
         else if hostname \<in> {js ''x.com'', js ''mobile.x.com'', js ''twitter.com'', js ''mobile.twitter.com''}
         then twitterLink H u
         else genericLink u)"

definition analyzeMessageContent :: "host \<Rightarrow> url_parser \<Rightarrow> jstr option \<Rightarrow> jstr option \<Rightarrow> content_analysis" where
  "analyzeMessageContent H new_url content rawUrl =
     (let normalizedContent = (case content of Some t \<Rightarrow> js_trim t | None \<Rightarrow> []);
          parsedUrl = (case parseHttpUrl new_url rawUrl of
                         Some u \<Rightarrow> Some u | None \<Rightarrow> extractFirstHttpUrl new_url normalizedContent);
          isPureUrl = (normalizedContent \<noteq> [] \<and> \<not> list_ex is_ws normalizedContent
                       \<and> parseHttpUrl new_url (Some normalizedContent) \<noteq> None);
          text = (if normalizedContent \<noteq> [] \<and> \<not> isPureUrl then Some normalizedContent else None)
      in \<lparr>ca_text =
            (case rawUrl of
               Some r \<Rightarrow> if text = None \<and> parsedUrl = None \<and> js_trim r \<noteq> [] then Some (js_trim r) else text
             | None \<Rightarrow> text),
          ca_isPureUrl = isPureUrl,
          ca_link = map_option (classifyLink H) parsedUrl\<rparr>)"

section \<open>The parts of a text\<close>

record text_part =
  tp_value :: jstr
  tp_url :: "jstr option"

definition plain_part :: "jstr \<Rightarrow> text_part" where
  "plain_part t = \<lparr>tp_value = t, tp_url = None\<rparr>"

text \<open>The parts from one position on: text before the next match, the match, what was cut off it.\<close>

function text_parts :: "url_parser \<Rightarrow> jstr \<Rightarrow> text_part list" where
  "text_parts new_url s =
     (case find_url s of
        None \<Rightarrow> if s = [] then [] else [plain_part s]
      | Some (before, candidate, rest) \<Rightarrow>
          (if before = [] then [] else [plain_part before])
          @ [\<lparr>tp_value = trimUrlPunctuation candidate,
              tp_url = map_option url_href (parseHttpUrl new_url (Some (trimUrlPunctuation candidate)))\<rparr>]
          @ (if length (trimUrlPunctuation candidate) < length candidate
             then [plain_part (drop (length (trimUrlPunctuation candidate)) candidate)] else [])
          @ text_parts new_url rest)"
  by pat_completeness auto
termination
  by (relation "measure (length \<circ> snd)") (auto simp: find_url_less)

declare text_parts.simps [simp del]

definition messageTextParts :: "url_parser \<Rightarrow> jstr \<Rightarrow> text_part list" where
  "messageTextParts new_url text =
     (let parts = text_parts new_url text in if parts \<noteq> [] then parts else [plain_part text])"

section \<open>components/messages/message-content.tsx\<close>

text \<open>A link preview: its two flags and what sets them.\<close>

record link_preview =
  lp_isCopied :: bool
  lp_thumbnailFailed :: bool

datatype clipboard = NoClipboard | ClipboardRejects | ClipboardWrites

definition copyLink :: "clipboard \<Rightarrow> link_preview \<Rightarrow> link_preview" where
  "copyLink cb lp = (if cb = ClipboardWrites then lp\<lparr>lp_isCopied := True\<rparr> else lp)"

definition copied_timeout :: "link_preview \<Rightarrow> link_preview" where
  "copied_timeout lp = lp\<lparr>lp_isCopied := False\<rparr>"

definition thumbnail_error :: "link_preview \<Rightarrow> link_preview" where
  "thumbnail_error lp = lp\<lparr>lp_thumbnailFailed := True\<rparr>"

definition thumbnailUrl :: "message_link \<Rightarrow> jstr option" where
  "thumbnailUrl link =
     (if ml_youtubeVideoId link = NullText then None
      else Some (js ''https://i.ytimg.com/vi/'' @ as_text (ml_youtubeVideoId link) @ js ''/hqdefault.jpg''))"

definition lower_trim :: "host \<Rightarrow> jstr option \<Rightarrow> jstr" where
  "lower_trim H v = (case v of Some t \<Rightarrow> to_lower H (js_trim t) | None \<Rightarrow> [])"

definition isImageMessage :: "host \<Rightarrow> jstr option \<Rightarrow> jstr option \<Rightarrow> bool" where
  "isImageMessage H mediaType mimeType \<longleftrightarrow>
     js_includes (lower_trim H mediaType) (js ''photo'')
     \<or> js_includes (lower_trim H mediaType) (js ''image'')
     \<or> starts_with (lower_trim H mimeType) (js ''image/'')"

definition isAudioMessage :: "host \<Rightarrow> jstr option \<Rightarrow> jstr option \<Rightarrow> bool" where
  "isAudioMessage H mediaType mimeType \<longleftrightarrow>
     js_includes (lower_trim H mediaType) (js ''audio'')
     \<or> js_includes (lower_trim H mediaType) (js ''voice'')
     \<or> starts_with (lower_trim H mimeType) (js ''audio/'')"

definition alternativeText :: "jstr option \<Rightarrow> jstr" where
  "alternativeText content =
     (case content of
        Some t \<Rightarrow> if js_trim t = [] then js ''Saved Telegram image'' else js ''Saved Telegram image: '' @ js_trim t
      | None \<Rightarrow> js ''Saved Telegram image'')"

text \<open>
  \<open>replace(/[ \t]+\n/g, "\n")\<close> and \<open>replace(/\n{3,}/g, "\n\n")\<close>, read from the right: a blank
  before what has become a line end goes, a line end before two line ends goes.
\<close>

definition strip_line_ends :: "jstr \<Rightarrow> jstr" where
  "strip_line_ends s = foldr (\<lambda>c r. if c \<in> {32, 9} \<and> starts_with r [10] then r else c # r) s []"

definition squeeze_lines :: "jstr \<Rightarrow> jstr" where
  "squeeze_lines s = foldr (\<lambda>c r. if c = 10 \<and> starts_with r [10, 10] then r else c # r) s []"

definition compactTextWithoutPreviewedUrl :: "url_parser \<Rightarrow> jstr \<Rightarrow> jstr \<Rightarrow> jstr option" where
  "compactTextWithoutPreviewedUrl new_url text previewUrl =
     (let kept = concat (map tp_value (filter (\<lambda>p. tp_url p \<noteq> Some previewUrl) (messageTextParts new_url text)));
          compactText = js_trim (squeeze_lines (strip_line_ends kept))
      in if compactText = [] then None else Some compactText)"

text \<open>What \<open>MessageContent\<close> renders.\<close>

record message_view =
  mv_image :: "(jstr \<times> jstr) option"
  mv_audio :: "jstr option"
  mv_text :: "text_part list option"
  mv_link :: "message_link option"
  mv_note :: "jstr option"

record message_props =
  mp_content :: "jstr option"
  mp_url :: "jstr option"
  mp_mediaUrl :: "jstr option"
  mp_mediaType :: "jstr option"
  mp_mimeType :: "jstr option"
  mp_compact :: bool

definition displayed_text :: "url_parser \<Rightarrow> content_analysis \<Rightarrow> bool \<Rightarrow> jstr option" where
  "displayed_text new_url analysis dense =
     (case (ca_text analysis, ca_link analysis) of
        (Some t, Some l) \<Rightarrow> if dense then compactTextWithoutPreviewedUrl new_url t (ml_url l) else Some t
      | (t, _) \<Rightarrow> t)"

definition render_message :: "host \<Rightarrow> url_parser \<Rightarrow> message_props \<Rightarrow> message_view" where
  "render_message H new_url m =
     (let analysis = analyzeMessageContent H new_url (mp_content m) (mp_url m);
          image = isImageMessage H (mp_mediaType m) (mp_mimeType m);
          audio = isAudioMessage H (mp_mediaType m) (mp_mimeType m)
      in \<lparr>mv_image = (if image then map_option (\<lambda>u. (u, alternativeText (ca_text analysis))) (mp_mediaUrl m) else None),
          mv_audio = (if audio then mp_mediaUrl m else None),
          mv_text = map_option (messageTextParts new_url) (displayed_text new_url analysis (mp_compact m)),
          mv_link = ca_link analysis,
          mv_note =
            (if ca_text analysis = None \<and> ca_link analysis = None \<and> mp_mediaUrl m = None
             then Some (if image then js ''Image preview will be cached during the next scan.''
                        else if audio then js ''Audio will be cached during the next scan.''
                        else js ''No text or link content on this message.'')
             else None)\<rparr>)"

section \<open>Properties\<close>

lemma match_candidate_cases:
  assumes "match_candidate s = Some n"
  shows "\<exists>p \<in> {js ''https://'', js ''http://'', js ''www.''}. starts_with_ci s p
     \<and> n = length p + length (takeWhile (\<lambda>c. \<not> url_stop c) (drop (length p) s))"
proof -
  have *: "starts_with_ci s (js ''https://'') \<and> n = 8 + length (takeWhile (\<lambda>c. \<not> url_stop c) (drop 8 s))
    \<or> starts_with_ci s (js ''http://'') \<and> n = 7 + length (takeWhile (\<lambda>c. \<not> url_stop c) (drop 7 s))
    \<or> starts_with_ci s (js ''www.'') \<and> n = 4 + length (takeWhile (\<lambda>c. \<not> url_stop c) (drop 4 s))"
    using assms unfolding match_candidate_def Let_def by (simp split: if_splits)
  moreover have "length (js ''https://'') = 8" "length (js ''http://'') = 7" "length (js ''www.'') = 4"
    by simp_all
  ultimately show ?thesis by (metis insertCI)
qed

lemma prefix_no_ws: "p \<in> {js ''https://'', js ''http://'', js ''www.''} \<Longrightarrow> c \<in> set p \<Longrightarrow> \<not> is_ws c"
  by (elim insertE) (auto simp: js_def is_ws_def)

lemma candidate_no_ws: "find_url s = Some (before, m, rest) \<Longrightarrow> \<not> list_ex is_ws m"
proof -
  assume "find_url s = Some (before, m, rest)"
  then have *: "match_candidate (m @ rest) = Some (length m)" using find_url_parts by blast
  obtain p where mem: "p \<in> {js ''https://'', js ''http://'', js ''www.''}" and p: "starts_with_ci (m @ rest) p"
      and run: "length m = length p + length (takeWhile (\<lambda>c. \<not> url_stop c) (drop (length p) (m @ rest)))"
    using match_candidate_cases [OF *] by blast
  then have le: "length p \<le> length m" by linarith
  obtain r where r: "ascii_lower (m @ rest) = p @ r" using p by (auto simp: starts_with_ci_def starts_with_iff)
  have "take (length p) m = take (length p) (m @ rest)" using le by simp
  moreover have "ascii_lower (take (length p) (m @ rest)) = p"
    using arg_cong [OF r, of "take (length p)"] by (simp add: ascii_lower_def take_map)
  ultimately have lower: "ascii_lower (take (length p) m) = p" by (simp only:)
  have head: "\<not> is_ws c" if "c \<in> set (take (length p) m)" for c
  proof -
    have "(if 65 \<le> c \<and> c \<le> 90 then c + 32 else c) \<in> set (ascii_lower (take (length p) m))"
      unfolding ascii_lower_def set_map by (rule image_eqI [where x = c]) (simp_all only: that)
    then have "(if 65 \<le> c \<and> c \<le> 90 then c + 32 else c) \<in> set p"
      by (simp only: lower)
    with prefix_no_ws [OF mem] show ?thesis by (auto simp: is_ws_def split: if_splits)
  qed
  define t where "t = takeWhile (\<lambda>c. \<not> url_stop c) (drop (length p) (m @ rest))"
  have "t = take (length t) (drop (length p) (m @ rest))"
    unfolding t_def by (rule takeWhile_eq_take)
  moreover have "length t = length m - length p" using run unfolding t_def by linarith
  moreover have "take (length m - length p) (drop (length p) (m @ rest)) = drop (length p) m" using le by simp
  ultimately have "drop (length p) m = t" by (simp only:)
  moreover have "\<not> is_ws c" if "c \<in> set t" for c
    using that by (auto simp: t_def url_stop_def dest: set_takeWhileD)
  ultimately have "\<not> is_ws c" if "c \<in> set m" for c
    using that head append_take_drop_id [of "length p" m] by (metis Un_iff set_append)
  then show ?thesis by (auto simp: list_ex_iff)
qed

lemma js_trim_no_ws: "\<not> list_ex is_ws s \<Longrightarrow> js_trim s = s"
  by (cases "s = []") (auto simp: list_ex_iff trimmed_def intro!: js_trim_trimmed)

lemma trim_trailing_spec:
  "\<exists>n \<le> length s. trim_trailing s = take n s \<and> (n = 0 \<or> \<not> trailing_dropped (take n s))
     \<and> (\<forall>m. n < m \<and> m \<le> length s \<longrightarrow> trailing_dropped (take m s))"
proof (induction s rule: trim_trailing.induct)
  case (1 s)
  show ?case
  proof (cases "s \<noteq> [] \<and> trailing_dropped s")
    case True
    with 1 obtain n where n: "n \<le> length (butlast s)" "trim_trailing (butlast s) = take n (butlast s)"
      "n = 0 \<or> \<not> trailing_dropped (take n (butlast s))"
      "\<forall>m. n < m \<and> m \<le> length (butlast s) \<longrightarrow> trailing_dropped (take m (butlast s))" by auto
    have tk: "take k (butlast s) = take k s" if "k \<le> length (butlast s)" for k
      using that by (simp add: butlast_conv_take)
    have "trailing_dropped (take m s)" if "n < m" "m \<le> length s" for m
    proof (cases "m = length s")
      case True
      with \<open>s \<noteq> [] \<and> trailing_dropped s\<close> show ?thesis by simp
    next
      case False
      with that have "m \<le> length (butlast s)" by simp
      with n(4) that tk show ?thesis by metis
    qed
    with True n tk show ?thesis
      by (intro exI [of _ n]) (auto simp: trim_trailing.simps [of s])
  next
    case False
    then show ?thesis
      by (intro exI [of _ "length s"]) (auto simp: trim_trailing.simps [of s])
  qed
qed

lemma trim_trailing_prefix: "\<exists>zs. s = trim_trailing s @ zs"
  using trim_trailing_spec [of s] by (metis append_take_drop_id)

lemma trim_trailing_fixed: "s = [] \<or> \<not> trailing_dropped s \<Longrightarrow> trim_trailing s = s"
  by (auto simp: trim_trailing.simps [of s])

text \<open>
  C11: \<open>trimUrlPunctuation\<close> returns the longest prefix of the trimmed text that does not end in
  punctuation to be dropped: the loop over \<open>slice(0, -1)\<close> agrees with that specification, for
  every text.
\<close>

theorem trim_punctuation_longest_prefix:
  "\<exists>n \<le> length (js_trim value). trimUrlPunctuation value = take n (js_trim value)
     \<and> (n = 0 \<or> \<not> trailing_dropped (trimUrlPunctuation value))
     \<and> (\<forall>m. n < m \<and> m \<le> length (js_trim value) \<longrightarrow> trailing_dropped (take m (js_trim value)))"
  using trim_trailing_spec [of "js_trim value"] unfolding trimUrlPunctuation_def by auto

theorem trim_punctuation_longest_prefix_witness:
  "\<exists>n \<le> 2. trimUrlPunctuation (js ''a.'') = take n (js ''a.'') \<and> (\<forall>m. n < m \<and> m \<le> 2 \<longrightarrow> trailing_dropped (take m (js ''a.'')))"
proof -
  have "js_trim (js ''a.'') = js ''a.''" by (simp add: js_def js_trim_def js_trim_end_def is_ws_def)
  then show ?thesis
    using trim_punctuation_longest_prefix [of "js ''a.''"] by (auto simp: numeral_2_eq_2)
qed

lemma candidate_trimmed: "find_url s = Some (before, m, rest) \<Longrightarrow> trimUrlPunctuation m = trim_trailing m"
  by (simp add: trimUrlPunctuation_def js_trim_no_ws [OF candidate_no_ws])

lemma parseHttpUrl_http: "parseHttpUrl U v = Some u \<Longrightarrow> is_http u"
  by (auto simp: parseHttpUrl_def Let_def split: option.splits if_splits)

lemma text_parts_None: "find_url s = None \<Longrightarrow> text_parts U s = (if s = [] then [] else [plain_part s])"
  by (simp add: text_parts.simps [of U s])

lemma text_parts_Some:
  assumes "find_url s = Some (before, m, rest)" and "m = trimUrlPunctuation m @ zs"
  shows "text_parts U s =
     (if before = [] then [] else [plain_part before])
     @ \<lparr>tp_value = trimUrlPunctuation m,
         tp_url = map_option url_href (parseHttpUrl U (Some (trimUrlPunctuation m)))\<rparr>
     # (if zs = [] then [] else [plain_part zs]) @ text_parts U rest"
proof -
  have "length (trimUrlPunctuation m) < length m \<longleftrightarrow> zs \<noteq> []" and "drop (length (trimUrlPunctuation m)) m = zs"
    using arg_cong [OF assms(2), of length] arg_cong [OF assms(2), of "drop (length (trimUrlPunctuation m))"] by auto
  then show ?thesis
    by (subst text_parts.simps) (simp add: assms(1))
qed

lemma candidate_split: "find_url s = Some (before, m, rest) \<Longrightarrow> \<exists>zs. m = trimUrlPunctuation m @ zs"
  using trim_trailing_prefix [of m] by (simp add: candidate_trimmed)

lemma text_parts_lossless: "concat (map tp_value (text_parts U s)) = s"
proof (induction U s rule: text_parts.induct)
  case (1 U s)
  show ?case
  proof (cases "find_url s")
    case None
    then show ?thesis by (simp add: text_parts_None plain_part_def)
  next
    case (Some r)
    obtain before m rest where r: "r = (before, m, rest)" by (cases r)
    have IH: "concat (map tp_value (text_parts U rest)) = rest" using 1 Some r by blast
    have s: "s = before @ m @ rest" using find_url_parts Some r by blast
    obtain zs where zs: "m = trimUrlPunctuation m @ zs" using candidate_split Some r by blast
    have "concat (map tp_value (text_parts U s)) = before @ (trimUrlPunctuation m @ zs) @ rest"
      unfolding text_parts_Some [OF Some [unfolded r] zs] by (simp add: IH plain_part_def)
    also have "\<dots> = s" by (simp only: zs [symmetric] s)
    finally show ?thesis .
  qed
qed

lemma text_parts_http:
  "p \<in> set (text_parts U s) \<Longrightarrow> tp_url p = Some h \<Longrightarrow> \<exists>u. parseHttpUrl U (Some (tp_value p)) = Some u \<and> url_href u = h"
proof (induction U s rule: text_parts.induct)
  case (1 U s)
  show ?case
  proof (cases "find_url s")
    case None
    with "1.prems" show ?thesis by (simp add: text_parts_None plain_part_def split: if_splits)
  next
    case (Some r)
    obtain before m rest where r: "r = (before, m, rest)" by (cases r)
    obtain zs where zs: "m = trimUrlPunctuation m @ zs" using candidate_split Some r by blast
    have "p \<in> set (text_parts U rest) \<Longrightarrow> ?thesis" using "1.IH" Some r "1.prems"(2) by blast
    with "1.prems" Some r zs show ?thesis
      by (auto simp: text_parts_Some plain_part_def split: if_splits)
  qed
qed

text \<open>
  C10: Splitting a text into parts loses nothing: the values of the parts, put together, are the
  text. A part that is a link leads to an \<open>http:\<close> or \<open>https:\<close> URL parsed from the part's own text.
\<close>

theorem text_parts_cover_text:
  "concat (map tp_value (messageTextParts U t)) = t
   \<and> (\<forall>p \<in> set (messageTextParts U t). \<forall>h. tp_url p = Some h \<longrightarrow>
        (\<exists>u. parseHttpUrl U (Some (tp_value p)) = Some u \<and> url_href u = h \<and> is_http u))"
proof -
  have "messageTextParts U t = text_parts U t \<or> messageTextParts U t = [plain_part t] "
    by (simp add: messageTextParts_def Let_def)
  then show ?thesis
    using text_parts_lossless [of U t] text_parts_http [of _ U t] parseHttpUrl_http
    by (elim disjE) (simp_all add: plain_part_def, blast)
qed

theorem text_parts_cover_text_witness:
  "concat (map tp_value (messageTextParts (\<lambda>_. None) (js ''see https://a.b.''))) = js ''see https://a.b.''"
  using text_parts_cover_text [of "\<lambda>_. None" "js ''see https://a.b.''"] by blast

lemma extractFirst_http: "extractFirstHttpUrl U t = Some u \<Longrightarrow> is_http u"
proof -
  assume "extractFirstHttpUrl U t = Some u"
  then have "u \<in> set (List.map_filter (\<lambda>m. parseHttpUrl U (Some m)) (all_urls t))"
    by (auto simp: extractFirstHttpUrl_def split: list.splits)
  then show ?thesis by (auto simp: List.map_filter_def dest: parseHttpUrl_http)
qed

lemma classifyLink_url [simp]: "ml_url (classifyLink H u) = url_href u"
  by (simp add: classifyLink_def githubLink_def youtubeLink_def twitterLink_def genericLink_def Let_def)

lemma analysis_pure: "ca_isPureUrl (analyzeMessageContent H U content rawUrl) \<longleftrightarrow>
    (\<exists>c. content = Some c \<and> js_trim c \<noteq> [] \<and> \<not> list_ex is_ws (js_trim c) \<and> parseHttpUrl U (Some (js_trim c)) \<noteq> None)"
  by (simp add: analyzeMessageContent_def Let_def split: option.splits)

lemma analysis_link: "ca_link (analyzeMessageContent H U content rawUrl) =
    map_option (classifyLink H)
      (case parseHttpUrl U rawUrl of Some u \<Rightarrow> Some u
       | None \<Rightarrow> extractFirstHttpUrl U (case content of Some c \<Rightarrow> js_trim c | None \<Rightarrow> []))"
  by (simp add: analyzeMessageContent_def Let_def)

lemma analysis_text_kept:
  "\<not> ca_isPureUrl (analyzeMessageContent H U (Some c) rawUrl) \<Longrightarrow> js_trim c \<noteq> [] \<Longrightarrow>
   ca_text (analyzeMessageContent H U (Some c) rawUrl) = Some (js_trim c)"
  unfolding analyzeMessageContent_def Let_def content_analysis.simps option.case
  by (simp split: option.split)

lemma analysis_url_kept:
  "js_trim r \<noteq> [] \<Longrightarrow> ca_link (analyzeMessageContent H U content (Some r)) = None \<Longrightarrow>
   ca_text (analyzeMessageContent H U content (Some r)) \<noteq> None"
  unfolding analyzeMessageContent_def Let_def content_analysis.simps option.case
  by simp

lemma analysis_link_http: "ca_link (analyzeMessageContent H U content rawUrl) = Some l \<Longrightarrow>
    \<exists>u. is_http u \<and> l = classifyLink H u \<and> ml_url l = url_href u"
  unfolding analysis_link by (auto split: option.splits intro: parseHttpUrl_http extractFirst_http)

lemma all_urls_whole: "match_candidate t = Some (length t) \<Longrightarrow> all_urls t = [t]"
proof -
  assume m: "match_candidate t = Some (length t)"
  then obtain c s where t: "t = c # s" using match_candidate_length [OF m] by (cases t) auto
  then have "find_url t = Some ([], t, [])" using m by simp
  moreover have "all_urls [] = []" by (simp add: all_urls.simps)
  ultimately show ?thesis by (simp add: all_urls.simps [of t])
qed

lemma first_None:
  "(case List.map_filter f xs of [] \<Rightarrow> None | u # _ \<Rightarrow> Some u) = None \<longleftrightarrow> (\<forall>x \<in> set xs. f x = None)"
  by (induction xs) (auto simp: List.map_filter_simps split: option.splits)

lemma extract_None: "extractFirstHttpUrl U t = None \<longleftrightarrow> (\<forall>m \<in> set (all_urls t). parseHttpUrl U (Some m) = None)"
  unfolding extractFirstHttpUrl_def by (rule first_None)

lemma extract_whole: "match_candidate t = Some (length t) \<Longrightarrow> extractFirstHttpUrl U t = parseHttpUrl U (Some t)"
  by (simp add: extractFirstHttpUrl_def all_urls_whole List.map_filter_simps split: option.splits)


text \<open>A parser that knows two texts, and a host for ASCII.\<close>

definition sample_url :: "jstr \<Rightarrow> jstr \<Rightarrow> jstr \<Rightarrow> url" where
  "sample_url href hostname pathname =
     \<lparr>url_href = href, url_protocol = js ''https:'', url_hostname = hostname, url_pathname = pathname, url_searchParams = []\<rparr>"

definition sample_parser :: url_parser where
  "sample_parser s =
     (if s = js ''https:yes'' then Some (sample_url (js ''https://yes/'') (js ''yes'') (js ''/''))
      else if s = js ''https://youtu.be'' then
        Some (sample_url (js ''https://youtu.be/'') (js ''youtu.be'') (js ''/''))
      else None)"

definition ascii_host :: host where
  "ascii_host = \<lparr>to_lower = ascii_lower, to_upper = id, locale_compare = (\<lambda>s t. 0)\<rparr>"

lemmas url_eval =
  js_def is_ws_def js_trim_def js_trim_end_def trimUrlPunctuation_def trailing_dropped_def
  SIMPLE_TRAILING_PUNCTUATION_def CLOSING_PAIRS_def occurrences_def starts_with_ci_def ascii_lower_def
  match_candidate_def url_stop_def sample_parser_def sample_url_def is_http_def

lemma sample_ok: "parseHttpUrl sample_parser (Some (js ''ok'')) = None" "js_trim (js ''ok'') = js ''ok''"
  by (simp_all add: parseHttpUrl_def url_eval trim_trailing.simps)


text \<open>The exception is real: \<open>https:yes\<close> parses (as \<open>https://yes/\<close>), is no candidate, and nothing of it is shown.\<close>

lemma sample_yes:
  "js_trim (js ''https:yes'') = js ''https:yes''" "\<not> list_ex is_ws (js ''https:yes'')"
  "parseHttpUrl sample_parser (Some (js ''https:yes'')) = Some (sample_url (js ''https://yes/'') (js ''yes'') (js ''/''))"
  "find_url (js ''https:yes'') = None"
  by (simp_all add: parseHttpUrl_def url_eval trim_trailing.simps)

lemma bare_scheme_url_lost:
  "ca_text (analyzeMessageContent ascii_host sample_parser (Some (js ''https:yes'')) None) = None
   \<and> ca_link (analyzeMessageContent ascii_host sample_parser (Some (js ''https:yes'')) None) = None"
proof -
  have "all_urls (js ''https:yes'') = []" by (simp add: all_urls.simps sample_yes)
  moreover have "parseHttpUrl sample_parser None = None" by (simp add: parseHttpUrl_def)
  ultimately show ?thesis
    by (simp add: analyzeMessageContent_def sample_yes extractFirstHttpUrl_def Let_def List.map_filter_def)
qed

text \<open>A link to \<open>https://youtu.be\<close> names no video, and its preview shows the video \<open>undefined\<close>.\<close>

lemma undefined_candidate:
  "youtubeVideoId ascii_host (sample_url (js ''https://youtu.be/'') (js ''youtu.be'') (js ''/'')) = UndefinedText"
  by (simp add: youtubeVideoId_def video_candidate_def ascii_host_def sample_url_def strip_www_def pathSegments_def
      text_at_def at_index_def video_id_pattern_def video_id_char_def is_digit_def js_def starts_with_ci_def ascii_lower_def)

lemma youtubeLink_video [simp]: "ml_youtubeVideoId (youtubeLink H u) = youtubeVideoId H u"
  by (simp add: youtubeLink_def Let_def)

lemma undefined_video:
  "thumbnailUrl (youtubeLink ascii_host (sample_url (js ''https://youtu.be/'') (js ''youtu.be'') (js ''/'')))
   = Some (js ''https://i.ytimg.com/vi/undefined/hqdefault.jpg'')"
  by (simp add: thumbnailUrl_def undefined_candidate) (simp add: js_def)

text \<open>
  What a card shows: a message with nothing to show says so, and says so only then; the one
  case in which nothing is rendered is a cached medium that is neither an image nor a sound, on
  a message with neither text nor link.
\<close>

theorem card_never_silent:
  fixes H U m
  defines "v \<equiv> render_message H U m"
  shows "(mv_note v \<noteq> None \<longleftrightarrow>
            mv_image v = None \<and> mv_audio v = None \<and> mv_text v = None \<and> mv_link v = None
            \<and> mp_mediaUrl m = None)
    \<and> (mv_image v = None \<and> mv_audio v = None \<and> mv_text v = None \<and> mv_link v = None \<and> mv_note v = None \<longleftrightarrow>
         mp_mediaUrl m \<noteq> None
         \<and> \<not> isImageMessage H (mp_mediaType m) (mp_mimeType m) \<and> \<not> isAudioMessage H (mp_mediaType m) (mp_mimeType m)
         \<and> ca_text (analyzeMessageContent H U (mp_content m) (mp_url m)) = None
         \<and> ca_link (analyzeMessageContent H U (mp_content m) (mp_url m)) = None)"
proof (cases "ca_link (analyzeMessageContent H U (mp_content m) (mp_url m))")
  case None
  then have "displayed_text U (analyzeMessageContent H U (mp_content m) (mp_url m)) d
      = ca_text (analyzeMessageContent H U (mp_content m) (mp_url m))" for d
    by (simp add: displayed_text_def split: option.split)
  with None show ?thesis unfolding v_def render_message_def Let_def by auto
next
  case (Some l)
  then show ?thesis unfolding v_def render_message_def Let_def by auto
qed

end
