(* ===== verification/MessageCard.thy ===== *)
theory MessageCard
  imports MessageContent Categories OrgEvents ApiMessages
begin

text \<open>
  \<open>components/messages/message-card.tsx\<close> and \<open>message-detail.tsx\<close>: the labels of a message
  (kind of medium, age, file size), the card's action menu and its keyboard, and the start of a
  drag. The date parser, the clock and \<open>Intl.RelativeTimeFormat\<close> are parameters.
\<close>

section \<open>Labels\<close>

definition card_icon_map :: "(jstr \<times> string) list" where
  "card_icon_map =
     [(js ''video'', ''Video''), (js ''music'', ''Music2''), (js ''link'', ''Link2''), (js ''code'', ''Code2''),
      (js ''image'', ''ImageIcon''), (js ''file-text'', ''FileText''), (js ''message-square'', ''MessageSquareText''),
      (js ''archive'', ''Archive'')]"

definition card_category_icon :: "host \<Rightarrow> jstr \<Rightarrow> category_icon" where
  "card_category_icon H iconName =
     (let k = to_lower H iconName
      in case map_of card_icon_map k of
           Some i \<Rightarrow> Icon i
         | None \<Rightarrow> if k = js ''constructor'' then InheritedMember ''constructor''
                   else if k = js ''__proto__'' then InheritedMember ''__proto__''
                   else FolderKanban)"

datatype media_presentation = VideoMedia | AudioMedia | ImageMedia | DocumentMedia | OtherMedia | LinkMedia | TextMedia

definition lowered :: "host \<Rightarrow> jstr option \<Rightarrow> jstr" where
  "lowered H v = (case v of Some t \<Rightarrow> to_lower H t | None \<Rightarrow> [])"

definition resolveMediaPresentation :: "host \<Rightarrow> jstr option \<Rightarrow> jstr option \<Rightarrow> bool \<Rightarrow> media_presentation" where
  "resolveMediaPresentation H mediaType mimeType hasUrl =
     (let t = lowered H mediaType; mime = lowered H mimeType
      in if js_includes t (js ''video'') \<or> js_includes t (js ''animation'') \<or> starts_with mime (js ''video/'') then VideoMedia
         else if js_includes t (js ''audio'') \<or> js_includes t (js ''voice'') \<or> starts_with mime (js ''audio/'') then AudioMedia
         else if js_includes t (js ''photo'') \<or> js_includes t (js ''image'') \<or> starts_with mime (js ''image/'') then ImageMedia
         else if js_includes t (js ''document'') \<or> js_includes t (js ''file'') \<or> js_includes t (js ''pdf'') \<or> mime \<noteq> []
         then DocumentMedia
         else if t \<noteq> [] \<and> t \<noteq> js ''text'' then OtherMedia
         else if hasUrl then LinkMedia
         else TextMedia)"

definition has_url :: "jstr option \<Rightarrow> bool" where
  "has_url u = (case u of Some t \<Rightarrow> js_trim t \<noteq> [] | None \<Rightarrow> False)"

text \<open>\<open>Math.round\<close>.\<close>

definition js_round :: "rat \<Rightarrow> int" where
  "js_round q = \<lfloor>q + 1 / 2\<rfloor>"

datatype time_unit = Minute | Hour | Day | Week | Month | Year

definition unit_ms :: "time_unit \<Rightarrow> int" where
  "unit_ms u =
     (let minuteMs = 60 * 1000; hourMs = 60 * minuteMs; dayMs = 24 * hourMs
      in case u of Minute \<Rightarrow> minuteMs | Hour \<Rightarrow> hourMs | Day \<Rightarrow> dayMs | Week \<Rightarrow> 7 * dayMs | Month \<Rightarrow> 30 * dayMs | Year \<Rightarrow> 365 * dayMs)"

definition relative_unit :: "int \<Rightarrow> time_unit" where
  "relative_unit absDiff =
     (if absDiff < unit_ms Hour then Minute
      else if absDiff < unit_ms Day then Hour
      else if absDiff < unit_ms Week then Day
      else if absDiff < unit_ms Month then Week
      else if absDiff < unit_ms Year then Month
      else Year)"

text \<open>The time value of a date text is a whole number of milliseconds, or none (\<open>NaN\<close>).\<close>

definition formatRelativeDate ::
    "(jstr \<Rightarrow> int option) \<Rightarrow> int \<Rightarrow> (int \<Rightarrow> time_unit \<Rightarrow> jstr) \<Rightarrow> jstr \<Rightarrow> jstr" where
  "formatRelativeDate parse_date now formatter isoDate =
     (case parse_date isoDate of
        None \<Rightarrow> js ''Unknown date''
      | Some t \<Rightarrow>
          (let diffMs = t - now; u = relative_unit \<bar>diffMs\<bar>
           in formatter (js_round (of_int diffMs / of_int (unit_ms u))) u))"

section \<open>File sizes\<close>

definition SIZE_UNITS :: "jstr list" where
  "SIZE_UNITS = [js ''B'', js ''KB'', js ''MB'', js ''GB'', js ''TB'']"

text \<open>The loop that divides by 1024 while a larger unit is left.\<close>

function size_loop :: "rat \<Rightarrow> nat \<Rightarrow> rat \<times> nat" where
  "size_loop v unitIndex =
     (if 1024 \<le> v \<and> unitIndex < length SIZE_UNITS - 1 then size_loop (v / 1024) (unitIndex + 1) else (v, unitIndex))"
  by pat_completeness auto
termination
  by (relation "measure (\<lambda>(v, i). length SIZE_UNITS - i)") auto

declare size_loop.simps [simp del]

text \<open>\<open>value.toFixed(p)\<close> of a number that is not negative: the nearest multiple of \<open>10^-p\<close>, halves up.\<close>

definition pad_digits :: "nat \<Rightarrow> nat \<Rightarrow> jstr" where
  "pad_digits p n = (let ds = nat_str n in replicate (p - length ds) 48 @ ds)"

definition to_fixed :: "nat \<Rightarrow> rat \<Rightarrow> jstr" where
  "to_fixed p v =
     (let n = nat \<lfloor>v * 10 ^ p + 1 / 2\<rfloor>
      in if p = 0 then nat_str n else nat_str (n div 10 ^ p) @ [46] @ pad_digits p (n mod 10 ^ p))"

definition size_precision :: "rat \<Rightarrow> nat \<Rightarrow> nat" where
  "size_precision v unitIndex = (if 100 \<le> v \<or> unitIndex = 0 then 0 else if 10 \<le> v then 1 else 2)"

definition formatFileSize :: "jsnum option \<Rightarrow> jstr option" where
  "formatFileSize bytes =
     (case bytes of
        Some (Fin q) \<Rightarrow>
          if q \<le> 0 then None
          else let (v, unitIndex) = size_loop q 0
               in Some (to_fixed (size_precision v unitIndex) v @ [32] @ (SIZE_UNITS ! unitIndex))
      | _ \<Rightarrow> None)"

definition shows_file_details :: "message_item \<Rightarrow> bool" where
  "shows_file_details m \<longleftrightarrow> msg_media_type m \<noteq> None \<or> msg_file_name m \<noteq> None \<or> msg_mime_type m \<noteq> None"

definition hasRawData :: "(jstr \<times> json) list \<Rightarrow> bool" where
  "hasRawData rawData \<longleftrightarrow> 0 < length rawData"

section \<open>The card\<close>

text \<open>Where the next animation frame moves the focus.\<close>

datatype focus_target = FocusFirst | FocusLast | FocusTrigger | FocusItem nat

record message_card =
  mc_isActionsOpen :: bool
  mc_isDragging :: bool

definition card_initial :: message_card where
  "card_initial = \<lparr>mc_isActionsOpen = False, mc_isDragging = False\<rparr>"

definition openActionsMenu :: "focus_target \<Rightarrow> message_card \<Rightarrow> message_card \<times> focus_target option" where
  "openActionsMenu target c = (c\<lparr>mc_isActionsOpen := True\<rparr>, Some target)"

definition closeActionsMenu :: "bool \<Rightarrow> message_card \<Rightarrow> message_card \<times> focus_target option" where
  "closeActionsMenu restoreFocus c =
     (c\<lparr>mc_isActionsOpen := False\<rparr>, if restoreFocus then Some FocusTrigger else None)"

definition trigger_click :: "message_card \<Rightarrow> message_card \<times> focus_target option" where
  "trigger_click c = (if mc_isActionsOpen c then closeActionsMenu True c else openActionsMenu FocusFirst c)"

definition handleTriggerKeyDown :: "jstr \<Rightarrow> message_card \<Rightarrow> message_card \<times> focus_target option" where
  "handleTriggerKeyDown key c =
     (if key \<noteq> js ''ArrowDown'' \<and> key \<noteq> js ''ArrowUp'' then (c, None)
      else openActionsMenu (if key = js ''ArrowUp'' then FocusLast else FocusFirst) c)"

text \<open>\<open>items.indexOf(document.activeElement)\<close> is -1 when the focus is on none of them.\<close>

definition next_index :: "jstr \<Rightarrow> nat \<Rightarrow> int \<Rightarrow> int" where
  "next_index key n currentIndex =
     (if key = js ''Home'' then 0
      else if key = js ''End'' then int n - 1
      else if key = js ''ArrowDown'' then (if currentIndex < 0 then 0 else (currentIndex + 1) mod int n)
      else if currentIndex \<le> 0 then int n - 1 else currentIndex - 1)"

definition handleActionsMenuKeyDown :: "jstr \<Rightarrow> nat \<Rightarrow> int \<Rightarrow> message_card \<Rightarrow> message_card \<times> focus_target option" where
  "handleActionsMenuKeyDown key items currentIndex c =
     (if key = js ''Escape'' then closeActionsMenu True c
      else if key \<notin> {js ''ArrowDown'', js ''ArrowUp'', js ''Home'', js ''End''} then (c, None)
      else if items = 0 then (c, None)
      else (c, Some (FocusItem (nat (next_index key items currentIndex)))))"

definition handleOutsideClick :: "bool \<Rightarrow> message_card \<Rightarrow> message_card" where
  "handleOutsideClick inside c = (if mc_isActionsOpen c \<and> \<not> inside then c\<lparr>mc_isActionsOpen := False\<rparr> else c)"

definition handleEscape :: "jstr \<Rightarrow> message_card \<Rightarrow> message_card \<times> focus_target option" where
  "handleEscape key c =
     (if mc_isActionsOpen c \<and> key = js ''Escape'' then (c\<lparr>mc_isActionsOpen := False\<rparr>, Some FocusTrigger) else (c, None))"

text \<open>A choice of the menu: the request it makes and the card after it.\<close>

datatype card_request = OpenDetail int | MoveMessage int | TagMessage int | DeleteMessage int

definition menu_choice :: "bool \<Rightarrow> card_request \<Rightarrow> message_card \<Rightarrow> card_request list \<times> message_card" where
  "menu_choice isDeletePending req c =
     (case req of
        DeleteMessage i \<Rightarrow> if isDeletePending then ([], c) else ([req], c\<lparr>mc_isActionsOpen := False\<rparr>)
      | _ \<Rightarrow> ([req], c\<lparr>mc_isActionsOpen := False\<rparr>))"

record drag_outcome =
  do_prevented :: bool
  do_transfer :: "data_transfer option"
  do_effectAllowed :: "jstr option"
  do_events :: "dom_event list"

definition handleDragStart ::
    "bool \<Rightarrow> bool \<Rightarrow> message_item \<Rightarrow> data_transfer option \<Rightarrow> message_card \<Rightarrow> drag_outcome \<times> message_card" where
  "handleDragStart window isDeletePending m dt c =
     (if isDeletePending then (\<lparr>do_prevented = True, do_transfer = dt, do_effectAllowed = None, do_events = []\<rparr>, c)
      else (\<lparr>do_prevented = False, do_transfer = setDraggedMessageId dt (msg_id m),
             do_effectAllowed = (if dt = None then None else Some (js ''move'')),
             do_events = announceMessageDragStart window
               \<lparr>dd_messageId = msg_id m, dd_categoryId = mc_id (msg_category m)\<rparr>\<rparr>,
            c\<lparr>mc_isActionsOpen := False, mc_isDragging := True\<rparr>))"

definition handleDragEnd :: "bool \<Rightarrow> message_card \<Rightarrow> dom_event list \<times> message_card" where
  "handleDragEnd window c = (announceMessageDragEnd window, c\<lparr>mc_isDragging := False\<rparr>)"

section \<open>Properties\<close>

lemma size_loop_spec:
  assumes "i \<le> 4" and "i = 0 \<or> 1 \<le> v"
  shows "\<exists>k. size_loop v i = (v / 1024 ^ k, i + k) \<and> i + k \<le> 4 \<and> (i + k < 4 \<longrightarrow> v / 1024 ^ k < 1024)
    \<and> (0 < k \<longrightarrow> 1 \<le> v / 1024 ^ k)"
  using assms
proof (induction v i rule: size_loop.induct)
  case (1 v i)
  have len: "length SIZE_UNITS - 1 = 4" by (simp add: SIZE_UNITS_def)
  show ?case
  proof (cases "1024 \<le> v \<and> i < 4")
    case True
    then have "i + 1 \<le> 4" and "1 \<le> v / 1024" by simp_all
    with 1 True len obtain k where k: "size_loop (v / 1024) (i + 1) = (v / 1024 / 1024 ^ k, i + 1 + k)" "i + 1 + k \<le> 4"
      "i + 1 + k < 4 \<longrightarrow> v / 1024 / 1024 ^ k < 1024" "0 < k \<longrightarrow> 1 \<le> v / 1024 / 1024 ^ k" by auto
    have "size_loop v i = size_loop (v / 1024) (i + 1)"
      by (subst size_loop.simps) (use True len in simp)
    moreover have "1 \<le> v / 1024 / 1024 ^ k" using k(4) \<open>1 \<le> v / 1024\<close> by (cases k) auto
    ultimately show ?thesis using k
      by (intro exI [of _ "Suc k"]) (simp add: divide_divide_eq_left)
  next
    case False
    then have "size_loop v i = (v, i)" by (subst size_loop.simps) (use len in auto)
    with False 1 show ?thesis by (intro exI [of _ 0]) auto
  qed
qed

text \<open>
  The loop of \<open>formatFileSize\<close> returns, with the unit that fits: for a file of \<open>q\<close> bytes it is
  the largest of B, KB, MB, GB and TB of which there is at least one, and the value is \<open>q\<close> in that
  unit; below 1024 of it unless the unit is TB.
\<close>

theorem file_size_unit:
  assumes "0 < q"
  shows "\<exists>v i. size_loop q 0 = (v, i) \<and> v = q / 1024 ^ i \<and> i \<le> 4
    \<and> (\<forall>j \<le> 4. (1024 ^ j \<le> q \<longrightarrow> j \<le> i)) \<and> (i = 0 \<or> 1024 ^ i \<le> q)
    \<and> formatFileSize (Some (Fin q)) = Some (to_fixed (size_precision v i) v @ [32] @ (SIZE_UNITS ! i))"
proof -
  obtain i where i: "size_loop q 0 = (q / 1024 ^ i, i)" "i \<le> 4" "i < 4 \<longrightarrow> q / 1024 ^ i < 1024" "0 < i \<longrightarrow> 1 \<le> q / 1024 ^ i"
    using size_loop_spec [of 0 q] by auto
  have "j \<le> i" if "j \<le> 4" "1024 ^ j \<le> q" for j
  proof (rule ccontr)
    assume "\<not> j \<le> i"
    then have "Suc i \<le> j" and "i < 4" using that by auto
    then have "q < 1024 ^ Suc i" using i(3) by (simp add: pos_divide_less_eq)
    moreover have "(1024::rat) ^ Suc i \<le> 1024 ^ j" using \<open>Suc i \<le> j\<close> by (intro power_increasing) auto
    ultimately show False using that(2) by linarith
  qed
  moreover have "i = 0 \<or> 1024 ^ i \<le> q" using i(4) by (cases "i = 0") (auto simp: le_divide_eq)
  moreover have "formatFileSize (Some (Fin q)) =
      Some (to_fixed (size_precision (q / 1024 ^ i) i) (q / 1024 ^ i) @ [32] @ (SIZE_UNITS ! i))"
    using assms i(1) by (simp add: formatFileSize_def)
  ultimately show ?thesis using i by (intro exI [of _ "q / 1024 ^ i"] exI [of _ i]) blast
qed

lemma size_loop_1536: "size_loop 1536 0 = (3 / 2, Suc 0)"
  by (simp add: size_loop.simps [of 1536 0] size_loop.simps [of "3 / 2" "Suc 0"] SIZE_UNITS_def)

theorem file_size_unit_witness:
  "formatFileSize (Some (Fin 1536)) = Some (to_fixed 2 (3 / 2) @ [32] @ js ''KB'')"
proof -
  have "(0::rat) < 1536" by simp
  from file_size_unit [OF this] obtain v i where "size_loop 1536 0 = (v, i)"
    and f: "formatFileSize (Some (Fin 1536)) = Some (to_fixed (size_precision v i) v @ [32] @ (SIZE_UNITS ! i))"
    by blast
  then have "v = 3 / 2" and "i = Suc 0" using size_loop_1536 by simp_all
  with f show ?thesis by (simp add: size_precision_def SIZE_UNITS_def)
qed

text \<open>
  The number is rounded after the unit is chosen: just below a unit's end it shows 1024 of the
  smaller unit instead of one of the larger.
\<close>

lemma size_just_below_a_megabyte: "formatFileSize (Some (Fin 1048575)) = Some (js ''1024 KB'')"
proof -
  have "size_loop 1048575 0 = (1048575 / 1024, Suc 0)"
    by (simp add: size_loop.simps [of 1048575 0] size_loop.simps [of "1048575 / 1024" "Suc 0"] SIZE_UNITS_def)
  moreover have "\<lfloor>1049087 / (1024 :: rat)\<rfloor> = 1024" by (rule floor_unique) simp_all
  moreover have "nat_str 1024 = js ''1024''" by (simp add: nat_str.simps js_def)
  ultimately show ?thesis
    by (simp add: formatFileSize_def size_precision_def to_fixed_def SIZE_UNITS_def js_def)
qed

text \<open>
  The arrow keys never leave the menu: with any number of items and the focus on any of them
  or on none, the item that gets the focus exists; down and up undo each other, going round at
  both ends; Escape closes the menu and gives the focus back to its button.
\<close>

theorem menu_keys_stay_inside:
  assumes "0 < n" and "- 1 \<le> i" and "i < int n"
  shows "(\<forall>key j. snd (handleActionsMenuKeyDown key n i c) = Some (FocusItem j) \<longrightarrow> j < n)
    \<and> (0 \<le> i \<longrightarrow> next_index (js ''ArrowUp'') n (next_index (js ''ArrowDown'') n i) = i
                  \<and> next_index (js ''ArrowDown'') n (next_index (js ''ArrowUp'') n i) = i)
    \<and> handleActionsMenuKeyDown (js ''Escape'') n i c = (c\<lparr>mc_isActionsOpen := False\<rparr>, Some FocusTrigger)"
proof (intro conjI allI impI)
  fix key j
  assume *: "snd (handleActionsMenuKeyDown key n i c) = Some (FocusItem j)"
  have "0 \<le> next_index key n i \<and> next_index key n i < int n"
    using assms by (auto simp: next_index_def)
  with * show "j < n"
    by (auto simp: handleActionsMenuKeyDown_def closeActionsMenu_def split: if_splits)
next
  assume "0 \<le> i"
  have "(i + 1) mod int n = (if i = int n - 1 then 0 else i + 1)" using assms \<open>0 \<le> i\<close> by auto
  with assms \<open>0 \<le> i\<close> show "next_index (js ''ArrowUp'') n (next_index (js ''ArrowDown'') n i) = i"
    by (simp add: next_index_def)
  show "next_index (js ''ArrowDown'') n (next_index (js ''ArrowUp'') n i) = i"
    using assms \<open>0 \<le> i\<close> by (simp add: next_index_def)
qed (simp add: handleActionsMenuKeyDown_def closeActionsMenu_def)

theorem menu_keys_stay_inside_witness:
  "next_index (js ''ArrowUp'') 4 (next_index (js ''ArrowDown'') 4 3) = 3"
  using menu_keys_stay_inside [of 4 3 card_initial] by simp

end
