(* ===== verification/Dialogs.thy ===== *)
theory Dialogs
  imports MessagesFilters
begin

text \<open>
  \<open>hooks/use-modal-lifecycle.ts\<close> (what opening a modal does to the page behind it, and how the
  focus is kept inside), and the two dialogs of the messages page, \<open>move-dialog.tsx\<close> and
  \<open>tag-input.tsx\<close>.
\<close>

section \<open>The page behind a modal\<close>

text \<open>
  The part of the document the hook touches. Elements are numbers; \<open>pd_children\<close> are the
  children of \<open>body\<close> in order, \<open>pd_dialogs\<close> the modal dialogs in document order with their parent,
  \<open>pd_focusable\<close> what the focusable selector finds in a dialog, \<open>pd_listeners\<close> the modals whose
  key handler is installed. The children of \<open>body\<close> are the ones there are when the modal opens, its own
  portal among them; none is added or removed until it closes, and \<open>focus\<close> takes the focus to the
  element it is called on, which is connected and not inert then.
\<close>

record body_element =
  be_inert :: bool
  be_ariaHidden :: "jstr option"

record page_dom =
  pd_children :: "(nat \<times> body_element) list"
  pd_overflow :: jstr
  pd_active :: "nat option"
  pd_listeners :: "nat list"
  pd_dialogs :: "(nat \<times> nat) list"
  pd_focusable :: "nat \<Rightarrow> nat list"

text \<open>What the effect keeps for its cleanup.\<close>

record modal_snapshot =
  ms_modal :: nat
  ms_dialog :: "nat option"
  ms_overflow :: jstr
  ms_background :: "(nat \<times> body_element) list"
  ms_previouslyFocused :: "nat option"

definition focusableElements :: "nat option \<Rightarrow> page_dom \<Rightarrow> nat list" where
  "focusableElements dialog doc = (case dialog of None \<Rightarrow> [] | Some d \<Rightarrow> pd_focusable doc d)"

definition focus_on :: "nat \<Rightarrow> page_dom \<Rightarrow> page_dom" where
  "focus_on e doc = doc\<lparr>pd_active := Some e\<rparr>"

definition take_snapshot :: "nat \<Rightarrow> page_dom \<Rightarrow> modal_snapshot" where
  "take_snapshot k doc =
     (let dialog = (if pd_dialogs doc = [] then None else Some (last (pd_dialogs doc)))
      in \<lparr>ms_modal = k, ms_dialog = map_option fst dialog, ms_overflow = pd_overflow doc,
          ms_background = filter (\<lambda>(i, e). Some i \<noteq> map_option snd dialog) (pd_children doc),
          ms_previouslyFocused = pd_active doc\<rparr>)"

definition hide_background :: "modal_snapshot \<Rightarrow> page_dom \<Rightarrow> page_dom" where
  "hide_background snap doc =
     doc\<lparr>pd_overflow := js ''hidden'',
         pd_children := map (\<lambda>(i, e). if i \<in> fst ` set (ms_background snap)
           then (i, \<lparr>be_inert = True, be_ariaHidden = Some (js ''true'')\<rparr>) else (i, e)) (pd_children doc),
         pd_listeners := pd_listeners doc @ [ms_modal snap]\<rparr>"

definition focus_inside :: "modal_snapshot \<Rightarrow> page_dom \<Rightarrow> page_dom" where
  "focus_inside snap doc =
     (case focusableElements (ms_dialog snap) doc of
        first # _ \<Rightarrow> focus_on first doc
      | [] \<Rightarrow> (case ms_dialog snap of Some d \<Rightarrow> focus_on d doc | None \<Rightarrow> doc))"

definition open_modal :: "nat \<Rightarrow> page_dom \<Rightarrow> modal_snapshot \<times> page_dom" where
  "open_modal k doc = (let snap = take_snapshot k doc in (snap, focus_inside snap (hide_background snap doc)))"

text \<open>The cleanup.\<close>

definition close_modal :: "modal_snapshot \<Rightarrow> page_dom \<Rightarrow> page_dom" where
  "close_modal snap doc =
     (let doc = doc\<lparr>pd_overflow := ms_overflow snap, pd_listeners := remove1 (ms_modal snap) (pd_listeners doc),
            pd_children := map (\<lambda>(i, e). case map_of (ms_background snap) i of
              Some e0 \<Rightarrow> (i, e0) | None \<Rightarrow> (i, e)) (pd_children doc)\<rparr>
      in case ms_previouslyFocused snap of Some e \<Rightarrow> focus_on e doc | None \<Rightarrow> doc)"

text \<open>
  The key handler: whether the modal is asked to close, whether the browser's own handling is
  prevented, and the document after it.
\<close>

record key_event =
  ke_key :: jstr
  ke_shift :: bool

definition handleKeyDown :: "nat option \<Rightarrow> key_event \<Rightarrow> page_dom \<Rightarrow> bool \<times> bool \<times> page_dom" where
  "handleKeyDown dialog ev doc =
     (if ke_key ev = js ''Escape'' then (True, False, doc)
      else if ke_key ev \<noteq> js ''Tab'' then (False, False, doc)
      else let focusable = focusableElements dialog doc
           in case focusable of
                [] \<Rightarrow> (False, True, case dialog of Some d \<Rightarrow> focus_on d doc | None \<Rightarrow> doc)
              | first # _ \<Rightarrow>
                  if ke_shift ev \<and> pd_active doc = Some first then (False, True, focus_on (last focusable) doc)
                  else if \<not> ke_shift ev \<and> pd_active doc = Some (last focusable) then (False, True, focus_on first doc)
                  else (False, False, doc))"

section \<open>components/categories/move-dialog.tsx\<close>

definition sortedCategories :: "category list \<Rightarrow> category list" where
  "sortedCategories cs =
     js_sort (\<lambda>first second.
       if cat_position first \<noteq> cat_position second then cat_position first - cat_position second
       else cat_id first - cat_id second) cs"

text \<open>The selected category: \<open>None\<close> is \<open>null\<close>.\<close>

definition move_dialog_effect :: "bool \<Rightarrow> message_item option \<Rightarrow> jsnum option \<Rightarrow> jsnum option" where
  "move_dialog_effect isOpen message selected =
     (if \<not> isOpen then selected
      else case message of None \<Rightarrow> selected | Some m \<Rightarrow> Some (jint (msg_category_id m)))"

definition move_dialog_select :: "jstr \<Rightarrow> jsnum option" where
  "move_dialog_select v = (if num_is_finite (parse_int v) then Some (parse_int v) else None)"

definition move_can_submit :: "message_item \<Rightarrow> bool \<Rightarrow> jsnum option \<Rightarrow> bool" where
  "move_can_submit m isSubmitting selected \<longleftrightarrow>
     (case selected of
        None \<Rightarrow> False
      | Some c \<Rightarrow> num_less (jint 0) c \<and> c \<noteq> jint (msg_category_id m) \<and> \<not> isSubmitting)"

definition move_submit :: "message_item \<Rightarrow> bool \<Rightarrow> jsnum option \<Rightarrow> (int \<times> jsnum) option" where
  "move_submit m isSubmitting selected =
     (if move_can_submit m isSubmitting selected then map_option (\<lambda>c. (msg_id m, c)) selected else None)"

section \<open>components/tags/tag-input.tsx\<close>

definition assignedTagIds :: "message_item option \<Rightarrow> int list" where
  "assignedTagIds message = js_unique (case message of None \<Rightarrow> [] | Some m \<Rightarrow> map tag_id (msg_tags m))"

definition nextTagCandidates :: "host \<Rightarrow> message_tag list \<Rightarrow> message_item \<Rightarrow> message_tag list" where
  "nextTagCandidates H availableTags m =
     filter (\<lambda>t. tag_id t \<notin> set (assignedTagIds (Some m)))
       (js_sort (\<lambda>first second. locale_compare H (tag_name first) (tag_name second)) availableTags)"

definition tag_input_effect :: "bool \<Rightarrow> jstr \<Rightarrow> jstr" where
  "tag_input_effect isOpen newTagName = (if \<not> isOpen then newTagName else [])"

definition canCreateTag :: "bool \<Rightarrow> jstr \<Rightarrow> bool" where
  "canCreateTag isSubmitting newTagName \<longleftrightarrow> js_trim newTagName \<noteq> [] \<and> \<not> isSubmitting"

definition handleCreateTag_start :: "jstr \<Rightarrow> jstr option" where
  "handleCreateTag_start newTagName = (if js_trim newTagName = [] then None else Some newTagName)"

definition handleCreateTag_reply :: "bool \<Rightarrow> jstr \<Rightarrow> jstr" where
  "handleCreateTag_reply wasCreated newTagName = (if wasCreated then [] else newTagName)"

definition withAlpha :: "jstr option \<Rightarrow> jstr \<Rightarrow> jstr option" where
  "withAlpha color alphaHex =
     (case color of
        None \<Rightarrow> None
      | Some c \<Rightarrow>
          if length c = 7 \<and> hd c = 35 \<and> list_all (\<lambda>x. is_upper_hex x \<or> (97 \<le> x \<and> x \<le> 102)) (tl c)
          then Some (c @ alphaHex) else None)"

section \<open>Opening and closing restores the page\<close>

text \<open>What the page behind the modals looks like, whatever has the focus.\<close>

definition page_look :: "page_dom \<Rightarrow> (nat \<times> body_element) list \<times> jstr \<times> nat list" where
  "page_look doc = (pd_children doc, pd_overflow doc, pd_listeners doc)"

lemma page_look_focus [simp]: "page_look (focus_on e doc) = page_look doc" "page_look (focus_inside snap doc) = page_look doc"
  by (simp_all add: page_look_def focus_on_def focus_inside_def split: list.split option.split)

text \<open>
  Modals opened and closed in a proper nesting, with anything between that moves the focus or
  changes the dialogs but leaves the page behind them alone.
\<close>

inductive nested :: "page_dom \<Rightarrow> page_dom \<Rightarrow> bool" where
  nothing: "page_look d' = page_look d \<Longrightarrow> nested d d'"
| next_one: "nested d d' \<Longrightarrow> nested d' d'' \<Longrightarrow> nested d d''"
| around: "nested (snd (open_modal k d)) d' \<Longrightarrow> k \<notin> set (pd_listeners d) \<Longrightarrow>
    nested d (close_modal (fst (open_modal k d)) d')"

lemma close_modal_look:
  "page_look (close_modal snap doc) =
     (map (\<lambda>(i, e). case map_of (ms_background snap) i of Some e0 \<Rightarrow> (i, e0) | None \<Rightarrow> (i, e)) (pd_children doc),
      ms_overflow snap, remove1 (ms_modal snap) (pd_listeners doc))"
  by (simp add: close_modal_def page_look_def focus_on_def Let_def split: option.split)

lemma open_modal_look:
  "page_look (snd (open_modal k d)) = page_look (hide_background (take_snapshot k d) d)"
  "fst (open_modal k d) = take_snapshot k d"
  by (simp_all add: open_modal_def Let_def)

lemma restore_children:
  assumes "distinct (map fst xs)"
  shows "map (\<lambda>(i, e). case map_of (filter (\<lambda>(i, e). P i) xs) i of Some e0 \<Rightarrow> (i, e0) | None \<Rightarrow> (i, e))
      (map (\<lambda>(i, e). if i \<in> fst ` set (filter (\<lambda>(i, e). P i) xs) then (i, h) else (i, e)) xs) = xs"
proof -
  have found: "map_of (filter (\<lambda>(i, e). P i) xs) i = (if P i then Some e else None)" if "(i, e) \<in> set xs" for i e
    using that assms
  proof (induction xs)
    case (Cons p xs)
    then show ?case
      by (cases p) (auto simp: map_of_eq_None_iff rev_image_eqI split: if_splits)
  qed simp
  have key: "i \<in> fst ` set (filter (\<lambda>(i, e). P i) xs) \<longleftrightarrow> P i" if "(i, e) \<in> set xs" for i e
    using that by force
  show ?thesis
    unfolding map_map by (rule map_idI) (auto simp: found key)
qed

lemma nested_restores:
  "nested d d' \<Longrightarrow> distinct (map fst (pd_children d)) \<Longrightarrow> page_look d' = page_look d"
proof (induction rule: nested.induct)
  case (next_one d d' d'')
  then show ?case by (metis page_look_def prod.inject)
next
  case (around k d d')
  define snap where "snap = take_snapshot k d"
  define P where "P = (\<lambda>i. Some i \<noteq> map_option snd (if pd_dialogs d = [] then None else Some (last (pd_dialogs d))))"
  have bg: "ms_background snap = filter (\<lambda>(i, e). P i) (pd_children d)"
    unfolding snap_def take_snapshot_def Let_def modal_snapshot.simps P_def by (rule refl)
  have rest: "ms_overflow snap = pd_overflow d" "ms_modal snap = k"
    by (simp_all add: snap_def take_snapshot_def Let_def)
  have opened: "page_look (snd (open_modal k d)) = page_look (hide_background snap d)"
    by (simp add: open_modal_look snap_def)
  have "map fst (pd_children (snd (open_modal k d))) = map fst (pd_children d)"
    using opened by (auto simp: page_look_def hide_background_def)
  with around have "page_look d' = page_look (hide_background snap d)" by (simp add: opened)
  then have d': "pd_children d' = pd_children (hide_background snap d)" "pd_listeners d' = pd_listeners d @ [k]"
    by (simp_all add: page_look_def hide_background_def rest)
  have "pd_children (hide_background snap d) = map (\<lambda>(i, e). if i \<in> fst ` set (filter (\<lambda>(i, e). P i) (pd_children d))
      then (i, \<lparr>be_inert = True, be_ariaHidden = Some (js ''true'')\<rparr>) else (i, e)) (pd_children d)"
    unfolding hide_background_def bg [symmetric] by simp
  moreover have "remove1 k (pd_listeners d @ [k]) = pd_listeners d"
    using around.hyps by (simp add: remove1_append)
  ultimately show ?case
    using restore_children [OF around.prems, of P "\<lparr>be_inert = True, be_ariaHidden = Some (js ''true'')\<rparr>"]
    unfolding open_modal_look(2) snap_def [symmetric] close_modal_look d' rest bg by (simp add: page_look_def)
qed simp

text \<open>
  C33: Closing a modal gives back the page it was opened on. However modals are opened and closed
  in a proper nesting, and however the focus moves between, in the end every child of the body
  has the \<open>inert\<close> and \<open>aria-hidden\<close> it had, the scroll position of the body is free again, no key
  handler is left, and the focus returns to the element that had it when the outermost modal
  opened.
\<close>

theorem modal_gives_page_back:
  assumes "nested (snd (open_modal k d)) d'" and "k \<notin> set (pd_listeners d)" and "distinct (map fst (pd_children d))"
  shows "page_look (close_modal (fst (open_modal k d)) d') = page_look d
    \<and> (\<forall>e. pd_active d = Some e \<longrightarrow> pd_active (close_modal (fst (open_modal k d)) d') = Some e)"
proof
  show "page_look (close_modal (fst (open_modal k d)) d') = page_look d"
    by (rule nested_restores [OF nested.around [OF assms(1,2)] assms(3)])
  show "\<forall>e. pd_active d = Some e \<longrightarrow> pd_active (close_modal (fst (open_modal k d)) d') = Some e"
    by (simp add: open_modal_look close_modal_def take_snapshot_def focus_on_def Let_def)
qed

theorem modal_gives_page_back_witness:
  "page_look (close_modal (fst (open_modal 1 \<lparr>pd_children = [(7, \<lparr>be_inert = False, be_ariaHidden = None\<rparr>)], pd_overflow = [],
       pd_active = Some 7, pd_listeners = [], pd_dialogs = [(3, 2)], pd_focusable = (\<lambda>_. [4])\<rparr>))
     (snd (open_modal 1 \<lparr>pd_children = [(7, \<lparr>be_inert = False, be_ariaHidden = None\<rparr>)], pd_overflow = [],
       pd_active = Some 7, pd_listeners = [], pd_dialogs = [(3, 2)], pd_focusable = (\<lambda>_. [4])\<rparr>)))
   = ([(7, \<lparr>be_inert = False, be_ariaHidden = None\<rparr>)], [], [])"
  using modal_gives_page_back [OF nested.nothing [OF refl],
      of 1 "\<lparr>pd_children = [(7, \<lparr>be_inert = False, be_ariaHidden = None\<rparr>)], pd_overflow = [],
       pd_active = Some 7, pd_listeners = [], pd_dialogs = [(3, 2)], pd_focusable = (\<lambda>_. [4])\<rparr>"]
  by (simp add: page_look_def)

text \<open>The focus stays inside: at the ends of the dialog Tab goes round, elsewhere the browser moves it to a neighbour.\<close>

lemma focus_stays_inside:
  assumes "handleKeyDown (Some d) ev doc = (False, True, doc')"
  shows "pd_active doc' = Some d \<and> pd_focusable doc d = [] \<or> (\<exists>e \<in> set (pd_focusable doc d). pd_active doc' = Some e)"
  using assms
  by (auto simp: handleKeyDown_def focusableElements_def focus_on_def Let_def split: list.splits if_splits)

lemma move_submit_changes:
  "move_submit m b selected = Some (i, c) \<Longrightarrow> i = msg_id m \<and> c \<noteq> jint (msg_category_id m) \<and> num_less (jint 0) c"
  by (auto simp: move_submit_def move_can_submit_def split: if_splits option.splits)

lemma nextTagCandidates_iff:
  "t \<in> set (nextTagCandidates H availableTags m) \<longleftrightarrow> t \<in> set availableTags \<and> tag_id t \<notin> tag_id ` set (msg_tags m)"
  by (simp add: nextTagCandidates_def assignedTagIds_def)

end
