(* ===== verification/MessageViews.thy ===== *)
theory MessageViews
  imports MessageCard Dialogs Markup
begin

text \<open>
  What a message renders: \<open>message-content.tsx\<close> in \<open>message-card.tsx\<close> and in \<open>message-detail.tsx\<close>.
  Clicks on links and media that only stop the propagation of the event start no action here.
\<close>

section \<open>Content\<close>

datatype content_action = CopyLinkClicked | ThumbnailError | ImageError

text \<open>Where the preview of a message stands: its two flags and whether its image failed to load.\<close>

record content_state =
  co_preview :: link_preview
  co_imageFailed :: bool

definition content_do :: "clipboard \<Rightarrow> content_action \<Rightarrow> content_state \<Rightarrow> content_state" where
  "content_do cb a s =
     (case a of
        CopyLinkClicked \<Rightarrow> s\<lparr>co_preview := copyLink cb (co_preview s)\<rparr>
      | ThumbnailError \<Rightarrow> s\<lparr>co_preview := thumbnail_error (co_preview s)\<rparr>
      | ImageError \<Rightarrow> s\<lparr>co_imageFailed := True\<rparr>)"

definition external_link :: "jstr \<Rightarrow> attrs \<Rightarrow> 'a html list \<Rightarrow> 'a html" where
  "external_link href extra children =
     El ''a'' ([(''href'', href), (''target'', js ''_blank''), (''rel'', js ''noreferrer''), (''draggable'', js ''false'')] @ extra)
       [] children"

definition provider_name :: "link_provider \<Rightarrow> jstr" where
  "provider_name p = (case p of GitHub \<Rightarrow> js ''github'' | YouTube \<Rightarrow> js ''youtube'' | Twitter \<Rightarrow> js ''twitter'' | Generic \<Rightarrow> js ''generic'')"

definition LinkPreview :: "message_link \<Rightarrow> link_preview \<Rightarrow> content_action html" where
  "LinkPreview link lp =
     El ''div'' [(''data-provider'', provider_name (ml_provider link))] []
       ((case thumbnailUrl link of
           None \<Rightarrow> []
         | Some src \<Rightarrow>
             if \<not> lp_thumbnailFailed lp
             then [external_link (ml_url link) [(''aria-label'', js ''Open YouTube video'')]
                     [El ''img'' [(''src'', src), (''alt'', []), (''loading'', js ''lazy''), (''referrerpolicy'', js ''no-referrer'')]
                        [on ''error'' ThumbnailError] []]]
             else [El ''div'' [] [] [Txt (js ''Thumbnail unavailable. You can still open the video below.'')]])
        @ [El ''div'' [] []
             [external_link (ml_url link) []
                [El ''span'' [] [] [Txt (ml_providerLabel link)],
                 El ''span'' [] [] [Txt (ml_title link)],
                 El ''span'' [] [] [Txt (ml_description link)]],
              El ''button''
                [(''type'', js ''button''), (''draggable'', js ''false''),
                 (''aria-label'', if lp_isCopied lp then js ''Link copied'' else js ''Copy link''),
                 (''title'', if lp_isCopied lp then js ''Copied'' else js ''Copy link'')]
                [on ''click'' CopyLinkClicked] []]])"

definition MessageAudio :: "jstr \<Rightarrow> content_action html" where
  "MessageAudio mediaUrl =
     El ''audio''
       [(''src'', mediaUrl), (''controls'', []), (''preload'', js ''metadata''), (''aria-label'', js ''Play saved audio''),
        (''draggable'', js ''false'')] [] []"

definition MessageImage :: "jstr \<Rightarrow> jstr \<Rightarrow> bool \<Rightarrow> content_action html" where
  "MessageImage mediaUrl alternative failed =
     (if failed then El ''p'' [] [] [Txt (js ''Image preview unavailable.'')]
      else external_link mediaUrl [(''aria-label'', js ''Open saved image'')]
        [El ''img'' [(''src'', mediaUrl), (''alt'', alternative), (''loading'', js ''lazy''), (''decoding'', js ''async'')]
           [on ''error'' ImageError] []])"

definition text_part_view :: "text_part \<Rightarrow> content_action html" where
  "text_part_view p = (case tp_url p of None \<Rightarrow> Txt (tp_value p) | Some href \<Rightarrow> external_link href [] [Txt (tp_value p)])"

definition LinkedText :: "text_part list \<Rightarrow> content_action html" where
  "LinkedText parts = El ''p'' [] [] (map text_part_view parts)"

definition optional :: "'b option \<Rightarrow> ('b \<Rightarrow> 'a html) \<Rightarrow> 'a html list" where
  "optional v f = (case v of None \<Rightarrow> [] | Some x \<Rightarrow> [f x])"

definition content_view :: "host \<Rightarrow> url_parser \<Rightarrow> message_props \<Rightarrow> content_state \<Rightarrow> content_action html" where
  "content_view H new_url m s =
     (let v = render_message H new_url m
      in El ''div'' [] []
           (optional (mv_image v) (\<lambda>(u, alt). MessageImage u alt (co_imageFailed s))
            @ optional (mv_audio v) MessageAudio
            @ optional (mv_text v) LinkedText
            @ optional (mv_link v) (\<lambda>l. LinkPreview l (co_preview s))
            @ optional (mv_note v) (\<lambda>t. El ''p'' [] [] [Txt t])))"

definition props_of_message :: "bool \<Rightarrow> message_item \<Rightarrow> message_props" where
  "props_of_message dense m =
     \<lparr>mp_content = msg_content m, mp_url = msg_url m, mp_mediaUrl = msg_media_url m, mp_mediaType = msg_media_type m,
      mp_mimeType = msg_mime_type m, mp_compact = dense\<rparr>"

section \<open>Colours and dates\<close>

definition or_else :: "jstr option \<Rightarrow> string \<Rightarrow> jstr" where
  "or_else v fallback = (case v of Some t \<Rightarrow> t | None \<Rightarrow> js fallback)"

text \<open>The browser's dates: a parser, the clock, \<open>Intl\<close> for a distance in time, \<open>toLocaleString\<close>.\<close>

record date_host =
  dh_parse :: "jstr \<Rightarrow> int option"
  dh_now :: int
  dh_relative :: "int \<Rightarrow> time_unit \<Rightarrow> jstr"
  dh_locale :: "int \<Rightarrow> jstr"

definition relative_date :: "date_host \<Rightarrow> jstr \<Rightarrow> jstr" where
  "relative_date D = formatRelativeDate (dh_parse D) (dh_now D) (dh_relative D)"

definition formatAbsoluteDate :: "date_host \<Rightarrow> jstr \<Rightarrow> jstr" where
  "formatAbsoluteDate D isoDate = (case dh_parse D isoDate of None \<Rightarrow> js ''Unknown date'' | Some t \<Rightarrow> dh_locale D t)"

text \<open>\<open>new Date(t).toLocaleString()\<close> of any text.\<close>

definition locale_date :: "date_host \<Rightarrow> jstr \<Rightarrow> jstr" where
  "locale_date D t = (case dh_parse D t of None \<Rightarrow> js ''Invalid Date'' | Some v \<Rightarrow> dh_locale D v)"

section \<open>The card\<close>

datatype card_action =
    SelectCard bool
  | TriggerKey jstr
  | TriggerClicked
  | MenuKey jstr
  | Choose card_request
  | OpenFull
  | CardContent content_action

text \<open>What the page shows a card with.\<close>

record card_props =
  cv_message :: message_item
  cv_isDeletePending :: bool
  cv_isSelectionMode :: bool
  cv_isSelected :: bool
  cv_menuId :: jstr

fun media_label :: "media_presentation \<Rightarrow> jstr" where
  "media_label VideoMedia = js ''Video''"
| "media_label AudioMedia = js ''Audio''"
| "media_label ImageMedia = js ''Image''"
| "media_label DocumentMedia = js ''Document''"
| "media_label OtherMedia = js ''Other media''"
| "media_label LinkMedia = js ''Link''"
| "media_label TextMedia = js ''Text''"

definition menu_item :: "attrs \<Rightarrow> card_request \<Rightarrow> jstr \<Rightarrow> card_action html" where
  "menu_item extra req label =
     El ''button'' ([(''type'', js ''button''), (''draggable'', js ''false''), (''role'', js ''menuitem'')] @ extra)
       [on ''click'' (Choose req)] [Txt label]"

definition actions_menu :: "card_props \<Rightarrow> card_action html" where
  "actions_menu p =
     (let i = msg_id (cv_message p)
      in El ''div''
           [(''id'', cv_menuId p), (''role'', js ''menu''), (''aria-label'', js ''Message actions''), (''draggable'', js ''false'')]
           [(''keydown'', MenuKey)]
           [menu_item [] (OpenDetail i) (js ''View details''),
            menu_item [] (MoveMessage i) (js ''Move to category''),
            menu_item [] (TagMessage i) (js ''Edit tags''),
            menu_item (flag ''disabled'' (cv_isDeletePending p)) (DeleteMessage i)
              (if cv_isDeletePending p then js ''Deleting...'' else js ''Delete message'')])"

definition card_header :: "date_host \<Rightarrow> card_props \<Rightarrow> message_card \<Rightarrow> card_action html" where
  "card_header D p c =
     (let m = cv_message p
      in El ''div'' [] []
        [El ''div'' [] []
           [El ''label'' [] []
              [El ''span'' [] [] [Txt (js ''Select message'')],
               El ''input'' ([(''type'', js ''checkbox'')] @ flag ''checked'' (cv_isSelected p))
                 [on ''change'' (SelectCard (\<not> cv_isSelected p))] []],
            El ''span''
              [(''style.borderColor'', or_else (withAlpha (Some (mc_color (msg_category m))) (js ''66'')) ''hsl(var(--border))''),
               (''style.backgroundColor'', or_else (withAlpha (Some (mc_color (msg_category m))) (js ''1A'')) ''hsl(var(--muted))'')] []
              [Txt (mc_name (msg_category m))]],
         El ''div'' [] []
           ([El ''time'' [(''datetime'', msg_date m), (''title'', locale_date D (msg_date m))] [] [Txt (relative_date D (msg_date m))],
             El ''button''
               ([(''type'', js ''button''), (''draggable'', js ''false''), (''aria-label'', js ''Message actions'')]
                @ bool_attr ''aria-expanded'' (mc_isActionsOpen c) @ [(''aria-haspopup'', js ''menu''), (''aria-controls'', cv_menuId p)])
               [(''keydown'', TriggerKey), on ''click'' TriggerClicked] []]
            @ (if mc_isActionsOpen c then [actions_menu p] else []))])"

definition tag_chip :: "message_tag \<Rightarrow> 'a html" where
  "tag_chip t =
     El ''li''
       [(''style.borderColor'', or_else (withAlpha (tag_color t) (js ''66'')) ''hsl(var(--border))''),
        (''style.backgroundColor'', or_else (withAlpha (tag_color t) (js ''14'')) ''hsl(var(--muted))'')] []
       [El ''span'' [(''aria-hidden'', js ''true'')] [] [], Txt (35 # tag_name t)]"

definition card_view ::
    "host \<Rightarrow> url_parser \<Rightarrow> date_host \<Rightarrow> card_props \<Rightarrow> content_state \<Rightarrow> message_card \<Rightarrow> card_action html list" where
  "card_view H new_url D p s c =
     (let m = cv_message p
      in [El ''article'' (bool_attr ''draggable'' (\<not> cv_isDeletePending p)) []
            ([card_header D p c,
              El ''div'' [] []
                [El ''div'' [] [] [El ''span'' [] [] [Txt (media_label (resolveMediaPresentation H (msg_media_type m) (msg_mime_type m) (has_url (msg_url m))))]],
                 El ''span'' [] [] [Txt (js ''Drag'')]],
              El ''div'' [] [] [map_html CardContent (content_view H new_url (props_of_message True m) s)],
              El ''button'' [(''type'', js ''button''), (''draggable'', js ''false'')] [on ''click'' OpenFull] [Txt (js ''View full message'')]]
             @ (if msg_tags m \<noteq> [] then [El ''ul'' [] [] (map tag_chip (msg_tags m))] else []))])"

section \<open>The raw data\<close>

text \<open>\<open>JSON.stringify(value, null, 2)\<close>; how a number that is no integer is written is a parameter.\<close>

definition unicode_escape :: "code_unit \<Rightarrow> jstr" where
  "unicode_escape c =
     (let hex = (\<lambda>d. if d < 10 then 48 + d else 87 + d)
      in js [CHR 0x5C, CHR ''u''] @ [hex (c div 4096 mod 16), hex (c div 256 mod 16), hex (c div 16 mod 16), hex (c mod 16)])"

definition escaped_unit :: "code_unit \<Rightarrow> jstr" where
  "escaped_unit c =
     (if c = 34 then [92, 34] else if c = 92 then [92, 92]
      else if c = 8 then [92, 98] else if c = 12 then [92, 102] else if c = 10 then [92, 110]
      else if c = 13 then [92, 114] else if c = 9 then [92, 116]
      else if c < 32 \<or> 55296 \<le> c \<and> c \<le> 57343 then unicode_escape c else [c])"

fun quoted_units :: "jstr \<Rightarrow> jstr" where
  "quoted_units [] = []"
| "quoted_units [c] = escaped_unit c"
| "quoted_units (h # l # cs) =
     (if 55296 \<le> h \<and> h \<le> 56319 \<and> 56320 \<le> l \<and> l \<le> 57343 then h # l # quoted_units cs
      else escaped_unit h @ quoted_units (l # cs))"

definition json_quote :: "jstr \<Rightarrow> jstr" where
  "json_quote s = [34] @ quoted_units s @ [34]"

definition json_block :: "nat \<Rightarrow> code_unit \<Rightarrow> code_unit \<Rightarrow> jstr list \<Rightarrow> jstr" where
  "json_block indent l r items =
     (if items = [] then [l, r]
      else [l, 10] @ join_with [44, 10] (map (\<lambda>t. replicate (indent + 2) 32 @ t) items) @ [10] @ replicate indent 32 @ [r])"

fun json_text :: "(jsnum \<Rightarrow> jstr) \<Rightarrow> nat \<Rightarrow> json \<Rightarrow> jstr" where
  "json_text number_text indent JNull = js ''null''"
| "json_text number_text indent (JBool b) = (if b then js ''true'' else js ''false'')"
| "json_text number_text indent (JNum x) = (if num_is_finite x then number_text x else js ''null'')"
| "json_text number_text indent (JStr s) = json_quote s"
| "json_text number_text indent (JArr xs) = json_block indent 91 93 (map (json_text number_text (indent + 2)) xs)"
| "json_text number_text indent (JObj kvs) =
     json_block indent 123 125 (map (\<lambda>kv. json_quote (fst kv) @ [58, 32] @ json_text number_text (indent + 2) (snd kv)) kvs)"

definition toRawDataString :: "(jsnum \<Rightarrow> jstr) \<Rightarrow> json \<Rightarrow> jstr" where
  "toRawDataString number_text rawData = json_text number_text 0 rawData"

text \<open>The entries of \<open>raw_data\<close>, which the server sends as an object.\<close>

definition raw_entries :: "json \<Rightarrow> (jstr \<times> json) list" where
  "raw_entries v = (case v of JObj kvs \<Rightarrow> kvs | _ \<Rightarrow> [])"

section \<open>The detail dialog\<close>

datatype detail_action = CloseDetail | DetailRequest card_request | DetailContent content_action

definition detail_heading :: "jstr \<Rightarrow> 'a html" where
  "detail_heading t = El ''h4'' [] [] [Txt t]"

definition detail_fact :: "string \<Rightarrow> jstr option \<Rightarrow> 'a html list" where
  "detail_fact label v = shown v (\<lambda>t. [detail_pair (js label) t])"

definition detail_tag :: "message_tag \<Rightarrow> 'a html" where
  "detail_tag t =
     El ''li''
       [(''aria-label'', js ''Tag: '' @ tag_name t),
        (''style.borderColor'', or_else (withAlpha (tag_color t) (js ''66'')) ''hsl(var(--border))'')] []
       [El ''span'' [(''aria-hidden'', js ''true'')] [] [], Txt (35 # tag_name t)]"

definition detail_header :: "date_host \<Rightarrow> bool \<Rightarrow> message_item \<Rightarrow> detail_action html" where
  "detail_header D isDeletePending m =
     El ''div'' [] []
       [El ''div'' [] []
          [El ''div'' [] []
             [El ''p'' [] [] [Txt (js ''Saved message'')],
              El ''h3'' [(''id'', js ''message-detail-title'')] [] [Txt (js ''Message details'')],
              El ''p'' [] [] [Txt (relative_date D (msg_date m) @ [32, 8226, 32] @ formatAbsoluteDate D (msg_date m))]],
           Button None [] [on ''click'' CloseDetail] [El ''span'' [] [] [Txt (js ''Close'')]]],
        El ''div'' [] []
          ([El ''span''
              [(''aria-label'', js ''Category: '' @ mc_name (msg_category m)),
               (''style.borderColor'', or_else (withAlpha (Some (mc_color (msg_category m))) (js ''66'')) ''hsl(var(--border))'')] []
              [El ''span'' [(''aria-hidden'', js ''true'')] [] [], Txt (mc_name (msg_category m))]]
           @ shown (msg_sender_name m) (\<lambda>t. [El ''span'' [] [] [Txt t]])
           @ [El ''span'' [] [] [Txt (js ''Telegram #'' @ int_str (msg_telegram_id m))]]),
        El ''div'' [] []
          [Button None [] [on ''click'' (DetailRequest (MoveMessage (msg_id m)))] [Txt (js ''Move'')],
           Button None [] [on ''click'' (DetailRequest (TagMessage (msg_id m)))] [Txt (js ''Tags'')],
           Button None (flag ''disabled'' isDeletePending) [on ''click'' (DetailRequest (DeleteMessage (msg_id m)))]
             [Txt (if isDeletePending then js ''Deleting...'' else js ''Delete'')]]]"

definition media_details :: "message_item \<Rightarrow> detail_action html list" where
  "media_details m =
     (if shows_file_details m
      then [El ''section'' [] []
              [detail_heading (js ''Media details''),
               El ''dl'' [] []
                 (detail_fact ''Media type'' (msg_media_type m) @ detail_fact ''MIME'' (msg_mime_type m)
                  @ detail_fact ''File name'' (msg_file_name m) @ detail_fact ''File size'' (formatFileSize (msg_file_size m)))]]
      else [])"

definition detail_sections ::
    "host \<Rightarrow> url_parser \<Rightarrow> date_host \<Rightarrow> (jsnum \<Rightarrow> jstr) \<Rightarrow> message_item \<Rightarrow> content_state \<Rightarrow> detail_action html list" where
  "detail_sections H new_url D number_text m s =
     [El ''section'' [] []
        [detail_heading (js ''Content''),
         El ''div'' [] [] [map_html DetailContent (content_view H new_url (props_of_message False m) s)]]]
     @ media_details m
     @ [El ''section'' [] []
          [detail_heading (js ''Metadata''),
           El ''dl'' [] []
             [detail_pair (js ''Organizer ID'') (int_str (msg_id m)), detail_pair (js ''Category'') (mc_name (msg_category m)),
              detail_pair (js ''Imported'') (formatAbsoluteDate D (msg_created_at m)),
              detail_pair (js ''Updated'') (formatAbsoluteDate D (msg_updated_at m))]],
        El ''section'' [] []
          [detail_heading (js ''Tags''),
           if msg_tags m \<noteq> [] then El ''ul'' [] [] (map detail_tag (msg_tags m))
           else El ''p'' [] [] [Txt (js ''No tags attached.'')]]]
     @ (if hasRawData (raw_entries (msg_raw_data m))
        then [El ''section'' [] []
                [El ''details'' [] []
                   [El ''summary'' [] [] [Txt (js ''Raw payload'')],
                    El ''pre'' [] [] [Txt (toRawDataString number_text (msg_raw_data m))]]]]
        else [])"

definition detail_view ::
    "host \<Rightarrow> url_parser \<Rightarrow> date_host \<Rightarrow> (jsnum \<Rightarrow> jstr) \<Rightarrow> bool \<Rightarrow> bool \<Rightarrow> message_item option \<Rightarrow> content_state \<Rightarrow>
     detail_action html list" where
  "detail_view H new_url D number_text isOpen isDeletePending message s =
     (case message of
        Some m \<Rightarrow>
          if isOpen
          then [El ''div'' [] []
                  [El ''button'' [(''type'', js ''button''), (''aria-label'', js ''Close message details'')] [on ''click'' CloseDetail] [],
                   El ''section''
                     [(''role'', js ''dialog''), (''aria-modal'', js ''true''), (''aria-labelledby'', js ''message-detail-title'')] []
                     [detail_header D isDeletePending m, El ''div'' [] [] (detail_sections H new_url D number_text m s)]]]
          else []
      | None \<Rightarrow> [])"

section \<open>What the controls of a message offer\<close>

lemma link_facts [simp]:
  "acts (external_link href extra cs) = (if has_attr ''inert'' extra then {} else acts_list cs)"
  "has_submit (external_link href extra cs) = has_submit_list cs"
  "elements (external_link href extra cs) =
     (''a'', [(''href'', href), (''target'', js ''_blank''), (''rel'', js ''noreferrer''), (''draggable'', js ''false'')] @ extra) # elements_list cs"
  "text_of (external_link href extra cs) = text_of_list cs"
  by (simp_all add: external_link_def)

lemma optional_facts:
  "acts_list (optional v f) = (case v of None \<Rightarrow> {} | Some x \<Rightarrow> acts (f x))"
  "elements_list (optional v f) = (case v of None \<Rightarrow> [] | Some x \<Rightarrow> elements (f x))"
  by (simp_all add: optional_def split: option.split)

lemma text_part_facts: "acts (text_part_view p) = {}" "text_of (text_part_view p) = tp_value p"
  by (simp_all add: text_part_view_def split: option.split)

lemma LinkedText_facts: "acts (LinkedText ps) = {}" "text_of (LinkedText ps) = concat (map tp_value ps)"
  by (simp_all add: LinkedText_def html_lists(4) comp_def text_part_facts)

lemma content_view_acts: "acts (content_view H U m s) \<subseteq> {CopyLinkClicked, ThumbnailError, ImageError}"
  by (auto simp: content_view_def Let_def optional_facts MessageImage_def MessageAudio_def LinkedText_facts LinkPreview_def
      split: option.splits if_splits prod.splits)

definition card_menu_requests :: "card_props \<Rightarrow> card_request set" where
  "card_menu_requests p =
     (let i = msg_id (cv_message p)
      in {OpenDetail i, MoveMessage i, TagMessage i} \<union> (if cv_isDeletePending p then {} else {DeleteMessage i}))"

lemma card_view_acts:
  "acts_list (card_view H U D p s c) \<subseteq>
     {SelectCard (\<not> cv_isSelected p), TriggerClicked, OpenFull} \<union> range TriggerKey \<union> range CardContent
     \<union> (if mc_isActionsOpen c then range MenuKey \<union> Choose ` card_menu_requests p else {})"
  by (auto simp: card_view_def card_header_def actions_menu_def menu_item_def card_menu_requests_def tag_chip_def Let_def
      split: if_splits)

lemma detail_parts_acts [simp]:
  "acts_list (detail_fact l v) = {}" "acts (detail_heading t) = {}" "acts (detail_tag g) = {}" "acts_list (media_details m) = {}"
  by (simp_all add: detail_fact_def detail_heading_def detail_tag_def media_details_def)

lemma detail_view_acts:
  "acts_list (detail_view H U D nt isOpen pending (Some m) s) \<subseteq>
     (if isOpen then {CloseDetail, DetailRequest (MoveMessage (msg_id m)), DetailRequest (TagMessage (msg_id m))}
        \<union> (if pending then {} else {DetailRequest (DeleteMessage (msg_id m))}) \<union> range DetailContent
      else {})"
  by (auto simp: detail_view_def detail_header_def detail_sections_def split: if_splits)

section \<open>Links and media\<close>

definition safe_element :: "jstr option \<Rightarrow> string \<times> attrs \<Rightarrow> bool" where
  "safe_element media e \<longleftrightarrow>
     (fst e = ''a'' \<longrightarrow>
        attr (snd e) ''target'' = Some (js ''_blank'') \<and> attr (snd e) ''rel'' = Some (js ''noreferrer'')
        \<and> (\<exists>h. attr (snd e) ''href'' = Some h \<and> (media = Some h \<or> starts_with h (js ''http:'') \<or> starts_with h (js ''https:''))))
     \<and> (fst e \<in> {''img'', ''audio''} \<longrightarrow>
        (\<exists>h. attr (snd e) ''src'' = Some h \<and> (media = Some h \<or> starts_with h (js ''https://i.ytimg.com/vi/''))))
     \<and> fst e \<notin> {''script'', ''iframe'', ''object''}"

lemma safe_plain [simp]:
  "tag \<notin> {''a'', ''img'', ''audio'', ''script'', ''iframe'', ''object''} \<Longrightarrow> safe_element media (tag, as)"
  by (simp add: safe_element_def)

definition http_text :: "jstr \<Rightarrow> bool" where
  "http_text h \<longleftrightarrow> starts_with h (js ''http:'') \<or> starts_with h (js ''https:'')"

lemma safe_link [simp]:
  "http_text h \<or> media = Some h \<Longrightarrow>
     safe_element media (''a'', (''href'', h) # (''target'', js ''_blank'') # (''rel'', js ''noreferrer'') # as)"
  by (auto simp: safe_element_def http_text_def)

text \<open>A serialised URL starts with its scheme, as the URL standard has it.\<close>

definition scheme_first :: "url_parser \<Rightarrow> bool" where
  "scheme_first new_url \<longleftrightarrow> (\<forall>s u. new_url s = Some u \<longrightarrow> starts_with (url_href u) (url_protocol u))"

lemma parseHttpUrl_href:
  assumes "scheme_first U" and "parseHttpUrl U v = Some u"
  shows "http_text (url_href u)"
proof -
  from assms(2) have "is_http u" and "\<exists>s. U s = Some u"
    by (auto simp: parseHttpUrl_def Let_def split: option.splits if_splits)
  with assms(1) have "starts_with (url_href u) (url_protocol u)" "is_http u" by (auto simp: scheme_first_def)
  then show ?thesis unfolding is_http_def http_text_def by metis
qed

lemma extractFirst_href: "scheme_first U \<Longrightarrow> extractFirstHttpUrl U t = Some u \<Longrightarrow> http_text (url_href u)"
proof -
  assume U: "scheme_first U" and "extractFirstHttpUrl U t = Some u"
  then have "u \<in> set (List.map_filter (\<lambda>m. parseHttpUrl U (Some m)) (all_urls t))"
    by (auto simp: extractFirstHttpUrl_def split: list.splits)
  then show ?thesis using parseHttpUrl_href [OF U] by (auto simp: List.map_filter_def)
qed

lemma rendered_link_href:
  "scheme_first U \<Longrightarrow> ca_link (analyzeMessageContent H U content rawUrl) = Some l \<Longrightarrow> http_text (ml_url l)"
  unfolding analysis_link by (auto split: option.splits intro: parseHttpUrl_href extractFirst_href)

lemma text_part_href:
  assumes "scheme_first U" and "p \<in> set (messageTextParts U t)" and "tp_url p = Some h"
  shows "http_text h"
proof -
  have "messageTextParts U t = text_parts U t \<or> messageTextParts U t = [plain_part t]"
    by (simp add: messageTextParts_def Let_def)
  with assms(2,3) have "p \<in> set (text_parts U t)" by (auto simp: plain_part_def)
  from text_parts_http [OF this assms(3)] parseHttpUrl_href [OF assms(1)] show ?thesis by blast
qed

lemma safe_media [simp]:
  "tag \<in> {''img'', ''audio''} \<Longrightarrow> media = Some h \<or> starts_with h (js ''https://i.ytimg.com/vi/'') \<Longrightarrow>
     safe_element media (tag, (''src'', h) # as)"
  by (auto simp: safe_element_def)

lemma thumbnail_source: "thumbnailUrl l = Some src \<Longrightarrow> starts_with src (js ''https://i.ytimg.com/vi/'')"
  by (auto simp: thumbnailUrl_def split: if_splits)

lemma preview_safe: "http_text (ml_url l) \<Longrightarrow> list_all (safe_element media) (elements (LinkPreview l lp))"
  using thumbnail_source by (simp add: LinkPreview_def split: option.split)

lemma text_safe: "scheme_first U \<Longrightarrow> list_all (safe_element media) (elements (LinkedText (messageTextParts U t)))"
  using text_part_href by (simp add: LinkedText_def text_part_view_def split: option.split)

lemma image_safe: "list_all (safe_element (Some u)) (elements (MessageImage u alt failed))"
  by (simp add: MessageImage_def)

lemma audio_safe: "list_all (safe_element (Some u)) (elements (MessageAudio u))"
  by (simp add: MessageAudio_def)

lemma content_elements_safe:
  assumes "scheme_first U"
  shows "list_all (safe_element (mp_mediaUrl m)) (elements (content_view H U m s))"
proof -
  let ?v = "render_message H U m" and ?safe = "list_all (safe_element (mp_mediaUrl m))"
  have "?safe (elements_list (optional (mv_image ?v) (\<lambda>(u, alt). MessageImage u alt (co_imageFailed s))))"
    using image_safe by (auto simp: render_message_def Let_def optional_def split: option.split)
  moreover have "?safe (elements_list (optional (mv_audio ?v) MessageAudio))"
    using audio_safe by (auto simp: render_message_def Let_def optional_def split: option.split)
  moreover have "?safe (elements_list (optional (mv_text ?v) LinkedText))"
    using text_safe [OF assms] by (auto simp: render_message_def Let_def optional_def split: option.split)
  moreover have "?safe (elements_list (optional (mv_link ?v) (\<lambda>l. LinkPreview l (co_preview s))))"
    using preview_safe [OF rendered_link_href [OF assms]] by (auto simp: render_message_def Let_def optional_def split: option.split)
  moreover have "?safe (elements_list (optional (mv_note ?v) (\<lambda>t. El ''p'' [] [] [Txt t])))"
    by (simp add: optional_def split: option.split)
  ultimately show ?thesis by (simp add: content_view_def Let_def)
qed

lemma card_elements_safe: "scheme_first U \<Longrightarrow> list_all (safe_element (msg_media_url (cv_message p))) (elements_list (card_view H U D p s c))"
  using content_elements_safe [of U "props_of_message True (cv_message p)" H s]
  by (simp add: card_view_def card_header_def actions_menu_def menu_item_def tag_chip_def props_of_message_def Let_def)

lemma detail_parts_elements [simp]:
  "safe_element media (tag, as) \<Longrightarrow> list_all (safe_element media) (elements (El tag as hs []))"
  "list_all (safe_element media) (elements_list (detail_fact l v))"
  "list_all (safe_element media) (elements (detail_heading t))" "list_all (safe_element media) (elements (detail_tag g))"
  "list_all (safe_element media) (elements (detail_pair t c))"
  by (simp_all add: detail_fact_def detail_heading_def detail_tag_def detail_pair_def shown_def split: option.split)

lemma media_details_elements: "list_all (safe_element media) (elements_list (media_details m))"
  by (simp add: media_details_def detail_heading_def)

lemma detail_header_elements: "list_all (safe_element media) (elements (detail_header D pending m))"
  by (simp add: detail_header_def Button_def shown_def split: option.split)

lemma detail_sections_elements:
  assumes "scheme_first U"
  shows "list_all (safe_element (msg_media_url m)) (elements_list (detail_sections H U D nt m s))"
  using content_elements_safe [OF assms, of "props_of_message False m" H s] media_details_elements [of "msg_media_url m" m]
  by (simp add: detail_sections_def props_of_message_def detail_heading_def detail_tag_def detail_pair_def)

lemma detail_elements_safe:
  "scheme_first U \<Longrightarrow> list_all (safe_element (msg_media_url m)) (elements_list (detail_view H U D nt isOpen pending (Some m) s))"
  using detail_sections_elements [of U m H D nt s] detail_header_elements [of "msg_media_url m" D pending m]
  by (simp add: detail_view_def)

text \<open>
  C37: What a message can make the page load and link to. With a URL parser whose serialised URLs
  start with their scheme, every link of a card and of the detail dialog, whatever the text and
  URL of the message are, leads to an http or https address or to the medium the server stored,
  opens in a new tab and sends no referrer; images and sounds are loaded only from the stored medium
  or from YouTube's thumbnails; nothing is embedded; and the detail dialog shows the analysed text
  of the message exactly as it is.
\<close>

theorem message_elements_safe:
  assumes "scheme_first U"
  shows "list_all (safe_element (msg_media_url (cv_message p))) (elements_list (card_view H U D p s c))
    \<and> list_all (safe_element (msg_media_url m)) (elements_list (detail_view H U D nt isOpen pending (Some m) s))
    \<and> map_option (\<lambda>ps. text_of (LinkedText ps)) (mv_text (render_message H U (props_of_message False m)))
        = ca_text (analyzeMessageContent H U (msg_content m) (msg_url m))"
proof -
  have shown: "displayed_text U a False = ca_text a" for a
    by (simp add: displayed_text_def split: option.split)
  have kept: "text_of (LinkedText (messageTextParts U t)) = t" for t
  proof -
    have "messageTextParts U t = text_parts U t \<or> messageTextParts U t = [plain_part t]"
      by (simp add: messageTextParts_def Let_def)
    then show ?thesis using text_parts_lossless [of U t] by (auto simp: LinkedText_facts plain_part_def)
  qed
  have "map_option (\<lambda>ps. text_of (LinkedText ps)) (mv_text (render_message H U (props_of_message False m)))
        = ca_text (analyzeMessageContent H U (msg_content m) (msg_url m))"
    by (simp add: render_message_def Let_def props_of_message_def shown option.map_comp comp_def kept option.map_ident)
  then show ?thesis using card_elements_safe [OF assms] detail_elements_safe [OF assms] by blast
qed

definition sample_message :: message_item where
  "sample_message =
     \<lparr>msg_id = 1, msg_telegram_id = 2, msg_content = None, msg_media_type = Some (js ''photo''), msg_file_name = None,
      msg_file_size = None, msg_mime_type = None, msg_media_url = Some (js ''/media/1''), msg_url = None, msg_sender_name = None,
      msg_date = [], msg_category_id = 1, msg_raw_data = JNull, msg_created_at = [], msg_updated_at = [],
      msg_category = \<lparr>mc_id = 1, mc_name = js ''Images'', mc_slug = js ''images'', mc_icon = [], mc_color = []\<rparr>, msg_tags = []\<rparr>"

definition sample_dates :: date_host where
  "sample_dates = \<lparr>dh_parse = (\<lambda>_. None), dh_now = 0, dh_relative = (\<lambda>_ _. []), dh_locale = (\<lambda>_. [])\<rparr>"

theorem message_elements_safe_witness:
  "list_all (safe_element (Some (js ''/media/1'')))
     (elements_list (detail_view ascii_host sample_parser sample_dates num_str True False (Some sample_message)
        \<lparr>co_preview = \<lparr>lp_isCopied = False, lp_thumbnailFailed = False\<rparr>, co_imageFailed = False\<rparr>))
   \<and> mv_image (render_message ascii_host sample_parser (props_of_message False sample_message))
       = Some (js ''/media/1'', js ''Saved Telegram image'')"
proof -
  have "scheme_first sample_parser"
    by (auto simp: scheme_first_def sample_parser_def sample_url_def js_Cons split: if_splits)
  from message_elements_safe [OF this, where m = sample_message and isOpen = True and pending = False] have
    "list_all (safe_element (Some (js ''/media/1'')))
     (elements_list (detail_view ascii_host sample_parser sample_dates num_str True False (Some sample_message)
        \<lparr>co_preview = \<lparr>lp_isCopied = False, lp_thumbnailFailed = False\<rparr>, co_imageFailed = False\<rparr>))"
    by (simp add: sample_message_def)
  moreover have "mv_image (render_message ascii_host sample_parser (props_of_message False sample_message))
       = Some (js ''/media/1'', js ''Saved Telegram image'')"
    by (simp add: render_message_def Let_def props_of_message_def sample_message_def isImageMessage_def lower_trim_def ascii_host_def
        alternativeText_def analyzeMessageContent_def url_eval)
  ultimately show ?thesis by (rule conjI)
qed

section \<open>Names\<close>

lemma provider_label: "nonblank (ml_providerLabel (classifyLink H u))"
  by (simp add: classifyLink_def githubLink_def youtubeLink_def twitterLink_def genericLink_def Let_def is_ws_def)

lemma nonblank_trim: "js_trim t \<noteq> [] \<Longrightarrow> nonblank t"
  by (auto simp: nonblank_iff js_trim_Nil_iff)

lemma linked_part_named: "p \<in> set (messageTextParts U t) \<Longrightarrow> named ids b (text_part_view p)"
proof -
  assume p: "p \<in> set (messageTextParts U t)"
  have "nonblank (tp_value p)" if "tp_url p = Some h" for h
  proof -
    have "messageTextParts U t = text_parts U t \<or> messageTextParts U t = [plain_part t]"
      by (simp add: messageTextParts_def Let_def)
    with p that have "p \<in> set (text_parts U t)" by (auto simp: plain_part_def)
    from text_parts_http [OF this that] have "js_trim (tp_value p) \<noteq> []"
      by (auto simp: parseHttpUrl_def split: if_splits)
    then show ?thesis by (rule nonblank_trim)
  qed
  then show ?thesis by (simp add: text_part_view_def external_link_def split: option.split)
qed

lemma text_part_label [simp]: "labelled_ids (text_part_view p) = {}"
  by (simp add: text_part_view_def external_link_def split: option.split)

lemma preview_named: "nonblank (ml_providerLabel l) \<Longrightarrow> named ids b (LinkPreview l lp)"
  by (simp add: LinkPreview_def external_link_def has_label_attr_def is_ws_def split: option.split)

lemma content_parts_label [simp]:
  "labelled_ids (LinkPreview l lp) = {}" "labelled_ids (LinkedText ps) = {}" "labelled_ids (MessageImage u alt failed) = {}"
  "labelled_ids (MessageAudio u) = {}" "named ids b (MessageImage u alt failed)" "named ids b (MessageAudio u)"
  by (simp_all add: LinkPreview_def LinkedText_def MessageImage_def MessageAudio_def external_link_def has_label_attr_def is_ws_def
      split: option.split)

lemma content_view_named: "named ids b (content_view H U m s)" and content_view_label: "labelled_ids (content_view H U m s) = {}"
proof -
  let ?v = "render_message H U m"
  have "named_list ids b (optional (mv_image ?v) (\<lambda>(u, alt). MessageImage u alt (co_imageFailed s)))"
    "named_list ids b (optional (mv_audio ?v) MessageAudio)"
    "named_list ids b (optional (mv_note ?v) (\<lambda>t. El ''p'' [] [] [Txt t]))"
    by (auto simp: optional_def split: option.split)
  moreover have "named_list ids b (optional (mv_text ?v) LinkedText)"
    using linked_part_named by (auto simp: render_message_def Let_def optional_def LinkedText_def split: option.split)
  moreover have "named_list ids b (optional (mv_link ?v) (\<lambda>l. LinkPreview l (co_preview s)))"
    using analysis_link_http provider_label
    by (fastforce simp: render_message_def Let_def optional_def intro: preview_named split: option.split)
  ultimately show "named ids b (content_view H U m s)" by (simp add: content_view_def Let_def)
  show "labelled_ids (content_view H U m s) = {}"
    by (auto simp: content_view_def Let_def optional_def split: option.split)
qed

lemma card_view_named: "controls_named (card_view H U D p s c)"
  by (simp add: controls_named_def card_view_def card_header_def actions_menu_def menu_item_def tag_chip_def Let_def
      content_view_named content_view_label has_label_attr_def is_ws_def)

lemma detail_label [simp]:
  "labelled_ids_list (detail_fact l v) = {}" "named_list ids b (detail_fact l v)" "labelled_ids (detail_tag g) = {}"
  "named ids b (detail_tag g)" "labelled_ids (detail_heading t) = {}" "named ids b (detail_heading t)"
  "labelled_ids (detail_pair t c) = {}" "named ids b (detail_pair t c)"
  "labelled_ids_list (media_details m) = {}" "named_list ids b (media_details m)"
  by (simp_all add: detail_fact_def detail_tag_def detail_heading_def detail_pair_def media_details_def)

lemma detail_view_named: "controls_named (detail_view H U D nt isOpen pending (Some m) s)"
proof -
  have "named ids b (detail_header D pending m)" "labelled_ids (detail_header D pending m) = {}" for ids b
    by (simp_all add: detail_header_def Button_def is_ws_def)
  moreover have "named_list ids b (detail_sections H U D nt m s)" "labelled_ids_list (detail_sections H U D nt m s) = {}" for ids b
    by (simp_all add: detail_sections_def content_view_named content_view_label)
  ultimately show ?thesis
    by (simp add: controls_named_def detail_view_def has_label_attr_def is_ws_def)
qed

end
