(* ===== verification/MessageDialogViews.thy ===== *)
theory MessageDialogViews
  imports MessagesPage MessageViews
begin

text \<open>
  What the messages page renders around its cards: the bar of the bulk actions
  (\<open>bulk-actions.tsx\<close>), the move dialog (\<open>move-dialog.tsx\<close>) and the tag dialog (\<open>tag-input.tsx\<close>).
\<close>

section \<open>Actions of the page\<close>

text \<open>
  \<open>PageEvent\<close> is an event of the page's state machine; the two deletions first ask with
  \<open>window.confirm\<close>; the others change the state of a card or of a dialog's form.
\<close>

datatype messages_action =
    PageEvent page_event
  | AskDelete int
  | AskDeleteSelected
  | CardAction int card_action
  | DetailContentAction content_action
  | SelectMove int
  | SubmitMove
  | TypeNewTag jstr
  | SubmitNewTag

section \<open>The bulk actions\<close>

definition bulk_action_select :: "string \<Rightarrow> int option \<Rightarrow> bool \<Rightarrow> (jstr \<times> jstr \<times> 'a) list \<Rightarrow> 'a html" where
  "bulk_action_select label chosen isDisabled options =
     El ''label'' [] []
       [El ''span'' [] [] [Txt (js label)],
        select_element ([(''value'', case chosen of Some i \<Rightarrow> int_str i | None \<Rightarrow> [])] @ flag ''disabled'' isDisabled) options]"

definition bulk_header :: "page_state \<Rightarrow> messages_action html" where
  "bulk_header p =
     El ''div'' [] []
       [El ''div'' [] []
          [El ''p'' [] [] [Txt (js ''Bulk selection mode'')],
           El ''p'' [] []
             [Txt (nat_str (length (mp_selected p)) @ js '' selected of '' @ nat_str (length (mp_messages p)) @ js '' visible messages'')]],
        Button None (flag ''disabled'' (\<not> canExitBulk p)) [on ''click'' (PageEvent ExitBulk)] [Txt (js ''Exit bulk mode'')]]"

definition bulk_controls :: "host \<Rightarrow> page_state \<Rightarrow> messages_action html" where
  "bulk_controls H p =
     (let categories = actionCategories p; tags = availableTags H p; busy = (mp_bulkPending p \<noteq> None)
      in El ''div'' [] []
        [Button None (flag ''disabled'' (mp_messages p = [] \<or> busy)) [on ''click'' (PageEvent SelectAll)]
           [Txt (js ''Select visible ('' @ nat_str (length (mp_messages p)) @ js '')'')],
         Button None (flag ''disabled'' (mp_selected p = [] \<or> busy)) [on ''click'' (PageEvent ClearSelection)] [Txt (js ''Clear selection'')],
         bulk_action_select ''Move selected to'' (mp_bulkCategory p) (busy \<or> categories = [])
           (map (\<lambda>c. (int_str (cat_id c), cat_name c, PageEvent (ChooseBulkCategory (Some (cat_id c))))) categories),
         Button None (flag ''disabled'' (mp_selected p = [] \<or> mp_bulkCategory p = None \<or> busy)) [on ''click'' (PageEvent MoveSelected)]
           [Txt (if mp_bulkPending p = Some BulkMove then js ''Moving...'' else js ''Move selected'')],
         bulk_action_select ''Tag selected with'' (mp_bulkTag p) (busy \<or> tags = [])
           ((if tags = [] then [([], js ''No tags available'', PageEvent (ChooseBulkTag None))] else [])
            @ map (\<lambda>t. (int_str (tag_id t), 35 # tag_name t, PageEvent (ChooseBulkTag (Some (tag_id t))))) tags),
         Button None (flag ''disabled'' (mp_selected p = [] \<or> mp_bulkTag p = None \<or> tags = [] \<or> busy))
           [on ''click'' (PageEvent TagSelected)]
           [Txt (if mp_bulkPending p = Some BulkTag then js ''Tagging...'' else js ''Tag selected'')],
         Button None (flag ''disabled'' (mp_selected p = [] \<or> busy)) [on ''click'' AskDeleteSelected]
           [Txt (if mp_bulkPending p = Some BulkDelete then js ''Deleting...'' else js ''Delete selected'')]])"

definition bulk_actions_view :: "host \<Rightarrow> page_state \<Rightarrow> messages_action html" where
  "bulk_actions_view H p =
     El ''div'' [] []
       ([bulk_header p, bulk_controls H p]
        @ shown (mp_bulkError p) (\<lambda>e. [El ''p'' [(''role'', js ''alert'')] [] [Txt e]])
        @ shown (mp_bulkSuccess p) (\<lambda>t. [El ''p'' [(''role'', js ''status'')] [] [Txt t]]))"

section \<open>The move dialog\<close>

definition move_dialog_view :: "page_state \<Rightarrow> jsnum option \<Rightarrow> messages_action html list" where
  "move_dialog_view p selected =
     (case active_message (mp_moveDialog p) p of
        None \<Rightarrow> []
      | Some m \<Rightarrow>
          modal_frame (PageEvent CloseMove) [(''aria-labelledby'', js ''move-dialog-title'')]
            [El ''div'' [] []
               [El ''h3'' [(''id'', js ''move-dialog-title'')] [] [Txt (js ''Move message'')],
                El ''p'' [] [] [Txt (js ''Choose a new category for this message.'')]],
             El ''form'' [] [on ''submit'' SubmitMove]
               ([El ''label'' [] []
                   [El ''span'' [] [] [Txt (js ''Category'')],
                    select_element [(''value'', case selected of Some x \<Rightarrow> num_str x | None \<Rightarrow> [])]
                      (map (\<lambda>c. (int_str (cat_id c), cat_name c, SelectMove (cat_id c))) (sortedCategories (actionCategories p)))],
                 El ''div'' [] []
                   [El ''span'' [] [] [Txt (js ''Missing a destination?'')],
                    El ''Link'' [(''to'', js ''/settings/categories'')] [on ''click'' (PageEvent CloseMove)] [Txt (js ''Manage categories'')]]]
                @ shown (mp_moveError p) (\<lambda>e. [El ''p'' [(''role'', js ''alert'')] [] [Txt e]])
                @ [El ''div'' [] []
                     [Button (Some (js ''button'')) (flag ''disabled'' (mp_isMoveSubmitting p)) [on ''click'' (PageEvent CloseMove)]
                        [Txt (js ''Cancel'')],
                      Button (Some (js ''submit'')) (flag ''disabled'' (\<not> move_can_submit m (mp_isMoveSubmitting p) selected)) []
                        [Txt (if mp_isMoveSubmitting p then js ''Moving...'' else js ''Move'')]]])])"

section \<open>The tag dialog\<close>

definition attached_tag :: "bool \<Rightarrow> int \<Rightarrow> message_tag \<Rightarrow> messages_action html" where
  "attached_tag isSubmitting i t =
     El ''li'' [] []
       [El ''button''
          ([(''type'', js ''button''), (''style.color'', or_else (tag_color t) ''hsl(var(--muted-foreground))''),
            (''style.borderColor'', or_else (withAlpha (tag_color t) (js ''66'')) ''hsl(var(--border))''),
            (''style.backgroundColor'', or_else (withAlpha (tag_color t) (js ''14'')) ''hsl(var(--muted))'')]
           @ flag ''disabled'' isSubmitting @ [(''title'', js ''Remove tag'')])
          [on ''click'' (PageEvent (RemoveTag i (tag_id t)))] [El ''span'' [] [] [Txt (35 # tag_name t)]]]"

definition candidate_tag :: "bool \<Rightarrow> int \<Rightarrow> message_tag \<Rightarrow> messages_action html" where
  "candidate_tag isSubmitting i t =
     El ''li'' [] []
       [El ''button'' ([(''type'', js ''button'')] @ flag ''disabled'' isSubmitting)
          [on ''click'' (PageEvent (AddTag i (tag_id t)))] [Txt (js ''+ #'' @ tag_name t)]]"

definition new_tag_form :: "bool \<Rightarrow> jstr \<Rightarrow> messages_action html" where
  "new_tag_form isSubmitting newTagName =
     El ''form'' [] [on ''submit'' SubmitNewTag]
       [El ''label'' [] []
          [El ''span'' [] [] [Txt (js ''Create and attach new tag'')],
           El ''div'' [] []
             [El ''input'' [(''value'', newTagName), (''placeholder'', js ''e.g. read-later'')] [(''change'', TypeNewTag)] [],
              Button (Some (js ''submit'')) (flag ''disabled'' (\<not> canCreateTag isSubmitting newTagName)) []
                [Txt (if isSubmitting then js ''Saving...'' else js ''Add tag'')]]]]"

definition tag_dialog_view :: "host \<Rightarrow> page_state \<Rightarrow> jstr \<Rightarrow> messages_action html list" where
  "tag_dialog_view H p newTagName =
     (case active_message (mp_tagDialog p) p of
        None \<Rightarrow> []
      | Some m \<Rightarrow>
          (let candidates = nextTagCandidates H (availableTags H p) m
           in modal_frame (PageEvent CloseTags) [(''aria-labelledby'', js ''tag-dialog-title'')]
            ([El ''div'' [] []
                [El ''h3'' [(''id'', js ''tag-dialog-title'')] [] [Txt (js ''Tags for this message'')],
                 El ''p'' [] [] [Txt (js ''Add, create, or remove tags for this message.'')]],
              El ''div'' [] []
                [El ''p'' [] [] [Txt (js ''Attached tags'')],
                 if msg_tags m \<noteq> [] then El ''ul'' [] [] (map (attached_tag (mp_isTagSubmitting p) (msg_id m)) (msg_tags m))
                 else El ''p'' [] [] [Txt (js ''No tags attached yet.'')]],
              El ''div'' [] []
                [El ''p'' [] [] [Txt (js ''Add existing tag'')],
                 if candidates \<noteq> [] then El ''ul'' [] [] (map (candidate_tag (mp_isTagSubmitting p) (msg_id m)) candidates)
                 else El ''p'' [] [] [Txt (js ''All available tags are already attached.'')]],
              new_tag_form (mp_isTagSubmitting p) newTagName]
             @ shown (mp_tagError p) (\<lambda>e. [El ''p'' [(''role'', js ''alert'')] [] [Txt e]])
             @ [El ''div'' [] []
                  [El ''Link'' [(''to'', js ''/settings/tags'')] [on ''click'' (PageEvent CloseTags)] [Txt (js ''Manage all tags'')],
                   Button (Some (js ''button'')) (flag ''disabled'' (mp_isTagSubmitting p)) [on ''click'' (PageEvent CloseTags)]
                     [Txt (js ''Close'')]]])))"

section \<open>What they offer\<close>

lemma bulk_select_facts [simp]:
  "acts (bulk_action_select l c d os) = (if d then {} else (snd \<circ> snd) ` set os)" "\<not> has_submit (bulk_action_select l c d os)"
  by (simp_all add: bulk_action_select_def)

lemma bulk_actions_acts:
  "acts (bulk_actions_view H p) =
     (if mp_bulkPending p \<noteq> None then {}
      else {PageEvent ExitBulk} \<union> (if mp_messages p = [] then {} else {PageEvent SelectAll})
        \<union> (\<lambda>c. PageEvent (ChooseBulkCategory (Some (cat_id c)))) ` set (actionCategories p)
        \<union> (\<lambda>t. PageEvent (ChooseBulkTag (Some (tag_id t)))) ` set (availableTags H p)
        \<union> (if mp_selected p = [] then {} else
             {PageEvent ClearSelection, AskDeleteSelected} \<union> (if mp_bulkCategory p = None then {} else {PageEvent MoveSelected})
             \<union> (if mp_bulkTag p = None \<or> availableTags H p = [] then {} else {PageEvent TagSelected})))"
  by (auto simp: bulk_actions_view_def bulk_header_def bulk_controls_def Let_def canExitBulk_def image_image)

lemma move_dialog_acts:
  "acts_list (move_dialog_view p selected) =
     (case active_message (mp_moveDialog p) p of
        None \<Rightarrow> {}
      | Some m \<Rightarrow> {PageEvent CloseMove} \<union> SelectMove ` cat_id ` set (sortedCategories (actionCategories p))
          \<union> (if move_can_submit m (mp_isMoveSubmitting p) selected then {SubmitMove} else {}))"
  by (auto simp: move_dialog_view_def modal_frame_def image_image split: option.split)

lemma tag_dialog_acts:
  "acts_list (tag_dialog_view H p newTagName) =
     (case active_message (mp_tagDialog p) p of
        None \<Rightarrow> {}
      | Some m \<Rightarrow> {PageEvent CloseTags} \<union> range TypeNewTag
          \<union> (if canCreateTag (mp_isTagSubmitting p) newTagName then {SubmitNewTag} else {})
          \<union> (if mp_isTagSubmitting p then {}
             else (\<lambda>t. PageEvent (RemoveTag (msg_id m) (tag_id t))) ` set (msg_tags m)
                  \<union> (\<lambda>t. PageEvent (AddTag (msg_id m) (tag_id t))) ` set (nextTagCandidates H (availableTags H p) m)))"
  by (auto simp: tag_dialog_view_def modal_frame_def attached_tag_def candidate_tag_def new_tag_form_def Let_def split: option.split)

end
