(* ===== verification/AccountMenu.thy ===== *)
theory AccountMenu
  imports AuthProvider MessageCard
begin

text \<open>
  \<open>components/account/account-menu.tsx\<close>, the menu that ends a session, and the small views around
  it: the cards of \<open>message-grid.tsx\<close>, the text of \<open>dashboard-page.tsx\<close> and the message of
  \<open>route-error-page.tsx\<close>.
\<close>

section \<open>The account menu\<close>

record account_menu =
  am_isOpen :: bool
  am_isSigningOut :: bool
  am_error :: "jstr option"

definition account_menu_initial :: account_menu where
  "account_menu_initial = \<lparr>am_isOpen = False, am_isSigningOut = False, am_error = None\<rparr>"

definition account_menu_error :: "js_error \<Rightarrow> jstr" where
  "account_menu_error e = error_text e (js ''Could not sign out. Please try again.'')"

definition handlePointerDown :: "bool \<Rightarrow> account_menu \<Rightarrow> account_menu" where
  "handlePointerDown inside m = (if am_isOpen m \<and> \<not> inside then m\<lparr>am_isOpen := False\<rparr> else m)"

definition openMenu :: "account_menu \<Rightarrow> account_menu \<times> focus_target option" where
  "openMenu m = (m\<lparr>am_error := None, am_isOpen := True\<rparr>, Some FocusFirst)"

definition closeMenu :: "bool \<Rightarrow> account_menu \<Rightarrow> account_menu \<times> focus_target option" where
  "closeMenu restoreFocus m = (m\<lparr>am_isOpen := False\<rparr>, if restoreFocus then Some FocusTrigger else None)"

definition account_trigger_click :: "account_menu \<Rightarrow> account_menu \<times> focus_target option" where
  "account_trigger_click m = (if am_isOpen m then closeMenu True m else openMenu m)"

definition account_next_index :: "jstr \<Rightarrow> nat \<Rightarrow> int \<Rightarrow> int" where
  "account_next_index key n currentIndex =
     (if key = js ''Home'' then 0
      else if key = js ''End'' then int n - 1
      else if key = js ''ArrowDown'' then (if currentIndex < 0 then 0 else (currentIndex + 1) mod int n)
      else if currentIndex \<le> 0 then int n - 1 else currentIndex - 1)"

text \<open>
  The focus is on an enabled item (its index), on a disabled one, or elsewhere. The outcome is the
  menu, where the focus goes, and whether the focused item is clicked.
\<close>

datatype menu_focus = OnItem nat | OnDisabledItem | OffMenu

definition focus_index :: "menu_focus \<Rightarrow> int" where
  "focus_index f = (case f of OnItem i \<Rightarrow> int i | _ \<Rightarrow> - 1)"

definition handleMenuKeyDown ::
    "jstr \<Rightarrow> nat \<Rightarrow> menu_focus \<Rightarrow> account_menu \<Rightarrow> account_menu \<times> focus_target option \<times> nat option" where
  "handleMenuKeyDown key items f m =
     (if key = js ''Escape'' then (let (m', t) = closeMenu True m in (m', t, None))
      else if key = js ''Enter'' \<or> key = [32] then (m, None, case f of OnItem i \<Rightarrow> Some i | _ \<Rightarrow> None)
      else if key \<notin> {js ''ArrowDown'', js ''ArrowUp'', js ''Home'', js ''End''} then (m, None, None)
      else if items = 0 then (m, None, None)
      else (m, Some (FocusItem (nat (account_next_index key items (focus_index f)))), None))"

text \<open>\<open>handleLogout\<close> up to its await, and after it with the value \<open>logout\<close> settled with.\<close>

definition account_logout_start :: "account_menu \<times> auth_state \<Rightarrow> account_menu \<times> auth_state" where
  "account_logout_start ms =
     (if am_isSigningOut (fst ms) then ms
      else ((fst ms)\<lparr>am_error := None, am_isSigningOut := True\<rparr>, auth_step (snd ms) LogoutStart))"

definition account_logout_reply :: "js_error + unit \<Rightarrow> account_menu \<times> auth_state \<Rightarrow> account_menu \<times> auth_state" where
  "account_logout_reply reply ms =
     (let (result, s) = logout_reply reply (answered (LogoutReply reply) (snd ms));
          m = fst ms;
          m = (case result of
                 Inr _ \<Rightarrow> m\<lparr>am_isOpen := False\<rparr>
               | Inl e \<Rightarrow> m\<lparr>am_error := Some (account_menu_error e)\<rparr>)
      in (m\<lparr>am_isSigningOut := False\<rparr>, s))"

text \<open>Nothing is shown without a user; else the name on the button.\<close>

definition account_display_name :: "account_user option \<Rightarrow> jstr option" where
  "account_display_name user =
     (case user of
        None \<Rightarrow> None
      | Some u \<Rightarrow> Some (if js_trim (user_display_name u) \<noteq> [] then js_trim (user_display_name u) else user_email u))"

section \<open>Cards, dashboard, route errors\<close>

definition grid_cards :: "message_item list \<Rightarrow> int option \<Rightarrow> int list \<Rightarrow> (message_item \<times> bool \<times> bool) list" where
  "grid_cards messages pendingDeleteMessageId selectedMessageIds =
     map (\<lambda>m. (m, pendingDeleteMessageId = Some (msg_id m), msg_id m \<in> set selectedMessageIds)) messages"

definition dashboard_total :: "category list \<Rightarrow> int" where
  "dashboard_total categories = foldl (\<lambda>sum c. sum + cat_message_count c) 0 categories"

text \<open>What a route threw: a response of the router with its data, when that is text, or an error.\<close>

datatype route_error = RouteResponse "jstr option" int jstr | ThrownError js_error

definition toRouteErrorMessage :: "route_error \<Rightarrow> jstr" where
  "toRouteErrorMessage e =
     (case e of
        RouteResponse data status statusText \<Rightarrow>
          (case data of
             Some t \<Rightarrow> if js_trim t \<noteq> [] then t else int_str status @ [32] @ statusText
           | None \<Rightarrow> int_str status @ [32] @ statusText)
      | ThrownError err \<Rightarrow> error_text err (js ''An unexpected routing error occurred.''))"

section \<open>What the menu does\<close>

text \<open>The two menus move the focus alike.\<close>

lemma account_next_index_eq: "account_next_index key n i = next_index key n i"
  by (simp add: account_next_index_def next_index_def)

text \<open>
  Signing out from the account menu: a click while one runs does nothing; a success signs the
  session provider out and closes the menu; a failure leaves the user signed in with a message
  that is not blank; and in both cases the menu can be used again.
\<close>

theorem account_menu_signs_out:
  assumes "auth_reachable s" and "\<not> am_isSigningOut m" and "account_logout_start (m, s) = ms"
  shows "account_logout_start ms = ms
    \<and> (\<exists>m' s'. account_logout_reply (Inr ()) ms = (m', s') \<and> \<not> am_isOpen m' \<and> \<not> am_isSigningOut m'
         \<and> au_status s' = Anonymous \<and> au_user s' = None)
    \<and> (\<exists>m' s' t. account_logout_reply (Inl e) ms = (m', s') \<and> am_isOpen m' = am_isOpen m \<and> \<not> am_isSigningOut m'
         \<and> am_error m' = Some t \<and> js_trim t \<noteq> [] \<and> au_status s' = au_status s \<and> au_user s' = au_user s)"
proof -
  have id: "au_statusRef s = au_status s" "au_user s \<noteq> None \<longleftrightarrow> au_status s = Authenticated"
    using identity_ok_reachable [OF assms(1)] by (simp_all add: identity_ok_def)
  have shown: "js_trim (account_menu_error e) \<noteq> []"
    unfolding account_menu_error_def by (rule error_text_not_blank) (simp add: js_trim_def js_trim_end_def js_Cons is_ws_def)
  have ms: "ms = (m\<lparr>am_error := None, am_isSigningOut := True\<rparr>, auth_step s LogoutStart)"
    using assms(2,3) by (simp add: account_logout_start_def)
  show ?thesis
    using id shown
    by (auto simp: ms account_logout_start_def account_logout_reply_def auth_step_def answered_def auth_functions Let_def)
qed

theorem account_menu_signs_out_witness:
  "\<exists>m' s'. account_logout_reply (Inr ()) (account_logout_start
      (account_menu_initial\<lparr>am_isOpen := True\<rparr>,
       auth_step (auth_step (auth_initial ui_initial) MountLoad) (LoadReply 1 False False (Some False) (Inr ann_session)))) = (m', s')
    \<and> \<not> am_isOpen m' \<and> \<not> am_isSigningOut m' \<and> au_status s' = Anonymous \<and> au_user s' = None"
  using account_menu_signs_out [OF signed_in_reachable _ refl, of "account_menu_initial\<lparr>am_isOpen := True\<rparr>"]
  by (simp add: account_menu_initial_def)

end
