(* ===== verification/MessagesView.thy ===== *)
theory MessagesView
  imports MessageDialogViews AccountMenu
begin

text \<open>
  What the messages page renders (\<open>pages/messages-page.tsx\<close> with \<open>message-grid.tsx\<close> and
  \<open>message-grid-skeleton.tsx\<close>), what each of its controls does to the page, its cards and its
  dialogs, and how the page can be used.
\<close>

section \<open>The screen\<close>

text \<open>
  The page with the state its children keep: the cards and their previews by message, the preview in
  the detail dialog, the category chosen in the move dialog, the name typed into the tag dialog.
\<close>

record messages_screen =
  sc_page :: page_state
  sc_cards :: "int \<Rightarrow> message_card"
  sc_contents :: "int \<Rightarrow> content_state"
  sc_detailContent :: content_state
  sc_move :: "jsnum option"
  sc_newTag :: jstr

text \<open>What the page uses of its surroundings.\<close>

record view_host =
  vh_host :: host
  vh_url :: url_parser
  vh_dates :: date_host
  vh_number :: "jsnum \<Rightarrow> jstr"
  vh_menuId :: "int \<Rightarrow> jstr"

definition content_initial :: content_state where
  "content_initial = \<lparr>co_preview = \<lparr>lp_isCopied = False, lp_thumbnailFailed = False\<rparr>, co_imageFailed = False\<rparr>"

definition screen_of :: "page_state \<Rightarrow> messages_screen" where
  "screen_of p =
     \<lparr>sc_page = p, sc_cards = (\<lambda>_. card_initial), sc_contents = (\<lambda>_. content_initial),
      sc_detailContent = content_initial, sc_move = None, sc_newTag = []\<rparr>"

section \<open>The head of the page\<close>

definition availableCategories :: "host \<Rightarrow> page_state \<Rightarrow> (jstr \<times> jstr) list" where
  "availableCategories H p =
     js_sort (\<lambda>first second. locale_compare H (snd first) (snd second))
       (map (\<lambda>c. (cat_slug c, cat_name c)) (actionCategories p))"

definition active_category_text :: "host \<Rightarrow> page_state \<Rightarrow> jstr" where
  "active_category_text H p =
     (let slug = pf_category (filters_of H p)
      in if slug = [] then []
         else js '' Active category: '' @
           (case find (\<lambda>c. fst c = slug) (availableCategories H p) of
              Some c \<Rightarrow> snd c | None \<Rightarrow> formatCategoryFilter H slug) @ js ''.'')"

definition page_header :: "host \<Rightarrow> page_state \<Rightarrow> messages_action html" where
  "page_header H p =
     El ''div'' [] []
       ([El ''h2'' [] [] [Txt (js ''Messages'')],
         El ''p'' [] []
           [Txt (js ''Search by content, URL, sender, and tags. Layer filters to narrow down your Saved Messages quickly.'' @
              active_category_text H p)]]
        @ shown (mp_loadError p) (\<lambda>e.
            [StatePanel ErrorTone (js ''Messages could not be loaded.'') (Some e)
               (Some (Button None [] [on ''click'' (PageEvent Retry)] [Txt (js ''Try again'')]))])
        @ shown (mp_pageError p) (\<lambda>e. [StatePanel ErrorTone (js ''Message action failed.'') (Some e) None]))"

section \<open>Filters\<close>

definition filter_select :: "string \<Rightarrow> jstr \<Rightarrow> bool \<Rightarrow> (jstr \<times> jstr \<times> page_event) list \<Rightarrow> messages_action html" where
  "filter_select label chosen isDisabled options =
     El ''label'' [] []
       [El ''span'' [] [] [Txt (js label)],
        select_element ([(''value'', chosen)] @ flag ''disabled'' isDisabled)
          (map (\<lambda>(v, l, e). (v, l, PageEvent e)) options)]"

definition kind_select :: "host \<Rightarrow> page_state \<Rightarrow> messages_action html" where
  "kind_select H p =
     filter_select ''Message type'' (case pf_kind (filters_of H p) of Some k \<Rightarrow> kind_str k | None \<Rightarrow> []) (mp_isInitialLoading p)
       (([], js ''All message types'', ChooseKind None)
        # map (\<lambda>(k, l). (kind_str k, js l, ChooseKind (Some k))) messageKindOptions)"

definition category_select :: "host \<Rightarrow> page_state \<Rightarrow> messages_action html" where
  "category_select H p =
     filter_select ''Category'' (pf_category (filters_of H p)) (mp_isInitialLoading p)
       (([], js ''All categories'', ChooseCategory [])
        # map (\<lambda>(slug, name). (slug, name, ChooseCategory slug)) (availableCategories H p))"

definition sort_select :: "host \<Rightarrow> page_state \<Rightarrow> messages_action html" where
  "sort_select H p =
     filter_select ''Sort'' (sort_str (pf_sort (filters_of H p))) (mp_isInitialLoading p)
       (map (\<lambda>(v, l). (sort_str v, js l, ChooseSort v)) sortOptions)"

definition filter_controls :: "host \<Rightarrow> page_state \<Rightarrow> messages_action html" where
  "filter_controls H p =
     El ''div'' [] []
       [El ''label'' [] []
          [El ''span'' [] [] [Txt (js ''Search messages'')],
           El ''input''
             ([(''value'', mp_searchQuery p), (''placeholder'', js ''Search by text, URL, sender, or tag...'')]
              @ flag ''disabled'' (mp_isInitialLoading p))
             [(''change'', \<lambda>t. PageEvent (TypeSearch t))] []],
        kind_select H p, category_select H p, sort_select H p,
        if hasActiveFilters H p
        then Button None (flag ''disabled'' (mp_isInitialLoading p)) [on ''click'' (PageEvent ClearFilters)] [Txt (js ''Clear filters'')]
        else El ''div'' [] [] []]"

text \<open>\<open>components/ui/skeleton.tsx\<close>\<close>

definition Skeleton :: "'a html" where
  "Skeleton = El ''div'' [] [] []"

definition tag_button :: "host \<Rightarrow> page_state \<Rightarrow> message_tag \<Rightarrow> messages_action html" where
  "tag_button H p t =
     (let key = normalizeTagKey H (tag_name t)
      in El ''button'' ([(''type'', js ''button'')] @ bool_attr ''aria-pressed'' (key \<in> set (pf_tags (filters_of H p))))
           [on ''click'' (PageEvent (ToggleTag key))] [El ''span'' [] [] [Txt (35 # tag_name t)]])"

definition tag_filter :: "host \<Rightarrow> page_state \<Rightarrow> messages_action html" where
  "tag_filter H p =
     El ''div'' [] []
       [El ''div'' [] []
          [El ''p'' [] [] [Txt (js ''Tag filter'')],
           El ''span'' [] [] [Txt (nat_str (length (pf_tags (filters_of H p))) @ js '' selected'')]],
        if mp_isInitialLoading p then El ''div'' [] [] (replicate 4 Skeleton)
        else if availableTags H p \<noteq> [] then El ''div'' [] [] (map (tag_button H p) (availableTags H p))
        else El ''p'' [] [] [Txt (js ''No tags available yet.'')]]"

section \<open>The listing\<close>

definition listing_summary :: "host \<Rightarrow> page_state \<Rightarrow> jstr" where
  "listing_summary H p =
     (if mp_isInitialLoading p then js ''Loading messages...''
      else int_str (mp_total p) @ [32] @ (if hasActiveFilters H p then js ''matching '' else []) @ js ''message''
        @ (if mp_total p = 1 then [] else js ''s'')
        @ (if mp_total p > pf_per_page (filters_of H p)
           then [32, 183] @ js '' Page '' @ int_str (safePage H p) @ js '' of '' @ int_str (page_count H p) else []))"

definition listing_header :: "host \<Rightarrow> page_state \<Rightarrow> messages_action html" where
  "listing_header H p =
     El ''div'' [] []
       [El ''p'' [] []
          ([Txt (listing_summary H p)]
           @ (if mp_isRefreshing p
              then [El ''span'' [(''role'', js ''status''), (''aria-label'', js ''Updating messages'')] []
                      [El ''span'' [(''aria-hidden'', js ''true'')] [] [], Txt (js ''Updating'' @ ellipsis)]]
              else [])),
        El ''div'' [] []
          ([El ''label'' [] []
              [Txt (js ''Per page''),
               select_element [(''value'', int_str (pf_per_page (filters_of H p)))]
                 (map (\<lambda>n. (int_str n, int_str n, PageEvent (ChoosePerPage n))) itemsPerPageOptions)]]
           @ (if \<not> mp_bulkMode p
              then [Button None (flag ''disabled'' (mp_isInitialLoading p \<or> mp_messages p = [])) [on ''click'' (PageEvent ActivateBulk)]
                      [Txt (js ''Bulk select'')]]
              else []))]"

definition MessageGridSkeleton :: "nat \<Rightarrow> 'a html" where
  "MessageGridSkeleton tiles =
     El ''div'' [] []
       (replicate tiles
          (El ''article'' [] []
             [El ''div'' [] [] (replicate 2 Skeleton), El ''div'' [] [] (replicate 3 Skeleton),
              El ''div'' [] [] (replicate 2 Skeleton), El ''div'' [] [] (replicate 3 Skeleton)]))"

definition props_on_page :: "view_host \<Rightarrow> page_state \<Rightarrow> message_item \<times> bool \<times> bool \<Rightarrow> card_props" where
  "props_on_page V p shown_card =
     (let (m, pending, selected) = shown_card
      in \<lparr>cv_message = m, cv_isDeletePending = pending, cv_isSelectionMode = mp_bulkMode p,
          cv_isSelected = selected, cv_menuId = vh_menuId V (msg_id m)\<rparr>)"

definition grid_card :: "view_host \<Rightarrow> messages_screen \<Rightarrow> message_item \<times> bool \<times> bool \<Rightarrow> messages_action html list" where
  "grid_card V s shown_card =
     (let i = msg_id (fst shown_card)
      in map (map_html (CardAction i))
           (card_view (vh_host V) (vh_url V) (vh_dates V) (props_on_page V (sc_page s) shown_card) (sc_contents s i) (sc_cards s i)))"

definition grid_view :: "view_host \<Rightarrow> messages_screen \<Rightarrow> messages_action html" where
  "grid_view V s =
     (let p = sc_page s
      in El ''div'' [] [] (concat (map (grid_card V s) (grid_cards (mp_messages p) (mp_pendingDelete p) (mp_selected p)))))"

definition page_button :: "int \<Rightarrow> int option \<Rightarrow> messages_action html" where
  "page_button here item =
     (case item of
        None \<Rightarrow> El ''span'' [] [] [Txt ellipsis]
      | Some n \<Rightarrow>
          Button None
            ((if n = here then [(''aria-current'', js ''page'')] else []) @ [(''aria-label'', js ''Page '' @ int_str n)])
            [on ''click'' (PageEvent (GoToPage n))] [Txt (int_str n)])"

definition page_bar :: "host \<Rightarrow> page_state \<Rightarrow> messages_action html list" where
  "page_bar H p =
     (let here = safePage H p; pages = page_count H p
      in if \<not> shows_page_bar H p then []
         else [El ''nav'' [(''aria-label'', js ''Message pages'')] []
            [Button None (flag ''disabled'' (here \<le> 1)) [on ''click'' (PageEvent (GoToPage (here - 1)))] [Txt (js ''Prev'')],
             El ''span'' [(''aria-label'', js ''Current page, '' @ int_str here @ js '' of '' @ int_str pages)] []
               [Txt (int_str here @ js '' / '' @ int_str pages)],
             El ''span'' [(''aria-label'', js ''Pagination page numbers'')] [] (map (page_button here) (page_items pages here)),
             Button None (flag ''disabled'' (here \<ge> pages)) [on ''click'' (PageEvent (GoToPage (here + 1)))] [Txt (js ''Next'')]]])"

definition empty_panel :: "host \<Rightarrow> page_state \<Rightarrow> messages_action html list" where
  "empty_panel H p =
     (case page_body_of H p of
        NoMatches \<Rightarrow>
          [StatePanel DefaultTone (js ''No messages match these filters.'')
             (Some (js ''Adjust search or filter controls to broaden results.''))
             (Some (Button None [] [on ''click'' (PageEvent ClearFilters)] [Txt (js ''Clear filters'')]))]
      | NoMessagesYet \<Rightarrow>
          [StatePanel DefaultTone (js ''No messages yet.'')
             (Some (js ''Import Saved Messages from the Dashboard scanner, or review your Telegram connection first.''))
             (Some (El ''div'' [] []
                [El ''Link'' [(''to'', js ''/'')] [] [Txt (js ''Open scanner'')],
                 El ''Link'' [(''to'', js ''/settings/telegram'')] [] [Txt (js ''Telegram connection'')]]))]
      | _ \<Rightarrow> [])"

section \<open>The page and its dialogs\<close>

definition dialog_open :: "page_state \<Rightarrow> bool" where
  "dialog_open p \<longleftrightarrow> mp_detailDialog p \<noteq> None \<or> mp_moveDialog p \<noteq> None \<or> mp_tagDialog p \<noteq> None"

text \<open>What the requests of the detail dialog start on the page.\<close>

fun detail_to_page :: "detail_action \<Rightarrow> messages_action" where
  "detail_to_page detail_action.CloseDetail = PageEvent page_event.CloseDetail"
| "detail_to_page (DetailRequest (card_request.MoveMessage i)) = PageEvent (OpenMoveFromDetail i)"
| "detail_to_page (DetailRequest (TagMessage i)) = PageEvent (OpenTagsFromDetail i)"
| "detail_to_page (DetailRequest (card_request.DeleteMessage i)) = AskDelete i"
| "detail_to_page (DetailRequest (card_request.OpenDetail i)) = PageEvent (page_event.OpenDetail i)"
| "detail_to_page (DetailContent a) = DetailContentAction a"

definition detail_dialog :: "view_host \<Rightarrow> messages_screen \<Rightarrow> messages_action html list" where
  "detail_dialog V s =
     (let p = sc_page s
      in map (map_html detail_to_page)
           (detail_view (vh_host V) (vh_url V) (vh_dates V) (vh_number V) (mp_detailDialog p \<noteq> None)
              (mp_pendingDelete p = mp_detailDialog p) (active_message (mp_detailDialog p) p) (sc_detailContent s)))"

definition page_section :: "view_host \<Rightarrow> messages_screen \<Rightarrow> messages_action html list" where
  "page_section V s =
     (let H = vh_host V; p = sc_page s
      in [page_header H p, El ''div'' [] [] [filter_controls H p, tag_filter H p], listing_header H p]
         @ (if mp_bulkMode p \<and> \<not> mp_isInitialLoading p then [bulk_actions_view H p] else [])
         @ [if mp_isInitialLoading p then MessageGridSkeleton 8 else grid_view V s]
         @ page_bar H p @ empty_panel H p)"

definition messages_view :: "view_host \<Rightarrow> messages_screen \<Rightarrow> messages_action html list" where
  "messages_view V s =
     (let p = sc_page s
      in [El ''section'' (flag ''inert'' (dialog_open p)) [] (page_section V s)]
         @ detail_dialog V s @ move_dialog_view p (sc_move s) @ tag_dialog_view (vh_host V) p (sc_newTag s))"

section \<open>What the controls do\<close>

text \<open>
  The page after a new state: a move dialog that opens, or whose message changes, starts with the
  message's category, and a tag dialog with an empty name; cards and previews that are gone lose
  their state.
\<close>

definition messages_rerender :: "page_state \<Rightarrow> messages_screen \<Rightarrow> messages_screen" where
  "messages_rerender p s =
     (let before = sc_page s; shown_before = active_message (mp_moveDialog before) before; shown_now = active_message (mp_moveDialog p) p;
          id_before = map_option msg_id (active_message (mp_tagDialog before) before);
          id_now = map_option msg_id (active_message (mp_tagDialog p) p)
      in s\<lparr>sc_page := p,
           sc_cards := (\<lambda>i. if i \<in> visible_ids p then sc_cards s i else card_initial),
           sc_contents := (\<lambda>i. if i \<in> visible_ids p then sc_contents s i else content_initial),
           sc_detailContent := (if mp_detailDialog p = None then content_initial else sc_detailContent s),
           sc_move := (if shown_now = shown_before \<and> (mp_moveDialog p = None) = (mp_moveDialog before = None) then sc_move s
                       else move_dialog_effect (mp_moveDialog p \<noteq> None) shown_now (sc_move s)),
           sc_newTag := (if id_now = id_before \<and> (mp_tagDialog p = None) = (mp_tagDialog before = None) then sc_newTag s
                         else tag_input_effect (mp_tagDialog p \<noteq> None) (sc_newTag s))\<rparr>)"

definition page_do :: "host \<Rightarrow> page_event \<Rightarrow> messages_screen \<Rightarrow> messages_screen" where
  "page_do H e s = messages_rerender (page_step H (sc_page s) e) s"

definition on_card :: "int \<Rightarrow> (message_card \<Rightarrow> message_card) \<Rightarrow> messages_screen \<Rightarrow> messages_screen" where
  "on_card i f s = s\<lparr>sc_cards := (sc_cards s)(i := f (sc_cards s i))\<rparr>"

text \<open>What a request of a card's menu starts; \<open>confirmed\<close> is the answer to \<open>window.confirm\<close>.\<close>

fun card_request_event :: "bool \<Rightarrow> card_request \<Rightarrow> page_event" where
  "card_request_event confirmed (card_request.OpenDetail i) = page_event.OpenDetail i"
| "card_request_event confirmed (card_request.MoveMessage i) = OpenMove i"
| "card_request_event confirmed (TagMessage i) = OpenTags i"
| "card_request_event confirmed (card_request.DeleteMessage i) = page_event.DeleteMessage i confirmed"

text \<open>Where a key of the menu moves the focus is left out: the card stays as it is.\<close>

fun card_do :: "host \<Rightarrow> bool \<Rightarrow> clipboard \<Rightarrow> int \<Rightarrow> card_action \<Rightarrow> messages_screen \<Rightarrow> messages_screen" where
  "card_do H confirmed cb i (SelectCard b) s = page_do H (SelectMessage i b) s"
| "card_do H confirmed cb i (TriggerKey key) s = on_card i (\<lambda>c. fst (handleTriggerKeyDown key c)) s"
| "card_do H confirmed cb i TriggerClicked s = on_card i (\<lambda>c. fst (trigger_click c)) s"
| "card_do H confirmed cb i (MenuKey key) s = on_card i (\<lambda>c. fst (handleActionsMenuKeyDown key 4 (- 1) c)) s"
| "card_do H confirmed cb i (Choose req) s =
     (let (requests, c) = menu_choice (mp_pendingDelete (sc_page s) = Some i) req (sc_cards s i)
      in foldl (\<lambda>s r. page_do H (card_request_event confirmed r) s) (on_card i (\<lambda>_. c) s) requests)"
| "card_do H confirmed cb i OpenFull s = page_do H (page_event.OpenDetail i) s"
| "card_do H confirmed cb i (CardContent a) s = s\<lparr>sc_contents := (sc_contents s)(i := content_do cb a (sc_contents s i))\<rparr>"

text \<open>\<open>parseInt\<close> gives a whole number; the submitted one is sent.\<close>

definition submit_move :: "host \<Rightarrow> messages_screen \<Rightarrow> messages_screen" where
  "submit_move H s =
     (let p = sc_page s
      in case active_message (mp_moveDialog p) p of
           None \<Rightarrow> s
         | Some m \<Rightarrow>
             (case move_submit m (mp_isMoveSubmitting p) (sc_move s) of
                Some (i, Fin c) \<Rightarrow> page_do H (page_event.MoveMessage i \<lfloor>c\<rfloor>) s
              | _ \<Rightarrow> s))"

text \<open>What the dialog does with the value that \<open>onCreateTag\<close> resolves with, when it does.\<close>

definition answered_tag :: "bool option \<Rightarrow> messages_screen \<Rightarrow> messages_screen" where
  "answered_tag outcome s =
     (case outcome of Some created \<Rightarrow> s\<lparr>sc_newTag := handleCreateTag_reply created (sc_newTag s)\<rparr> | None \<Rightarrow> s)"

definition submit_new_tag :: "host \<Rightarrow> messages_screen \<Rightarrow> messages_screen" where
  "submit_new_tag H s =
     (case handleCreateTag_start (sc_newTag s) of
        None \<Rightarrow> s
      | Some name \<Rightarrow> answered_tag (fst (handleCreateAndAttachTag_start name (sc_page s))) (page_do H (CreateTag name) s))"

fun messages_do :: "host \<Rightarrow> bool \<Rightarrow> clipboard \<Rightarrow> messages_action \<Rightarrow> messages_screen \<Rightarrow> messages_screen" where
  "messages_do H confirmed cb (PageEvent e) s = page_do H e s"
| "messages_do H confirmed cb (AskDelete i) s = page_do H (page_event.DeleteMessage i confirmed) s"
| "messages_do H confirmed cb AskDeleteSelected s = page_do H (DeleteSelected confirmed) s"
| "messages_do H confirmed cb (CardAction i a) s = card_do H confirmed cb i a s"
| "messages_do H confirmed cb (DetailContentAction a) s = s\<lparr>sc_detailContent := content_do cb a (sc_detailContent s)\<rparr>"
| "messages_do H confirmed cb (SelectMove i) s = s\<lparr>sc_move := move_dialog_select (int_str i)\<rparr>"
| "messages_do H confirmed cb SubmitMove s = submit_move H s"
| "messages_do H confirmed cb (TypeNewTag t) s = s\<lparr>sc_newTag := t\<rparr>"
| "messages_do H confirmed cb SubmitNewTag s = submit_new_tag H s"

section \<open>What each control offers\<close>

text \<open>Events that open no dialog, choose nothing for a bulk action and make no change.\<close>

fun quiet :: "page_event \<Rightarrow> bool" where
  "quiet Retry = True"
| "quiet (TypeSearch v) = True"
| "quiet (ChooseKind k) = True"
| "quiet (ChooseCategory c) = True"
| "quiet (ChooseSort v) = True"
| "quiet (ChoosePerPage n) = True"
| "quiet (ToggleTag k) = True"
| "quiet ClearFilters = True"
| "quiet (GoToPage n) = True"
| "quiet ActivateBulk = True"
| "quiet ExitBulk = True"
| "quiet SelectAll = True"
| "quiet ClearSelection = True"
| "quiet page_event.CloseDetail = True"
| "quiet CloseMove = True"
| "quiet CloseTags = True"
| "quiet e = False"

lemma in_quiet: "quiet e \<Longrightarrow> PageEvent e \<in> PageEvent ` Collect quiet"
  by simp

lemma page_header_acts: "acts (page_header H p) \<subseteq> PageEvent ` Collect quiet"
  by (auto simp: page_header_def shown_def split: option.splits if_splits)

lemma filter_select_acts:
  "acts (filter_select label c d options) \<subseteq> PageEvent ` (snd \<circ> snd) ` set options"
  by (auto simp: filter_select_def image_image case_prod_beta)

lemma filter_controls_acts: "acts (filter_controls H p) \<subseteq> PageEvent ` Collect quiet"
proof -
  have "acts (kind_select H p) \<subseteq> PageEvent ` Collect quiet" "acts (category_select H p) \<subseteq> PageEvent ` Collect quiet"
    "acts (sort_select H p) \<subseteq> PageEvent ` Collect quiet"
    unfolding kind_select_def category_select_def sort_select_def
    by (rule order_trans [OF filter_select_acts]; force)+
  then show ?thesis by (auto simp: filter_controls_def)
qed

lemma listing_acts:
  "acts (tag_filter H p) \<subseteq> PageEvent ` Collect quiet" "acts (listing_header H p) \<subseteq> PageEvent ` Collect quiet"
  "acts (MessageGridSkeleton n) = {}" "acts_list (empty_panel H p) \<subseteq> PageEvent ` Collect quiet"
  by (auto simp: tag_filter_def tag_button_def listing_header_def MessageGridSkeleton_def Skeleton_def empty_panel_def
      acts_list_eq Let_def split: page_body.splits)

lemma page_bar_acts: "acts_list (page_bar H p) \<subseteq> PageEvent ` Collect quiet"
  by (auto simp: page_bar_def page_button_def Let_def split: option.splits if_splits)

lemma bulk_acts:
  "acts (bulk_actions_view H p) \<subseteq>
     (if mp_bulkPending p \<noteq> None then {}
      else PageEvent ` Collect quiet \<union> (\<lambda>c. PageEvent (ChooseBulkCategory (Some (cat_id c)))) ` set (actionCategories p)
        \<union> (\<lambda>t. PageEvent (ChooseBulkTag (Some (tag_id t)))) ` set (availableTags H p)
        \<union> (if mp_selected p = [] then {} else {AskDeleteSelected}
             \<union> (if mp_bulkCategory p = None then {} else {PageEvent MoveSelected})
             \<union> (if mp_bulkTag p = None then {} else {PageEvent TagSelected})))"
  by (auto simp: bulk_actions_acts)

lemma acts_map_html_list: "acts_list (map (map_html f) vs) = f ` acts_list vs"
  by (induction vs) auto

lemma acts_concat: "acts_list (concat vss) = (\<Union>vs \<in> set vss. acts_list vs)"
  by (induction vss) auto

definition card_offers :: "bool \<Rightarrow> int \<Rightarrow> card_action set" where
  "card_offers pending i =
     range SelectCard \<union> {TriggerClicked, OpenFull} \<union> range TriggerKey \<union> range MenuKey \<union> range CardContent
     \<union> Choose ` ({card_request.OpenDetail i, card_request.MoveMessage i, TagMessage i}
         \<union> (if pending then {} else {card_request.DeleteMessage i}))"

lemma grid_card_acts: "acts_list (grid_card V s (m, pending, selected)) \<subseteq> CardAction (msg_id m) ` card_offers pending (msg_id m)"
  unfolding grid_card_def Let_def acts_map_html_list fst_conv
  by (rule image_mono, rule order_trans [OF card_view_acts])
    (auto simp: card_offers_def card_menu_requests_def props_on_page_def Let_def split: if_splits)

lemma grid_acts:
  "acts (grid_view V s) \<subseteq>
     (\<Union>m \<in> set (mp_messages (sc_page s)).
        CardAction (msg_id m) ` card_offers (mp_pendingDelete (sc_page s) = Some (msg_id m)) (msg_id m))"
  using grid_card_acts by (fastforce simp: grid_view_def grid_cards_def Let_def acts_concat)

lemma detail_dialog_acts:
  "acts_list (detail_dialog V s) \<subseteq>
     (case active_message (mp_detailDialog (sc_page s)) (sc_page s) of
        None \<Rightarrow> {}
      | Some m \<Rightarrow>
          {PageEvent page_event.CloseDetail, PageEvent (OpenMoveFromDetail (msg_id m)), PageEvent (OpenTagsFromDetail (msg_id m))}
          \<union> (if mp_pendingDelete (sc_page s) = Some (msg_id m) then {} else {AskDelete (msg_id m)}) \<union> range DetailContentAction)"
proof (cases "active_message (mp_detailDialog (sc_page s)) (sc_page s)")
  case (Some m)
  then have d: "mp_detailDialog (sc_page s) = Some (msg_id m)"
    by (auto simp: active_message_def find_message_def find_Some_iff split: option.splits)
  with Some have "acts_list (detail_dialog V s) = detail_to_page ` acts_list (detail_view (vh_host V) (vh_url V) (vh_dates V)
      (vh_number V) True (mp_pendingDelete (sc_page s) = Some (msg_id m)) (Some m) (sc_detailContent s))"
    by (simp only: detail_dialog_def Let_def acts_map_html_list) simp
  also have "\<dots> \<subseteq> detail_to_page ` ({detail_action.CloseDetail, DetailRequest (card_request.MoveMessage (msg_id m)), DetailRequest (TagMessage (msg_id m))}
      \<union> (if mp_pendingDelete (sc_page s) = Some (msg_id m) then {} else {DetailRequest (card_request.DeleteMessage (msg_id m))})
      \<union> range DetailContent)"
    by (rule image_mono, rule order_trans [OF detail_view_acts]) simp
  finally show ?thesis using Some by (auto split: if_splits)
qed (simp add: detail_dialog_def Let_def detail_view_def)

section \<open>Names\<close>

lemma markup_concat:
  "named_list ids b (concat vss) \<longleftrightarrow> list_all (named_list ids b) vss"
  "labelled_ids_list (concat vss) = (\<Union>vs \<in> set vss. labelled_ids_list vs)"
  by (induction vss) auto

lemma bulk_select_markup [simp]:
  "l \<noteq> [] \<Longrightarrow> \<not> is_ws (of_char (hd l)) \<Longrightarrow> named ids b (bulk_action_select l c d os)" "labelled_ids (bulk_action_select l c d os) = {}"
  by (cases l; simp add: bulk_action_select_def)+

lemma filter_select_markup [simp]:
  "l \<noteq> [] \<Longrightarrow> \<not> is_ws (of_char (hd l)) \<Longrightarrow> named ids b (filter_select l c d os)" "labelled_ids (filter_select l c d os) = {}"
  by (cases l; simp add: filter_select_def)+

lemma nonblank_hash [simp]: "nonblank (35 # t)"
  by (simp add: nonblank_def is_ws_def)

lemma skeletons_markup [simp]: "named_list ids b (replicate n Skeleton)" "labelled_ids_list (replicate n Skeleton) = {}"
  by (induction n) (simp_all add: Skeleton_def)

lemma head_markup [simp]:
  "named ids b (page_header H p)" "labelled_ids (page_header H p) = {}"
  "named ids b (filter_controls H p)" "labelled_ids (filter_controls H p) = {}"
  "named ids b (tag_filter H p)" "labelled_ids (tag_filter H p) = {}"
  by (simp_all add: page_header_def filter_controls_def kind_select_def category_select_def sort_select_def tag_filter_def
      tag_button_def Button_def Let_def is_ws_def)

lemma listing_markup [simp]:
  "named ids b (listing_header H p)" "labelled_ids (listing_header H p) = {}"
  "named ids b (MessageGridSkeleton n)" "labelled_ids (MessageGridSkeleton n) = {}"
  "named_list ids b (page_bar H p)" "labelled_ids_list (page_bar H p) = {}"
  "named_list ids b (empty_panel H p)" "labelled_ids_list (empty_panel H p) = {}"
  by (simp_all add: listing_header_def MessageGridSkeleton_def page_bar_def page_button_def empty_panel_def Button_def
      has_label_attr_def html_lists(3,6) Let_def is_ws_def Skeleton_def split: page_body.split option.split)

lemma bulk_markup [simp]: "named ids b (bulk_actions_view H p)" "labelled_ids (bulk_actions_view H p) = {}"
  by (simp_all add: bulk_actions_view_def bulk_header_def bulk_controls_def Button_def Let_def is_ws_def)

lemma card_markup: "named_list ids b (card_view H U D p s c)" "labelled_ids_list (card_view H U D p s c) = {}"
  by (simp_all add: card_view_def card_header_def actions_menu_def menu_item_def tag_chip_def Let_def
      content_view_named content_view_label has_label_attr_def is_ws_def)

lemma mapped_markup:
  "named_list ids b (map (map_html f) vs) = named_list ids b vs" "labelled_ids_list (map (map_html f) vs) = labelled_ids_list vs"
  by (induction vs) auto

lemma grid_markup [simp]: "named ids b (grid_view V s)" "labelled_ids (grid_view V s) = {}"
  by (simp_all add: grid_view_def grid_card_def Let_def markup_concat mapped_markup card_markup list_all_iff
      del: named_list_map labelled_ids_map)

lemma dialog_markup [simp]:
  "named_list ids b (move_dialog_view p c)" "labelled_ids_list (move_dialog_view p c) = {}"
  "named_list ids b (tag_dialog_view H p t)" "labelled_ids_list (tag_dialog_view H p t) = {}"
  by (simp_all add: move_dialog_view_def tag_dialog_view_def modal_frame_def attached_tag_def candidate_tag_def new_tag_form_def
      Button_def Let_def is_ws_def split: option.split)

lemma detail_dialog_markup [simp]: "named_list ids b (detail_dialog V s)" "labelled_ids_list (detail_dialog V s) = {}"
proof -
  have header: "named ids b (detail_header D pending m)" "labelled_ids (detail_header D pending m) = {}" for ids b D pending m
    by (simp_all add: detail_header_def Button_def is_ws_def)
  have sections: "named_list ids b (detail_sections H U D nt m c)" "labelled_ids_list (detail_sections H U D nt m c) = {}"
    for ids b H U D nt m c
    by (simp_all add: detail_sections_def content_view_named content_view_label)
  show "named_list ids b (detail_dialog V s)" "labelled_ids_list (detail_dialog V s) = {}"
    by (simp_all add: detail_dialog_def mapped_markup detail_view_def header sections has_label_attr_def Let_def is_ws_def
        del: named_list_map labelled_ids_map split: option.split)
qed

text \<open>Every control of the page, its cards and its dialogs has an accessible name.\<close>

lemma messages_view_named: "controls_named (messages_view V s)"
  by (simp add: controls_named_def messages_view_def page_section_def Let_def)

end
