(* ===== verification/MessagesUse.thy ===== *)
theory MessagesUse
  imports MessagesView
begin

text \<open>
  The messages page as it is used: what its controls offer in every state users and the server can
  bring it into, and the request each of them makes.
\<close>

section \<open>Dialogs only open on request\<close>

definition open_dialogs :: "page_state \<Rightarrow> int option \<times> int option \<times> int option" where
  "open_dialogs p = (mp_detailDialog p, mp_moveDialog p, mp_tagDialog p)"

definition one_dialog :: "page_state \<Rightarrow> bool" where
  "one_dialog p \<longleftrightarrow>
     (mp_detailDialog p = None \<or> mp_moveDialog p = None) \<and> (mp_detailDialog p = None \<or> mp_tagDialog p = None)
     \<and> (mp_moveDialog p = None \<or> mp_tagDialog p = None)"

text \<open>The dialogs of the first state are among those of the second.\<close>

definition dialogs_within :: "page_state \<Rightarrow> page_state \<Rightarrow> bool" where
  "dialogs_within q p \<longleftrightarrow>
     mp_detailDialog q \<in> {None, mp_detailDialog p} \<and> mp_moveDialog q \<in> {None, mp_moveDialog p}
     \<and> mp_tagDialog q \<in> {None, mp_tagDialog p}"

lemma dialogs_within_trans: "dialogs_within r q \<Longrightarrow> dialogs_within q p \<Longrightarrow> dialogs_within r p"
  by (auto simp: dialogs_within_def)

lemma one_dialog_within: "dialogs_within q p \<Longrightarrow> one_dialog p \<Longrightarrow> one_dialog q"
  by (auto simp: dialogs_within_def one_dialog_def)

lemma effect_dialogs:
  "open_dialogs (search_effect b p) = open_dialogs p" "open_dialogs (load_effect H b p) = open_dialogs p"
  "open_dialogs (bulk_category_effect b p) = open_dialogs p" "open_dialogs (bulk_tag_effect H b p) = open_dialogs p"
  "open_dialogs (page_effect H b p) = open_dialogs p" "open_dialogs (selection_effect b p) = open_dialogs p"
  "open_dialogs (leave_bulk_effect b p) = open_dialogs p"
  by (simp_all add: open_dialogs_def effect_defs Let_def)

lemma page_effects_dialogs: "dialogs_within (page_effects H b p) p"
proof -
  let ?q = "leave_bulk_effect b (selection_effect b (page_effect H b
      (bulk_tag_effect H b (bulk_category_effect b (load_effect H b (search_effect b p))))))"
  have "open_dialogs ?q = open_dialogs p" by (simp add: effect_dialogs)
  then show ?thesis
    by (auto simp: page_effects_def dialogs_effect_def dialogs_within_def open_dialogs_def close_if_gone_def split: option.splits)
qed

lemma commit_dialogs: "dialogs_within (commit H b p) p"
  unfolding commit_def Let_def by (rule dialogs_within_trans [OF page_effects_dialogs page_effects_dialogs])

fun opens_dialog :: "page_event \<Rightarrow> bool" where
  "opens_dialog (page_event.OpenDetail i) = True"
| "opens_dialog (OpenMove i) = True"
| "opens_dialog (OpenTags i) = True"
| "opens_dialog (OpenMoveFromDetail i) = True"
| "opens_dialog (OpenTagsFromDetail i) = True"
| "opens_dialog e = False"

lemma react_dialogs: "\<not> opens_dialog e \<Longrightarrow> dialogs_within (page_react H e p) p"
  by (cases e) (auto simp: dialogs_within_def page_handlers message_handlers delete_handlers Let_def
      split: sum.splits option.splits prod.splits)

lemma step_one_dialog:
  assumes "one_dialog p" and "opens_dialog e \<Longrightarrow> \<not> dialog_open p \<or> (\<exists>i. e = OpenMoveFromDetail i \<or> e = OpenTagsFromDetail i) \<and> mp_detailDialog p \<noteq> None"
  shows "one_dialog (page_step H p e)"
proof -
  have "one_dialog (page_react H e p)"
  proof (cases "opens_dialog e")
    case True
    with assms show ?thesis by (cases e) (auto simp: one_dialog_def dialog_open_def page_handlers)
  next
    case False
    from one_dialog_within [OF react_dialogs [OF this] assms(1)] show ?thesis .
  qed
  from one_dialog_within [OF commit_dialogs this] show ?thesis by (simp add: page_step_def)
qed

section \<open>The choices of the bulk actions exist\<close>

definition bulk_choices_ok :: "host \<Rightarrow> page_state \<Rightarrow> bool" where
  "bulk_choices_ok H p \<longleftrightarrow>
     (\<forall>i. mp_bulkCategory p = Some i \<longrightarrow> i \<in> cat_id ` set (actionCategories p))
     \<and> (\<forall>i. mp_bulkTag p = Some i \<longrightarrow> i \<in> tag_id ` set (availableTags H p))"

lemma default_choice_in: "default_choice current ids = Some i \<Longrightarrow> i \<in> set ids"
  by (auto simp: default_choice_def split: if_splits option.splits)

lemma derived_same [simp]:
  "actionCategories (page_effects H b p) = actionCategories p" "availableTags H (page_effects H b p) = availableTags H p"
  by (simp_all add: actionCategories_def availableTags_def)

lemma effect_choices [simp]:
  "mp_bulkCategory (search_effect b p) = mp_bulkCategory p" "mp_bulkTag (search_effect b p) = mp_bulkTag p"
  "mp_bulkCategory (load_effect H b p) = mp_bulkCategory p" "mp_bulkTag (load_effect H b p) = mp_bulkTag p"
  "mp_bulkTag (bulk_category_effect b p) = mp_bulkTag p" "mp_bulkCategory (bulk_tag_effect H b p) = mp_bulkCategory p"
  "mp_bulkCategory (page_effect H b p) = mp_bulkCategory p" "mp_bulkTag (page_effect H b p) = mp_bulkTag p"
  "mp_bulkCategory (selection_effect b p) = mp_bulkCategory p" "mp_bulkTag (selection_effect b p) = mp_bulkTag p"
  "mp_bulkCategory (leave_bulk_effect b p) = mp_bulkCategory p" "mp_bulkTag (leave_bulk_effect b p) = mp_bulkTag p"
  "mp_bulkCategory (dialogs_effect b p) = mp_bulkCategory p" "mp_bulkTag (dialogs_effect b p) = mp_bulkTag p"
  by (simp_all add: effect_defs Let_def)

lemma effect_derived [simp]:
  "actionCategories (search_effect b p) = actionCategories p" "availableTags H (search_effect b p) = availableTags H p"
  "actionCategories (load_effect H b p) = actionCategories p" "availableTags H (load_effect H b p) = availableTags H p"
  "availableTags H (bulk_category_effect b p) = availableTags H p"
  by (simp_all add: actionCategories_def availableTags_def)

lemma bulk_effect_choice:
  "mp_bulkCategory (bulk_category_effect b p) =
     (if actionCategories p \<noteq> actionCategories b then default_choice (mp_bulkCategory p) (map cat_id (actionCategories p))
      else mp_bulkCategory p)"
  "mp_bulkTag (bulk_tag_effect H b p) =
     (if availableTags H p \<noteq> availableTags H b then default_choice (mp_bulkTag p) (map tag_id (availableTags H p))
      else mp_bulkTag p)"
  by (simp_all add: bulk_category_effect_def bulk_tag_effect_def)

lemma bulk_choices_effects:
  "mp_bulkCategory (page_effects H b p) =
     (if actionCategories p \<noteq> actionCategories b then default_choice (mp_bulkCategory p) (map cat_id (actionCategories p))
      else mp_bulkCategory p)"
  "mp_bulkTag (page_effects H b p) =
     (if availableTags H p \<noteq> availableTags H b then default_choice (mp_bulkTag p) (map tag_id (availableTags H p))
      else mp_bulkTag p)"
  by (simp_all add: page_effects_def bulk_effect_choice)

lemma bulk_choices_commit:
  assumes "actionCategories p = actionCategories b \<Longrightarrow> mp_bulkCategory p = Some i \<Longrightarrow> i \<in> cat_id ` set (actionCategories p)"
    and "availableTags H p = availableTags H b \<Longrightarrow> mp_bulkTag p = Some j \<Longrightarrow> j \<in> tag_id ` set (availableTags H p)"
  shows "mp_bulkCategory (commit H b p) = Some i \<Longrightarrow> i \<in> cat_id ` set (actionCategories p)"
    and "mp_bulkTag (commit H b p) = Some j \<Longrightarrow> j \<in> tag_id ` set (availableTags H p)"
proof -
  show "i \<in> cat_id ` set (actionCategories p)" if "mp_bulkCategory (commit H b p) = Some i"
    using that assms(1) default_choice_in [of "mp_bulkCategory p" "map cat_id (actionCategories p)" i]
    by (simp add: commit_def Let_def bulk_choices_effects split: if_splits)
  show "j \<in> tag_id ` set (availableTags H p)" if "mp_bulkTag (commit H b p) = Some j"
    using that assms(2) default_choice_in [of "mp_bulkTag p" "map tag_id (availableTags H p)" j]
    by (simp add: commit_def Let_def bulk_choices_effects split: if_splits)
qed

text \<open>Choosing is the one event that changes the choice itself.\<close>

lemma react_choices:
  "mp_bulkCategory (page_react H e p) = mp_bulkCategory p \<or> e = ChooseBulkCategory (mp_bulkCategory (page_react H e p))"
  "mp_bulkTag (page_react H e p) = mp_bulkTag p \<or> e = ChooseBulkTag (mp_bulkTag (page_react H e p))"
  by (cases e; auto simp: page_handlers message_handlers delete_handlers Let_def
      split: sum.splits option.splits prod.splits)+

lemma choose_derived [simp]:
  "actionCategories (choose_bulk_category c p) = actionCategories p" "availableTags H (choose_bulk_category c p) = availableTags H p"
  "actionCategories (choose_bulk_tag t p) = actionCategories p" "availableTags H (choose_bulk_tag t p) = availableTags H p"
  by (simp_all add: choose_bulk_category_def choose_bulk_tag_def clear_bulk_notes_def actionCategories_def availableTags_def)

lemma step_bulk_choices:
  assumes "bulk_choices_ok H p"
    and "\<And>i. e = ChooseBulkCategory (Some i) \<Longrightarrow> i \<in> cat_id ` set (actionCategories p)"
    and "\<And>i. e = ChooseBulkTag (Some i) \<Longrightarrow> i \<in> tag_id ` set (availableTags H p)"
  shows "bulk_choices_ok H (page_step H p e)"
proof -
  let ?q = "page_react H e p"
  have "i \<in> cat_id ` set (actionCategories ?q)" if "actionCategories ?q = actionCategories p" "mp_bulkCategory ?q = Some i" for i
    using that assms(1,2) react_choices(1) [of H e p] by (auto simp: bulk_choices_ok_def)
  moreover have "i \<in> tag_id ` set (availableTags H ?q)" if "availableTags H ?q = availableTags H p" "mp_bulkTag ?q = Some i" for i
    using that assms(1,3) react_choices(2) [of H e p] by (auto simp: bulk_choices_ok_def)
  moreover have "actionCategories (commit H p ?q) = actionCategories ?q" "availableTags H (commit H p ?q) = availableTags H ?q"
    by (simp_all add: commit_def Let_def)
  ultimately show ?thesis
    using bulk_choices_commit [of ?q p _ H] by (simp add: bulk_choices_ok_def page_step_def)
qed

section \<open>What a control sends\<close>

text \<open>The requests other than those that only load.\<close>

fun makes_change :: "page_request \<Rightarrow> bool" where
  "makes_change (ListSent run q) = False"
| "makes_change (TagsSent run) = False"
| "makes_change q = True"

definition changes :: "page_state \<Rightarrow> page_request list" where
  "changes p = filter makes_change (mp_sent p)"

text \<open>The request that each control stands for.\<close>

fun asked_of_page :: "page_state \<Rightarrow> page_event \<Rightarrow> page_request list" where
  "asked_of_page p MoveSelected = [BulkMoveSent (mp_selected p) (the (mp_bulkCategory p))]"
| "asked_of_page p TagSelected = [BulkTagSent (mp_selected p) (the (mp_bulkTag p))]"
| "asked_of_page p (AddTag i t) = [AddTagSent i t]"
| "asked_of_page p (RemoveTag i t) = [RemoveTagSent i t]"
| "asked_of_page p e = []"

definition asked_of_move :: "messages_screen \<Rightarrow> page_request list" where
  "asked_of_move s =
     (case (mp_moveDialog (sc_page s), sc_move s) of (Some i, Some (Fin c)) \<Rightarrow> [MoveSent i \<lfloor>c\<rfloor>] | _ \<Rightarrow> [])"

definition asked_deletion :: "bool \<Rightarrow> page_request \<Rightarrow> page_request list" where
  "asked_deletion confirmed q = (if confirmed then [q] else [])"

fun asked :: "bool \<Rightarrow> messages_screen \<Rightarrow> messages_action \<Rightarrow> page_request list" where
  "asked confirmed s (PageEvent e) = asked_of_page (sc_page s) e"
| "asked confirmed s (AskDelete i) = asked_deletion confirmed (DeleteSent i False)"
| "asked confirmed s AskDeleteSelected = asked_deletion confirmed (BulkDeleteSent (mp_selected (sc_page s)) False)"
| "asked confirmed s (CardAction i (Choose (card_request.DeleteMessage j))) = asked_deletion confirmed (DeleteSent j False)"
| "asked confirmed s SubmitMove = asked_of_move s"
| "asked confirmed s SubmitNewTag = [CreateTagSent (normal_name (sc_newTag s))]"
| "asked confirmed s a = []"

text \<open>
  A request the page may make in this state: for the listed message of the open dialog a move to
  another category, or a change of a tag it does not have yet or has; a deletion of a listed
  message, unless it is the one remembered as being deleted; a bulk action on the listed selection,
  with an offered category or tag. Moves, tag changes and bulk actions are not made while one of
  their kind is under way.
\<close>

fun request_ok :: "host \<Rightarrow> page_state \<Rightarrow> page_request \<Rightarrow> bool" where
  "request_ok H p (MoveSent i c) \<longleftrightarrow>
     \<not> mp_isMoveSubmitting p \<and> 0 < c \<and>
     (\<exists>m. active_message (mp_moveDialog p) p = Some m \<and> msg_id m = i \<and> msg_category_id m \<noteq> c)"
| "request_ok H p (AddTagSent i t) \<longleftrightarrow>
     \<not> mp_isTagSubmitting p \<and> t \<in> tag_id ` set (availableTags H p) \<and>
     (\<exists>m. active_message (mp_tagDialog p) p = Some m \<and> msg_id m = i \<and> t \<notin> tag_id ` set (msg_tags m))"
| "request_ok H p (RemoveTagSent i t) \<longleftrightarrow>
     \<not> mp_isTagSubmitting p \<and>
     (\<exists>m. active_message (mp_tagDialog p) p = Some m \<and> msg_id m = i \<and> t \<in> tag_id ` set (msg_tags m))"
| "request_ok H p (CreateTagSent n) \<longleftrightarrow> n \<noteq> [] \<and> active_message (mp_tagDialog p) p \<noteq> None \<and> \<not> mp_isTagSubmitting p"
| "request_ok H p (DeleteSent i localOnly) \<longleftrightarrow> \<not> localOnly \<and> i \<in> visible_ids p \<and> mp_pendingDelete p \<noteq> Some i"
| "request_ok H p (BulkMoveSent ids c) \<longleftrightarrow>
     mp_bulkPending p = None \<and> ids \<noteq> [] \<and> set ids \<subseteq> visible_ids p \<and> c \<in> cat_id ` set (actionCategories p)"
| "request_ok H p (BulkTagSent ids t) \<longleftrightarrow>
     mp_bulkPending p = None \<and> ids \<noteq> [] \<and> set ids \<subseteq> visible_ids p \<and> t \<in> tag_id ` set (availableTags H p)"
| "request_ok H p (BulkDeleteSent ids localOnly) \<longleftrightarrow>
     \<not> localOnly \<and> mp_bulkPending p = None \<and> ids \<noteq> [] \<and> set ids \<subseteq> visible_ids p"
| "request_ok H p q = False"

lemma commit_changes [simp]: "changes (commit H b p) = changes p"
proof -
  obtain qs where "mp_sent (commit H b p) = mp_sent p @ qs" "only_listings qs" using commit_sent by blast
  then show ?thesis by (auto simp: changes_def only_listings_def filter_empty_conv)
qed

lemma messages_rerender_page [simp]: "sc_page (messages_rerender p s) = p"
  by (simp add: messages_rerender_def Let_def)

lemma page_do_page [simp]: "sc_page (page_do H e s) = page_step H (sc_page s) e"
  by (simp add: page_do_def)

lemma step_changes: "changes (page_step H p e) = changes (page_react H e p)"
  by (simp add: page_step_def)

lemma quiet_changes: "quiet e \<or> opens_dialog e \<Longrightarrow> changes (page_react H e p) = changes p"
  by (cases e) (simp_all add: changes_def page_handlers Let_def)

lemma choose_changes:
  "changes (page_react H (ChooseBulkCategory c) p) = changes p" "changes (page_react H (ChooseBulkTag t) p) = changes p"
  "changes (page_react H (SelectMessage i b) p) = changes p"
  by (simp_all add: changes_def page_handlers Let_def)

lemma tag_change_changes:
  "changes (page_react H (AddTag i t) p) = changes p @ [AddTagSent i t]"
  "changes (page_react H (RemoveTag i t) p) = changes p @ [RemoveTagSent i t]"
  by (simp_all add: changes_def handleAddTag_start_def handleRemoveTag_start_def tag_change_start_def send_def)

lemma delete_changes:
  "changes (page_react H (page_event.DeleteMessage i confirmed) p) = changes p @ asked_deletion confirmed (DeleteSent i False)"
  "mp_selected p \<noteq> [] \<Longrightarrow>
     changes (page_react H (DeleteSelected confirmed) p) = changes p @ asked_deletion confirmed (BulkDeleteSent (mp_selected p) False)"
  by (simp_all add: changes_def handleDeleteMessage_start_def delete_begin_def asked_deletion_def handleBulkDelete_start_def
      bulk_delete_begin_def bulk_begin_def send_def)

lemma bulk_changes:
  assumes "bulk_choices_ok H p" and "mp_selected p \<noteq> []"
  shows "mp_bulkCategory p = Some c \<Longrightarrow>
      changes (page_react H MoveSelected p) = changes p @ [BulkMoveSent (mp_selected p) c]"
    and "mp_bulkTag p = Some t \<Longrightarrow> mp_bulkPending p = None \<Longrightarrow>
      changes (page_react H TagSelected p) = changes p @ [BulkTagSent (mp_selected p) t]"
proof -
  show "changes (page_react H MoveSelected p) = changes p @ [BulkMoveSent (mp_selected p) c]" if c: "mp_bulkCategory p = Some c"
  proof -
    from assms c obtain k where "bulk_move_target p = Some k"
      by (cases "bulk_move_target p") (auto simp: bulk_choices_ok_def bulk_move_target_def find_None_iff)
    then show ?thesis using assms c by (simp add: handleBulkMove_start_def changes_def bulk_begin_def send_def)
  qed
  show "changes (page_react H TagSelected p) = changes p @ [BulkTagSent (mp_selected p) t]"
    if t: "mp_bulkTag p = Some t" and "mp_bulkPending p = None"
  proof -
    from assms t obtain g where "bulk_tag_target H p = Some g"
      by (cases "bulk_tag_target H p") (auto simp: bulk_choices_ok_def bulk_tag_target_def find_None_iff)
    moreover from this t have "tag_id g = t" by (auto simp: bulk_tag_target_def find_Some_iff)
    ultimately show ?thesis using assms that by (simp add: handleBulkTag_start_def changes_def bulk_begin_def send_def)
  qed
qed

lemma move_changes: "changes (page_react H (page_event.MoveMessage i c) p) = changes p @ [MoveSent i c]"
  by (simp add: changes_def handleMoveMessage_start_def send_def)

lemma create_changes:
  assumes "active_message (mp_tagDialog p) p \<noteq> None" and "normal_name name \<noteq> []"
  shows "changes (page_react H (CreateTag name) p) = changes p @ [CreateTagSent (normal_name name)]"
  using assms by (simp add: changes_def handleCreateAndAttachTag_start_def tag_change_start_def send_def Let_def)

section \<open>The page as it is used\<close>

definition messages_start :: "host \<Rightarrow> messages_screen \<Rightarrow> bool" where
  "messages_start H s \<longleftrightarrow> (\<exists>ps fetched fallback. s = screen_of (mount_page H ps fetched fallback))"

text \<open>
  What happens without a control of the page: timers, navigation, drops, announcements and replies;
  the Escape key of a dialog; and, in the cards, drags, clicks outside, keys and timers.
\<close>

fun from_outside :: "page_event \<Rightarrow> bool" where
  "from_outside (Navigate ps) = True"
| "from_outside SearchTimeout = True"
| "from_outside (CategoriesLoaded cs fallback) = True"
| "from_outside TagsChanged = True"
| "from_outside (DropMessage ev) = True"
| "from_outside (ListReply run isFirst r) = True"
| "from_outside (TagsReply run r) = True"
| "from_outside (DropReply c i r) = True"
| "from_outside (MoveReply c i r) = True"
| "from_outside (AddTagReply c i r) = True"
| "from_outside (RemoveTagReply c i r) = True"
| "from_outside (DeleteReply c i r locally) = True"
| "from_outside (BulkMoveReply now c r) = True"
| "from_outside (BulkTagReply c r) = True"
| "from_outside (BulkDeleteReply c r locally) = True"
| "from_outside page_event.CloseDetail = True"
| "from_outside CloseMove = True"
| "from_outside CloseTags = True"
| "from_outside e = False"

inductive messages_env :: "host \<Rightarrow> messages_screen \<Rightarrow> messages_screen \<Rightarrow> bool" for H where
  "from_outside e \<Longrightarrow> messages_env H s (page_do H e s)"
| "messages_env H s
    (answered_tag (fst (handleCreateAndAttachTag_created H c r (sc_page s))) (page_do H (CreateTagReply c r) s))"
| "messages_env H s
    (answered_tag (fst (handleCreateAndAttachTag_attached H c t r' (sc_page s))) (page_do H (AttachTagReply c t r') s))"
| "messages_env H s (s\<lparr>sc_cards := cards, sc_contents := contents, sc_detailContent := content\<rparr>)"

text \<open>The category chosen in the move dialog is a whole number: the message's own, or one that \<open>parseInt\<close> gave.\<close>

definition whole :: "jsnum \<Rightarrow> bool" where
  "whole x \<longleftrightarrow> (\<exists>k. x = jint k)"

lemma parse_int_whole: "num_is_finite (parse_int v) \<Longrightarrow> whole (parse_int v)"
proof -
  have choice: "(b \<Longrightarrow> x \<in> A) \<Longrightarrow> (\<not> b \<Longrightarrow> y \<in> A) \<Longrightarrow> (if b then x else y) \<in> A" for b A and x y :: jsnum by simp
  have "round_double n \<in> insert PosInf (range jint)" for n
    unfolding round_double_def Let_def by (intro choice insertI1 insertI2 rangeI)
  then have round: "num_is_finite (round_double n) \<Longrightarrow> whole (round_double n)" for n
    unfolding whole_def by (metis insertE num_is_finite.simps(3) rangeE)
  have digits: "num_is_finite (parse_digits u) \<Longrightarrow> whole (parse_digits u)" for u
    using round by (simp add: parse_digits_def Let_def split: if_splits)
  have neg: "num_is_finite (num_neg x) \<Longrightarrow> (num_is_finite x \<Longrightarrow> whole x) \<Longrightarrow> whole (num_neg x)" for x
    by (cases x) (auto simp: whole_def intro: exI [where x = "- k" for k])
  assume "num_is_finite (parse_int v)"
  then show ?thesis
    unfolding parse_int_def using digits neg by (cases "dropWhile is_ws v") (auto split: if_splits)
qed

definition screen_ok :: "host \<Rightarrow> messages_screen \<Rightarrow> bool" where
  "screen_ok H s \<longleftrightarrow>
     MessagesPage.page_reachable H (sc_page s) \<and> one_dialog (sc_page s) \<and> bulk_choices_ok H (sc_page s)
     \<and> (\<forall>x. sc_move s = Some x \<longrightarrow> whole x)"

lemma answered_tag_same [simp]: "sc_page (answered_tag b s) = sc_page s" "sc_move (answered_tag b s) = sc_move s"
  by (simp_all add: answered_tag_def split: option.split)

lemma screen_ok_cong: "sc_page t = sc_page s \<Longrightarrow> sc_move t = sc_move s \<Longrightarrow> screen_ok H t = screen_ok H s"
  by (simp add: screen_ok_def)

lemma rerender_move: "sc_move (page_do H e s) = Some x \<Longrightarrow> sc_move s = Some x \<or> whole x"
  by (auto simp: page_do_def messages_rerender_def move_dialog_effect_def whole_def Let_def split: if_splits option.splits)

lemma page_do_ok:
  assumes "screen_ok H s" and "page_enabled H (sc_page s) e"
    and "opens_dialog e \<Longrightarrow> \<not> dialog_open (sc_page s) \<or> (\<exists>i. e = OpenMoveFromDetail i \<or> e = OpenTagsFromDetail i) \<and> mp_detailDialog (sc_page s) \<noteq> None"
  shows "screen_ok H (page_do H e s)"
proof -
  have "bulk_choices_ok H (page_step H (sc_page s) e)"
    using assms(1,2) by (intro step_bulk_choices) (auto simp: screen_ok_def)
  then show ?thesis
    using assms step_one_dialog [of "sc_page s" e H] rerender_move [of H e s]
    by (auto simp: screen_ok_def intro: MessagesPage.page_reachable.page_stepped)
qed

text \<open>Events that need no card and no choice.\<close>

fun plain_event :: "page_event \<Rightarrow> bool" where
  "plain_event (SelectMessage i b) = False"
| "plain_event (ChooseBulkCategory c) = False"
| "plain_event (ChooseBulkTag t) = False"
| "plain_event e \<longleftrightarrow> \<not> opens_dialog e"

lemma plain_event_ok:
  "screen_ok H s \<Longrightarrow> plain_event e \<Longrightarrow> screen_ok H (page_do H e s)"
  by (rule page_do_ok; cases e; simp)

lemma messages_env_ok: "messages_env H s s' \<Longrightarrow> screen_ok H s \<Longrightarrow> screen_ok H s'"
proof (induction rule: messages_env.induct)
  case (1 e s)
  then show ?case by (cases e) (auto intro!: plain_event_ok)
next
  case (4 s cards contents content)
  then show ?case by (simp add: screen_ok_def)
qed (simp_all add: screen_ok_cong [OF answered_tag_same] plain_event_ok)

lemma mounted_ok: "messages_start H s \<Longrightarrow> screen_ok H s"
proof -
  assume "messages_start H s"
  then obtain ps cs b where s: "s = screen_of (mount_page H ps cs b)" by (auto simp: messages_start_def)
  let ?p = "mount_page H ps cs b"
  have "one_dialog ?p"
    by (simp add: one_dialog_def mount_page_def page_initial_def dialogs_effect_def close_if_gone_def hydrateMessages_start_def
        hydrateTags_start_def send_def Let_def)
  moreover have "bulk_choices_ok H ?p"
  proof -
    have "mp_bulkCategory ?p = default_choice None (map cat_id (actionCategories ?p))"
      "mp_bulkTag ?p = default_choice None (map tag_id (availableTags H ?p))"
      by (simp_all add: mount_page_def actionCategories_def availableTags_def Let_def)
    then show ?thesis using default_choice_in by (fastforce simp: bulk_choices_ok_def)
  qed
  ultimately show ?thesis using s by (simp add: screen_ok_def screen_of_def MessagesPage.page_reachable.page_mounted)
qed

section \<open>The controls that are offered\<close>

lemma active_message_id: "active_message d p = Some m \<Longrightarrow> d = Some (msg_id m) \<and> msg_id m \<in> visible_ids p"
  by (auto simp: active_message_def find_message_def find_Some_iff visible_ids_def split: option.splits)

text \<open>
  What is offered: on a page without a dialog its own controls, in an open dialog only those of
  the dialog.
\<close>

definition page_offers :: "host \<Rightarrow> page_state \<Rightarrow> messages_action set" where
  "page_offers H p =
     PageEvent ` Collect quiet
     \<union> (if mp_bulkPending p \<noteq> None then {}
        else (\<lambda>c. PageEvent (ChooseBulkCategory (Some (cat_id c)))) ` set (actionCategories p)
          \<union> (\<lambda>t. PageEvent (ChooseBulkTag (Some (tag_id t)))) ` set (availableTags H p)
          \<union> (if mp_selected p = [] then {} else {AskDeleteSelected}
               \<union> (if mp_bulkCategory p = None then {} else {PageEvent MoveSelected})
               \<union> (if mp_bulkTag p = None then {} else {PageEvent TagSelected})))
     \<union> (\<Union>i \<in> visible_ids p. CardAction i ` card_offers (mp_pendingDelete p = Some i) i)"

definition detail_offers :: "page_state \<Rightarrow> int \<Rightarrow> messages_action set" where
  "detail_offers p i =
     {PageEvent page_event.CloseDetail, PageEvent (OpenMoveFromDetail i), PageEvent (OpenTagsFromDetail i)}
     \<union> (if mp_pendingDelete p = Some i then {} else {AskDelete i}) \<union> range DetailContentAction"

definition move_offers :: "messages_screen \<Rightarrow> messages_action set" where
  "move_offers s =
     {PageEvent CloseMove} \<union> SelectMove ` cat_id ` set (actionCategories (sc_page s))
     \<union> (case active_message (mp_moveDialog (sc_page s)) (sc_page s) of
          None \<Rightarrow> {}
        | Some m \<Rightarrow> if move_can_submit m (mp_isMoveSubmitting (sc_page s)) (sc_move s) then {SubmitMove} else {})"

definition tag_offers :: "host \<Rightarrow> messages_screen \<Rightarrow> messages_action set" where
  "tag_offers H s =
     {PageEvent CloseTags} \<union> range TypeNewTag
     \<union> (case active_message (mp_tagDialog (sc_page s)) (sc_page s) of
          None \<Rightarrow> {}
        | Some m \<Rightarrow>
            if mp_isTagSubmitting (sc_page s) then {}
            else (if js_trim (sc_newTag s) = [] then {} else {SubmitNewTag})
              \<union> (\<lambda>t. PageEvent (RemoveTag (msg_id m) (tag_id t))) ` set (msg_tags m)
              \<union> (\<lambda>t. PageEvent (AddTag (msg_id m) (tag_id t))) `
                  {t \<in> set (availableTags H (sc_page s)). tag_id t \<notin> tag_id ` set (msg_tags m)})"

definition dialog_offers :: "host \<Rightarrow> messages_screen \<Rightarrow> messages_action set" where
  "dialog_offers H s =
     (let p = sc_page s
      in (case mp_detailDialog p of None \<Rightarrow> {} | Some i \<Rightarrow> detail_offers p i)
         \<union> (case mp_moveDialog p of None \<Rightarrow> {} | Some i \<Rightarrow> move_offers s)
         \<union> (case mp_tagDialog p of None \<Rightarrow> {} | Some i \<Rightarrow> tag_offers H s))"

lemma page_section_acts: "acts_list (page_section V s) \<subseteq> page_offers (vh_host V) (sc_page s)"
proof -
  let ?H = "vh_host V" and ?p = "sc_page s" and ?quiet = "PageEvent ` Collect quiet"
  have quiet: "?quiet \<subseteq> page_offers ?H ?p" unfolding page_offers_def by blast
  have bulk: "acts (bulk_actions_view ?H ?p) \<subseteq> page_offers ?H ?p"
    using bulk_acts [of ?H ?p] unfolding page_offers_def by (auto split: if_splits)
  have grid: "acts (grid_view V s) \<subseteq> page_offers ?H ?p"
    using grid_acts [of V s] unfolding page_offers_def visible_ids_def by blast
  have "acts (page_header ?H ?p) \<subseteq> page_offers ?H ?p" "acts (filter_controls ?H ?p) \<subseteq> page_offers ?H ?p"
    "acts (tag_filter ?H ?p) \<subseteq> page_offers ?H ?p" "acts (listing_header ?H ?p) \<subseteq> page_offers ?H ?p"
    "acts_list (page_bar ?H ?p) \<subseteq> page_offers ?H ?p" "acts_list (empty_panel ?H ?p) \<subseteq> page_offers ?H ?p"
    by (rule order_trans [OF _ quiet], rule page_header_acts filter_controls_acts listing_acts page_bar_acts)+
  with bulk grid show ?thesis
    unfolding page_section_def Let_def by (simp add: listing_acts(3))
qed

lemma dialog_acts:
  "acts_list (detail_dialog V s) \<subseteq> dialog_offers (vh_host V) s"
  "acts_list (move_dialog_view (sc_page s) (sc_move s)) \<subseteq> dialog_offers (vh_host V) s"
  "acts_list (tag_dialog_view (vh_host V) (sc_page s) (sc_newTag s)) \<subseteq> dialog_offers (vh_host V) s"
proof -
  let ?p = "sc_page s"
  show "acts_list (detail_dialog V s) \<subseteq> dialog_offers (vh_host V) s"
  proof (cases "active_message (mp_detailDialog ?p) ?p")
    case (Some m)
    with detail_dialog_acts [of V s] have "acts_list (detail_dialog V s) \<subseteq> detail_offers ?p (msg_id m)"
      by (simp only: detail_offers_def option.case)
    with active_message_id [OF Some] show ?thesis unfolding dialog_offers_def Let_def by (auto simp only: option.case)
  qed (use detail_dialog_acts [of V s] in simp)
  show "acts_list (move_dialog_view ?p (sc_move s)) \<subseteq> dialog_offers (vh_host V) s"
  proof (cases "active_message (mp_moveDialog ?p) ?p")
    case (Some m)
    then have "acts_list (move_dialog_view ?p (sc_move s)) \<subseteq> move_offers s"
      by (auto simp: move_dialog_acts move_offers_def sortedCategories_def)
    with active_message_id [OF Some] show ?thesis unfolding dialog_offers_def Let_def by (auto simp only: option.case)
  qed (simp add: move_dialog_acts)
  show "acts_list (tag_dialog_view (vh_host V) ?p (sc_newTag s)) \<subseteq> dialog_offers (vh_host V) s"
  proof (cases "active_message (mp_tagDialog ?p) ?p")
    case (Some m)
    then have "acts_list (tag_dialog_view (vh_host V) ?p (sc_newTag s)) \<subseteq> tag_offers (vh_host V) s"
      by (auto simp: tag_dialog_acts tag_offers_def canCreateTag_def nextTagCandidates_iff)
    with active_message_id [OF Some] show ?thesis unfolding dialog_offers_def Let_def by (auto simp only: option.case)
  qed (simp add: tag_dialog_acts)
qed

lemma messages_view_offers:
  "acts_list (messages_view V s) \<subseteq>
     (if dialog_open (sc_page s) then dialog_offers (vh_host V) s else page_offers (vh_host V) (sc_page s))"
proof (cases "dialog_open (sc_page s)")
  case True
  then show ?thesis using dialog_acts [where V = V and s = s] by (simp add: messages_view_def Let_def)
next
  case False
  then have "dialog_offers (vh_host V) s = {}" by (simp add: dialog_open_def dialog_offers_def Let_def)
  with False show ?thesis using dialog_acts [where V = V and s = s] page_section_acts [of V s] by (simp add: messages_view_def Let_def)
qed

section \<open>What each control does\<close>

definition control_outcome :: "host \<Rightarrow> bool \<Rightarrow> messages_screen \<Rightarrow> messages_action \<Rightarrow> messages_screen \<Rightarrow> bool" where
  "control_outcome H confirmed s a s' \<longleftrightarrow>
     changes (sc_page s') = changes (sc_page s) @ asked confirmed s a
     \<and> list_all (request_ok H (sc_page s)) (asked confirmed s a) \<and> screen_ok H s'"

lemma screen_page_ok: "screen_ok H s \<Longrightarrow> page_ok H (sc_page s)"
  by (simp add: screen_ok_def MessagesPage.reachable_page_ok)

lemma quiet_asked: "quiet e \<or> opens_dialog e \<Longrightarrow> asked_of_page p e = []"
  by (cases e) simp_all

lemma quiet_step: "quiet e \<or> opens_dialog e \<Longrightarrow> changes (page_step H p e) = changes p"
  by (simp add: step_changes quiet_changes)

lemma quiet_plain: "quiet e \<Longrightarrow> plain_event e"
  by (cases e) simp_all

lemma quiet_outcome: "screen_ok H s \<Longrightarrow> quiet e \<Longrightarrow> control_outcome H confirmed s (PageEvent e) (page_do H e s)"
  using quiet_plain [of e] by (simp add: control_outcome_def quiet_step quiet_asked plain_event_ok)

lemma same_page_outcome:
  "screen_ok H s \<Longrightarrow> sc_page t = sc_page s \<Longrightarrow> sc_move t = sc_move s \<Longrightarrow> asked confirmed s a = [] \<Longrightarrow> control_outcome H confirmed s a t"
  using screen_ok_cong [of t s H] by (simp add: control_outcome_def)

lemma on_card_same [simp]: "sc_page (on_card i f s) = sc_page s" "sc_move (on_card i f s) = sc_move s"
  by (simp_all add: on_card_def)

lemma choice_outcome:
  assumes "screen_ok H s" and "\<not> dialog_open (sc_page s)" and "i \<in> visible_ids (sc_page s)"
    and "req \<in> {card_request.OpenDetail i, card_request.MoveMessage i, TagMessage i}
      \<union> (if mp_pendingDelete (sc_page s) = Some i then {} else {card_request.DeleteMessage i})"
  shows "control_outcome H confirmed s (CardAction i (Choose req)) (card_do H confirmed cb i (Choose req) s)"
proof -
  obtain c where c: "menu_choice (mp_pendingDelete (sc_page s) = Some i) req (sc_cards s i) = ([req], c)"
    using assms(4) by (cases req) (auto simp: menu_choice_def split: if_splits)
  let ?t = "on_card i (\<lambda>_. c) s" and ?e = "card_request_event confirmed req"
  have t: "screen_ok H ?t" using assms(1) by (simp add: screen_ok_cong [OF on_card_same])
  have "card_do H confirmed cb i (Choose req) s = page_do H ?e ?t" by (simp add: c)
  moreover have "page_enabled H (sc_page ?t) ?e" using assms(3,4) by (cases req) (auto split: if_splits)
  then have "screen_ok H (page_do H ?e ?t)" using assms(2) by (intro page_do_ok [OF t]) simp_all
  moreover have "changes (page_step H (sc_page s) ?e) = changes (sc_page s) @ asked confirmed s (CardAction i (Choose req))"
  proof (cases req)
    case (DeleteMessage j)
    then show ?thesis by (simp only: step_changes card_request_event.simps delete_changes asked.simps)
  qed (simp_all add: quiet_step)
  moreover have "list_all (request_ok H (sc_page s)) (asked confirmed s (CardAction i (Choose req)))"
    using assms(3,4) by (cases req) (auto simp: asked_deletion_def split: if_splits)
  ultimately show ?thesis by (simp add: control_outcome_def)
qed

lemma card_outcome:
  assumes "screen_ok H s" and "\<not> dialog_open (sc_page s)" and "i \<in> visible_ids (sc_page s)"
    and "b \<in> card_offers (mp_pendingDelete (sc_page s) = Some i) i"
  shows "control_outcome H confirmed s (CardAction i b) (card_do H confirmed cb i b s)"
proof (cases b)
  case (SelectCard on)
  have "changes (page_step H (sc_page s) (SelectMessage i on)) = changes (sc_page s)"
    by (simp only: step_changes choose_changes)
  moreover have "screen_ok H (page_do H (SelectMessage i on) s)" using assms(3) by (intro page_do_ok [OF assms(1)]) simp_all
  ultimately show ?thesis using SelectCard by (simp add: control_outcome_def)
next
  case OpenFull
  have "screen_ok H (page_do H (page_event.OpenDetail i) s)" using assms(2,3) by (intro page_do_ok [OF assms(1)]) simp_all
  with OpenFull show ?thesis
    by (simp add: control_outcome_def quiet_step)
next
  case (Choose req)
  with assms choice_outcome [OF assms(1-3), of req confirmed cb] show ?thesis by (auto simp: card_offers_def)
qed (use assms(1) in \<open>auto intro: same_page_outcome\<close>)

lemma bulk_outcome:
  assumes ok: "screen_ok H s" and free: "mp_bulkPending (sc_page s) = None" and chosen: "mp_selected (sc_page s) \<noteq> []"
  shows "control_outcome H confirmed s AskDeleteSelected (page_do H (DeleteSelected confirmed) s)"
    and "mp_bulkCategory (sc_page s) \<noteq> None \<Longrightarrow> control_outcome H confirmed s (PageEvent MoveSelected) (page_do H MoveSelected s)"
    and "mp_bulkTag (sc_page s) \<noteq> None \<Longrightarrow> control_outcome H confirmed s (PageEvent TagSelected) (page_do H TagSelected s)"
proof -
  let ?p = "sc_page s"
  have choices: "bulk_choices_ok H ?p" using ok by (simp add: screen_ok_def)
  have visible: "set (mp_selected ?p) \<subseteq> visible_ids ?p" using screen_page_ok [OF ok] by (simp add: page_ok_def)
  show "control_outcome H confirmed s AskDeleteSelected (page_do H (DeleteSelected confirmed) s)"
    using ok free chosen visible delete_changes(2) [OF chosen, of H confirmed]
    by (simp add: control_outcome_def step_changes asked_deletion_def plain_event_ok)
  show "control_outcome H confirmed s (PageEvent MoveSelected) (page_do H MoveSelected s)" if "mp_bulkCategory ?p \<noteq> None"
    using that ok free chosen visible choices bulk_changes(1) [OF choices chosen]
    by (auto simp: control_outcome_def step_changes plain_event_ok bulk_choices_ok_def)
  show "control_outcome H confirmed s (PageEvent TagSelected) (page_do H TagSelected s)" if "mp_bulkTag ?p \<noteq> None"
    using that ok free chosen visible choices bulk_changes(2) [OF choices chosen _ free]
    by (auto simp: control_outcome_def step_changes plain_event_ok bulk_choices_ok_def)
qed

lemma choose_outcome:
  assumes "screen_ok H s"
  shows "i \<in> cat_id ` set (actionCategories (sc_page s)) \<Longrightarrow>
      control_outcome H confirmed s (PageEvent (ChooseBulkCategory (Some i))) (page_do H (ChooseBulkCategory (Some i)) s)"
    and "i \<in> tag_id ` set (availableTags H (sc_page s)) \<Longrightarrow>
      control_outcome H confirmed s (PageEvent (ChooseBulkTag (Some i))) (page_do H (ChooseBulkTag (Some i)) s)"
  using choose_changes(1,2) [where H = H and p = "sc_page s"]
  by (auto simp: control_outcome_def step_changes intro!: page_do_ok [OF assms])

lemma page_outcome:
  assumes "screen_ok H s" and "\<not> dialog_open (sc_page s)" and "a \<in> page_offers H (sc_page s)"
  shows "control_outcome H confirmed s a (messages_do H confirmed cb a s)"
proof -
  from assms(3) consider (quiet) e where "a = PageEvent e" "quiet e"
    | (category) i where "a = PageEvent (ChooseBulkCategory (Some i))" "i \<in> cat_id ` set (actionCategories (sc_page s))"
    | (chosen_tag) i where "a = PageEvent (ChooseBulkTag (Some i))" "i \<in> tag_id ` set (availableTags H (sc_page s))"
    | (bulk) "mp_bulkPending (sc_page s) = None" "mp_selected (sc_page s) \<noteq> []"
        "a = AskDeleteSelected \<or> a = PageEvent MoveSelected \<and> mp_bulkCategory (sc_page s) \<noteq> None
         \<or> a = PageEvent TagSelected \<and> mp_bulkTag (sc_page s) \<noteq> None"
    | (card) i b where "i \<in> visible_ids (sc_page s)" "a = CardAction i b" "b \<in> card_offers (mp_pendingDelete (sc_page s) = Some i) i"
    unfolding page_offers_def by (auto split: if_splits)
  then show ?thesis
  proof cases
    case quiet
    with assms(1) show ?thesis by (simp add: quiet_outcome)
  next
    case category
    with choose_outcome(1) [OF assms(1)] show ?thesis by simp
  next
    case chosen_tag
    with choose_outcome(2) [OF assms(1)] show ?thesis by simp
  next
    case bulk
    with bulk_outcome [OF assms(1) bulk(1,2), of confirmed] show ?thesis by auto
  next
    case card
    with card_outcome [OF assms(1,2) card(1,3)] show ?thesis by simp
  qed
qed

lemma detail_outcome:
  assumes ok: "screen_ok H s" and d: "mp_detailDialog (sc_page s) = Some i" and a: "a \<in> detail_offers (sc_page s) i"
  shows "control_outcome H confirmed s a (messages_do H confirmed cb a s)"
proof -
  have i: "i \<in> visible_ids (sc_page s)" using screen_page_ok [OF ok] d by (simp add: page_ok_def dialog_ok_def)
  have opens: "screen_ok H (page_do H (OpenMoveFromDetail i) s)" "screen_ok H (page_do H (OpenTagsFromDetail i) s)"
    using d by (auto intro!: page_do_ok [OF ok])
  from a consider (close) "a = PageEvent page_event.CloseDetail"
    | (move) "a = PageEvent (OpenMoveFromDetail i)" | (tags) "a = PageEvent (OpenTagsFromDetail i)"
    | (delete) "a = AskDelete i" "mp_pendingDelete (sc_page s) \<noteq> Some i"
    | (preview) b where "a = DetailContentAction b"
    unfolding detail_offers_def by (auto split: if_splits)
  then show ?thesis
  proof cases
    case close
    with quiet_outcome [OF ok, of page_event.CloseDetail confirmed] show ?thesis by simp
  next
    case move
    with opens(1) show ?thesis by (simp add: control_outcome_def quiet_step)
  next
    case tags
    with opens(2) show ?thesis by (simp add: control_outcome_def quiet_step)
  next
    case delete
    have "changes (page_step H (sc_page s) (page_event.DeleteMessage i confirmed)) =
        changes (sc_page s) @ asked_deletion confirmed (DeleteSent i False)"
      by (simp only: step_changes delete_changes)
    with delete i ok show ?thesis by (simp add: control_outcome_def asked_deletion_def plain_event_ok)
  next
    case preview
    with ok show ?thesis by (auto intro: same_page_outcome)
  qed
qed

lemma move_outcome:
  assumes ok: "screen_ok H s" and d: "mp_moveDialog (sc_page s) = Some i" and a: "a \<in> move_offers s"
  shows "control_outcome H confirmed s a (messages_do H confirmed cb a s)"
proof -
  from a consider (close) "a = PageEvent CloseMove" | (select) c where "a = SelectMove c"
    | (submit) m where "a = SubmitMove" "active_message (mp_moveDialog (sc_page s)) (sc_page s) = Some m"
        "move_can_submit m (mp_isMoveSubmitting (sc_page s)) (sc_move s)"
    unfolding move_offers_def by (auto split: if_splits option.splits)
  then show ?thesis
  proof cases
    case close
    with quiet_outcome [OF ok, of CloseMove confirmed] show ?thesis by simp
  next
    case select
    with ok show ?thesis by (simp add: control_outcome_def screen_ok_def move_dialog_select_def parse_int_whole)
  next
    case submit
    from submit(3) obtain x where x: "sc_move s = Some x" by (auto simp: move_can_submit_def split: option.splits)
    with ok obtain c where c: "sc_move s = Some (jint c)" by (auto simp: screen_ok_def whole_def)
    have m: "msg_id m = i" "i \<in> visible_ids (sc_page s)" using active_message_id [OF submit(2)] d by simp_all
    have "messages_do H confirmed cb a s = page_do H (page_event.MoveMessage i c) s"
      using submit c m by (simp add: submit_move_def move_submit_def)
    moreover have "changes (page_step H (sc_page s) (page_event.MoveMessage i c)) = changes (sc_page s) @ [MoveSent i c]"
      by (simp only: step_changes move_changes)
    ultimately show ?thesis
      using submit c m d ok by (simp add: control_outcome_def asked_of_move_def plain_event_ok move_can_submit_def)
  qed
qed

lemma tag_outcome:
  assumes ok: "screen_ok H s" and d: "mp_tagDialog (sc_page s) = Some i" and a: "a \<in> tag_offers H s"
  shows "control_outcome H confirmed s a (messages_do H confirmed cb a s)"
proof -
  from a consider (close) "a = PageEvent CloseTags" | (type) t where "a = TypeNewTag t"
    | (submit) m where "active_message (mp_tagDialog (sc_page s)) (sc_page s) = Some m" "a = SubmitNewTag"
        "\<not> mp_isTagSubmitting (sc_page s)" "js_trim (sc_newTag s) \<noteq> []"
    | (remove) m t where "active_message (mp_tagDialog (sc_page s)) (sc_page s) = Some m" "a = PageEvent (RemoveTag (msg_id m) t)"
        "\<not> mp_isTagSubmitting (sc_page s)" "t \<in> tag_id ` set (msg_tags m)"
    | (add) m t where "active_message (mp_tagDialog (sc_page s)) (sc_page s) = Some m" "a = PageEvent (AddTag (msg_id m) t)"
        "\<not> mp_isTagSubmitting (sc_page s)" "t \<in> tag_id ` set (availableTags H (sc_page s))" "t \<notin> tag_id ` set (msg_tags m)"
    unfolding tag_offers_def by (force split: if_splits option.splits)
  then show ?thesis
  proof cases
    case close
    with quiet_outcome [OF ok, of CloseTags confirmed] show ?thesis by simp
  next
    case type
    with ok show ?thesis by (auto intro: same_page_outcome)
  next
    case submit
    have name: "normal_name (sc_newTag s) \<noteq> []" using submit(4) by (simp add: normal_name_Nil_iff js_trim_Nil_iff)
    have opened: "active_message (mp_tagDialog (sc_page s)) (sc_page s) \<noteq> None" using submit(1) by simp
    from create_changes [OF opened name] have "changes (page_step H (sc_page s) (CreateTag (sc_newTag s))) =
        changes (sc_page s) @ [CreateTagSent (normal_name (sc_newTag s))]" by (simp only: step_changes)
    moreover have "screen_ok H (answered_tag b (page_do H (CreateTag (sc_newTag s)) s))" for b
      using ok by (simp add: screen_ok_cong [OF answered_tag_same] plain_event_ok)
    ultimately show ?thesis
      using submit name opened by (simp add: control_outcome_def submit_new_tag_def handleCreateTag_start_def)
  next
    case (remove m t)
    have "changes (page_step H (sc_page s) (RemoveTag (msg_id m) t)) = changes (sc_page s) @ [RemoveTagSent (msg_id m) t]"
      by (simp only: step_changes tag_change_changes)
    with remove ok show ?thesis by (simp add: control_outcome_def plain_event_ok)
  next
    case (add m t)
    have "changes (page_step H (sc_page s) (AddTag (msg_id m) t)) = changes (sc_page s) @ [AddTagSent (msg_id m) t]"
      by (simp only: step_changes tag_change_changes)
    with add ok show ?thesis by (simp add: control_outcome_def plain_event_ok)
  qed
qed

lemma offered_outcome:
  assumes ok: "screen_ok (vh_host V) s" and a: "a \<in> acts_list (messages_view V s)"
  shows "control_outcome (vh_host V) confirmed s a (messages_do (vh_host V) confirmed cb a s)"
proof (cases "dialog_open (sc_page s)")
  case True
  with a messages_view_offers [of V s] have "a \<in> dialog_offers (vh_host V) s" by auto
  then consider i where "mp_detailDialog (sc_page s) = Some i" "a \<in> detail_offers (sc_page s) i"
    | i where "mp_moveDialog (sc_page s) = Some i" "a \<in> move_offers s"
    | i where "mp_tagDialog (sc_page s) = Some i" "a \<in> tag_offers (vh_host V) s"
    unfolding dialog_offers_def Let_def by (auto split: option.splits)
  then show ?thesis using detail_outcome [OF ok] move_outcome [OF ok] tag_outcome [OF ok] by cases auto
next
  case False
  with a messages_view_offers [of V s] have "a \<in> page_offers (vh_host V) (sc_page s)" by auto
  with page_outcome [OF ok False] show ?thesis by simp
qed

text \<open>The answer of \<open>window.confirm\<close> and the clipboard may differ each time.\<close>

inductive messages_used :: "view_host \<Rightarrow> messages_screen \<Rightarrow> bool" for V where
  used_start: "messages_start (vh_host V) s \<Longrightarrow> messages_used V s"
| used_control: "messages_used V s \<Longrightarrow> a \<in> acts_list (messages_view V s) \<Longrightarrow>
    messages_used V (messages_do (vh_host V) confirmed cb a s)"
| used_outside: "messages_used V s \<Longrightarrow> messages_env (vh_host V) s s' \<Longrightarrow> messages_used V s'"

lemma used_ok: "messages_used V s \<Longrightarrow> screen_ok (vh_host V) s"
  by (induction rule: messages_used.induct)
    (use offered_outcome in \<open>auto simp: control_outcome_def intro: mounted_ok messages_env_ok\<close>)

text \<open>
  C38: What the messages page can be made to do. However its controls are used, with replies, timers,
  drops and keys in between: never are two dialogs open, and behind an open dialog the page offers
  nothing; what the page or the dialog offers is listed by \<open>page_offers\<close> and \<open>dialog_offers\<close>
  (no bulk action while one is under way or with nothing selected, no deletion of the message
  remembered as being deleted, in the move dialog only the categories there are); and each control
  makes exactly the request it stands for, deletions only when confirmed. Such a request is for a
  listed message, the dialog's own, or the selection as it is listed; a move goes to the category
  chosen in the dialog, another one than the message is in; a tag that is added is one of the
  available ones the message lacks, a tag that is removed one it has; a bulk action has an offered
  category or tag; and moves, tag changes and bulk actions are not made while one of their kind is
  under way. (A chosen category may since have been deleted, and of several deletions only the last
  is remembered: see \<open>first_deletion_offered_again\<close>.)
\<close>

theorem messages_controls:
  assumes "messages_used V s"
  shows "one_dialog (sc_page s)
    \<and> acts_list (messages_view V s) \<subseteq>
        (if dialog_open (sc_page s) then dialog_offers (vh_host V) s else page_offers (vh_host V) (sc_page s))
    \<and> (\<forall>a \<in> acts_list (messages_view V s). \<forall>confirmed cb.
         changes (sc_page (messages_do (vh_host V) confirmed cb a s)) = changes (sc_page s) @ asked confirmed s a
         \<and> list_all (request_ok (vh_host V) (sc_page s)) (asked confirmed s a))"
  using messages_view_offers offered_outcome [OF used_ok [OF assms]] used_ok [OF assms]
  by (auto simp: control_outcome_def screen_ok_def)

lemma loading_over:
  "mp_hasCompletedInitialLoad p \<Longrightarrow> mp_isInitialLoading (commit H b p) = mp_isInitialLoading p"
proof -
  have one: "mp_isInitialLoading (load_effect H b q) = mp_isInitialLoading q" if "mp_hasCompletedInitialLoad q" for b q
    using that by (simp add: load_effect_def hydrateMessages_start_def send_def Let_def)
  have "mp_isInitialLoading (page_effects H b q) = mp_isInitialLoading q" if "mp_hasCompletedInitialLoad q" for b q
    using that by (simp add: page_effects_def one)
  then show "mp_hasCompletedInitialLoad p \<Longrightarrow> mp_isInitialLoading (commit H b p) = mp_isInitialLoading p"
    by (simp add: commit_def Let_def)
qed

definition plain_view_host :: view_host where
  "plain_view_host =
     \<lparr>vh_host = plain_host, vh_url = (\<lambda>_. None),
      vh_dates = \<lparr>dh_parse = (\<lambda>_. None), dh_now = 0, dh_relative = (\<lambda>_ _. []), dh_locale = (\<lambda>_. [])\<rparr>,
      vh_number = num_str, vh_menuId = int_str\<rparr>"

theorem messages_controls_witness:
  "let s0 = screen_of (mount_page plain_host [] [] True);
       s1 = page_do plain_host (ListReply 1 True (Inr ([sample_message], 1))) s0;
       s2 = s1\<lparr>sc_cards := \<lambda>_. \<lparr>mc_isActionsOpen = True, mc_isDragging = False\<rparr>\<rparr>
   in changes (sc_page (messages_do plain_host True NoClipboard (CardAction (msg_id sample_message) (Choose (card_request.DeleteMessage (msg_id sample_message)))) s2)) =
        [DeleteSent (msg_id sample_message) False]"
proof -
  let ?V = plain_view_host
  let ?m0 = "mount_page plain_host [] [] True"
  let ?e = "ListReply 1 True (Inr ([sample_message], 1))"
  let ?q = "page_react plain_host ?e ?m0"
  define a1 where "a1 = page_do plain_host ?e (screen_of ?m0)"
  define a2 where "a2 = a1\<lparr>sc_cards := \<lambda>_. \<lparr>mc_isActionsOpen = True, mc_isDragging = False\<rparr>\<rparr>"
  have q: "mp_hasCompletedInitialLoad ?q" "\<not> mp_isInitialLoading ?q" "mp_messages ?q = [sample_message]"
    "mp_pendingDelete ?q = None" "changes ?q = []" "\<not> dialog_open ?q"
    by (simp_all add: mount_page_def page_initial_def hydrateMessages_start_def hydrateTags_start_def send_def dialogs_effect_def
        hydrateMessages_reply_def changes_def dialog_open_def close_if_gone_def Let_def)
  have page: "sc_page a2 = commit plain_host ?m0 ?q" by (simp add: a2_def a1_def page_step_def screen_of_def)
  let ?a = "CardAction (msg_id sample_message) (Choose (card_request.DeleteMessage (msg_id sample_message)))"
  have r: "mp_messages (sc_page a2) = [sample_message]" "mp_pendingDelete (sc_page a2) = None" "\<not> mp_isInitialLoading (sc_page a2)"
    using q by (simp_all add: page loading_over)
  have closed: "\<not> dialog_open (sc_page a2)"
    using commit_dialogs [of plain_host ?m0 ?q] q(6) by (auto simp: page dialogs_within_def dialog_open_def)
  have "?a \<in> acts_list (grid_card ?V a2 (sample_message, False, b))" for b
    unfolding grid_card_def Let_def acts_map_html_list fst_conv
    by (rule imageI) (simp add: card_view_def card_header_def actions_menu_def menu_item_def props_on_page_def a2_def Let_def)
  then have "?a \<in> acts (grid_view ?V a2)" by (simp add: grid_view_def grid_cards_def r Let_def)
  with closed r have "?a \<in> acts_list (messages_view ?V a2)" by (simp add: messages_view_def page_section_def Let_def)
  moreover have "messages_used ?V a2"
  proof -
    have "messages_used ?V (screen_of ?m0)"
      by (rule used_start) (auto simp: messages_start_def plain_view_host_def)
    from used_outside [OF this, of a1] have "messages_used ?V a1"
      unfolding a1_def by (simp add: plain_view_host_def messages_env.intros(1))
    from used_outside [OF this, of a2] show ?thesis
      using messages_env.intros(4) [where H = plain_host and s = a1 and contents = "sc_contents a1" and content = "sc_detailContent a1"]
      by (simp add: plain_view_host_def a2_def)
  qed
  ultimately have "changes (sc_page (messages_do plain_host True NoClipboard (CardAction (msg_id sample_message) (Choose (card_request.DeleteMessage (msg_id sample_message)))) a2)) =
      changes (sc_page a2) @ [DeleteSent (msg_id sample_message) False]"
    using messages_controls [of ?V a2] by (fastforce simp: plain_view_host_def asked_deletion_def)
  moreover have "changes (sc_page a2) = []" using q(5) by (simp only: page commit_changes)
  ultimately show ?thesis unfolding Let_def a1_def [symmetric] a2_def [symmetric] by (simp only: append_Nil)
qed

text \<open>
  One deletion is remembered at a time: after a second one the first message's menu offers to delete
  it again while its request is still under way.
\<close>

lemma first_deletion_offered_again:
  fixes H :: host and p :: page_state
  assumes "i \<noteq> j"
  defines "p2 \<equiv> page_step H (page_step H p (page_event.DeleteMessage i True)) (page_event.DeleteMessage j True)"
  shows "mp_pendingDelete p2 = Some j" "Choose (card_request.DeleteMessage i) \<in> card_offers (mp_pendingDelete p2 = Some i) i"
    "changes p2 = changes p @ [DeleteSent i False, DeleteSent j False]"
proof -
  show pending: "mp_pendingDelete p2 = Some j"
    by (simp add: p2_def page_step_def handleDeleteMessage_start_def delete_begin_def send_def)
  with assms(1) show "Choose (card_request.DeleteMessage i) \<in> card_offers (mp_pendingDelete p2 = Some i) i"
    by (simp add: card_offers_def)
  show "changes p2 = changes p @ [DeleteSent i False, DeleteSent j False]"
    unfolding p2_def by (simp only: step_changes delete_changes asked_deletion_def) simp
qed

end
