(* ===== verification/ScanProgress.thy ===== *)
theory ScanProgress
  imports ApiMessages OrgEvents
begin

text \<open>
  \<open>components/scan/scan-progress.tsx\<close> with \<open>subscribeToScanStatus\<close> of \<open>api/scan.ts\<close>: the import
  panel. Status arrives from polling, from the buttons' requests and from the live stream;
  every asynchronous handler is split at its \<open>await\<close>. A step is one event handler followed by
  the effects React runs for the state it left.
\<close>

section \<open>types/scan.ts\<close>

datatype scan_phase = Idle | Pending | Running | Stopping | Completed | Failed | Cancelled

datatype completion_reason = SourceExhausted | MessageLimitReached | RuntimeLimitReached | StoppedByUser

record scan_status =
  ss_job_id :: "jstr option"
  ss_state :: scan_phase
  ss_stop_requested :: bool
  ss_messages_scanned :: int
  ss_pages_scanned :: int
  ss_page_size :: int
  ss_max_messages :: "int option"
  ss_max_runtime_seconds :: "int option"
  ss_last_message_id :: "int option"
  ss_started_at :: "jstr option"
  ss_finished_at :: "jstr option"
  ss_error :: "jstr option"
  ss_completion_reason :: "completion_reason option"

fun phase_name :: "scan_phase \<Rightarrow> jstr" where
  "phase_name Idle = js ''idle''"
| "phase_name Pending = js ''pending''"
| "phase_name Running = js ''running''"
| "phase_name Stopping = js ''stopping''"
| "phase_name Completed = js ''completed''"
| "phase_name Failed = js ''failed''"
| "phase_name Cancelled = js ''cancelled''"

section \<open>Helpers\<close>

definition POLL_INTERVAL_ACTIVE_MS :: nat where "POLL_INTERVAL_ACTIVE_MS = 1500"
definition POLL_INTERVAL_IDLE_MS :: nat where "POLL_INTERVAL_IDLE_MS = 8000"
definition POLL_INTERVAL_STREAM_BACKSTOP_MS :: nat where "POLL_INTERVAL_STREAM_BACKSTOP_MS = 12000"

definition INITIAL_SCAN_STATUS :: scan_status where
  "INITIAL_SCAN_STATUS =
     \<lparr>ss_job_id = None, ss_state = Idle, ss_stop_requested = False, ss_messages_scanned = 0, ss_pages_scanned = 0,
      ss_page_size = 100, ss_max_messages = None, ss_max_runtime_seconds = None, ss_last_message_id = None,
      ss_started_at = None, ss_finished_at = None, ss_error = None, ss_completion_reason = None\<rparr>"

definition isActiveScan :: "scan_status \<Rightarrow> bool" where
  "isActiveScan st \<longleftrightarrow> ss_state st = Pending \<or> ss_state st = Running \<or> ss_state st = Stopping"

definition isTerminalScan :: "scan_status \<Rightarrow> bool" where
  "isTerminalScan st \<longleftrightarrow> ss_state st = Completed \<or> ss_state st = Failed \<or> ss_state st = Cancelled"

definition completionReasonLabel :: "scan_status \<Rightarrow> jstr option" where
  "completionReasonLabel st =
     (case ss_completion_reason st of
        Some SourceExhausted \<Rightarrow> Some (js ''All available Saved Messages were imported.'')
      | Some MessageLimitReached \<Rightarrow>
          Some (js ''This scan reached its message limit'' @
            (case ss_max_messages st of None \<Rightarrow> [] | Some n \<Rightarrow> js '' of '' @ int_str n) @
            js ''. Scan again to continue.'')
      | Some RuntimeLimitReached \<Rightarrow>
          Some (js ''This scan reached its time limit'' @
            (case ss_max_runtime_seconds st of None \<Rightarrow> [] | Some n \<Rightarrow> js '' of '' @ int_str n @ js '' seconds'') @
            js ''. Scan again to continue.'')
      | Some StoppedByUser \<Rightarrow> Some (js ''The import was stopped.'')
      | None \<Rightarrow> None)"

definition scan_error_text :: "js_error \<Rightarrow> jstr" where
  "scan_error_text e = error_text e (js ''Import request failed. Please try again.'')"

definition clampPageSize :: "jsnum \<Rightarrow> jsnum" where
  "clampPageSize rawValue =
     (if \<not> num_is_finite rawValue then jint 100
      else num_min (jint 1000) (num_max (jint 1) (num_trunc rawValue)))"

text \<open>
  \<open>new Date(text).getTime()\<close> is a parameter giving milliseconds, or \<open>None\<close> for \<open>NaN\<close>; the
  dash is U+2014.
\<close>

definition dash :: jstr where "dash = [8212]"

definition elapsed_text :: "int \<Rightarrow> jstr" where
  "elapsed_text elapsedMs =
     (let elapsedSeconds = max 0 (elapsedMs div 1000);
          minutes = elapsedSeconds div 60;
          seconds = elapsedSeconds mod 60
      in if minutes = 0 then int_str seconds @ js ''s''
         else int_str minutes @ js ''m '' @ int_str seconds @ js ''s'')"

definition formatDuration :: "(jstr \<Rightarrow> int option) \<Rightarrow> jstr option \<Rightarrow> jstr option \<Rightarrow> int \<Rightarrow> jstr" where
  "formatDuration time_of startedAt finishedAt now =
     (case startedAt of
        None \<Rightarrow> dash
      | Some started \<Rightarrow>
          case time_of started of
            None \<Rightarrow> dash
          | Some startedMs \<Rightarrow>
              case (case finishedAt of None \<Rightarrow> Some now | Some f \<Rightarrow> time_of f) of
                None \<Rightarrow> dash
              | Some finishedMs \<Rightarrow> elapsed_text (finishedMs - startedMs))"

section \<open>State\<close>

datatype refresh_mode = Initial | Manual | Poll

datatype stream_state = StreamIdle | Unsupported | Connecting | StreamConnected | Fallback

text \<open>
  The requests awaiting their reply; the page size a start sends is kept with it.
  \<open>SyncRequest\<close> is the status request \<open>handleStartScan\<close> makes after a failed start.
\<close>

datatype scan_request =
    RefreshRequest nat refresh_mode
  | StartRequest nat jsnum
  | SyncRequest nat
  | StopRequest nat
  | LibraryRequest nat jsnum

text \<open>
  \<open>sp_pristine\<close> is \<open>status === INITIAL_SCAN_STATUS\<close> (the same object: no status was set yet);
  \<open>sp_source\<close> the open \<open>EventSource\<close>, numbered as they are created; \<open>sp_source_works\<close> whether
  the browser has \<open>EventSource\<close>; \<open>sp_announced\<close> counts \<open>notifyCategoriesChanged\<close>.
\<close>

record scan_panel =
  sp_status :: scan_status
  sp_pristine :: bool
  sp_pageSizeInput :: jstr
  sp_isInitialLoading :: bool
  sp_isRefreshing :: bool
  sp_isStarting :: bool
  sp_isStopping :: bool
  sp_isRefreshingLibrary :: bool
  sp_requestError :: "jstr option"
  sp_now :: int
  sp_stream :: stream_state
  sp_inFlight :: bool
  sp_notified :: "jstr list"
  sp_version :: nat
  sp_source :: "nat option"
  sp_sources :: nat
  sp_source_works :: bool
  sp_announced :: nat
  sp_pending :: "scan_request list"

definition panel_initial :: "bool \<Rightarrow> int \<Rightarrow> scan_panel" where
  "panel_initial source_works now =
     \<lparr>sp_status = INITIAL_SCAN_STATUS, sp_pristine = True, sp_pageSizeInput = js ''100'', sp_isInitialLoading = True,
      sp_isRefreshing = False, sp_isStarting = False, sp_isStopping = False, sp_isRefreshingLibrary = False,
      sp_requestError = None, sp_now = now, sp_stream = StreamIdle, sp_inFlight = False, sp_notified = [],
      sp_version = 0, sp_source = None, sp_sources = 0, sp_source_works = source_works, sp_announced = 0,
      sp_pending = []\<rparr>"

definition setStatus :: "scan_status \<Rightarrow> scan_panel \<Rightarrow> scan_panel" where
  "setStatus st p = p\<lparr>sp_status := st, sp_pristine := False\<rparr>"

definition panel_bump :: "scan_panel \<Rightarrow> scan_panel" where
  "panel_bump p = p\<lparr>sp_version := sp_version p + 1\<rparr>"

definition panel_await :: "scan_request \<Rightarrow> scan_panel \<Rightarrow> scan_panel" where
  "panel_await q p = p\<lparr>sp_pending := q # sp_pending p\<rparr>"

section \<open>Handlers\<close>

definition refreshStatus_start :: "refresh_mode \<Rightarrow> scan_panel \<Rightarrow> scan_panel" where
  "refreshStatus_start mode p =
     (if sp_inFlight p then p
      else
        let p = panel_bump p;
            p = p\<lparr>sp_inFlight := True\<rparr>;
            p = (if mode = Initial then p\<lparr>sp_isInitialLoading := True\<rparr> else p);
            p = (if mode = Manual then p\<lparr>sp_isRefreshing := True\<rparr> else p)
        in panel_await (RefreshRequest (sp_version p) mode) p)"

definition refreshStatus_finally :: "refresh_mode \<Rightarrow> scan_panel \<Rightarrow> scan_panel" where
  "refreshStatus_finally mode p =
     (let p = p\<lparr>sp_inFlight := False\<rparr>;
          p = (if mode = Initial then p\<lparr>sp_isInitialLoading := False\<rparr> else p)
      in if mode = Manual then p\<lparr>sp_isRefreshing := False\<rparr> else p)"

definition refreshStatus_reply :: "nat \<Rightarrow> refresh_mode \<Rightarrow> js_error + scan_status \<Rightarrow> int \<Rightarrow> scan_panel \<Rightarrow> scan_panel" where
  "refreshStatus_reply requestVersion mode reply clock p =
     refreshStatus_finally mode
       (if requestVersion \<noteq> sp_version p then p
        else case reply of
            Inr nextStatus \<Rightarrow>
              (let p = setStatus nextStatus p;
                   p = (if isActiveScan nextStatus \<or> mode = Initial \<or> mode = Manual
                        then p\<lparr>sp_pageSizeInput := int_str (ss_page_size nextStatus)\<rparr> else p)
               in p\<lparr>sp_now := clock, sp_requestError := None\<rparr>)
          | Inl e \<Rightarrow> if mode \<noteq> Poll then p\<lparr>sp_requestError := Some (scan_error_text e)\<rparr> else p)"

definition closeSubscription :: "scan_panel \<Rightarrow> scan_panel" where
  "closeSubscription p = p\<lparr>sp_source := None\<rparr>"

text \<open>The callbacks given to \<open>subscribeToScanStatus\<close>.\<close>

definition stream_onOpen :: "scan_panel \<Rightarrow> scan_panel" where
  "stream_onOpen p = p\<lparr>sp_stream := StreamConnected\<rparr>"

definition stream_onStatus :: "scan_status \<Rightarrow> int \<Rightarrow> scan_panel \<Rightarrow> scan_panel" where
  "stream_onStatus nextStatus clock p =
     (let p = panel_bump p;
          p = (if isActiveScan nextStatus \<or> sp_pristine p
               then p\<lparr>sp_pageSizeInput := int_str (ss_page_size nextStatus)\<rparr> else p);
          p = setStatus nextStatus p;
          p = p\<lparr>sp_now := clock, sp_requestError := None, sp_isInitialLoading := False\<rparr>
      in if isTerminalScan nextStatus then (closeSubscription p)\<lparr>sp_stream := StreamIdle\<rparr>
         else p\<lparr>sp_stream := StreamConnected\<rparr>)"

definition stream_onError :: "scan_panel \<Rightarrow> scan_panel" where
  "stream_onError p = p\<lparr>sp_stream := (if sp_stream p = Unsupported then Unsupported else Fallback)\<rparr>"

text \<open>
  An event of a source: its listeners are removed when it is closed, so only the open source
  is heard. A payload that is no JSON (\<open>None\<close>) counts as an error.
\<close>

datatype source_event = SourceOpen | SourceStatus "scan_status option" | SourceError

definition source_event_handler :: "nat \<Rightarrow> source_event \<Rightarrow> int \<Rightarrow> scan_panel \<Rightarrow> scan_panel" where
  "source_event_handler source ev clock p =
     (if sp_source p \<noteq> Some source then p
      else case ev of
          SourceOpen \<Rightarrow> stream_onOpen p
        | SourceStatus (Some st) \<Rightarrow> stream_onStatus st clock p
        | SourceStatus None \<Rightarrow> stream_onError p
        | SourceError \<Rightarrow> stream_onError p)"

definition handleStartScan_start :: "scan_panel \<Rightarrow> scan_panel" where
  "handleStartScan_start p =
     (let p = p\<lparr>sp_requestError := None, sp_isStarting := True\<rparr>;
          p = panel_bump p;
          normalizedPageSize = clampPageSize (parse_int (sp_pageSizeInput p));
          p = p\<lparr>sp_pageSizeInput := num_str normalizedPageSize\<rparr>
      in panel_await (StartRequest (sp_version p) normalizedPageSize) p)"

definition handleStartScan_reply :: "nat \<Rightarrow> js_error + scan_status \<Rightarrow> int \<Rightarrow> scan_panel \<Rightarrow> scan_panel" where
  "handleStartScan_reply requestVersion reply clock p =
     (case reply of
        Inr nextStatus \<Rightarrow>
          (let p = (if requestVersion = sp_version p then (setStatus nextStatus p)\<lparr>sp_now := clock\<rparr> else p)
           in p\<lparr>sp_isStarting := False\<rparr>)
      | Inl e \<Rightarrow>
          (let p = (if requestVersion = sp_version p then p\<lparr>sp_requestError := Some (scan_error_text e)\<rparr> else p);
               p = panel_bump p
           in panel_await (SyncRequest (sp_version p)) p))"

definition handleStartScan_sync :: "nat \<Rightarrow> js_error + scan_status \<Rightarrow> scan_panel \<Rightarrow> scan_panel" where
  "handleStartScan_sync syncRequestVersion reply p =
     (let p = (case reply of
          Inr syncedStatus \<Rightarrow> if syncRequestVersion = sp_version p then setStatus syncedStatus p else p
        | Inl _ \<Rightarrow> p)
      in p\<lparr>sp_isStarting := False\<rparr>)"

definition handleStopScan_start :: "scan_panel \<Rightarrow> scan_panel" where
  "handleStopScan_start p =
     (let p = panel_bump (p\<lparr>sp_requestError := None, sp_isStopping := True\<rparr>)
      in panel_await (StopRequest (sp_version p)) p)"

definition handleStopScan_reply :: "nat \<Rightarrow> js_error + scan_status \<Rightarrow> int \<Rightarrow> scan_panel \<Rightarrow> scan_panel" where
  "handleStopScan_reply requestVersion reply clock p =
     (let p = (if requestVersion \<noteq> sp_version p then p
               else case reply of
                   Inr nextStatus \<Rightarrow> (setStatus nextStatus p)\<lparr>sp_now := clock\<rparr>
                 | Inl e \<Rightarrow> p\<lparr>sp_requestError := Some (scan_error_text e)\<rparr>)
      in p\<lparr>sp_isStopping := False\<rparr>)"

definition handleRefreshLibrary_start :: "bool \<Rightarrow> scan_panel \<Rightarrow> scan_panel" where
  "handleRefreshLibrary_start confirmed p =
     (if \<not> confirmed then p
      else
        let p = panel_bump (p\<lparr>sp_requestError := None, sp_isRefreshingLibrary := True\<rparr>);
            normalizedPageSize = clampPageSize (parse_int (sp_pageSizeInput p));
            p = p\<lparr>sp_pageSizeInput := num_str normalizedPageSize\<rparr>
        in panel_await (LibraryRequest (sp_version p) normalizedPageSize) p)"

definition announce_categories :: "scan_panel \<Rightarrow> scan_panel" where
  "announce_categories p = p\<lparr>sp_announced := sp_announced p + 1\<rparr>"

definition handleRefreshLibrary_reply :: "nat \<Rightarrow> js_error + scan_status \<Rightarrow> int \<Rightarrow> scan_panel \<Rightarrow> scan_panel" where
  "handleRefreshLibrary_reply requestVersion reply clock p =
     (let p = (if requestVersion \<noteq> sp_version p then p
               else case reply of
                   Inr nextStatus \<Rightarrow>
                     (announce_categories (setStatus nextStatus p))
                       \<lparr>sp_pageSizeInput := int_str (ss_page_size nextStatus), sp_now := clock\<rparr>
                 | Inl e \<Rightarrow> p\<lparr>sp_requestError := Some (scan_error_text e)\<rparr>)
      in p\<lparr>sp_isRefreshingLibrary := False\<rparr>)"

section \<open>Effects\<close>

text \<open>The subscription effect, for \<open>[scanIsActive, status.job_id]\<close>: clean up, then subscribe.\<close>

definition stream_effect :: "scan_panel \<Rightarrow> scan_panel" where
  "stream_effect p =
     (let p = closeSubscription p
      in if \<not> isActiveScan (sp_status p) then p\<lparr>sp_stream := StreamIdle\<rparr>
         else if \<not> sp_source_works p then p\<lparr>sp_stream := Unsupported\<rparr>
         else p\<lparr>sp_stream := Connecting, sp_source := Some (sp_sources p), sp_sources := sp_sources p + 1\<rparr>)"

definition terminal_key :: "scan_status \<Rightarrow> jstr" where
  "terminal_key st =
     join_with (js '':'')
       [case ss_job_id st of Some j \<Rightarrow> j | None \<Rightarrow> js ''no-job'', phase_name (ss_state st),
        case ss_finished_at st of Some f \<Rightarrow> f | None \<Rightarrow> js ''no-finish'']"

text \<open>The announcing effect, for \<open>[status.finished_at, status.job_id, status.state]\<close>.\<close>

definition terminal_effect :: "scan_panel \<Rightarrow> scan_panel" where
  "terminal_effect p =
     (if \<not> isTerminalScan (sp_status p) then p
      else
        let key = terminal_key (sp_status p)
        in if key \<in> set (sp_notified p) then p
           else announce_categories (p\<lparr>sp_notified := sp_notified p @ [key]\<rparr>))"

definition stream_deps :: "scan_status \<Rightarrow> bool \<times> jstr option" where
  "stream_deps st = (isActiveScan st, ss_job_id st)"

definition terminal_deps :: "scan_status \<Rightarrow> jstr option \<times> jstr option \<times> scan_phase" where
  "terminal_deps st = (ss_finished_at st, ss_job_id st, ss_state st)"

definition run_effects :: "scan_status \<Rightarrow> scan_panel \<Rightarrow> scan_panel" where
  "run_effects before p =
     (let p = (if stream_deps (sp_status p) \<noteq> stream_deps before then stream_effect p else p)
      in if terminal_deps (sp_status p) \<noteq> terminal_deps before then terminal_effect p else p)"

text \<open>The delay before the next poll.\<close>

definition poll_delay :: "scan_panel \<Rightarrow> nat" where
  "poll_delay p =
     (if sp_stream p = StreamConnected then POLL_INTERVAL_STREAM_BACKSTOP_MS
      else if isActiveScan (sp_status p) then POLL_INTERVAL_ACTIVE_MS
      else POLL_INTERVAL_IDLE_MS)"

section \<open>What the panel shows\<close>

datatype status_tone = AmberTone | SkyTone | EmeraldTone | PlainTone

definition has_text :: "jstr option \<Rightarrow> bool" where
  "has_text v = (case v of Some s \<Rightarrow> s \<noteq> [] | None \<Rightarrow> False)"

definition statusTone :: "scan_status \<Rightarrow> status_tone" where
  "statusTone st =
     (if has_text (ss_error st) \<or> ss_state st = Failed then AmberTone
      else if isActiveScan st then SkyTone
      else if ss_state st = Completed then EmeraldTone
      else PlainTone)"

definition statusLabel :: "scan_status \<Rightarrow> jstr" where
  "statusLabel st =
     (if has_text (ss_error st) \<or> ss_state st = Failed then js ''Import failed''
      else if ss_state st = Stopping \<or> (isActiveScan st \<and> ss_stop_requested st) then js ''Stopping import''
      else if isActiveScan st then js ''Importing Saved Messages''
      else if ss_state st = Completed then js ''Import complete''
      else if ss_state st = Cancelled then js ''Import stopped''
      else js ''Ready to import'')"

fun streamStatusLabel :: "stream_state \<Rightarrow> jstr" where
  "streamStatusLabel StreamIdle = js ''No active import''"
| "streamStatusLabel StreamConnected = js ''Updates are live''"
| "streamStatusLabel Connecting = js ''Connecting updates''"
| "streamStatusLabel Unsupported = js ''Live updates unavailable '' @ dash @ js '' checking automatically''"
| "streamStatusLabel Fallback = js ''Live updates interrupted '' @ dash @ js '' checking automatically''"

fun streamStatusTone :: "stream_state \<Rightarrow> status_tone" where
  "streamStatusTone StreamConnected = EmeraldTone"
| "streamStatusTone Connecting = SkyTone"
| "streamStatusTone _ = PlainTone"

definition scannerError :: "scan_panel \<Rightarrow> jstr option" where
  "scannerError p =
     (case ss_error (sp_status p) of
        Some e \<Rightarrow> Some e
      | None \<Rightarrow> if ss_state (sp_status p) = Failed then Some (js ''The import ended before it could complete.'')
                else sp_requestError p)"

definition isBusy :: "scan_panel \<Rightarrow> bool" where
  "isBusy p \<longleftrightarrow> sp_isInitialLoading p \<or> sp_isStarting p \<or> sp_isStopping p \<or> sp_isRefreshingLibrary p \<or> sp_isRefreshing p"

definition canStart :: "scan_panel \<Rightarrow> bool" where
  "canStart p \<longleftrightarrow> \<not> isBusy p \<and> \<not> isActiveScan (sp_status p)"

definition canStop :: "scan_panel \<Rightarrow> bool" where
  "canStop p \<longleftrightarrow> \<not> isBusy p \<and> isActiveScan (sp_status p) \<and> \<not> ss_stop_requested (sp_status p)"

definition canRefreshLibrary :: "scan_panel \<Rightarrow> bool" where
  "canRefreshLibrary p \<longleftrightarrow>
     \<not> (isActiveScan (sp_status p) \<or> sp_isStarting p \<or> sp_isStopping p \<or> sp_isRefreshingLibrary p)"

text \<open>The input for the page size: typing, and clamping when it loses the focus.\<close>

definition type_page_size :: "jstr \<Rightarrow> scan_panel \<Rightarrow> scan_panel" where
  "type_page_size v p = p\<lparr>sp_pageSizeInput := v\<rparr>"

definition blur_page_size :: "scan_panel \<Rightarrow> scan_panel" where
  "blur_page_size p = p\<lparr>sp_pageSizeInput := num_str (clampPageSize (parse_int (sp_pageSizeInput p)))\<rparr>"

section \<open>Steps\<close>

datatype scan_event =
    RefreshStart refresh_mode
  | StartClick | StopClick | LibraryClick bool
  | TypePageSize jstr | BlurPageSize
  | ClockTick int
  | SourceEvent nat source_event int
  | RefreshReply nat refresh_mode "js_error + scan_status" int
  | StartReply nat jsnum "js_error + scan_status" int
  | SyncReply nat "js_error + scan_status"
  | StopReply nat "js_error + scan_status" int
  | LibraryReply nat jsnum "js_error + scan_status" int

fun scan_react :: "scan_event \<Rightarrow> scan_panel \<Rightarrow> scan_panel" where
  "scan_react (RefreshStart mode) p = refreshStatus_start mode p"
| "scan_react StartClick p = handleStartScan_start p"
| "scan_react StopClick p = handleStopScan_start p"
| "scan_react (LibraryClick confirmed) p = handleRefreshLibrary_start confirmed p"
| "scan_react (TypePageSize v) p = type_page_size v p"
| "scan_react BlurPageSize p = blur_page_size p"
| "scan_react (ClockTick clock) p = p\<lparr>sp_now := clock\<rparr>"
| "scan_react (SourceEvent i ev clock) p = source_event_handler i ev clock p"
| "scan_react (RefreshReply v mode r clock) p = refreshStatus_reply v mode r clock p"
| "scan_react (StartReply v n r clock) p = handleStartScan_reply v r clock p"
| "scan_react (SyncReply v r) p = handleStartScan_sync v r p"
| "scan_react (StopReply v r clock) p = handleStopScan_reply v r clock p"
| "scan_react (LibraryReply v n r clock) p = handleRefreshLibrary_reply v r clock p"

fun scan_request_of :: "scan_event \<Rightarrow> scan_request option" where
  "scan_request_of (RefreshReply v mode _ _) = Some (RefreshRequest v mode)"
| "scan_request_of (StartReply v n _ _) = Some (StartRequest v n)"
| "scan_request_of (SyncReply v _) = Some (SyncRequest v)"
| "scan_request_of (StopReply v _ _) = Some (StopRequest v)"
| "scan_request_of (LibraryReply v n _ _) = Some (LibraryRequest v n)"
| "scan_request_of _ = None"

definition scan_answered :: "scan_event \<Rightarrow> scan_panel \<Rightarrow> scan_panel" where
  "scan_answered e p =
     (case scan_request_of e of Some q \<Rightarrow> p\<lparr>sp_pending := remove1 q (sp_pending p)\<rparr> | None \<Rightarrow> p)"

definition scan_step :: "scan_panel \<Rightarrow> scan_event \<Rightarrow> scan_panel" where
  "scan_step p e = run_effects (sp_status p) (scan_react e (scan_answered e p))"

text \<open>Replies need a request, clicks an enabled button.\<close>

definition scan_enabled :: "scan_panel \<Rightarrow> scan_event \<Rightarrow> bool" where
  "scan_enabled p e \<longleftrightarrow>
     (case scan_request_of e of Some q \<Rightarrow> q \<in> set (sp_pending p) | None \<Rightarrow> True) \<and>
     (e = StartClick \<longrightarrow> canStart p) \<and> (e = StopClick \<longrightarrow> canStop p) \<and>
     ((\<exists>c. e = LibraryClick c) \<longrightarrow> canRefreshLibrary p) \<and>
     (e = RefreshStart Manual \<longrightarrow> \<not> isBusy p)"

inductive scan_reachable :: "scan_panel \<Rightarrow> bool" where
  scan_init: "scan_reachable (scan_step (panel_initial works clock) (RefreshStart Initial))"
| scan_next: "scan_reachable p \<Longrightarrow> scan_enabled p e \<Longrightarrow> scan_reachable (scan_step p e)"

lemmas scan_starts =
  refreshStatus_start_def handleStartScan_start_def handleStopScan_start_def handleRefreshLibrary_start_def
  panel_bump_def panel_await_def

lemmas scan_replies =
  refreshStatus_reply_def refreshStatus_finally_def handleStartScan_reply_def handleStartScan_sync_def
  handleStopScan_reply_def handleRefreshLibrary_reply_def announce_categories_def setStatus_def

lemmas scan_stream =
  source_event_handler_def stream_onOpen_def stream_onStatus_def stream_onError_def closeSubscription_def

lemmas scan_functions = scan_starts scan_replies scan_stream type_page_size_def blur_page_size_def

section \<open>The effects keep everything else\<close>

lemma run_effects_same [simp]:
  "sp_status (run_effects b p) = sp_status p"
  "sp_pristine (run_effects b p) = sp_pristine p"
  "sp_pageSizeInput (run_effects b p) = sp_pageSizeInput p"
  "sp_requestError (run_effects b p) = sp_requestError p"
  "sp_now (run_effects b p) = sp_now p"
  "sp_version (run_effects b p) = sp_version p"
  "sp_pending (run_effects b p) = sp_pending p"
  "sp_inFlight (run_effects b p) = sp_inFlight p"
  "sp_isInitialLoading (run_effects b p) = sp_isInitialLoading p"
  "sp_isRefreshing (run_effects b p) = sp_isRefreshing p"
  "sp_isStarting (run_effects b p) = sp_isStarting p"
  "sp_isStopping (run_effects b p) = sp_isStopping p"
  "sp_isRefreshingLibrary (run_effects b p) = sp_isRefreshingLibrary p"
  "sp_source_works (run_effects b p) = sp_source_works p"
  by (simp_all add: run_effects_def stream_effect_def terminal_effect_def closeSubscription_def
      announce_categories_def Let_def)

lemma scan_answered_same [simp]:
  "sp_status (scan_answered e p) = sp_status p" "sp_version (scan_answered e p) = sp_version p"
  "sp_pageSizeInput (scan_answered e p) = sp_pageSizeInput p" "sp_requestError (scan_answered e p) = sp_requestError p"
  "sp_stream (scan_answered e p) = sp_stream p" "sp_source (scan_answered e p) = sp_source p"
  "sp_source_works (scan_answered e p) = sp_source_works p" "sp_notified (scan_answered e p) = sp_notified p"
  "sp_announced (scan_answered e p) = sp_announced p" "sp_sources (scan_answered e p) = sp_sources p"
  "sp_pristine (scan_answered e p) = sp_pristine p" "sp_now (scan_answered e p) = sp_now p"
  "sp_isInitialLoading (scan_answered e p) = sp_isInitialLoading p" "sp_isRefreshing (scan_answered e p) = sp_isRefreshing p"
  "sp_isStarting (scan_answered e p) = sp_isStarting p" "sp_isStopping (scan_answered e p) = sp_isStopping p"
  "sp_isRefreshingLibrary (scan_answered e p) = sp_isRefreshingLibrary p" "sp_inFlight (scan_answered e p) = sp_inFlight p"
  by (simp_all add: scan_answered_def split: option.splits)

section \<open>Older replies\<close>

fun scan_ticket :: "scan_event \<Rightarrow> nat option" where
  "scan_ticket (RefreshReply v _ _ _) = Some v"
| "scan_ticket (StartReply v _ _ _) = Some v"
| "scan_ticket (SyncReply v _) = Some v"
| "scan_ticket (StopReply v _ _) = Some v"
| "scan_ticket (LibraryReply v _ _ _) = Some v"
| "scan_ticket _ = None"

definition scan_view :: "scan_panel \<Rightarrow> scan_status \<times> jstr \<times> jstr option" where
  "scan_view p = (sp_status p, sp_pageSizeInput p, sp_requestError p)"

lemma scan_version_mono: "sp_version p \<le> sp_version (scan_step p e)"
  by (cases e) (auto simp: scan_step_def scan_functions Let_def split: sum.splits source_event.splits option.splits)

interpretation scan_requests: latest_wins sp_version scan_step scan_ticket scan_view
proof unfold_locales
  fix p e v
  show "sp_version p \<le> sp_version (scan_step p e)" by (rule scan_version_mono)
  assume "scan_ticket e = Some v" and "v \<noteq> sp_version p"
  then show "scan_view (scan_step p e) = scan_view p"
    by (cases e) (auto simp: scan_step_def scan_view_def scan_functions Let_def split: sum.splits)
qed

text \<open>
  C25: an older response never overwrites a newer one. Once a handler has drawn a newer version
  (a poll or button request started, or the live stream delivered a status), no reply of a
  request that was started earlier, whichever handler started it and however late it comes,
  changes the status, the page size or the error the panel shows; neither does any sequence of
  such replies.
\<close>

theorem older_scan_reply_ignored:
  assumes "\<forall>e \<in> set es. \<exists>v. scan_ticket e = Some v \<and> v < sp_version p"
  shows "sp_status (foldl scan_step p es) = sp_status p \<and>
    sp_pageSizeInput (foldl scan_step p es) = sp_pageSizeInput p \<and>
    sp_requestError (foldl scan_step p es) = sp_requestError p \<and>
    (\<forall>later old v. scan_ticket old = Some v \<and> v < sp_version p \<longrightarrow>
       sp_status (scan_step (foldl scan_step p later) old) = sp_status (foldl scan_step p later))"
  using scan_requests.stale_run_ignored [OF assms] scan_requests.superseded_forever
  by (fastforce simp: scan_view_def)

definition running_status :: scan_status where
  "running_status = INITIAL_SCAN_STATUS\<lparr>ss_job_id := Some (js ''j1''), ss_state := Running\<rparr>"

theorem older_scan_reply_ignored_witness:
  "sp_status (foldl scan_step (scan_step (scan_step (panel_initial True 0) (RefreshStart Initial)) StartClick)
     [RefreshReply 1 Initial (Inr running_status) 5]) = INITIAL_SCAN_STATUS"
proof -
  let ?p = "scan_step (scan_step (panel_initial True 0) (RefreshStart Initial)) StartClick"
  have "sp_version ?p = 2" and s: "sp_status ?p = INITIAL_SCAN_STATUS"
    by (simp_all add: scan_step_def scan_starts panel_initial_def Let_def)
  then have "\<forall>e \<in> set [RefreshReply 1 Initial (Inr running_status) 5]. \<exists>v. scan_ticket e = Some v \<and> v < sp_version ?p"
    by simp
  from older_scan_reply_ignored [OF this] s show ?thesis by simp
qed

text \<open>
  The same rule drops the error of a failed start when a poll began meanwhile: the poll drew a
  newer version, so the user sees neither the error nor a running import.
\<close>

lemma start_error_lost_to_poll:
  assumes "\<not> sp_inFlight p" and "sp_requestError p = None"
  shows "sp_requestError (foldl scan_step p
    [StartClick, RefreshStart Poll, StartReply (sp_version p + 1) n (Inl e) clock]) = None"
  using assms by (simp add: scan_step_def scan_functions Let_def)

section \<open>Announcing finished imports\<close>

definition announced_ok :: "scan_panel \<Rightarrow> bool" where
  "announced_ok p \<longleftrightarrow>
     distinct (sp_notified p) \<and> (isTerminalScan (sp_status p) \<longrightarrow> terminal_key (sp_status p) \<in> set (sp_notified p))"

lemma terminal_deps_key:
  "terminal_deps a = terminal_deps b \<Longrightarrow> terminal_key a = terminal_key b \<and> isTerminalScan a = isTerminalScan b"
  by (simp add: terminal_deps_def terminal_key_def isTerminalScan_def)

lemma react_notified:
  "sp_notified (scan_react e p) = sp_notified p \<and>
   ((\<forall>v n r c. e \<noteq> LibraryReply v n r c) \<longrightarrow> sp_announced (scan_react e p) = sp_announced p)"
  by (cases e) (auto simp: scan_functions Let_def split: sum.splits source_event.splits option.splits)

lemma run_effects_announces:
  "sp_notified (run_effects b p) =
     (if terminal_deps (sp_status p) \<noteq> terminal_deps b \<and> isTerminalScan (sp_status p) \<and>
         terminal_key (sp_status p) \<notin> set (sp_notified p)
      then sp_notified p @ [terminal_key (sp_status p)] else sp_notified p)"
  "sp_announced (run_effects b p) =
     (if terminal_deps (sp_status p) \<noteq> terminal_deps b \<and> isTerminalScan (sp_status p) \<and>
         terminal_key (sp_status p) \<notin> set (sp_notified p)
      then sp_announced p + 1 else sp_announced p)"
  by (simp_all add: run_effects_def stream_effect_def terminal_effect_def closeSubscription_def
      announce_categories_def Let_def)

lemma announced_ok_step: "announced_ok p \<Longrightarrow> announced_ok (scan_step p e)"
  using react_notified [of e "scan_answered e p"]
    terminal_deps_key [of "sp_status (scan_react e (scan_answered e p))" "sp_status p"]
  by (auto simp: announced_ok_def scan_step_def run_effects_announces)

lemma announced_ok_reachable: "scan_reachable p \<Longrightarrow> announced_ok p"
proof (induction rule: scan_reachable.induct)
  case (scan_init works clock)
  have "announced_ok (panel_initial works clock)"
    by (simp add: announced_ok_def panel_initial_def INITIAL_SCAN_STATUS_def isTerminalScan_def)
  then show ?case by (rule announced_ok_step)
qed (rule announced_ok_step)

text \<open>
  C26: a finished import is announced exactly once. In every reachable state the ending the
  panel shows has been announced and no ending twice; a step other than an accepted full
  refresh announces precisely when it brings the panel to an ending (job, outcome, finishing
  time) not announced before, however often polls and stream repeat it.
\<close>

theorem finished_import_announced_once:
  assumes "scan_reachable p" and "\<forall>v n r c. e \<noteq> LibraryReply v n r c"
  shows "(isTerminalScan (sp_status p) \<longrightarrow> terminal_key (sp_status p) \<in> set (sp_notified p)) \<and>
    distinct (sp_notified p) \<and>
    sp_announced (scan_step p e) = sp_announced p +
      (if isTerminalScan (sp_status (scan_step p e)) \<and>
          terminal_key (sp_status (scan_step p e)) \<notin> set (sp_notified p) then 1 else 0)"
proof -
  have ok: "announced_ok p" by (rule announced_ok_reachable [OF assms(1)])
  with assms(2) show ?thesis
    using react_notified [of e "scan_answered e p"]
      terminal_deps_key [of "sp_status (scan_react e (scan_answered e p))" "sp_status p"]
    by (auto simp: announced_ok_def scan_step_def run_effects_announces)
qed

definition finished_status :: scan_status where
  "finished_status = running_status\<lparr>ss_state := Completed, ss_finished_at := Some (js ''t'')\<rparr>"

theorem finished_import_announced_once_witness:
  "sp_announced (scan_step (scan_step (panel_initial True 0) (RefreshStart Initial)) (RefreshReply 1 Initial (Inr finished_status) 9)) = 1"
proof -
  let ?p = "scan_step (panel_initial True 0) (RefreshStart Initial)"
  let ?e = "RefreshReply 1 Initial (Inr finished_status) 9"
  have "sp_announced ?p = 0" "sp_notified ?p = []" "sp_status (scan_step ?p ?e) = finished_status"
    by (simp_all add: scan_step_def scan_functions panel_initial_def run_effects_announces isTerminalScan_def
        INITIAL_SCAN_STATUS_def Let_def)
  moreover have "isTerminalScan finished_status" by (simp add: isTerminalScan_def finished_status_def)
  ultimately show ?thesis using finished_import_announced_once [OF scan_init, of ?e] by simp
qed

section \<open>The live stream\<close>

definition stream_ok :: "scan_panel \<Rightarrow> bool" where
  "stream_ok p \<longleftrightarrow>
     (if \<not> isActiveScan (sp_status p) then sp_source p = None \<and> sp_stream p = StreamIdle
      else if sp_source_works p then sp_source p \<noteq> None \<and> sp_stream p \<in> {Connecting, StreamConnected, Fallback}
      else sp_source p = None \<and> sp_stream p = Unsupported)"

lemma stream_ok_effect: "stream_ok (stream_effect p)"
  by (simp add: stream_ok_def stream_effect_def closeSubscription_def Let_def)

lemma stream_ok_terminal: "stream_ok (terminal_effect p) = stream_ok p"
  by (simp add: stream_ok_def terminal_effect_def announce_categories_def Let_def)

lemma terminal_not_active: "isTerminalScan st \<Longrightarrow> \<not> isActiveScan st"
  by (auto simp: isTerminalScan_def isActiveScan_def)

lemma stream_ok_react:
  assumes "stream_ok p" and "stream_deps (sp_status (scan_react e p)) = stream_deps (sp_status p)"
  shows "stream_ok (scan_react e p)"
proof (cases "\<exists>i ev c. e = SourceEvent i ev c")
  case True
  then obtain i ev c where e: "e = SourceEvent i ev c" by blast
  show ?thesis
  proof (cases "sp_source p = Some i")
    case True
    with assms(1) have a: "isActiveScan (sp_status p)" "sp_source_works p"
      by (auto simp: stream_ok_def split: if_splits)
    with True assms e show ?thesis
      by (cases ev) (auto simp: stream_ok_def stream_deps_def scan_stream panel_bump_def setStatus_def Let_def
          dest: terminal_not_active split: option.splits if_splits)
  qed (use assms e in \<open>simp add: source_event_handler_def\<close>)
next
  case False
  then have "sp_source (scan_react e p) = sp_source p \<and> sp_stream (scan_react e p) = sp_stream p \<and>
      sp_source_works (scan_react e p) = sp_source_works p"
    by (cases e) (auto simp: scan_starts scan_replies type_page_size_def blur_page_size_def Let_def split: sum.splits)
  with assms show ?thesis by (auto simp: stream_ok_def stream_deps_def)
qed

lemma stream_ok_answered [simp]: "stream_ok (scan_answered e p) = stream_ok p"
  by (simp add: stream_ok_def)

lemma stream_ok_step: "stream_ok p \<Longrightarrow> stream_ok (scan_step p e)"
  using stream_ok_react [of "scan_answered e p" e]
  by (simp add: scan_step_def run_effects_def stream_ok_terminal stream_ok_effect Let_def)

text \<open>
  the live stream is open exactly while an import runs. In every reachable state there is
  an open event source if and only if the shown import is active and the browser supports it;
  without an active import the panel reports no live updates; and the next poll is never put
  off longer than twelve seconds, and not beyond one and a half for an active import whose
  stream is not connected.
\<close>

theorem stream_follows_import:
  assumes "scan_reachable p"
  shows "(sp_source p \<noteq> None \<longleftrightarrow> isActiveScan (sp_status p) \<and> sp_source_works p) \<and>
    (sp_stream p = StreamIdle \<longleftrightarrow> \<not> isActiveScan (sp_status p)) \<and>
    (sp_stream p = StreamConnected \<longrightarrow> sp_source p \<noteq> None) \<and>
    0 < poll_delay p \<and> poll_delay p \<le> 12000 \<and>
    (isActiveScan (sp_status p) \<and> sp_stream p \<noteq> StreamConnected \<longrightarrow> poll_delay p = 1500)"
proof -
  have "stream_ok p"
    using assms
  proof (induction rule: scan_reachable.induct)
    case (scan_init works clock)
    have "stream_ok (panel_initial works clock)"
      by (simp add: stream_ok_def panel_initial_def INITIAL_SCAN_STATUS_def isActiveScan_def)
    then show ?case by (rule stream_ok_step)
  qed (rule stream_ok_step)
  then show ?thesis
    by (auto simp: stream_ok_def poll_delay_def POLL_INTERVAL_ACTIVE_MS_def POLL_INTERVAL_IDLE_MS_def
        POLL_INTERVAL_STREAM_BACKSTOP_MS_def split: if_splits)
qed

theorem stream_follows_import_witness:
  "sp_source (scan_step (scan_step (panel_initial True 0) (RefreshStart Initial)) (RefreshReply 1 Initial (Inr running_status) 9)) \<noteq> None"
proof -
  let ?p = "scan_step (panel_initial True 0) (RefreshStart Initial)"
  let ?e = "RefreshReply 1 Initial (Inr running_status) 9"
  have "scan_enabled ?p ?e" and s: "sp_status (scan_step ?p ?e) = running_status" "sp_source_works (scan_step ?p ?e)"
    by (simp_all add: scan_enabled_def scan_step_def scan_functions panel_initial_def Let_def)
  then have "scan_reachable (scan_step ?p ?e)" by (blast intro: scan_next scan_init)
  from stream_follows_import [OF this] s show ?thesis
    by (simp add: isActiveScan_def running_status_def)
qed

section \<open>Requests and buttons\<close>

fun is_refresh :: "scan_request \<Rightarrow> bool" where
  "is_refresh (RefreshRequest _ _) = True" | "is_refresh _ = False"

fun is_start :: "scan_request \<Rightarrow> bool" where
  "is_start (StartRequest _ _) = True" | "is_start (SyncRequest _) = True" | "is_start _ = False"

fun is_stop :: "scan_request \<Rightarrow> bool" where
  "is_stop (StopRequest _) = True" | "is_stop _ = False"

fun is_library :: "scan_request \<Rightarrow> bool" where
  "is_library (LibraryRequest _ _) = True" | "is_library _ = False"

definition count_requests :: "(scan_request \<Rightarrow> bool) \<Rightarrow> scan_panel \<Rightarrow> nat" where
  "count_requests P p = length (filter P (sp_pending p))"

fun request_weight :: "scan_request \<Rightarrow> nat" where
  "request_weight (StartRequest _ _) = 2"
| "request_weight _ = 1"

definition pending_weight :: "scan_panel \<Rightarrow> nat" where
  "pending_weight p = sum_list (map request_weight (sp_pending p))"

lemma sum_list_remove1: "q \<in> set xs \<Longrightarrow> sum_list (map f (remove1 q xs)) + f q = sum_list (map (f :: _ \<Rightarrow> nat) xs)"
  by (induction xs) auto

definition requests_ok :: "scan_panel \<Rightarrow> bool" where
  "requests_ok p \<longleftrightarrow>
     count_requests is_refresh p = of_bool (sp_inFlight p) \<and>
     count_requests is_start p = of_bool (sp_isStarting p) \<and>
     count_requests is_stop p = of_bool (sp_isStopping p) \<and>
     count_requests is_library p = of_bool (sp_isRefreshingLibrary p) \<and>
     count_requests is_start p + count_requests is_stop p + count_requests is_library p \<le> 1 \<and>
     (sp_isInitialLoading p \<longrightarrow> (\<exists>v. RefreshRequest v Initial \<in> set (sp_pending p))) \<and>
     (sp_isRefreshing p \<longrightarrow> (\<exists>v. RefreshRequest v Manual \<in> set (sp_pending p)))"

lemma requests_ok_cong:
  "sp_pending p' = sp_pending p \<Longrightarrow> sp_inFlight p' = sp_inFlight p \<Longrightarrow> sp_isStarting p' = sp_isStarting p \<Longrightarrow>
   sp_isStopping p' = sp_isStopping p \<Longrightarrow> sp_isRefreshingLibrary p' = sp_isRefreshingLibrary p \<Longrightarrow>
   (sp_isInitialLoading p' \<Longrightarrow> sp_isInitialLoading p) \<Longrightarrow> sp_isRefreshing p' = sp_isRefreshing p \<Longrightarrow>
   requests_ok p \<Longrightarrow> requests_ok p'"
  unfolding requests_ok_def count_requests_def by auto

lemma requests_ok_effects [simp]: "requests_ok (run_effects b p) = requests_ok p"
  by (simp add: requests_ok_def count_requests_def)

lemma requests_ok_start:
  assumes "requests_ok p" and "scan_enabled p e" and "scan_request_of e = None"
  shows "requests_ok (scan_react e p)"
proof (cases e)
  case (RefreshStart mode)
  with assms show ?thesis
    by (cases mode) (auto simp: requests_ok_def count_requests_def scan_starts Let_def)
next
  case StartClick
  with assms show ?thesis
    by (auto simp: requests_ok_def count_requests_def scan_starts scan_enabled_def canStart_def isBusy_def Let_def)
next
  case StopClick
  with assms show ?thesis
    by (auto simp: requests_ok_def count_requests_def scan_starts scan_enabled_def canStop_def isBusy_def Let_def)
next
  case (LibraryClick confirmed)
  with assms show ?thesis
    by (auto simp: requests_ok_def count_requests_def scan_starts scan_enabled_def canRefreshLibrary_def Let_def)
next
  case (SourceEvent i ev clock)
  then show ?thesis
    by (intro requests_ok_cong [OF _ _ _ _ _ _ _ assms(1)])
      (auto simp: scan_stream panel_bump_def setStatus_def Let_def split: source_event.splits option.splits if_splits)
qed (use assms in \<open>auto simp: requests_ok_def count_requests_def type_page_size_def blur_page_size_def\<close>)

lemma count_answered:
  "scan_request_of e = Some q \<Longrightarrow> q \<in> set (sp_pending p) \<Longrightarrow>
     count_requests P (scan_answered e p) + of_bool (P q) = count_requests P p"
  using length_filter_remove1 [of q "sp_pending p" P] by (auto simp: count_requests_def scan_answered_def)

lemma answered_others:
  "scan_request_of e = Some q \<Longrightarrow> r \<in> set (sp_pending p) \<Longrightarrow> r \<noteq> q \<Longrightarrow> r \<in> set (sp_pending (scan_answered e p))"
  by (simp add: scan_answered_def in_set_remove1)

text \<open>The invariant with one request \<open>q\<close> taken out of the pending ones and the flags not yet reset.\<close>

lemma requests_ok_answered:
  assumes "requests_ok p" and "scan_request_of e = Some q" and "q \<in> set (sp_pending p)"
  shows "count_requests is_refresh (scan_answered e p) + of_bool (is_refresh q) = of_bool (sp_inFlight p)"
    and "count_requests is_start (scan_answered e p) + of_bool (is_start q) = of_bool (sp_isStarting p)"
    and "count_requests is_stop (scan_answered e p) + of_bool (is_stop q) = of_bool (sp_isStopping p)"
    and "count_requests is_library (scan_answered e p) + of_bool (is_library q) = of_bool (sp_isRefreshingLibrary p)"
    and "of_bool (sp_isStarting p) + of_bool (sp_isStopping p) + of_bool (sp_isRefreshingLibrary p) \<le> (1 :: nat)"
    and "sp_isInitialLoading p \<Longrightarrow> (\<exists>v. q = RefreshRequest v Initial) \<or> (\<exists>v. RefreshRequest v Initial \<in> set (sp_pending (scan_answered e p)))"
    and "sp_isRefreshing p \<Longrightarrow> (\<exists>v. q = RefreshRequest v Manual) \<or> (\<exists>v. RefreshRequest v Manual \<in> set (sp_pending (scan_answered e p)))"
  using assms(1) count_answered [OF assms(2,3)] answered_others [OF assms(2)]
  by (simp_all add: requests_ok_def, metis+)

lemma of_bool_taken: "n + of_bool x = of_bool y \<Longrightarrow> n = (of_bool (y \<and> \<not> x) :: nat)"
  by (cases x; cases y) simp_all

lemma requests_ok_from:
  assumes "sp_pending p' = new @ sp_pending a"
    and "count_requests is_refresh a + length (filter is_refresh new) = of_bool (sp_inFlight p')"
    and "count_requests is_start a + length (filter is_start new) = of_bool (sp_isStarting p')"
    and "count_requests is_stop a + length (filter is_stop new) = of_bool (sp_isStopping p')"
    and "count_requests is_library a + length (filter is_library new) = of_bool (sp_isRefreshingLibrary p')"
    and "of_bool (sp_isStarting p') + of_bool (sp_isStopping p') + of_bool (sp_isRefreshingLibrary p') \<le> (1 :: nat)"
    and "sp_isInitialLoading p' \<Longrightarrow> \<exists>v. RefreshRequest v Initial \<in> set (sp_pending a)"
    and "sp_isRefreshing p' \<Longrightarrow> \<exists>v. RefreshRequest v Manual \<in> set (sp_pending a)"
  shows "requests_ok p'"
proof -
  have "count_requests P p' = count_requests P a + length (filter P new)" for P
    using assms(1) by (simp add: count_requests_def)
  with assms show ?thesis unfolding requests_ok_def by auto
qed

lemma requests_ok_reply:
  assumes ok: "requests_ok p" and q: "scan_request_of e = Some q" "q \<in> set (sp_pending p)"
  shows "requests_ok (scan_react e (scan_answered e p))"
proof -
  let ?a = "scan_answered e p"
  note facts = requests_ok_answered [OF ok q]
  define new where "new = (case e of StartReply v n (Inl err) clock \<Rightarrow> [SyncRequest (sp_version p + 1)] | _ \<Rightarrow> [])"
  have pending: "sp_pending (scan_react e ?a) = new @ sp_pending ?a"
    using q by (cases e) (auto simp: new_def scan_replies panel_bump_def panel_await_def Let_def split: sum.splits)
  have inflight: "sp_inFlight (scan_react e ?a) = (sp_inFlight p \<and> \<not> is_refresh q)"
    and start: "sp_isStarting (scan_react e ?a) = (sp_isStarting p \<and> \<not> (is_start q \<and> new = []))"
    and stop: "sp_isStopping (scan_react e ?a) = (sp_isStopping p \<and> \<not> is_stop q)"
    and library: "sp_isRefreshingLibrary (scan_react e ?a) = (sp_isRefreshingLibrary p \<and> \<not> is_library q)"
    and initial: "sp_isInitialLoading (scan_react e ?a) = (sp_isInitialLoading p \<and> (\<forall>v. q \<noteq> RefreshRequest v Initial))"
    and manual: "sp_isRefreshing (scan_react e ?a) = (sp_isRefreshing p \<and> (\<forall>v. q \<noteq> RefreshRequest v Manual))"
    using q by (cases e; auto simp: new_def scan_replies panel_bump_def panel_await_def Let_def split: sum.splits)+
  have new: "new = [] \<or> (\<exists>v. new = [SyncRequest v] \<and> is_start q)"
    using q by (cases e) (auto simp: new_def split: sum.splits)
  then have none: "filter is_refresh new = []" "filter is_stop new = []" "filter is_library new = []" by auto
  show ?thesis
  proof (rule requests_ok_from [OF pending])
    show "count_requests is_start ?a + length (filter is_start new) = of_bool (sp_isStarting (scan_react e ?a))"
      using facts(2) new unfolding start by (cases "sp_isStarting p"; cases "is_start q") auto
    show "count_requests is_refresh ?a + length (filter is_refresh new) = of_bool (sp_inFlight (scan_react e ?a))"
      unfolding inflight none using of_bool_taken [OF facts(1)] by simp
    show "count_requests is_stop ?a + length (filter is_stop new) = of_bool (sp_isStopping (scan_react e ?a))"
      unfolding stop none using of_bool_taken [OF facts(3)] by simp
    show "count_requests is_library ?a + length (filter is_library new) = of_bool (sp_isRefreshingLibrary (scan_react e ?a))"
      unfolding library none using of_bool_taken [OF facts(4)] by simp
    show "of_bool (sp_isStarting (scan_react e ?a)) + of_bool (sp_isStopping (scan_react e ?a)) +
        of_bool (sp_isRefreshingLibrary (scan_react e ?a)) \<le> (1 :: nat)"
      using facts(5) unfolding start stop library by (auto simp: of_bool_def split: if_splits)
    show "sp_isInitialLoading (scan_react e ?a) \<Longrightarrow> \<exists>v. RefreshRequest v Initial \<in> set (sp_pending ?a)"
      using facts(6) unfolding initial by blast
    show "sp_isRefreshing (scan_react e ?a) \<Longrightarrow> \<exists>v. RefreshRequest v Manual \<in> set (sp_pending ?a)"
      using facts(7) unfolding manual by blast
  qed
qed

lemma requests_ok_step:
  assumes "requests_ok p" and "scan_enabled p e"
  shows "requests_ok (scan_step p e)"
proof (cases "scan_request_of e")
  case None
  with assms requests_ok_start show ?thesis by (simp add: scan_step_def scan_answered_def)
next
  case (Some q)
  with assms requests_ok_reply show ?thesis by (simp add: scan_step_def scan_enabled_def)
qed

lemma requests_ok_initial: "requests_ok (scan_step (panel_initial works clock) (RefreshStart Initial))"
  by (simp add: scan_step_def scan_answered_def requests_ok_def count_requests_def scan_starts panel_initial_def Let_def)

lemma requests_ok_reachable: "scan_reachable p \<Longrightarrow> requests_ok p"
  by (induction rule: scan_reachable.induct) (auto intro: requests_ok_step requests_ok_initial)

text \<open>
  the panel never runs two scan commands at once and never stays busy. In every reachable
  state at most one start, stop or full refresh (a failed start's synchronisation included) is
  under way, and its button's flag says which; at most one status poll is under way; every
  reply brings the outstanding work strictly down, and once nothing is outstanding no flag is
  left set, so the buttons work again.
\<close>

theorem scan_commands_exclusive:
  assumes "scan_reachable p"
  shows "count_requests is_start p + count_requests is_stop p + count_requests is_library p \<le> 1 \<and>
    (sp_isStarting p \<longleftrightarrow> count_requests is_start p = 1) \<and>
    (sp_isStopping p \<longleftrightarrow> count_requests is_stop p = 1) \<and>
    (sp_isRefreshingLibrary p \<longleftrightarrow> count_requests is_library p = 1) \<and>
    count_requests is_refresh p \<le> 1 \<and>
    (\<forall>e q. scan_request_of e = Some q \<and> q \<in> set (sp_pending p) \<longrightarrow>
       scan_enabled p e \<and> pending_weight (scan_step p e) < pending_weight p) \<and>
    (pending_weight p = 0 \<longrightarrow> \<not> isBusy p \<and> \<not> sp_inFlight p)"
proof -
  have ok: "requests_ok p" by (rule requests_ok_reachable [OF assms])
  have less: "scan_enabled p e \<and> pending_weight (scan_step p e) < pending_weight p"
    if q: "scan_request_of e = Some q" "q \<in> set (sp_pending p)" for e q
  proof
    show "scan_enabled p e" using q by (cases e) (auto simp: scan_enabled_def)
    have "pending_weight (scan_answered e p) + request_weight q = pending_weight p"
      using q sum_list_remove1 [of q "sp_pending p" request_weight] by (simp add: pending_weight_def scan_answered_def)
    moreover have "pending_weight (scan_step p e) < pending_weight (scan_answered e p) + request_weight q"
      using q by (cases e) (auto simp: scan_step_def pending_weight_def scan_replies panel_bump_def panel_await_def Let_def
          split: sum.splits)
    ultimately show "pending_weight (scan_step p e) < pending_weight p" by simp
  qed
  have weight: "0 < request_weight q" for q by (cases q) simp_all
  have "sp_pending p = []" if "pending_weight p = 0"
  proof (cases "sp_pending p")
    case (Cons q qs)
    with that weight [of q] show ?thesis by (simp add: pending_weight_def)
  qed
  then have "pending_weight p = 0 \<longrightarrow> \<not> isBusy p \<and> \<not> sp_inFlight p"
    using ok by (auto simp: requests_ok_def count_requests_def isBusy_def)
  with ok less show ?thesis by (auto simp: requests_ok_def)
qed

theorem scan_commands_exclusive_witness:
  "count_requests is_start (scan_step (panel_initial True 0) (RefreshStart Initial)) = 0 \<and>
   pending_weight (scan_step (scan_step (panel_initial True 0) (RefreshStart Initial)) (RefreshReply 1 Initial (Inl NonError) 0)) = 0"
proof -
  let ?p = "scan_step (panel_initial True 0) (RefreshStart Initial)"
  let ?e = "RefreshReply 1 Initial (Inl NonError) 0"
  have "scan_request_of ?e = Some (RefreshRequest 1 Initial)" and "RefreshRequest 1 Initial \<in> set (sp_pending ?p)"
    and "\<not> sp_isStarting ?p" and w: "pending_weight ?p = 1"
    by (simp_all add: scan_step_def scan_answered_def scan_starts panel_initial_def pending_weight_def Let_def)
  note c = scan_commands_exclusive [OF scan_init, of True 0]
  have "count_requests is_start ?p \<le> 1" using c by linarith
  moreover have "count_requests is_start ?p \<noteq> 1" using c \<open>\<not> sp_isStarting ?p\<close> by blast
  moreover have "pending_weight (scan_step ?p ?e) < pending_weight ?p"
    using c \<open>scan_request_of ?e = Some _\<close> \<open>RefreshRequest 1 Initial \<in> set (sp_pending ?p)\<close> by blast
  ultimately show ?thesis using w by linarith
qed

text \<open>
  the buttons agree with the import. Starting is possible only when no import is active and
  stopping only when one is, never both; whatever text the page-size field holds, starting
  (also a full refresh) asks for a whole number of messages between 1 and 1000 and shows that
  number in the field, and leaving the field shows the number a start would then use.
\<close>

theorem scan_buttons_consistent:
  "\<not> (canStart p \<and> canStop p) \<and>
   (\<exists>k. 1 \<le> k \<and> k \<le> 1000 \<and>
      sp_pending (handleStartScan_start p) = StartRequest (sp_version p + 1) (jint k) # sp_pending p \<and>
      sp_pending (handleRefreshLibrary_start True p) = LibraryRequest (sp_version p + 1) (jint k) # sp_pending p \<and>
      sp_pageSizeInput (handleStartScan_start p) = int_str k \<and>
      sp_pageSizeInput (blur_page_size p) = int_str k \<and>
      blur_page_size (blur_page_size p) = blur_page_size p)"
proof -
  have "\<exists>k. 1 \<le> k \<and> k \<le> 1000 \<and> clampPageSize x = jint k" for x
  proof (cases "num_is_finite x")
    case True
    then show ?thesis using clamp_trunc_range [OF True, of 1 1000] by (auto simp: clampPageSize_def)
  next
    case False
    then show ?thesis by (intro exI [of _ 100]) (simp add: clampPageSize_def)
  qed
  then obtain k where k: "1 \<le> k" "k \<le> 1000" "clampPageSize (parse_int (sp_pageSizeInput p)) = jint k" by blast
  have "parse_int (int_str k) = jint k" using k by (intro parse_int_int_str) simp
  then have again: "clampPageSize (parse_int (int_str k)) = jint k"
    using k num_max_jint [of 1 k] num_min_jint [of 1000 k]
    unfolding clampPageSize_def by (simp del: num_max_jint num_min_jint)
  have "sp_pending (handleStartScan_start p) = StartRequest (sp_version p + 1) (jint k) # sp_pending p"
    "sp_pending (handleRefreshLibrary_start True p) = LibraryRequest (sp_version p + 1) (jint k) # sp_pending p"
    "sp_pageSizeInput (handleStartScan_start p) = int_str k"
    unfolding scan_starts Let_def by (simp_all add: k(3))
  moreover have "sp_pageSizeInput (blur_page_size p) = int_str k" "blur_page_size (blur_page_size p) = blur_page_size p"
    unfolding blur_page_size_def by (simp_all add: k(3) again)
  ultimately show ?thesis using k by (auto simp: canStart_def canStop_def)
qed

end
