(* ===== verification/ScanPolling.thy ===== *)
theory ScanPolling
  imports ScanProgress
begin

text \<open>
  The timers of the import panel (\<open>components/scan/scan-progress.tsx\<close>): the loop that polls the
  status while the panel is mounted, and the clock that ticks while a scan is active. Every run of
  the polling effect starts a chain of timers of its own, which its cleanup cancels; a chain that is
  cancelled while it awaits its poll sees this only when the poll has settled.
\<close>

section \<open>The loop\<close>

text \<open>
  One run of the effect: the delay its closure computes, \<open>isCancelled\<close>, whether its timer is set, and
  the request of the poll it awaits.
\<close>

record poll_chain =
  pc_delay :: nat
  pc_isCancelled :: bool
  pc_timer :: bool
  pc_awaits :: "nat option"

definition scheduleNext :: "poll_chain \<Rightarrow> poll_chain" where
  "scheduleNext c = (if pc_isCancelled c then c else c\<lparr>pc_timer := True\<rparr>)"

definition cancel_chain :: "poll_chain \<Rightarrow> poll_chain" where
  "cancel_chain c = c\<lparr>pc_isCancelled := True, pc_timer := False\<rparr>"

fun cancel_newest :: "poll_chain list \<Rightarrow> poll_chain list" where
  "cancel_newest [] = []"
| "cancel_newest (c # cs) = cancel_chain c # cs"

text \<open>The effect: the cleanup of its last run, then a chain of its own (the newest chain comes first).\<close>

definition poll_effect :: "scan_panel \<Rightarrow> poll_chain list \<Rightarrow> poll_chain list" where
  "poll_effect p cs =
     scheduleNext \<lparr>pc_delay = poll_delay p, pc_isCancelled = False, pc_timer = False, pc_awaits = None\<rparr>
       # cancel_newest cs"

text \<open>\<open>await refreshStatus("poll")\<close> in the timer: it returns at once when a refresh is in flight.\<close>

definition timer_fires :: "scan_panel \<Rightarrow> poll_chain \<Rightarrow> poll_chain" where
  "timer_fires p c =
     (let c = c\<lparr>pc_timer := False\<rparr>
      in if sp_inFlight p then scheduleNext c else c\<lparr>pc_awaits := Some (sp_version p + 1)\<rparr>)"

definition poll_settled :: "nat \<Rightarrow> poll_chain \<Rightarrow> poll_chain" where
  "poll_settled version c =
     (if pc_awaits c = Some version then scheduleNext (c\<lparr>pc_awaits := None\<rparr>) else c)"

section \<open>The panel with its timers\<close>

text \<open>\<open>pt_clock\<close>: the interval that updates the clock is set.\<close>

record polled_panel =
  pt_panel :: scan_panel
  pt_chains :: "poll_chain list"
  pt_clock :: bool
  pt_mounted :: bool

text \<open>
  The effects of \<open>status\<close> and \<open>streamConnectionState\<close>. React compares objects: \<open>again\<close> says that the
  status is another object although it is equal to the one before.
\<close>

definition timer_effects :: "bool \<Rightarrow> scan_panel \<Rightarrow> polled_panel \<Rightarrow> polled_panel" where
  "timer_effects again before s =
     (let p = pt_panel s;
          newStatus = (again \<or> sp_status p \<noteq> sp_status before);
          s = (if newStatus \<or> sp_stream p \<noteq> sp_stream before
               then s\<lparr>pt_chains := poll_effect p (pt_chains s)\<rparr> else s)
      in if newStatus then s\<lparr>pt_clock := isActiveScan (sp_status p)\<rparr> else s)"

definition polled_initial :: "scan_panel \<Rightarrow> polled_panel" where
  "polled_initial p =
     \<lparr>pt_panel = p, pt_chains = poll_effect p [], pt_clock = isActiveScan (sp_status p), pt_mounted = True\<rparr>"

datatype polled_event = Panel scan_event bool | TimerFires nat | ClockFires int | Unmounted

fun chains_hear :: "scan_event \<Rightarrow> poll_chain list \<Rightarrow> poll_chain list" where
  "chains_hear (RefreshReply version Poll r clock) cs = map (poll_settled version) cs"
| "chains_hear e cs = cs"

fun polled_step :: "polled_panel \<Rightarrow> polled_event \<Rightarrow> polled_panel" where
  "polled_step s (Panel e again) =
     (let s' = s\<lparr>pt_panel := scan_step (pt_panel s) e, pt_chains := chains_hear e (pt_chains s)\<rparr>
      in if pt_mounted s then timer_effects again (pt_panel s) s' else s')"
| "polled_step s (TimerFires i) =
     s\<lparr>pt_panel := scan_step (pt_panel s) (RefreshStart Poll),
       pt_chains := (pt_chains s)[i := timer_fires (pt_panel s) (pt_chains s ! i)]\<rparr>"
| "polled_step s (ClockFires clock) = s\<lparr>pt_panel := scan_step (pt_panel s) (ClockTick clock)\<rparr>"
| "polled_step s Unmounted = s\<lparr>pt_chains := cancel_newest (pt_chains s), pt_clock := False, pt_mounted := False\<rparr>"

text \<open>Timers fire when they are set; once unmounted, the panel only gets the replies it still awaits.\<close>

fun polled_enabled :: "polled_panel \<Rightarrow> polled_event \<Rightarrow> bool" where
  "polled_enabled s (Panel e again) \<longleftrightarrow>
     scan_enabled (pt_panel s) e \<and> e \<noteq> RefreshStart Poll \<and> (\<forall>clock. e \<noteq> ClockTick clock)
     \<and> (pt_mounted s \<or> scan_request_of e \<noteq> None)"
| "polled_enabled s (TimerFires i) \<longleftrightarrow> i < length (pt_chains s) \<and> pc_timer (pt_chains s ! i)"
| "polled_enabled s (ClockFires clock) \<longleftrightarrow> pt_clock s"
| "polled_enabled s Unmounted \<longleftrightarrow> pt_mounted s"

inductive polled_reachable :: "polled_panel \<Rightarrow> bool" where
  polled_mount: "polled_reachable (polled_initial (scan_step (panel_initial works clock) (RefreshStart Initial)))"
| polled_next: "polled_reachable s \<Longrightarrow> polled_enabled s e \<Longrightarrow> polled_reachable (polled_step s e)"

section \<open>Exactly one chain is alive\<close>

definition dead_chain :: "poll_chain \<Rightarrow> bool" where
  "dead_chain c \<longleftrightarrow> pc_isCancelled c \<and> \<not> pc_timer c"

definition live_chain :: "scan_panel \<Rightarrow> poll_chain \<Rightarrow> bool" where
  "live_chain p c \<longleftrightarrow>
     \<not> pc_isCancelled c \<and> pc_delay c = poll_delay p \<and> pc_timer c = (pc_awaits c = None)
     \<and> (\<forall>v. pc_awaits c = Some v \<longrightarrow> RefreshRequest v Poll \<in> set (sp_pending p))"

definition timers_ok :: "polled_panel \<Rightarrow> bool" where
  "timers_ok s \<longleftrightarrow>
     (if pt_mounted s
      then pt_chains s \<noteq> [] \<and> live_chain (pt_panel s) (hd (pt_chains s)) \<and> (\<forall>c \<in> set (tl (pt_chains s)). dead_chain c)
        \<and> pt_clock s = isActiveScan (sp_status (pt_panel s))
      else (\<forall>c \<in> set (pt_chains s). dead_chain c) \<and> \<not> pt_clock s)"

lemma dead_cancelled [simp]: "dead_chain (cancel_chain c)"
  by (simp add: dead_chain_def cancel_chain_def)

lemma dead_settled: "dead_chain c \<Longrightarrow> dead_chain (poll_settled v c)"
  by (simp add: dead_chain_def poll_settled_def scheduleNext_def)

lemma dead_hear: "\<forall>c \<in> set cs. dead_chain c \<Longrightarrow> c \<in> set (chains_hear e cs) \<Longrightarrow> dead_chain c"
  by (induction e cs rule: chains_hear.induct) (auto simp: dead_settled)

lemma hear_cons: "chains_hear e (c # cs) = hd (chains_hear e [c]) # chains_hear e cs"
  by (induction e cs rule: chains_hear.induct) auto

lemma live_new: "live_chain p (hd (poll_effect p cs))"
  by (simp add: live_chain_def poll_effect_def scheduleNext_def)

text \<open>A step keeps a pending request, unless it is its reply.\<close>

lemma pending_kept:
  assumes "q \<in> set (sp_pending p)" and "scan_request_of e \<noteq> Some q"
  shows "q \<in> set (sp_pending (scan_step p e))"
proof -
  from assms have "q \<in> set (sp_pending (scan_answered e p))"
    by (auto simp: scan_answered_def in_set_remove1 split: option.splits)
  moreover have "set (sp_pending (scan_answered e p)) \<subseteq> set (sp_pending (scan_react e (scan_answered e p)))"
    by (cases e) (auto simp: scan_functions Let_def split: sum.splits source_event.splits option.splits)
  ultimately show ?thesis by (auto simp: scan_step_def)
qed

lemma live_hears:
  assumes live: "live_chain p c" and same: "poll_delay (scan_step p e) = poll_delay p"
  shows "live_chain (scan_step p e) (hd (chains_hear e [c]))"
proof (cases "\<exists>v r clock. e = RefreshReply v Poll r clock \<and> pc_awaits c = Some v")
  case True
  then obtain v r clock where e: "e = RefreshReply v Poll r clock" "pc_awaits c = Some v" by blast
  from live same show ?thesis
    by (simp add: e poll_settled_def scheduleNext_def live_chain_def)
next
  case False
  then have "hd (chains_hear e [c]) = c"
    by (cases "(e, [c])" rule: chains_hear.cases) (auto simp: poll_settled_def)
  moreover have "RefreshRequest v Poll \<in> set (sp_pending (scan_step p e))" if "pc_awaits c = Some v" for v
  proof (rule pending_kept)
    show "RefreshRequest v Poll \<in> set (sp_pending p)" using live that by (simp add: live_chain_def)
    show "scan_request_of e \<noteq> Some (RefreshRequest v Poll)" using False that by (cases e) auto
  qed
  ultimately show ?thesis using live same by (simp add: live_chain_def)
qed

lemma timers_ok_effects:
  assumes "pt_mounted s" and "\<forall>c \<in> set (tl (pt_chains s)). dead_chain c"
    and "sp_status (pt_panel s) = sp_status p \<Longrightarrow> sp_stream (pt_panel s) = sp_stream p \<Longrightarrow>
      pt_chains s \<noteq> [] \<and> live_chain (pt_panel s) (hd (pt_chains s))"
    and "sp_status (pt_panel s) = sp_status p \<Longrightarrow> pt_clock s = isActiveScan (sp_status (pt_panel s))"
  shows "timers_ok (timer_effects again p s)"
proof -
  have "\<forall>c \<in> set (cancel_newest (pt_chains s)). dead_chain c"
    using assms(2) by (cases "pt_chains s") auto
  moreover note live_new [of "pt_panel s" "pt_chains s"]
  ultimately show ?thesis
    using assms by (auto simp: timers_ok_def timer_effects_def Let_def poll_effect_def)
qed

lemma timers_ok_panel:
  assumes ok: "timers_ok s" and mounted: "pt_mounted s"
  shows "timers_ok (polled_step s (Panel e again))"
proof -
  from ok mounted obtain c cs where cs: "pt_chains s = c # cs" "live_chain (pt_panel s) c" "\<forall>c \<in> set cs. dead_chain c"
    "pt_clock s = isActiveScan (sp_status (pt_panel s))"
    by (cases "pt_chains s") (auto simp: timers_ok_def)
  note hear = hear_cons [of e c cs]
  have "live_chain (scan_step (pt_panel s) e) (hd (chains_hear e [c]))"
    if "sp_status (scan_step (pt_panel s) e) = sp_status (pt_panel s)" "sp_stream (scan_step (pt_panel s) e) = sp_stream (pt_panel s)"
    using that cs(2) by (intro live_hears) (simp_all add: poll_delay_def)
  with mounted cs dead_hear [OF cs(3), of _ e] show ?thesis
    by (auto intro!: timers_ok_effects simp: Let_def hear)
qed

lemma polled_step_panel:
  "pt_panel (polled_step s e) =
     (case e of Panel e _ \<Rightarrow> scan_step (pt_panel s) e | TimerFires _ \<Rightarrow> scan_step (pt_panel s) (RefreshStart Poll)
      | ClockFires clock \<Rightarrow> scan_step (pt_panel s) (ClockTick clock) | Unmounted \<Rightarrow> pt_panel s)"
  by (cases e) (simp_all add: Let_def timer_effects_def)

text \<open>Starting a poll and a tick of the clock leave status and stream as they are.\<close>

lemma quiet_steps [simp]:
  "sp_status (scan_step p (RefreshStart Poll)) = sp_status p" "sp_stream (scan_step p (RefreshStart Poll)) = sp_stream p"
  "sp_status (scan_step p (ClockTick clock)) = sp_status p" "sp_stream (scan_step p (ClockTick clock)) = sp_stream p"
  "sp_pending (scan_step p (ClockTick clock)) = sp_pending p"
  "sp_pending (scan_step p (RefreshStart Poll)) =
     (if sp_inFlight p then sp_pending p else RefreshRequest (sp_version p + 1) Poll # sp_pending p)"
  by (simp_all add: scan_step_def scan_answered_def scan_starts run_effects_def Let_def)

lemma live_fires: "live_chain p c \<Longrightarrow> pc_timer c \<Longrightarrow> live_chain (scan_step p (RefreshStart Poll)) (timer_fires p c)"
  by (simp add: live_chain_def timer_fires_def scheduleNext_def poll_delay_def Let_def)

lemma timers_ok_step:
  assumes ok: "timers_ok s" and enabled: "polled_enabled s e"
  shows "timers_ok (polled_step s e)"
proof (cases e)
  case (Panel ev again)
  show ?thesis
  proof (cases "pt_mounted s")
    case True
    with ok Panel show ?thesis by (simp add: timers_ok_panel del: polled_step.simps)
  next
    case False
    with ok Panel show ?thesis by (auto simp: timers_ok_def Let_def dest: dead_hear)
  qed
next
  case (TimerFires i)
  have first: "pt_mounted s \<and> i = 0"
  proof (rule ccontr)
    assume later: "\<not> (pt_mounted s \<and> i = 0)"
    from enabled TimerFires have i: "i < length (pt_chains s)" "pc_timer (pt_chains s ! i)" by simp_all
    from i(1) have "pt_chains s ! i \<in> set (pt_chains s)" by simp
    moreover have "i \<noteq> 0 \<Longrightarrow> pt_chains s ! i \<in> set (tl (pt_chains s))"
      using i(1) by (cases "pt_chains s"; cases i) auto
    ultimately have "dead_chain (pt_chains s ! i)" using ok later by (auto simp: timers_ok_def split: if_splits)
    with i(2) show False by (simp add: dead_chain_def)
  qed
  with ok enabled TimerFires show ?thesis
    by (cases "pt_chains s") (auto simp: timers_ok_def live_fires)
next
  case (ClockFires clock)
  with ok show ?thesis by (cases "pt_mounted s") (simp_all add: timers_ok_def live_chain_def poll_delay_def)
next
  case Unmounted
  with ok enabled show ?thesis by (cases "pt_chains s") (auto simp: timers_ok_def)
qed

lemma timers_ok_reachable: "polled_reachable s \<Longrightarrow> timers_ok s"
proof (induction rule: polled_reachable.induct)
  case (polled_mount works clock)
  show ?case
    using live_new [of "scan_step (panel_initial works clock) (RefreshStart Initial)" "[]"]
    by (simp add: timers_ok_def polled_initial_def poll_effect_def)
qed (rule timers_ok_step)

lemma polled_panel_reachable: "polled_reachable s \<Longrightarrow> scan_reachable (pt_panel s)"
proof (induction rule: polled_reachable.induct)
  case (polled_mount works clock)
  show ?case by (simp add: polled_initial_def scan_init)
next
  case (polled_next s e)
  then show ?case
    by (cases e) (auto simp: polled_step_panel scan_enabled_def intro!: scan_next simp del: polled_step.simps)
qed

section \<open>The loop never stops\<close>

text \<open>
  The panel never stops asking while it is mounted, and stops when it is not. Whatever the
  order of timers, answers, stream events, changes of the status and clicks: as long as the panel is
  mounted exactly one chain of timers is alive, the newest one, and its delay is the one for the
  status and the stream as they are now; either its timer is set, the only one that is, or the
  request of its poll is under way, and every answer to it, an error as well, sets a timer again with
  the delay that is right then. At most one status request is under way. The clock ticks exactly
  while a scan is active. Once the panel is unmounted no timer is set, and no answer sets one.
\<close>

theorem poll_loop_alive:
  assumes "polled_reachable s"
  defines "p \<equiv> pt_panel s" and "c \<equiv> hd (pt_chains s)"
  shows "pt_mounted s \<Longrightarrow>
      filter (\<lambda>c. \<not> pc_isCancelled c) (pt_chains s) = [c] \<and> pc_delay c = poll_delay p
      \<and> filter pc_timer (pt_chains s) = (if pc_awaits c = None then [c] else [])
      \<and> (\<forall>v r clock again. pc_awaits c = Some v \<longrightarrow>
          (let s' = polled_step s (Panel (RefreshReply v Poll r clock) again)
           in polled_enabled s (Panel (RefreshReply v Poll r clock) again) \<and> pc_timer (hd (pt_chains s'))
              \<and> pc_delay (hd (pt_chains s')) = poll_delay (pt_panel s')))
      \<and> pt_clock s = isActiveScan (sp_status p)"
    and "count_requests is_refresh p \<le> 1"
    and "\<not> pt_mounted s \<Longrightarrow>
      filter pc_timer (pt_chains s) = [] \<and> \<not> pt_clock s
      \<and> (\<forall>e. polled_enabled s e \<longrightarrow> filter pc_timer (pt_chains (polled_step s e)) = [] \<and> \<not> pt_mounted (polled_step s e))"
proof -
  note ok = timers_ok_reachable [OF assms(1)]
  have only: "filter P cs = []" if "\<forall>c \<in> set cs. dead_chain c" "\<And>c. P c \<Longrightarrow> \<not> dead_chain c" for P and cs :: "poll_chain list"
    using that by (auto simp: filter_empty_conv)
  have dead: "\<not> pt_mounted t \<Longrightarrow> timers_ok t \<Longrightarrow> filter pc_timer (pt_chains t) = [] \<and> \<not> pt_clock t" for t
    using only [of "pt_chains t" pc_timer] by (simp add: timers_ok_def dead_chain_def)
  show "count_requests is_refresh p \<le> 1"
    using requests_ok_reachable [OF polled_panel_reachable [OF assms(1)]] by (simp add: p_def requests_ok_def)
  {
    assume off: "\<not> pt_mounted s"
    then have "\<not> pt_mounted (polled_step s e)" if "polled_enabled s e" for e using that by (cases e) (simp_all add: Let_def)
    with off ok timers_ok_step [OF ok] dead
    show "filter pc_timer (pt_chains s) = [] \<and> \<not> pt_clock s
      \<and> (\<forall>e. polled_enabled s e \<longrightarrow> filter pc_timer (pt_chains (polled_step s e)) = [] \<and> \<not> pt_mounted (polled_step s e))"
      by (metis (no_types))
  }
  assume on: "pt_mounted s"
  with ok obtain cs where cs: "pt_chains s = c # cs" "live_chain p c" "\<forall>c \<in> set cs. dead_chain c" "pt_clock s = isActiveScan (sp_status p)"
    by (cases "pt_chains s") (auto simp: timers_ok_def p_def c_def)
  show "filter (\<lambda>c. \<not> pc_isCancelled c) (pt_chains s) = [c] \<and> pc_delay c = poll_delay p
      \<and> filter pc_timer (pt_chains s) = (if pc_awaits c = None then [c] else [])
      \<and> (\<forall>v r clock again. pc_awaits c = Some v \<longrightarrow>
          (let s' = polled_step s (Panel (RefreshReply v Poll r clock) again)
           in polled_enabled s (Panel (RefreshReply v Poll r clock) again) \<and> pc_timer (hd (pt_chains s'))
              \<and> pc_delay (hd (pt_chains s')) = poll_delay (pt_panel s')))
      \<and> pt_clock s = isActiveScan (sp_status p)"
  proof (intro conjI allI impI)
    show "filter (\<lambda>c. \<not> pc_isCancelled c) (pt_chains s) = [c]" "pc_delay c = poll_delay p"
      "filter pc_timer (pt_chains s) = (if pc_awaits c = None then [c] else [])" "pt_clock s = isActiveScan (sp_status p)"
      using cs only [OF cs(3), of pc_timer] only [OF cs(3), of "\<lambda>c. \<not> pc_isCancelled c"]
      by (simp_all add: live_chain_def dead_chain_def)
    fix v r clock again
    assume waits: "pc_awaits c = Some v"
    let ?e = "Panel (RefreshReply v Poll r clock) again"
    have enabled: "polled_enabled s ?e"
      using cs(2) waits on by (simp add: live_chain_def p_def scan_enabled_def)
    have "timers_ok (polled_step s ?e)" by (rule timers_ok_step [OF ok enabled])
    moreover have "pt_mounted (polled_step s ?e)" using on by (simp add: Let_def timer_effects_def)
    moreover have "pc_timer (hd (pt_chains (polled_step s ?e)))"
      using on cs(1,2) waits
      by (simp add: Let_def timer_effects_def poll_effect_def scheduleNext_def poll_settled_def live_chain_def)
    ultimately show "let s' = polled_step s ?e in polled_enabled s ?e \<and> pc_timer (hd (pt_chains s'))
        \<and> pc_delay (hd (pt_chains s')) = poll_delay (pt_panel s')"
      using enabled by (simp add: timers_ok_def live_chain_def Let_def del: polled_step.simps polled_enabled.simps)
  qed
qed

definition polling_panel :: polled_panel where
  "polling_panel =
     foldl polled_step (polled_initial (scan_step (panel_initial True 0) (RefreshStart Initial)))
       [Panel (RefreshReply 1 Initial (Inr INITIAL_SCAN_STATUS) 0) True, TimerFires 0]"

lemma polling_panel_facts:
  "polled_reachable polling_panel" "pt_mounted polling_panel" "pc_awaits (hd (pt_chains polling_panel)) = Some 2"
proof -
  let ?s0 = "polled_initial (scan_step (panel_initial True 0) (RefreshStart Initial))"
  let ?s1 = "polled_step ?s0 (Panel (RefreshReply 1 Initial (Inr INITIAL_SCAN_STATUS) 0) True)"
  have "polled_reachable ?s0" by (rule polled_mount)
  then have "polled_reachable ?s1"
    by (rule polled_next) (simp add: scan_enabled_def polled_initial_def scan_step_def scan_answered_def scan_starts Let_def panel_initial_def)
  moreover have timer: "pt_chains ?s1 \<noteq> []" "pc_timer (pt_chains ?s1 ! 0)"
    by (simp_all add: Let_def timer_effects_def poll_effect_def scheduleNext_def polled_initial_def)
  ultimately show "polled_reachable polling_panel"
    using polled_next [of ?s1 "TimerFires 0"] by (simp add: polling_panel_def del: polled_step.simps)
  show "pt_mounted polling_panel"
    by (simp add: polling_panel_def Let_def timer_effects_def polled_initial_def)
  have "\<not> sp_inFlight (pt_panel ?s1)" "sp_version (pt_panel ?s1) = 1"
    by (simp_all add: polled_step_panel polled_initial_def scan_step_def scan_answered_def scan_starts scan_replies panel_initial_def
        isActiveScan_def INITIAL_SCAN_STATUS_def Let_def del: polled_step.simps)
  with timer show "pc_awaits (hd (pt_chains polling_panel)) = Some 2"
    by (cases "pt_chains ?s1") (simp_all add: polling_panel_def timer_fires_def Let_def del: polled_step.simps(1))
qed

theorem poll_loop_alive_witness:
  "pc_timer (hd (pt_chains (polled_step polling_panel (Panel (RefreshReply 2 Poll (Inl (PlainError (js ''x''))) 5) False))))
   \<and> count_requests is_refresh (pt_panel polling_panel) \<le> 1
   \<and> filter pc_timer (pt_chains (polled_step polling_panel Unmounted)) = []"
proof (intro conjI)
  note facts = polling_panel_facts
  show "pc_timer (hd (pt_chains (polled_step polling_panel (Panel (RefreshReply 2 Poll (Inl (PlainError (js ''x''))) 5) False))))"
    using poll_loop_alive(1) [OF facts(1,2)] facts(3) by (simp add: Let_def del: polled_step.simps polled_enabled.simps)
  show "count_requests is_refresh (pt_panel polling_panel) \<le> 1" by (rule poll_loop_alive(2) [OF facts(1)])
  have "polled_reachable (polled_step polling_panel Unmounted)" using facts(1,2) by (intro polled_next) simp_all
  from poll_loop_alive(3) [OF this] show "filter pc_timer (pt_chains (polled_step polling_panel Unmounted)) = []" by simp
qed

end
