(* ===== verification/WorkspaceLayout.thy ===== *)
theory WorkspaceLayout
  imports Dialogs MessageCard MessagesPage
begin

text \<open>
  \<open>components/layout/sidebar.tsx\<close> and \<open>app-layout.tsx\<close>: the navigation, the drawer it becomes on
  a narrow screen, and the categories as targets of a dragged message, with the way of a message
  from its card over the sidebar to the messages page.
\<close>

section \<open>components/layout/app-layout.tsx\<close>

definition navigation :: "(jstr \<times> jstr) list" where
  "navigation =
     [(js ''/'', js ''Dashboard''), (js ''/messages'', js ''Messages''),
      (js ''/settings/categories'', js ''Categories''), (js ''/settings/tags'', js ''Tags''),
      (js ''/settings/telegram'', js ''Telegram''), (js ''/settings/account'', js ''Account'')]"

datatype path_matcher = PathIs jstr | PathStarts jstr

definition matcher :: "path_matcher \<Rightarrow> jstr \<Rightarrow> bool" where
  "matcher m pathname = (case m of PathIs p \<Rightarrow> pathname = p | PathStarts p \<Rightarrow> starts_with pathname p)"

definition routeMeta :: "(path_matcher \<times> jstr \<times> jstr) list" where
  "routeMeta =
     [(PathIs (js ''/''), js ''Dashboard'', js ''Overview of your Saved Messages workspace and category activity.''),
      (PathStarts (js ''/messages''), js ''Messages'', js ''Search, filter, and manage imported Saved Messages.''),
      (PathIs (js ''/settings/categories''), js ''Category management'',
       js ''Create, style, order, and review your workspace categories.''),
      (PathIs (js ''/settings/tags''), js ''Tag management'', js ''Create, edit, and clean up reusable message tags.''),
      (PathIs (js ''/onboarding/telegram''), js ''Set up Telegram'',
       js ''Connect Telegram to start importing and organizing Saved Messages.''),
      (PathIs (js ''/settings/telegram''), js ''Telegram connection'',
       js ''Review, connect, switch, or disconnect your Telegram account.''),
      (PathIs (js ''/settings/account''), js ''Account settings'',
       js ''Manage your profile, password, and organizer account.''),
      (PathIs (js ''/settings/sessions''), js ''Active sessions'',
       js ''Review and revoke browsers signed in to your organizer account.'')]"

text \<open>Title and subtitle.\<close>

definition activeRoute :: "jstr \<Rightarrow> jstr \<times> jstr" where
  "activeRoute pathname =
     (case find (\<lambda>r. matcher (fst r) pathname) routeMeta of
        Some r \<Rightarrow> snd r
      | None \<Rightarrow> snd (routeMeta ! 0))"

text \<open>The two effects: another path closes the drawer; another title names the document and moves the focus to the page.\<close>

definition pathname_effect :: "ui_state \<Rightarrow> ui_state" where
  "pathname_effect s = setSidebarOpen False s"

definition document_title :: "jstr \<Rightarrow> jstr" where
  "document_title pathname = fst (activeRoute pathname) @ [32, 183, 32] @ js ''Telegram Saved Organizer''"

section \<open>The sidebar's state\<close>

record sidebar =
  sb_activeDrag :: "drag_detail option"
  sb_dropCategoryId :: "int option"
  sb_isDesktop :: bool

definition sidebar_initial :: "bool \<Rightarrow> sidebar" where
  "sidebar_initial matches = \<lparr>sb_activeDrag = None, sb_dropCategoryId = None, sb_isDesktop = matches\<rparr>"

definition syncDesktopState :: "bool \<Rightarrow> sidebar \<Rightarrow> sidebar" where
  "syncDesktopState matches s = s\<lparr>sb_isDesktop := matches\<rparr>"

definition activeCategory :: "jstr \<Rightarrow> params \<Rightarrow> jstr option" where
  "activeCategory pathname ps =
     (if starts_with pathname (js ''/messages'')
      then Some (case sp_get ps (js ''category'') of Some slug \<Rightarrow> slug | None \<Rightarrow> js ''all'')
      else None)"

definition totalMessageCount :: "category list \<Rightarrow> int" where
  "totalMessageCount categories = foldl (\<lambda>sum c. sum + cat_message_count c) 0 categories"

text \<open>\<open>aria-hidden\<close> and \<open>inert\<close>.\<close>

definition sidebar_hidden :: "bool \<Rightarrow> sidebar \<Rightarrow> bool" where
  "sidebar_hidden isOpen s \<longleftrightarrow> \<not> sb_isDesktop s \<and> \<not> isOpen"

section \<open>The drawer\<close>

record drawer_snapshot =
  ds_overflow :: jstr
  ds_previouslyFocused :: "nat option"

text \<open>
  The effect, when the drawer is open on a narrow screen; \<open>k\<close> is its key handler, \<open>first_control\<close>
  the first link or button of the sidebar.
\<close>

definition drawer_effect ::
    "bool \<Rightarrow> sidebar \<Rightarrow> nat \<Rightarrow> nat option \<Rightarrow> page_dom \<Rightarrow> (drawer_snapshot option) \<times> page_dom" where
  "drawer_effect isOpen s k first_control doc =
     (if \<not> isOpen \<or> sb_isDesktop s then (None, doc)
      else (Some \<lparr>ds_overflow = pd_overflow doc, ds_previouslyFocused = pd_active doc\<rparr>,
            let doc = doc\<lparr>pd_overflow := js ''hidden'', pd_listeners := pd_listeners doc @ [k]\<rparr>
            in case first_control of Some e \<Rightarrow> focus_on e doc | None \<Rightarrow> doc))"

definition drawer_cleanup :: "drawer_snapshot option \<Rightarrow> nat \<Rightarrow> page_dom \<Rightarrow> page_dom" where
  "drawer_cleanup snap k doc =
     (case snap of
        None \<Rightarrow> doc
      | Some d \<Rightarrow>
          let doc = doc\<lparr>pd_overflow := ds_overflow d, pd_listeners := remove1 k (pd_listeners doc)\<rparr>
          in case ds_previouslyFocused d of Some e \<Rightarrow> focus_on e doc | None \<Rightarrow> doc)"

definition drawer_key :: "nat list \<Rightarrow> key_event \<Rightarrow> page_dom \<Rightarrow> bool \<times> bool \<times> page_dom" where
  "drawer_key focusable ev doc =
     (if ke_key ev = js ''Escape'' then (True, False, doc)
      else if ke_key ev \<noteq> js ''Tab'' then (False, False, doc)
      else case focusable of
          [] \<Rightarrow> (False, False, doc)
        | first # _ \<Rightarrow>
            if ke_shift ev \<and> pd_active doc = Some first then (False, True, focus_on (last focusable) doc)
            else if \<not> ke_shift ev \<and> pd_active doc = Some (last focusable) then (False, True, focus_on first doc)
            else (False, False, doc))"

section \<open>Dragging over the categories\<close>

definition sidebar_handleDragStart :: "dom_event \<Rightarrow> sidebar \<Rightarrow> sidebar" where
  "sidebar_handleDragStart ev s =
     (case readMessageDragStartEvent ev of None \<Rightarrow> s | Some detail \<Rightarrow> s\<lparr>sb_activeDrag := Some detail\<rparr>)"

definition sidebar_handleDragEnd :: "sidebar \<Rightarrow> sidebar" where
  "sidebar_handleDragEnd s = s\<lparr>sb_activeDrag := None, sb_dropCategoryId := None\<rparr>"

definition drag_is_from :: "int \<Rightarrow> sidebar \<Rightarrow> bool" where
  "drag_is_from categoryId s = (case sb_activeDrag s of Some d \<Rightarrow> dd_categoryId d = categoryId | None \<Rightarrow> False)"

text \<open>Whether the browser may drop here, the drop effect set, and the state.\<close>

definition handleCategoryDragOver ::
    "bool \<Rightarrow> data_transfer \<Rightarrow> int \<Rightarrow> sidebar \<Rightarrow> bool \<times> jstr option \<times> sidebar" where
  "handleCategoryDragOver isCategoriesFallback dt categoryId s =
     (if isCategoriesFallback then (False, None, s)
      else case getDraggedMessageId (Some dt) of
          None \<Rightarrow> (False, None, s)
        | Some _ \<Rightarrow>
            (True, Some (if drag_is_from categoryId s then js ''none'' else js ''move''),
             if sb_dropCategoryId s \<noteq> Some categoryId then s\<lparr>sb_dropCategoryId := Some categoryId\<rparr> else s))"

definition handleCategoryDragLeave :: "bool \<Rightarrow> int \<Rightarrow> sidebar \<Rightarrow> sidebar" where
  "handleCategoryDragLeave stays_inside categoryId s =
     (if stays_inside then s
      else if sb_dropCategoryId s = Some categoryId then s\<lparr>sb_dropCategoryId := None\<rparr> else s)"

text \<open>What the drop announces, in order.\<close>

datatype drag_announcement = DropAnnounced dom_event | EndAnnounced dom_event

definition handleCategoryDrop ::
    "bool \<Rightarrow> bool \<Rightarrow> data_transfer \<Rightarrow> int \<Rightarrow> sidebar \<Rightarrow> bool \<times> drag_announcement list \<times> sidebar" where
  "handleCategoryDrop window isCategoriesFallback dt categoryId s =
     (if isCategoriesFallback then (False, [], s)
      else
        let s' = s\<lparr>sb_dropCategoryId := None\<rparr>
        in case getDraggedMessageId (Some dt) of
            None \<Rightarrow> (True, [], s')
          | Some messageId \<Rightarrow>
              if drag_is_from categoryId s then (True, map EndAnnounced (announceMessageDragEnd window), s')
              else (True, map DropAnnounced (announceMessageDropToCategory window
                       \<lparr>dd_messageId = messageId, dd_categoryId = categoryId\<rparr>)
                     @ map EndAnnounced (announceMessageDragEnd window), s'))"

definition shows_drop_target :: "int \<Rightarrow> sidebar \<Rightarrow> bool \<times> bool" where
  "shows_drop_target categoryId s =
     (let isDropTarget = sb_dropCategoryId s = Some categoryId
      in (isDropTarget, isDropTarget \<and> drag_is_from categoryId s))"

definition shows_drop_hint :: "bool \<Rightarrow> sidebar \<Rightarrow> bool" where
  "shows_drop_hint isCategoriesFallback s \<longleftrightarrow> sb_activeDrag s \<noteq> None \<and> \<not> isCategoriesFallback"

section \<open>From the card to the messages page\<close>

text \<open>Who hears an announcement: the sidebar the end of a drag, the messages page a drop.\<close>

definition sidebar_hears :: "drag_announcement \<Rightarrow> sidebar \<Rightarrow> sidebar" where
  "sidebar_hears a s = (case a of EndAnnounced _ \<Rightarrow> sidebar_handleDragEnd s | DropAnnounced _ \<Rightarrow> s)"

definition page_hears :: "drag_announcement \<Rightarrow> page_state \<Rightarrow> page_state" where
  "page_hears a p = (case a of DropAnnounced ev \<Rightarrow> handleDropToCategory_start ev p | EndAnnounced _ \<Rightarrow> p)"

definition announce_all :: "drag_announcement list \<Rightarrow> sidebar \<times> page_state \<Rightarrow> sidebar \<times> page_state" where
  "announce_all as sp = foldl (\<lambda>(s, p) a. (sidebar_hears a s, page_hears a p)) sp as"

text \<open>
  What a browser does with the drag. While it is over a target, scripts may see the formats of
  the data only, and \<open>getData\<close> gives the empty string; a test environment lets them read it all
  (\<open>readable\<close>). A drop is delivered only where the drag was accepted, with an effect other than
  \<open>none\<close>; a drag released elsewhere leaves its target.
\<close>

definition protected_data :: "data_transfer \<Rightarrow> data_transfer" where
  "protected_data dt = map (\<lambda>(format, _). (format, [])) dt"

definition drop_delivered :: "bool \<times> jstr option \<times> sidebar \<Rightarrow> bool" where
  "drop_delivered over = (case over of (prevented, dropEffect, _) \<Rightarrow> prevented \<and> dropEffect \<noteq> Some (js ''none''))"

text \<open>The drag of a message's card that is released over a category, in a browser window.\<close>

definition drag_to_category ::
    "bool \<Rightarrow> bool \<Rightarrow> message_item \<Rightarrow> data_transfer \<Rightarrow> int \<Rightarrow> message_card \<Rightarrow> sidebar \<times> page_state \<Rightarrow> sidebar \<times> page_state" where
  "drag_to_category readable isCategoriesFallback m dt categoryId c sp =
     (let (out, c') = handleDragStart True False m (Some dt) c;
          s1 = foldl (\<lambda>s ev. sidebar_handleDragStart ev s) (fst sp) (do_events out);
          dt' = (case do_transfer out of Some t \<Rightarrow> t | None \<Rightarrow> dt);
          over = handleCategoryDragOver isCategoriesFallback (if readable then dt' else protected_data dt') categoryId s1;
          s2 = snd (snd over);
          (announced, s3) =
            (if drop_delivered over then snd (handleCategoryDrop True isCategoriesFallback dt' categoryId s2)
             else ([], handleCategoryDragLeave False categoryId s2));
          (s4, p4) = announce_all announced (s3, snd sp)
      in (foldl (\<lambda>s ev. sidebar_hears (EndAnnounced ev) s) s4 (fst (handleDragEnd True c')), p4))"

lemma read_start_detail [simp]: "readMessageDragStartEvent (CustomEvent (detail_json d)) = Some d"
  by (simp add: readMessageDragStartEvent_def)

lemma read_drop_detail [simp]: "readMessageDropToCategoryEvent (CustomEvent (detail_json d)) = Some d"
  by (simp add: readMessageDropToCategoryEvent_def)

lemma dragged_id [simp]:
  assumes "0 < n" and "n < 2 ^ 53"
  shows "getDraggedMessageId (setDraggedMessageId (Some dt) n) = Some n"
  by (simp add: getDraggedMessageId_def setDraggedMessageId_def Let_def parseMessageId_int_str [OF assms])

lemma setDragged_Some: "\<exists>t. setDraggedMessageId (Some dt) n = Some t"
  by (simp add: setDraggedMessageId_def Let_def)

lemmas drag_path_defs =
  handleDragStart_def handleDragEnd_def announceMessageDragStart_def announceMessageDragEnd_def
  announceMessageDropToCategory_def dispatchCustomEvent_def sidebar_handleDragStart_def
  sidebar_handleDragEnd_def handleCategoryDragOver_def handleCategoryDrop_def drag_is_from_def
  announce_all_def sidebar_hears_def page_hears_def Let_def

lemmas drag_leave_defs =
  handleDragStart_def handleDragEnd_def announceMessageDragStart_def announceMessageDragEnd_def
  dispatchCustomEvent_def sidebar_handleDragStart_def sidebar_handleDragEnd_def
  handleCategoryDragLeave_def announce_all_def sidebar_hears_def Let_def

lemma protected_get_data [simp]: "get_data (protected_data dt) format = []"
proof -
  have "map_of (protected_data dt) format = map_option (\<lambda>_. []) (map_of dt format)"
    unfolding protected_data_def by (induction dt) auto
  then show ?thesis by (simp add: get_data_def split: option.split)
qed

text \<open>
  While a drag is over a target a browser lets scripts see the formats of its data, not the data:
  \<open>getData\<close> then gives the empty string. The category never accepts the drag, and no drop follows.
\<close>

lemma protected_drag_never_accepted:
  assumes "get_data dt MESSAGE_DRAG_MIME = []" and "get_data dt FALLBACK_MESSAGE_DRAG_MIME = []"
  shows "handleCategoryDragOver fallback dt categoryId s = (False, None, s)"
proof -
  have "parseMessageId [] = None"
    by (simp add: parseMessageId_def parse_int_def num_is_integer_def)
  with assms show ?thesis by (simp add: handleCategoryDragOver_def getDraggedMessageId_def)
qed

text \<open>
  C34: A message dragged from its card and released over a category: where the data can be read
  during the drag, the page sends exactly the request to move that message to that category, once, and
  changes nothing else; it sends none when the message already is in the category, and none over
  the fallback categories. Where the data is protected until the drop, as browsers have it, the
  category never accepts the drag and the page is left as it was. In every case the sidebar
  forgets the drag.
\<close>

theorem dragged_card_moves_message:
  assumes "0 < msg_id m" and "msg_id m < 2 ^ 53" and "find_message (msg_id m) p = Some m"
    and "mc_id (msg_category m) = msg_category_id m"
  shows "drag_to_category readable fallback m dt categoryId c (s, p) =
    (s\<lparr>sb_activeDrag := None, sb_dropCategoryId := None\<rparr>,
     if \<not> readable \<or> fallback \<or> categoryId = msg_category_id m then p
     else send (MoveSent (msg_id m) categoryId) (p\<lparr>mp_pageError := None\<rparr>))"
proof -
  obtain t where t: "setDraggedMessageId (Some dt) (msg_id m) = Some t" using setDragged_Some by blast
  have id: "getDraggedMessageId (Some t) = Some (msg_id m)" using dragged_id [OF assms(1,2), of dt] t by simp
  have effects: "js ''move'' \<noteq> js ''none''" by (simp add: js_def)
  show ?thesis
  proof (cases readable)
    case True
    then show ?thesis
      using assms(3,4)
      by (cases fallback) (auto simp: drag_to_category_def drag_path_defs drop_delivered_def effects
          handleCategoryDragLeave_def t id handleDropToCategory_start_def)
  next
    case False
    then show ?thesis
      by (auto simp: drag_to_category_def protected_drag_never_accepted drag_leave_defs drop_delivered_def t)
  qed
qed

theorem dragged_card_moves_message_witness:
  "mp_sent (snd (drag_to_category True False (sample_message 9) [] 5 card_initial
     (sidebar_initial True, (page_initial [] [] True)\<lparr>mp_messages := [sample_message 9]\<rparr>))) = [MoveSent 9 5]"
proof -
  let ?p = "(page_initial [] [] True)\<lparr>mp_messages := [sample_message 9]\<rparr>"
  have "find_message 9 ?p = Some (sample_message 9)" by (simp add: find_message_def sample_message_def)
  with dragged_card_moves_message [of "sample_message 9" ?p True False "[]" 5 card_initial "sidebar_initial True"]
  show ?thesis by (simp add: sample_message_def send_def page_initial_def)
qed

section \<open>The drawer gives the page back\<close>

lemma drawer_gives_page_back:
  assumes "drawer_effect isOpen s k first_control doc = (snap, doc')" and "page_look d = page_look doc'"
    and "k \<notin> set (pd_listeners doc)"
  shows "page_look (drawer_cleanup snap k d) = page_look doc"
  using assms
  by (auto simp: drawer_effect_def drawer_cleanup_def page_look_def focus_on_def Let_def remove1_append
      split: if_splits option.splits)

text \<open>The drawer keeps the focus the way the modals do, as long as it has a control.\<close>

lemma drawer_trap_is_modal_trap:
  "pd_focusable doc d \<noteq> [] \<Longrightarrow> drawer_key (pd_focusable doc d) ev doc = handleKeyDown (Some d) ev doc"
  by (simp add: drawer_key_def handleKeyDown_def focusableElements_def Let_def split: list.split)

lemma totalMessageCount_sum: "totalMessageCount cs = sum_list (map cat_message_count cs)"
proof -
  have "foldl (\<lambda>sum c. sum + cat_message_count c) n cs = n + sum_list (map cat_message_count cs)" for n
    by (induction cs arbitrary: n) simp_all
  then show ?thesis by (simp add: totalMessageCount_def)
qed

end
