(* ===== verification/ScanView.thy ===== *)
theory ScanView
  imports ScanProgress Markup
begin

text \<open>
  What the import panel renders (\<open>components/scan/scan-progress.tsx\<close>) and what its controls do.
  The full refresh first asks with \<open>window.confirm\<close>.
\<close>

section \<open>The panel\<close>

datatype scan_action = PanelEvent scan_event | AskLibrary

text \<open>The browser's dates: its parser, and \<open>Intl.DateTimeFormat\<close>.\<close>

record scan_dates =
  sd_parse :: "jstr \<Rightarrow> int option"
  sd_format :: "int \<Rightarrow> jstr"

definition formatTimestamp :: "scan_dates \<Rightarrow> jstr option \<Rightarrow> jstr" where
  "formatTimestamp D v =
     (case v of None \<Rightarrow> dash | Some t \<Rightarrow> (case sd_parse D t of None \<Rightarrow> dash | Some ms \<Rightarrow> sd_format D ms))"

definition scan_heading :: "scan_panel \<Rightarrow> scan_action html" where
  "scan_heading p =
     El ''div'' [] []
       [El ''p'' [] [] [Txt (js ''Import'')], El ''h3'' [] [] [Txt (js ''Import Saved Messages'')],
        El ''p'' [] [] [Txt (js ''Find new messages in Telegram and add them to your organizer.'')],
        El ''p'' [] [] [Txt (streamStatusLabel (sp_stream p))]]"

definition page_size_field :: "scan_panel \<Rightarrow> scan_action html" where
  "page_size_field p =
     El ''label'' [] []
       [Txt (js ''Messages per batch''),
        El ''input''
          ([(''type'', js ''number''), (''min'', js ''1''), (''max'', js ''1000''), (''value'', sp_pageSizeInput p)]
           @ flag ''disabled'' (isActiveScan (sp_status p) \<or> sp_isStarting p))
          [(''change'', \<lambda>t. PanelEvent (TypePageSize t)), on ''blur'' (PanelEvent BlurPageSize)] []]"

definition scan_buttons :: "scan_panel \<Rightarrow> scan_action html" where
  "scan_buttons p =
     El ''div'' [] []
       [page_size_field p,
        Button None (flag ''disabled'' (isBusy p \<or> sp_isRefreshing p)) [on ''click'' (PanelEvent (RefreshStart Manual))]
          [Txt (js ''Refresh'')],
        Button None (flag ''disabled'' (\<not> canStart p)) [on ''click'' (PanelEvent StartClick)]
          [Txt (if sp_isStarting p then js ''Starting scan...'' else js ''Scan for new messages'')],
        Button None (flag ''disabled'' (\<not> canStop p)) [on ''click'' (PanelEvent StopClick)]
          [Txt (if sp_isStopping p then js ''Stopping...'' else js ''Stop'')],
        Button None (flag ''disabled'' (\<not> canRefreshLibrary p)) [on ''click'' AskLibrary]
          [Txt (if sp_isRefreshingLibrary p then js ''Refreshing library...'' else js ''Refresh full library'')]]"

definition progress_bar :: "scan_status \<Rightarrow> scan_action html" where
  "progress_bar st =
     El ''div''
       ([(''role'', js ''progressbar''), (''aria-label'', js ''Saved Messages import progress''), (''aria-valuemin'', js ''0''),
         (''aria-valuemax'', js ''100'')]
        @ (if ss_state st = Completed then [(''aria-valuenow'', js ''100'')] else [])
        @ [(''aria-valuetext'', statusLabel st)]) []
       [El ''div'' [] [] []]"

definition scan_fact :: "string \<Rightarrow> jstr \<Rightarrow> scan_action html" where
  "scan_fact label content =
     El ''article'' [] [] [El ''p'' [] [] [Txt (js label)], El ''p'' [] [] [Txt content]]"

definition or_dash :: "jstr option \<Rightarrow> jstr" where
  "or_dash v = (case v of Some t \<Rightarrow> t | None \<Rightarrow> dash)"

definition scan_facts :: "scan_dates \<Rightarrow> scan_panel \<Rightarrow> scan_action html" where
  "scan_facts D p =
     (let st = sp_status p
      in El ''div'' [] []
        [scan_fact ''Messages Checked'' (int_str (ss_messages_scanned st)),
         scan_fact ''Batches Checked'' (int_str (ss_pages_scanned st)),
         scan_fact ''Duration'' (formatDuration (sd_parse D) (ss_started_at st) (ss_finished_at st) (sp_now p)),
         scan_fact ''Started'' (formatTimestamp D (ss_started_at st)),
         scan_fact ''Finished'' (formatTimestamp D (ss_finished_at st)),
         scan_fact ''Last Message ID'' (or_dash (map_option int_str (ss_last_message_id st))),
         scan_fact ''Message Limit'' (or_dash (map_option int_str (ss_max_messages st))),
         scan_fact ''Runtime Limit'' (or_dash (map_option (\<lambda>n. int_str n @ js ''s'') (ss_max_runtime_seconds st)))])"

definition scan_status_view :: "scan_dates \<Rightarrow> scan_panel \<Rightarrow> scan_action html list" where
  "scan_status_view D p =
     (if sp_isInitialLoading p then [El ''div'' [] [] [Txt (js ''Checking import status...'')]]
      else
        [El ''div'' [(''role'', js ''status''), (''aria-live'', js ''polite''), (''aria-atomic'', js ''true'')] []
           [Txt (statusLabel (sp_status p))],
         progress_bar (sp_status p), scan_facts D p])"

definition scan_alert :: "scan_panel \<Rightarrow> scan_action html list" where
  "scan_alert p =
     shown (scannerError p) (\<lambda>e.
       [El ''div'' [(''role'', js ''alert'')] []
          ([El ''p'' [] []
              [Txt (if has_text (ss_error (sp_status p)) \<or> ss_state (sp_status p) = Failed then js ''Import could not finish.''
                    else js ''Import request failed.'')],
            El ''p'' [] [] [Txt e]]
           @ (if sp_requestError p = Some (js ''Connect Telegram before starting a scan.'')
              then [El ''a'' [(''href'', js ''/settings/telegram'')] [] [Txt (js ''Connect Telegram'')]] else []))])"

definition scan_outcome :: "scan_panel \<Rightarrow> scan_action html list" where
  "scan_outcome p =
     (let st = sp_status p; completionMessage = completionReasonLabel st
      in if \<not> has_text (scannerError p) \<and> ss_state st = Completed then
           [El ''div'' [(''role'', js ''status''), (''aria-live'', js ''polite'')] []
              [El ''span'' [] [] [Txt (case completionMessage of Some t \<Rightarrow> t | None \<Rightarrow> js ''Your imported messages are ready.'')],
               El ''a'' [(''href'', js ''/messages'')] [] [Txt (js ''Browse messages'')]]]
         else if \<not> has_text (scannerError p) \<and> ss_state st = Cancelled then
           shown completionMessage (\<lambda>t. [El ''div'' [(''role'', js ''status''), (''aria-live'', js ''polite'')] [] [Txt t]])
         else [])"

definition scan_panel_view :: "scan_dates \<Rightarrow> scan_panel \<Rightarrow> scan_action html list" where
  "scan_panel_view D p =
     [El ''section'' [] []
        ([El ''div'' [] [] [scan_heading p, scan_buttons p]] @ scan_status_view D p @ scan_alert p @ scan_outcome p)]"

definition scan_do :: "bool \<Rightarrow> scan_action \<Rightarrow> scan_panel \<Rightarrow> scan_panel" where
  "scan_do confirmed a p =
     (case a of PanelEvent e \<Rightarrow> scan_step p e | AskLibrary \<Rightarrow> scan_step p (LibraryClick confirmed))"

section \<open>What is offered\<close>

lemma scan_parts_acts [simp]:
  "acts (scan_heading p) = {}" "acts_list (scan_status_view D p) = {}" "acts_list (scan_alert p) = {}" "acts_list (scan_outcome p) = {}"
  by (simp_all add: scan_heading_def scan_status_view_def progress_bar_def scan_facts_def scan_fact_def scan_alert_def
      scan_outcome_def Let_def)

lemma scan_panel_acts:
  "acts_list (scan_panel_view D p) =
     (if isActiveScan (sp_status p) \<or> sp_isStarting p then {}
      else range (\<lambda>t. PanelEvent (TypePageSize t)) \<union> {PanelEvent BlurPageSize})
     \<union> (if isBusy p then {} else {PanelEvent (RefreshStart Manual)})
     \<union> (if canStart p then {PanelEvent StartClick} else {}) \<union> (if canStop p then {PanelEvent StopClick} else {})
     \<union> (if canRefreshLibrary p then {AskLibrary} else {})"
  by (auto simp: scan_panel_view_def scan_buttons_def page_size_field_def isBusy_def)

lemma scan_panel_named: "controls_named (scan_panel_view D p)"
  by (simp add: controls_named_def scan_panel_view_def scan_heading_def scan_buttons_def page_size_field_def scan_status_view_def
      progress_bar_def scan_facts_def scan_fact_def scan_alert_def scan_outcome_def Button_def Let_def is_ws_def)

text \<open>What happens without a control: replies, events of the stream, the clock and the poll.\<close>

inductive scan_env :: "scan_panel \<Rightarrow> scan_panel \<Rightarrow> bool" where
  scan_reply: "scan_request_of e = Some q \<Longrightarrow> q \<in> set (sp_pending p) \<Longrightarrow> scan_env p (scan_step p e)"
| scan_source: "scan_env p (scan_step p (SourceEvent i ev clock))"
| scan_clock: "scan_env p (scan_step p (ClockTick clock))"
| scan_poll: "scan_env p (scan_step p (RefreshStart Poll))"

definition scan_mounted :: "scan_panel \<Rightarrow> bool" where
  "scan_mounted p \<longleftrightarrow> (\<exists>works clock. p = scan_step (panel_initial works clock) (RefreshStart Initial))"

lemma scan_env_step: "scan_env p p' \<Longrightarrow> scan_reachable p \<Longrightarrow> scan_reachable p'"
proof (induction rule: scan_env.induct)
  case (scan_reply e q p)
  then have "scan_enabled p e" by (cases e) (auto simp: scan_enabled_def)
  with scan_reply show ?case by (intro scan_next)
qed (auto intro!: scan_next simp: scan_enabled_def)

lemma offered_scan_step:
  assumes "scan_reachable p" and "a \<in> acts_list (scan_panel_view D p)"
  shows "scan_reachable (scan_do confirmed a p)"
proof -
  let ?e = "case a of PanelEvent e \<Rightarrow> e | AskLibrary \<Rightarrow> LibraryClick confirmed"
  have "scan_enabled p ?e"
    using assms(2) by (auto simp: scan_panel_acts scan_enabled_def split: if_splits)
  moreover have "scan_do confirmed a p = scan_step p ?e" by (cases a) (simp_all add: scan_do_def)
  ultimately show ?thesis using scan_next [OF assms(1)] by simp
qed

interpretation scan_rendered: rendered_page scan_mounted "scan_panel_view D" "scan_do confirmed" scan_env scan_reachable
  for D confirmed
  by unfold_locales (auto simp: scan_mounted_def intro: scan_init offered_scan_step scan_env_step)

definition command_controls :: "scan_action set" where
  "command_controls = {PanelEvent (RefreshStart Manual), PanelEvent StartClick, PanelEvent StopClick, AskLibrary}"

lemma commands_wait: "a \<in> acts_list (scan_panel_view D p) \<Longrightarrow> a \<in> command_controls \<Longrightarrow> \<not> sp_isStarting p \<and> \<not> sp_isStopping p \<and> \<not> sp_isRefreshingLibrary p"
  by (auto simp: scan_panel_acts command_controls_def canStart_def canStop_def canRefreshLibrary_def isBusy_def split: if_splits)

lemma command_pending:
  "\<exists>k. 1 \<le> k \<and> k \<le> 1000 \<and> sp_pending (scan_do confirmed (PanelEvent StartClick) p) = StartRequest (sp_version p + 1) (jint k) # sp_pending p"
  "sp_pending (scan_do confirmed (PanelEvent StopClick) p) = StopRequest (sp_version p + 1) # sp_pending p"
  "\<exists>k. 1 \<le> k \<and> k \<le> 1000 \<and> sp_pending (scan_do confirmed AskLibrary p) =
     (if confirmed then LibraryRequest (sp_version p + 1) (jint k) # sp_pending p else sp_pending p)"
proof -
  note buttons = scan_buttons_consistent [of p]
  then obtain k where k: "1 \<le> k" "k \<le> 1000"
    "sp_pending (handleStartScan_start p) = StartRequest (sp_version p + 1) (jint k) # sp_pending p"
    "sp_pending (handleRefreshLibrary_start True p) = LibraryRequest (sp_version p + 1) (jint k) # sp_pending p" by blast
  from k(1-3) show "\<exists>k. 1 \<le> k \<and> k \<le> 1000 \<and>
      sp_pending (scan_do confirmed (PanelEvent StartClick) p) = StartRequest (sp_version p + 1) (jint k) # sp_pending p"
    by (intro exI [of _ k]) (simp add: scan_do_def scan_step_def scan_answered_def)
  show "sp_pending (scan_do confirmed (PanelEvent StopClick) p) = StopRequest (sp_version p + 1) # sp_pending p"
    by (simp add: scan_do_def scan_step_def scan_answered_def scan_starts Let_def)
  have "sp_pending (handleRefreshLibrary_start False p) = sp_pending p" by (simp add: handleRefreshLibrary_start_def)
  with k show "\<exists>k. 1 \<le> k \<and> k \<le> 1000 \<and> sp_pending (scan_do confirmed AskLibrary p) =
      (if confirmed then LibraryRequest (sp_version p + 1) (jint k) # sp_pending p else sp_pending p)"
    by (intro exI [of _ k]) (cases confirmed; simp add: scan_do_def scan_step_def scan_answered_def)
qed



end
