(* ===== verification/LayoutViews.thy ===== *)
theory LayoutViews
  imports WorkspaceLayout AccountMenu RouteGuards ScanView
begin

text \<open>
  What surrounds the pages: the workspace with its bar, its sidebar and its account menu
  (\<open>app-layout.tsx\<close>, \<open>top-bar.tsx\<close>, \<open>sidebar.tsx\<close>, \<open>account-menu.tsx\<close>), the frame of the sign-in pages
  (\<open>auth-layout.tsx\<close>), the screens of the guards (\<open>route-guards.tsx\<close>), and the small pages: the
  dashboard, the page that was not found, the page of an error.
\<close>

datatype layout_action =
    ToggleNavigation
  | CloseNavigation
  | DragOverCategory int
  | DragLeaveCategory int
  | DropOnCategory int
  | AccountTrigger
  | AccountKey jstr
  | CloseAccountMenu
  | SignOut
  | RefreshSession
  | ReloadApp

section \<open>components/account/account-menu.tsx\<close>

definition account_link :: "string \<Rightarrow> string \<Rightarrow> layout_action html" where
  "account_link to label =
     El ''Link'' [(''to'', js to), (''role'', js ''menuitem'')] [on ''click'' CloseAccountMenu] [Txt (js label)]"

definition account_menu_items :: "jstr \<Rightarrow> account_user \<Rightarrow> account_menu \<Rightarrow> layout_action html" where
  "account_menu_items displayName u m =
     El ''div'' [(''id'', js ''account-menu''), (''role'', js ''menu''), (''aria-label'', js ''Account'')]
       [(''keydown'', AccountKey)]
       ([El ''div'' [] [] [El ''p'' [] [] [Txt displayName], El ''p'' [] [] [Txt (user_email u)]],
         account_link ''/settings/account'' ''Account settings'',
         account_link ''/settings/sessions'' ''Active sessions'',
         account_link ''/settings/telegram'' ''Telegram connection'',
         El ''div'' [] [] [],
         El ''button''
           ([(''type'', js ''button''), (''role'', js ''menuitem'')] @ bool_attr ''aria-disabled'' (am_isSigningOut m)
            @ flag ''disabled'' (am_isSigningOut m))
           [on ''click'' SignOut]
           [Txt (if am_isSigningOut m then js ''Signing out'' @ ellipsis else js ''Sign out'')]]
        @ shown (am_error m) (\<lambda>e. [El ''p'' [(''role'', js ''alert'')] [] [Txt e]]))"

definition account_menu_view :: "host \<Rightarrow> account_user option \<Rightarrow> account_menu \<Rightarrow> layout_action html list" where
  "account_menu_view H user m =
     (case (user, account_display_name user) of
        (Some u, Some displayName) \<Rightarrow>
          [El ''div'' [] []
             ([El ''button''
                 ([(''type'', js ''button''), (''aria-haspopup'', js ''menu'')] @ bool_attr ''aria-expanded'' (am_isOpen m)
                  @ [(''aria-controls'', js ''account-menu''), (''aria-label'', js ''Open account menu for '' @ displayName)])
                 [on ''click'' AccountTrigger]
                 [El ''span'' [] [] [Txt (to_upper H (take 1 displayName))],
                  El ''span'' [] [] [El ''span'' [] [] [Txt displayName], El ''span'' [] [] [Txt (user_email u)]]]]
              @ (if am_isOpen m then [account_menu_items displayName u m] else []))]
      | _ \<Rightarrow> [])"

section \<open>components/layout/top-bar.tsx\<close>

definition TopBar :: "host \<Rightarrow> bool \<Rightarrow> account_user option \<Rightarrow> account_menu \<Rightarrow> jstr \<times> jstr \<Rightarrow> layout_action html" where
  "TopBar H sidebarOpen user m heading =
     El ''header'' [] []
       [El ''div'' [] []
          ([El ''div'' [] []
              [Button None
                 ([(''aria-label'', js ''Toggle navigation'')] @ bool_attr ''aria-expanded'' sidebarOpen
                  @ [(''aria-controls'', js ''workspace-navigation'')])
                 [on ''click'' ToggleNavigation] [],
               El ''div'' [] []
                 [El ''p'' [] [] [Txt (js ''Telegram Saved Organizer'')],
                  El ''h1'' [(''tabindex'', js ''-1'')] [] [Txt (fst heading)],
                  El ''p'' [] [] [Txt (snd heading)]]]]
           @ account_menu_view H user m)]"

section \<open>components/layout/sidebar.tsx\<close>

text \<open>What the hook of the categories gives the sidebar.\<close>

record sidebar_categories =
  sl_categories :: "category list"
  sl_isLoading :: bool
  sl_isFallback :: bool
  sl_error :: "jstr option"

definition nav_item :: "jstr \<times> jstr \<Rightarrow> layout_action html" where
  "nav_item item = El ''NavLink'' [(''to'', fst item)] [on ''click'' CloseNavigation] [Txt (snd item)]"

definition category_url :: "jstr \<Rightarrow> jstr" where
  "category_url slug = js ''/messages?category='' @ (case encode_uri_component slug of Some t \<Rightarrow> t | None \<Rightarrow> [])"

definition counted_label :: "jstr \<Rightarrow> int \<Rightarrow> 'a html list" where
  "counted_label label n =
     [El ''span'' [] [] [El ''span'' [] [] [Txt label]], El ''span'' [] [] [Txt (int_str n)]]"

definition category_link :: "category \<Rightarrow> layout_action html" where
  "category_link c =
     El ''Link'' [(''to'', category_url (cat_slug c))]
       [on ''click'' CloseNavigation, on ''dragover'' (DragOverCategory (cat_id c)),
        on ''dragleave'' (DragLeaveCategory (cat_id c)), on ''drop'' (DropOnCategory (cat_id c))]
       (counted_label (cat_name c) (cat_message_count c))"

definition sidebar_category_list :: "sidebar_categories \<Rightarrow> layout_action html list" where
  "sidebar_category_list c =
     (if sl_isLoading c then [El ''div'' [] [] (replicate 4 (El ''div'' [] [] []))]
      else
        [El ''Link'' [(''to'', js ''/messages'')] [on ''click'' CloseNavigation]
           (counted_label (js ''All Messages'') (totalMessageCount (sl_categories c)))]
        @ (if sl_categories c \<noteq> [] then map category_link (sl_categories c)
           else [StatePanel DefaultTone (js ''No categories available.'')
                   (Some (js ''Run a scan to seed categories and message counts.'')) None]))"

definition sidebar_nav :: "sidebar_categories \<Rightarrow> sidebar \<Rightarrow> layout_action html" where
  "sidebar_nav c s =
     El ''nav'' [] []
       [El ''div'' [] []
          [El ''p'' [] [] [Txt (js ''Navigation'')], El ''div'' [] [] (map nav_item navigation)],
        El ''div'' [] []
          ([El ''div'' [] []
              ([El ''p'' [] [] [Txt (js ''Categories'')]]
               @ (if sl_isLoading c then [El ''span'' [] [] [Txt (js ''Syncing'')]] else [])),
            El ''div'' [] [] (sidebar_category_list c)]
           @ (if \<not> sl_isLoading c \<and> sl_isFallback c
              then shown (sl_error c) (\<lambda>e. [StatePanel WarningTone (js ''Using fallback categories.'') (Some e) None]) else [])
           @ (if shows_drop_hint (sl_isFallback c) s
              then paragraph_list (js ''Drop a message on a category to move it.'') else []))]"

text \<open>A slug that cannot be percent-encoded makes the rendering throw: nothing of the workspace is left.\<close>

definition sidebar_throws :: "sidebar_categories \<Rightarrow> bool" where
  "sidebar_throws c \<longleftrightarrow> \<not> sl_isLoading c \<and> list_ex (\<lambda>x. encode_uri_component (cat_slug x) = None) (sl_categories c)"

definition sidebar_view :: "sidebar_categories \<Rightarrow> bool \<Rightarrow> sidebar \<Rightarrow> layout_action html list" where
  "sidebar_view c isOpen s =
     (if isOpen
      then [El ''button'' [(''type'', js ''button''), (''aria-label'', js ''Close navigation'')] [on ''click'' CloseNavigation] []]
      else [])
     @ [El ''aside''
          ([(''id'', js ''workspace-navigation''), (''aria-label'', js ''Workspace navigation'')]
           @ bool_attr ''aria-hidden'' (sidebar_hidden isOpen s) @ flag ''inert'' (sidebar_hidden isOpen s)) []
          [El ''div'' [] []
             [El ''div'' [] []
                [El ''img'' [(''src'', js ''/telegram.png''), (''alt'', js ''Telegram'')] [] [],
                 El ''div'' [] [] [El ''p'' [] [] [Txt (js ''Workspace'')], El ''h2'' [] [] [Txt (js ''Saved Messages'')]]]],
           sidebar_nav c s]]"

section \<open>components/layout/app-layout.tsx\<close>

record workspace =
  ws_ui :: ui_state
  ws_sidebar :: sidebar
  ws_account :: account_menu

definition AppLayout ::
    "host \<Rightarrow> account_user option \<Rightarrow> sidebar_categories \<Rightarrow> workspace \<Rightarrow> jstr \<Rightarrow> layout_action html list \<Rightarrow> layout_action html list" where
  "AppLayout H user c w pathname outlet =
     (if sidebar_throws c then []
      else
        [El ''div'' [] []
           [El ''a'' [(''href'', js ''#main-content'')] [] [Txt (js ''Skip to main content'')],
            El ''div'' [] []
              [TopBar H (isSidebarOpen (ws_ui w)) user (ws_account w) (activeRoute pathname),
               El ''div'' [] []
                 (sidebar_view c (isSidebarOpen (ws_ui w)) (ws_sidebar w)
                  @ [El ''main'' [(''id'', js ''main-content''), (''tabindex'', js ''-1'')] [] outlet])]]])"

section \<open>Other frames and screens\<close>

definition benefits :: "string list" where
  "benefits =
     [''Keep every saved Telegram message within reach'', ''Organize your archive around the way you think'',
      ''Protect your workspace with your own account'']"

definition AuthLayout :: "'a html list \<Rightarrow> 'a html" where
  "AuthLayout outlet =
     El ''main'' [(''id'', js ''main-content'')] []
       [El ''section'' [] []
          [El ''div'' [(''aria-hidden'', js ''true'')] [] [],
           El ''div'' [] [] [El ''div'' [] [] [Txt (js ''Saved Organizer'')]],
           El ''div'' [] []
             [El ''p'' [] [] [Txt (js ''Your private knowledge library'')],
              El ''p'' [] [] [Txt (js ''Turn saved messages into a workspace you can use.'')],
              El ''p'' [] [] [Txt (js ''Search, sort, and revisit the Telegram ideas, links, and notes that matter to you.'')],
              El ''ul'' [] [] (map (\<lambda>t. El ''li'' [] [] [Txt (js t)]) benefits)],
           El ''p'' [] [] [Txt (js ''Built for a focused, personal archive'')]],
        El ''section'' [] []
          [El ''div'' [] [] ([El ''div'' [] [] [El ''span'' [] [] [Txt (js ''Saved Organizer'')]]] @ outlet)]]"

definition RouteLoading :: "'a html" where
  "RouteLoading =
     El ''div'' [(''role'', js ''status''), (''aria-label'', js ''Loading page'')] []
       [El ''div'' [] [] [], El ''div'' [] [] [], El ''div'' [] [] (replicate 6 (El ''div'' [] [] [])),
        El ''span'' [] [] [Txt (js ''Loading page'' @ ellipsis)]]"

definition session_loading_view :: "'a html" where
  "session_loading_view =
     El ''main'' [(''role'', js ''status''), (''aria-live'', js ''polite'')] []
       [El ''div'' [] [] [El ''p'' [] [] [Txt (js ''Checking your session'' @ ellipsis)]]]"

definition session_unavailable_view :: "layout_action html" where
  "session_unavailable_view =
     El ''main'' [] []
       [El ''section'' [(''role'', js ''alert'')] []
          [El ''p'' [] [] [Txt (js ''Connection problem'')], El ''h1'' [] [] [Txt (js ''The server is unavailable'')],
           El ''p'' [] [] [Txt (js ''We could not check your account session. Your sign-in state has not been changed.'')],
           Button None [] [on ''click'' RefreshSession] [Txt (js ''Try again'')]]]"

definition not_found_view :: "'a html" where
  "not_found_view =
     El ''main'' [] []
       [El ''div'' [] []
          [El ''p'' [] [] [Txt (js ''404'')], El ''h1'' [] [] [Txt (js ''Page Not Found'')],
           El ''p'' [] [] [Txt (js ''This route is not configured yet in the organizer dashboard.'')],
           El ''Link'' [(''to'', js ''/'')] [] [Txt (js ''Back to Dashboard'')]]]"

definition route_error_view :: "route_error \<Rightarrow> layout_action html" where
  "route_error_view e =
     El ''main'' [] []
       [El ''div'' [] []
          [El ''h1'' [] [] [Txt (js ''Something went wrong'')],
           El ''p'' [] [] [Txt (js ''This view hit an unexpected error. You can go back to a safe route and continue working.'')],
           StatePanel ErrorTone (js ''Route error'') (Some (toRouteErrorMessage e)) None,
           El ''div'' [] []
             [El ''Link'' [(''to'', js ''/'')] [] [Txt (js ''Back to Dashboard'')],
              El ''button'' [(''type'', js ''button'')] [on ''click'' ReloadApp] [Txt (js ''Reload app'')]]]]"

section \<open>pages/dashboard-page.tsx\<close>

text \<open>\<open>toLocaleString\<close> of a number is a parameter.\<close>

definition dashboard_card :: "(int \<Rightarrow> jstr) \<Rightarrow> category \<Rightarrow> 'a html" where
  "dashboard_card locale_number c =
     El ''Link'' [(''to'', category_url (cat_slug c))] []
       [El ''article'' [] []
          [El ''div'' [] [] [El ''span'' [] [] [Txt (locale_number (cat_message_count c))]],
           El ''h3'' [] [] [Txt (cat_name c)]]]"

definition dashboard_view ::
    "(int \<Rightarrow> jstr) \<Rightarrow> scan_dates \<Rightarrow> category list \<Rightarrow> bool \<Rightarrow> scan_panel \<Rightarrow> scan_action html list" where
  "dashboard_view locale_number D categories isLoading panel =
     (let totalMessages = dashboard_total categories; lists = (\<not> isLoading \<and> totalMessages > 0)
      in if lists \<and> list_ex (\<lambda>c. encode_uri_component (cat_slug c) = None) categories then []
         else [El ''section'' [] []
            ([El ''h2'' [] [] [Txt (js ''Dashboard'')],
              El ''p'' [] []
                [Txt (if totalMessages > 0
                      then locale_number totalMessages @ js '' messages organized across '' @ nat_str (length categories) @ js '' categories.''
                      else js ''Connect Telegram and import your Saved Messages to get started.'')],
              El ''div'' [] [] (scan_panel_view D panel)]
             @ (if lists then [El ''div'' [] [] (map (dashboard_card locale_number) categories)] else []))])"

section \<open>What the workspace's controls do\<close>

text \<open>
  The focus a menu moves is left out, and so are drags: \<open>WorkspaceLayout\<close> has them. Signing out and
  asking for the session again concern the provider, and reloading the browser.
\<close>

fun layout_do :: "layout_action \<Rightarrow> workspace \<Rightarrow> workspace" where
  "layout_do ToggleNavigation w = w\<lparr>ws_ui := toggleSidebar (ws_ui w)\<rparr>"
| "layout_do CloseNavigation w = w\<lparr>ws_ui := setSidebarOpen False (ws_ui w)\<rparr>"
| "layout_do (DragLeaveCategory i) w = w\<lparr>ws_sidebar := handleCategoryDragLeave False i (ws_sidebar w)\<rparr>"
| "layout_do AccountTrigger w = w\<lparr>ws_account := fst (account_trigger_click (ws_account w))\<rparr>"
| "layout_do (AccountKey key) w = w\<lparr>ws_account := fst (handleMenuKeyDown key 0 OffMenu (ws_account w))\<rparr>"
| "layout_do CloseAccountMenu w = w\<lparr>ws_account := fst (closeMenu False (ws_account w))\<rparr>"
| "layout_do a w = w"

section \<open>What the workspace offers\<close>

lemma account_menu_acts:
  "acts_list (account_menu_view H user m) =
     (if user = None then {}
      else {AccountTrigger}
        \<union> (if am_isOpen m then range AccountKey \<union> {CloseAccountMenu} \<union> (if am_isSigningOut m then {} else {SignOut}) else {}))"
  by (auto simp: account_menu_view_def account_menu_items_def account_link_def account_display_name_def split: option.split)

text \<open>A sidebar that is not shown cannot be reached with the keyboard either.\<close>

lemma hidden_sidebar_offers_nothing: "sidebar_hidden isOpen s \<Longrightarrow> acts_list (sidebar_view c isOpen s) = {}"
  by (simp add: sidebar_view_def sidebar_hidden_def)

lemma shown_sidebar_navigates: "\<not> sidebar_hidden isOpen s \<Longrightarrow> CloseNavigation \<in> acts_list (sidebar_view c isOpen s)"
  by (simp add: sidebar_view_def sidebar_nav_def nav_item_def navigation_def)

lemma nonblank_int_str [simp]: "nonblank (int_str n)"
proof -
  have "nonblank (nat_str m)" for m
  proof (cases "nat_str m")
    case (Cons c cs)
    then have "is_digit c" using nat_str_digits [of c m] by simp
    with Cons show ?thesis by (simp add: nonblank_def is_digit_not_ws)
  qed (simp add: nat_str_not_Nil)
  then show ?thesis by (simp add: int_str_def) (simp add: nonblank_def is_ws_def)
qed

lemma replicate_markup [simp]:
  "named_list ids b (replicate n v) \<longleftrightarrow> n = 0 \<or> named ids b v" "labelled_ids_list (replicate n v) = (if n = 0 then {} else labelled_ids v)"
  by (auto simp: html_lists(3,6))

lemma account_menu_named: "named_list ids b (account_menu_view H user m)" "labelled_ids_list (account_menu_view H user m) = {}"
  by (simp_all add: account_menu_view_def account_menu_items_def account_link_def has_label_attr_def is_ws_def split: option.split)

lemma sidebar_named: "named_list ids b (sidebar_view c isOpen s)" "labelled_ids_list (sidebar_view c isOpen s) = {}"
  by (simp_all add: sidebar_view_def sidebar_nav_def sidebar_category_list_def nav_item_def category_link_def counted_label_def
      navigation_def has_label_attr_def is_ws_def)

text \<open>With an outlet whose controls have names, all controls of the workspace have one.\<close>

lemma workspace_named: "named_list {} False outlet \<Longrightarrow> labelled_ids_list outlet = {} \<Longrightarrow> controls_named (AppLayout H user c w pathname outlet)"
  by (simp add: controls_named_def AppLayout_def TopBar_def Button_def account_menu_named sidebar_named has_label_attr_def is_ws_def)

lemma small_pages_named:
  "controls_named [not_found_view :: 'a html]" "controls_named [route_error_view e]" "controls_named [session_unavailable_view]"
  "(\<And>n. nonblank (nf n)) \<Longrightarrow> controls_named (dashboard_view nf D cs loading p)"
  using scan_panel_named [of D p]
  by (simp_all add: controls_named_def not_found_view_def route_error_view_def session_unavailable_view_def dashboard_view_def
      dashboard_card_def Button_def Let_def is_ws_def)

end
