(* ===== verification/AppRoutes.thy ===== *)
theory AppRoutes
  imports LayoutViews
begin

text \<open>
  \<open>router.tsx\<close>: the table of routes, what is rendered along a branch of it, and the redirects of the
  guards. Which branch a path selects is the business of the router library, a parameter of the
  model: of it is used that every path of the site selects a branch of the table (the last one
  takes what no other does), and that a path written out in the table selects its own branch.
\<close>

section \<open>The table\<close>

datatype app_page =
    DashboardPage | MessagesPage | ConnectPage | LoginPage | RegisterPage | AccountSettingsPage | SessionsPage
  | CategoriesPage | TagsPage | NotFoundPage

datatype route_element =
    AuthRootElement
  | PublicOnlyElement
  | RequireAuthElement
  | AuthLayoutElement
  | AppLayoutElement
  | PageElement app_page
  | NavigateElement jstr

text \<open>A route: its path if it has one (an index route has the empty one), its element, its children.\<close>

datatype route = Route "jstr option" route_element "route list"

definition leaf :: "string \<Rightarrow> route_element \<Rightarrow> route" where
  "leaf path e = Route (Some (js path)) e []"

definition router :: "route list" where
  "router =
     [Route None AuthRootElement
        [Route None PublicOnlyElement
           [Route None AuthLayoutElement
              [leaf ''/login'' (PageElement LoginPage), leaf ''/register'' (PageElement RegisterPage)]],
         Route None RequireAuthElement
           [Route (Some (js ''/'')) AppLayoutElement
              [leaf '''' (PageElement DashboardPage),
               leaf ''messages'' (PageElement MessagesPage),
               leaf ''onboarding/telegram'' (PageElement ConnectPage),
               leaf ''settings/telegram'' (PageElement ConnectPage),
               leaf ''settings/account'' (PageElement AccountSettingsPage),
               leaf ''settings/sessions'' (PageElement SessionsPage),
               leaf ''settings/categories'' (PageElement CategoriesPage),
               leaf ''settings/tags'' (PageElement TagsPage),
               leaf ''connect'' (NavigateElement (js ''/settings/telegram'')),
               leaf ''*'' (PageElement NotFoundPage)]]]]"

text \<open>The branches of the table: the joined path and the elements from the root to a leaf.\<close>

primrec branches :: "jstr \<Rightarrow> route \<Rightarrow> (jstr \<times> route_element list) list"
  and branches_list :: "jstr \<Rightarrow> route list \<Rightarrow> (jstr \<times> route_element list) list" where
  "branches prefix (Route path e children) =
     (let here = prefix @ (case path of Some p \<Rightarrow> p | None \<Rightarrow> [])
      in if children = [] then [(here, [e])] else map (\<lambda>(p, es). (p, e # es)) (branches_list here children))"
| "branches_list prefix [] = []"
| "branches_list prefix (r # rs) = branches prefix r @ branches_list prefix rs"

definition app_branches :: "(jstr \<times> route_element list) list" where
  "app_branches = branches_list [] router"

section \<open>What is rendered\<close>

datatype visit =
    ShowsLoading
  | ShowsUnavailable
  | Redirects jstr "json option"
  | ShowsPage app_page
  | ShowsNothing

text \<open>Each element renders its outlet, the guards only when the session's status lets them.\<close>

fun render_branch :: "url_origin \<Rightarrow> jstr option \<Rightarrow> auth_status \<Rightarrow> location \<Rightarrow> route_element list \<Rightarrow> visit" where
  "render_branch og w status loc [] = ShowsNothing"
| "render_branch og w status loc (AuthRootElement # es) = render_branch og w status loc es"
| "render_branch og w status loc (PublicOnlyElement # es) =
     (case PublicOnly og w status loc of
        Outlet \<Rightarrow> render_branch og w status loc es
      | NavigateTo t st \<Rightarrow> Redirects t st
      | SessionLoading \<Rightarrow> ShowsLoading
      | SessionUnavailable \<Rightarrow> ShowsUnavailable)"
| "render_branch og w status loc (RequireAuthElement # es) =
     (case RequireAuth og w status loc of
        Outlet \<Rightarrow> render_branch og w status loc es
      | NavigateTo t st \<Rightarrow> Redirects t st
      | SessionLoading \<Rightarrow> ShowsLoading
      | SessionUnavailable \<Rightarrow> ShowsUnavailable)"
| "render_branch og w status loc (AuthLayoutElement # es) = render_branch og w status loc es"
| "render_branch og w status loc (AppLayoutElement # es) = render_branch og w status loc es"
| "render_branch og w status loc (PageElement p # es) = ShowsPage p"
| "render_branch og w status loc (NavigateElement t # es) = Redirects t None"

text \<open>The router: the branch a path selects.\<close>

type_synonym matching = "jstr \<Rightarrow> route_element list"

definition matches_table :: "matching \<Rightarrow> bool" where
  "matches_table M \<longleftrightarrow>
     (\<forall>path. starts_with path (js ''/'') \<longrightarrow> M path \<in> snd ` set app_branches)
     \<and> (\<forall>(path, es) \<in> set app_branches. 42 \<notin> set path \<longrightarrow> M path = es)"

definition render_at :: "matching \<Rightarrow> url_origin \<Rightarrow> jstr option \<Rightarrow> auth_status \<Rightarrow> location \<Rightarrow> visit" where
  "render_at M og w status loc = render_branch og w status loc (M (loc_pathname loc))"

text \<open>The location a redirect leads to.\<close>

definition redirected :: "jstr \<Rightarrow> json option \<Rightarrow> location" where
  "redirected t st =
     (let rest = drop (length (path_part t)) t
      in \<lparr>loc_pathname = path_part t, loc_search = takeWhile (\<lambda>c. c \<noteq> 35) rest, loc_hash = dropWhile (\<lambda>c. c \<noteq> 35) rest,
          loc_state = st\<rparr>)"

text \<open>What is shown after at most so many redirects, if the redirects end by then.\<close>

fun settles :: "nat \<Rightarrow> matching \<Rightarrow> url_origin \<Rightarrow> jstr option \<Rightarrow> auth_status \<Rightarrow> location \<Rightarrow> visit option" where
  "settles n M og w status loc =
     (case render_at M og w status loc of
        Redirects t st \<Rightarrow> (case n of 0 \<Rightarrow> None | Suc m \<Rightarrow> settles m M og w status (redirected t st))
      | s \<Rightarrow> Some s)"

declare settles.simps [simp del]

section \<open>Where visitors end up\<close>

definition public_pages :: "app_page set" where
  "public_pages = {LoginPage, RegisterPage}"

lemma app_branches_eq:
  "app_branches =
     map (\<lambda>(p, e). (js p, [AuthRootElement, PublicOnlyElement, AuthLayoutElement, e]))
       [(''/login'', PageElement LoginPage), (''/register'', PageElement RegisterPage)]
     @ map (\<lambda>(p, e). (js p, [AuthRootElement, RequireAuthElement, AppLayoutElement, e]))
       [(''/'', PageElement DashboardPage), (''/messages'', PageElement MessagesPage),
        (''/onboarding/telegram'', PageElement ConnectPage), (''/settings/telegram'', PageElement ConnectPage),
        (''/settings/account'', PageElement AccountSettingsPage), (''/settings/sessions'', PageElement SessionsPage),
        (''/settings/categories'', PageElement CategoriesPage), (''/settings/tags'', PageElement TagsPage),
        (''/connect'', NavigateElement (js ''/settings/telegram'')), (''/*'', PageElement NotFoundPage)]"
  by (simp add: app_branches_def router_def leaf_def Let_def js_Cons)

lemma branch_cases:
  assumes "es \<in> snd ` set app_branches"
  obtains (public) p where "p \<in> public_pages" "es = [AuthRootElement, PublicOnlyElement, AuthLayoutElement, PageElement p]"
    | (protected) p where "p \<notin> public_pages" "es = [AuthRootElement, RequireAuthElement, AppLayoutElement, PageElement p]"
    | (moved) "es = [AuthRootElement, RequireAuthElement, AppLayoutElement, NavigateElement (js ''/settings/telegram'')]"
  using assms by (auto simp: app_branches_eq public_pages_def)

lemma static_branches:
  assumes "matches_table M"
  shows "M (js ''/'') = [AuthRootElement, RequireAuthElement, AppLayoutElement, PageElement DashboardPage]"
    "M (js ''/login'') = [AuthRootElement, PublicOnlyElement, AuthLayoutElement, PageElement LoginPage]"
    "M (js ''/onboarding/telegram'') = [AuthRootElement, RequireAuthElement, AppLayoutElement, PageElement ConnectPage]"
    "M (js ''/settings/telegram'') = [AuthRootElement, RequireAuthElement, AppLayoutElement, PageElement ConnectPage]"
  using assms by (auto simp: matches_table_def app_branches_eq js_Cons)

lemma redirected_path [simp]: "loc_pathname (redirected t st) = path_part t" "loc_state (redirected t st) = st"
  by (simp_all add: redirected_def Let_def)

lemma path_part_starts: "starts_with t (js ''/'') \<Longrightarrow> starts_with (path_part t) (js ''/'')"
  by (auto simp: starts_with_iff path_part_def js_Cons)

lemma path_part_const [simp]:
  "path_part (js ''/'') = js ''/''" "path_part (js ''/login'') = js ''/login''"
  "path_part (js ''/onboarding/telegram'') = js ''/onboarding/telegram''" "path_part (js ''/settings/telegram'') = js ''/settings/telegram''"
  by (simp_all add: path_part_def js_Cons)

text \<open>A signed-in visitor of a page of the workspace sees it, or after one redirect the page it moved to.\<close>

lemma workspace_settles:
  assumes "matches_table M" and "M (loc_pathname loc) \<in> snd ` set app_branches"
    and "M (loc_pathname loc) \<noteq> [AuthRootElement, PublicOnlyElement, AuthLayoutElement, PageElement LoginPage]"
    and "M (loc_pathname loc) \<noteq> [AuthRootElement, PublicOnlyElement, AuthLayoutElement, PageElement RegisterPage]"
  shows "\<exists>p. settles (Suc n) M og w Authenticated loc = Some (ShowsPage p) \<and> p \<notin> public_pages"
  using assms(2)
proof (cases rule: branch_cases)
  case (public p)
  with assms(3,4) show ?thesis by (auto simp: public_pages_def)
next
  case (protected p)
  then show ?thesis
    by (simp add: settles.simps [of "Suc n"] render_at_def RequireAuth_def CurrentSessionBoundary_def)
next
  case moved
  then show ?thesis
    using static_branches(4) [OF assms(1)]
    by (simp add: settles.simps render_at_def RequireAuth_def CurrentSessionBoundary_def public_pages_def)
qed

text \<open>Where a public page sends a signed-in visitor; to a public page again only with another spelling of its path.\<close>

lemma slash: "starts_with (js ''/'') (js ''/'')" "starts_with (js ''/onboarding/telegram'') (js ''/'')"
  by (simp_all add: starts_with_iff js_Cons)

lemma public_redirect:
  "\<exists>t. PublicOnly og w Authenticated loc = NavigateTo t None \<and> starts_with t (js ''/'') \<and> path_part t \<noteq> js ''/register''"
proof (cases "getSafeReturnTo og w (loc_state loc)")
  case None
  then show ?thesis using slash by (simp add: PublicOnly_def CurrentSessionBoundary_def)
next
  case (Some t)
  from safe_path_facts [OF getSafeReturnTo_safe [OF Some]] Some show ?thesis
    using slash by (simp add: PublicOnly_def CurrentSessionBoundary_def)
qed

lemma public_redirect_plain: "loc_pathname loc \<noteq> js ''/register'' \<Longrightarrow> loc_state loc = None \<Longrightarrow>
    PublicOnly og w Authenticated loc = NavigateTo (js ''/'') None"
  by (simp add: PublicOnly_def CurrentSessionBoundary_def getSafeReturnTo_def)

lemma dashboard_settles: "matches_table M \<Longrightarrow> settles n M og w Authenticated (redirected (js ''/'') st) = Some (ShowsPage DashboardPage)"
  using static_branches(1) [of M] by (simp add: settles.simps [of n] render_at_def RequireAuth_def CurrentSessionBoundary_def)

lemma signed_in_settles:
  assumes M: "matches_table M" and path: "starts_with (loc_pathname loc) (js ''/'')"
  shows "\<exists>p. settles 2 M og w Authenticated loc = Some (ShowsPage p) \<and> p \<notin> public_pages"
proof (cases "M (loc_pathname loc) \<in> (\<lambda>p. [AuthRootElement, PublicOnlyElement, AuthLayoutElement, PageElement p]) ` public_pages")
  case False
  have "M (loc_pathname loc) \<in> snd ` set app_branches" using M path by (simp add: matches_table_def)
  with False workspace_settles [OF M, of loc 1 og w] show ?thesis by (auto simp: public_pages_def numeral_2_eq_2)
next
  case True
  obtain t where t: "PublicOnly og w Authenticated loc = NavigateTo t None" "starts_with t (js ''/'')" "path_part t \<noteq> js ''/register''"
    using public_redirect by blast
  let ?l = "redirected t None"
  have first: "settles 2 M og w Authenticated loc = settles 1 M og w Authenticated ?l"
    using True t(1) by (auto simp: settles.simps [of 2] render_at_def)
  show ?thesis
  proof (cases "M (loc_pathname ?l) \<in> (\<lambda>p. [AuthRootElement, PublicOnlyElement, AuthLayoutElement, PageElement p]) ` public_pages")
    case True
    have "PublicOnly og w Authenticated ?l = NavigateTo (js ''/'') None" using t(3) by (simp add: public_redirect_plain)
    with True have "settles 1 M og w Authenticated ?l = settles 0 M og w Authenticated (redirected (js ''/'') None)"
      by (auto simp: settles.simps [of "Suc 0"] render_at_def)
    with first dashboard_settles [OF M] show ?thesis by (simp add: public_pages_def)
  next
    case False
    have "M (loc_pathname ?l) \<in> snd ` set app_branches"
      using M path_part_starts [OF t(2)] by (simp add: matches_table_def)
    with False workspace_settles [OF M, of ?l 0 og w] first show ?thesis by (auto simp: public_pages_def)
  qed
qed

lemma signed_out_settles:
  assumes M: "matches_table M" and path: "starts_with (loc_pathname loc) (js ''/'')"
  shows "\<exists>p. settles 2 M og w Anonymous loc = Some (ShowsPage p) \<and> p \<in> public_pages"
proof -
  have "M (loc_pathname loc) \<in> snd ` set app_branches" using M path by (simp add: matches_table_def)
  then show ?thesis
  proof (cases rule: branch_cases)
    case (public p)
    then show ?thesis by (simp add: settles.simps [of 2] render_at_def PublicOnly_def CurrentSessionBoundary_def)
  qed (use static_branches(2) [OF M] in \<open>simp_all add: settles.simps render_at_def RequireAuth_def PublicOnly_def
      CurrentSessionBoundary_def public_pages_def Let_def\<close>)
qed

text \<open>A location of the router: its search and hash begin with their mark, its path has none.\<close>

definition location_ok :: "location \<Rightarrow> bool" where
  "location_ok l \<longleftrightarrow>
     63 \<notin> set (loc_pathname l) \<and> 35 \<notin> set (loc_pathname l)
     \<and> (loc_search l = [] \<or> hd (loc_search l) = 63) \<and> (loc_hash l = [] \<or> hd (loc_hash l) = 35)"

lemma path_part_full_path: "location_ok l \<Longrightarrow> path_part (full_path l) = loc_pathname l"
  by (cases "loc_search l"; cases "loc_hash l")
    (auto simp: location_ok_def path_part_def full_path_def takeWhile_append takeWhile_eq_all_conv)

text \<open>
  C40: Every visit ends on a page. With a router that matches the table, and whatever path, state
  and address a visit starts with: redirects end after at most two, on a page that the session's
  status may see (the sign-in and registration pages exactly for anonymous visitors); while the
  session is checked or the server cannot be reached nobody is redirected; and an anonymous visitor
  of a page of the workspace who signs in comes back to that page, if its address is safe.
\<close>

theorem redirects_end:
  assumes "matches_table M" and "starts_with (loc_pathname loc) (js ''/'')"
  shows "(status \<in> {Authenticated, Anonymous} \<longrightarrow>
        (\<exists>p. settles 2 M og w status loc = Some (ShowsPage p) \<and> (p \<in> public_pages \<longleftrightarrow> status = Anonymous)))
    \<and> render_at M og w Loading loc = ShowsLoading \<and> render_at M og w Unavailable loc = ShowsUnavailable
    \<and> (\<forall>p. M (loc_pathname loc) = [AuthRootElement, RequireAuthElement, AppLayoutElement, PageElement p] \<longrightarrow>
         location_ok loc \<longrightarrow> isSafeInternalPath og w (full_path loc) \<longrightarrow>
         (\<exists>st. render_at M og w Anonymous loc = Redirects (js ''/login'') st
            \<and> settles 1 M og w Authenticated (redirected (js ''/login'') st) = Some (ShowsPage p)))"
proof (intro conjI allI impI)
  assume "status \<in> {Authenticated, Anonymous}"
  then show "\<exists>p. settles 2 M og w status loc = Some (ShowsPage p) \<and> (p \<in> public_pages \<longleftrightarrow> status = Anonymous)"
    using signed_in_settles [OF assms, of og w] signed_out_settles [OF assms, of og w] by auto
next
  have "M (loc_pathname loc) \<in> snd ` set app_branches" using assms by (simp add: matches_table_def)
  then show "render_at M og w Loading loc = ShowsLoading" "render_at M og w Unavailable loc = ShowsUnavailable"
    by (cases rule: branch_cases; simp add: render_at_def PublicOnly_def RequireAuth_def CurrentSessionBoundary_def)+
next
  fix p
  assume p: "M (loc_pathname loc) = [AuthRootElement, RequireAuthElement, AppLayoutElement, PageElement p]"
    and loc: "location_ok loc" and safe: "isSafeInternalPath og w (full_path loc)"
  obtain st where st: "RequireAuth og w Anonymous loc = NavigateTo (js ''/login'') st"
    by (simp add: RequireAuth_def CurrentSessionBoundary_def Let_def)
  have returns: "PublicOnly og w Authenticated (redirected (js ''/login'') st) = NavigateTo (full_path loc) None"
    using sign_in_returns_to_page [OF st, of "redirected (js ''/login'') st"] safe by simp
  have "render_at M og w Anonymous loc = Redirects (js ''/login'') st" using p st by (simp add: render_at_def)
  moreover have "settles 1 M og w Authenticated (redirected (js ''/login'') st) = Some (ShowsPage p)"
    using p returns static_branches(2) [OF assms(1)] path_part_full_path [OF loc]
    by (simp add: settles.simps render_at_def RequireAuth_def CurrentSessionBoundary_def)
  ultimately show "\<exists>st. render_at M og w Anonymous loc = Redirects (js ''/login'') st
      \<and> settles 1 M og w Authenticated (redirected (js ''/login'') st) = Some (ShowsPage p)" by blast
qed

text \<open>A router that compares paths as they are written.\<close>

definition exact_matching :: matching where
  "exact_matching path =
     (case map_of app_branches path of
        Some es \<Rightarrow> es
      | None \<Rightarrow> [AuthRootElement, RequireAuthElement, AppLayoutElement, PageElement NotFoundPage])"

theorem redirects_end_witness:
  "\<exists>p. settles 2 exact_matching simple_origin None Anonymous
      \<lparr>loc_pathname = js ''/connect'', loc_search = [], loc_hash = [], loc_state = None\<rparr> = Some (ShowsPage p) \<and> p \<in> public_pages"
proof -
  have keys: "distinct (map fst app_branches)"
    by (simp add: app_branches_eq js_Cons)
  have "matches_table exact_matching"
    unfolding matches_table_def
  proof (intro conjI allI impI)
    fix path
    show "exact_matching path \<in> snd ` set app_branches"
    proof (cases "map_of app_branches path")
      case None
      then have "exact_matching path = [AuthRootElement, RequireAuthElement, AppLayoutElement, PageElement NotFoundPage]"
        by (simp add: exact_matching_def)
      then show ?thesis by (simp add: app_branches_eq)
    next
      case (Some es)
      then have "exact_matching path = es" "(path, es) \<in> set app_branches" by (simp_all add: exact_matching_def map_of_SomeD)
      then show ?thesis by force
    qed
  next
    show "\<forall>(path, es) \<in> set app_branches. 42 \<notin> set path \<longrightarrow> exact_matching path = es"
      using keys by (auto simp: exact_matching_def)
  qed
  from redirects_end [OF this, of "\<lparr>loc_pathname = js ''/connect'', loc_search = [], loc_hash = [], loc_state = None\<rparr>" Anonymous simple_origin None]
  show ?thesis by (simp add: starts_with_iff js_Cons)
qed

section \<open>Links\<close>

text \<open>A link of the router leads to a page that the table has.\<close>

definition known_path :: "jstr \<Rightarrow> bool" where
  "known_path path \<longleftrightarrow>
     (case map_of app_branches path of None \<Rightarrow> False | Some es \<Rightarrow> (\<exists>p. last es = PageElement p \<and> p \<noteq> NotFoundPage))"

definition leads_to_page :: "string \<times> attrs \<Rightarrow> bool" where
  "leads_to_page e \<longleftrightarrow>
     (fst e \<in> {''Link'', ''NavLink''} \<longrightarrow> (case attr (snd e) ''to'' of Some t \<Rightarrow> known_path (path_part t) | None \<Rightarrow> False))"

lemma leads_to_page_simps [simp]:
  "tag \<notin> {''Link'', ''NavLink''} \<Longrightarrow> leads_to_page (tag, as)"
  "leads_to_page (''Link'', (''to'', t) # as) \<longleftrightarrow> known_path (path_part t)"
  "leads_to_page (''NavLink'', (''to'', t) # as) \<longleftrightarrow> known_path (path_part t)"
  by (simp_all add: leads_to_page_def)

lemma known_paths [simp]:
  "known_path (js ''/'')" "known_path (js ''/messages'')" "known_path (js ''/settings/categories'')" "known_path (js ''/settings/tags'')"
  "known_path (js ''/settings/telegram'')" "known_path (js ''/settings/account'')" "known_path (js ''/settings/sessions'')"
  by (simp_all add: known_path_def app_branches_eq)

lemma path_parts [simp]:
  "path_part (js ''/messages'') = js ''/messages''" "path_part (js ''/settings/categories'') = js ''/settings/categories''"
  "path_part (js ''/settings/tags'') = js ''/settings/tags''" "path_part (js ''/settings/account'') = js ''/settings/account''"
  "path_part (js ''/settings/sessions'') = js ''/settings/sessions''" "path_part (category_url slug) = js ''/messages''"
  by (simp_all add: path_part_def category_url_def js_Cons)

lemma elements_StatePanel [simp]:
  "list_all leads_to_page (elements (StatePanel tone t d a)) \<longleftrightarrow> (case a of Some v \<Rightarrow> list_all leads_to_page (elements v) | None \<Rightarrow> True)"
  by (simp add: StatePanel_def shown_def split: option.split)

lemma elements_shown [simp]: "list_all P (elements_list (shown v f)) \<longleftrightarrow> (\<forall>t. v = Some t \<and> t \<noteq> [] \<longrightarrow> list_all P (elements_list (f t)))"
  by (auto simp: shown_def split: option.split)

lemma elements_replicate [simp]: "list_all P (elements_list (replicate n v)) \<longleftrightarrow> n = 0 \<or> list_all P (elements v)"
  by (induction n) auto

lemma layout_links:
  "list_all leads_to_page (elements_list outlet) \<Longrightarrow> list_all leads_to_page (elements_list (AppLayout H user c w pathname outlet))"
proof -
  assume outlet: "list_all leads_to_page (elements_list outlet)"
  have "list_all leads_to_page (elements_list (account_menu_view H user m))" for m
    by (simp add: account_menu_view_def account_menu_items_def account_link_def split: option.split)
  moreover have "list_all leads_to_page (elements_list (sidebar_view c isOpen s))" for isOpen s
    by (simp add: sidebar_view_def sidebar_nav_def sidebar_category_list_def nav_item_def navigation_def category_link_def
        counted_label_def paragraph_list_def)
  ultimately show ?thesis using outlet by (simp add: AppLayout_def TopBar_def Button_def)
qed

lemma page_links:
  "list_all leads_to_page (elements not_found_view)" "list_all leads_to_page (elements (route_error_view e))"
  "list_all leads_to_page (elements_list (dashboard_view nf D cs loading panel))"
proof -
  show "list_all leads_to_page (elements not_found_view)" "list_all leads_to_page (elements (route_error_view e))"
    by (simp_all add: not_found_view_def route_error_view_def)
  have "list_all leads_to_page (elements_list (scan_panel_view D panel))"
    by (simp add: scan_panel_view_def scan_heading_def scan_buttons_def page_size_field_def scan_status_view_def progress_bar_def
        scan_facts_def scan_fact_def scan_alert_def scan_outcome_def Button_def Let_def)
  then show "list_all leads_to_page (elements_list (dashboard_view nf D cs loading panel))"
    by (simp add: dashboard_view_def dashboard_card_def Let_def)
qed

end
