(* ===== verification/Spec2Isabelle.thy ===== *)
theory Spec2Isabelle
  imports ApiMessages Categories SessionFlow AccountViews ConnectViews OrganizationUse MessagesUse
    ScanPolling AppRoutes
begin

text \<open>
  A model of the web client of the Telegram Saved Organizer: the TypeScript under
  \<open>src/frontend/src\<close>. File names below are relative to that directory.

  \<^bold>\<open>The program.\<close> A page of the client calls the functions of \<open>api/\<close>, which all speak to the server
  through \<open>requestJson\<close> of \<open>api/client.ts\<close>. A 401 answer there becomes an event that the session
  provider (\<open>auth-provider.tsx\<close>) hears; the provider tells the other tabs over a
  \<open>BroadcastChannel\<close>, and the route guards decide from its status what may be seen. A tag or
  category change is announced (\<open>organization-events.ts\<close>) to the hook that keeps the category list,
  and to the pages. The import panel follows a scan by polling and by a live stream. The messages
  page keeps its filters in the URL, lists, selects, moves, tags and deletes messages; cards are
  dragged onto the categories of the sidebar.

  \<^bold>\<open>Theories and what they model.\<close>
  \<^item> \<open>Prelude\<close>: JavaScript strings (lists of UTF-16 code units), numbers (rationals with \<open>NaN\<close>, the
    infinities and rounding to 53 bits), JSON, thrown errors, promises as a list of effects with the
    value or error they settle with, stable sorting, insertion-ordered maps.
  \<^item> \<open>Uri\<close>: \<open>encodeURIComponent\<close>, \<open>decodeURIComponent\<close>, \<open>TextEncoder\<close>; \<open>lib/password-validation.ts\<close>.
  \<^item> \<open>SearchParams\<close>: \<open>URLSearchParams\<close> as a list of pairs, and its text.
  \<^item> \<open>ApiClient\<close>: \<open>api/client.ts\<close>. \<open>ApiAccount\<close>: \<open>api/session.ts\<close>, \<open>account.ts\<close>, \<open>auth.ts\<close>.
    \<open>ApiOrganization\<close>: \<open>api/categories.ts\<close>, \<open>tags.ts\<close>. \<open>ApiMessages\<close>: \<open>api/messages.ts\<close>, \<open>scan.ts\<close>.
  \<^item> \<open>OrgEvents\<close>: \<open>lib/organization-events.ts\<close>, \<open>lib/message-drag-events.ts\<close>, \<open>stores/ui-store.ts\<close>.
  \<^item> \<open>Categories\<close>: \<open>hooks/use-categories.ts\<close>, \<open>lib/category-icons.ts\<close>.
  \<^item> \<open>AuthProvider\<close>, \<open>RouteGuards\<close>: \<open>components/auth/auth-provider.tsx\<close>, \<open>route-guards.tsx\<close>.
  \<^item> \<open>SessionFlow\<close>: how the end of a session gets from a 401 answer over the providers of all tabs to
    the guards and back to the page.
  \<^item> \<open>ScanProgress\<close>: \<open>components/scan/scan-progress.tsx\<close> and the subscription of \<open>api/scan.ts\<close>;
    \<open>ScanPolling\<close>: the chain of timers that keeps its polling alive.
  \<^item> \<open>MessagesFilters\<close> (pure) and \<open>MessagesPage\<close> (state): \<open>pages/messages-page.tsx\<close> and
    \<open>components/messages/bulk-actions.tsx\<close>.
  \<^item> \<open>MessageContent\<close>: \<open>lib/message-content.ts\<close>, \<open>components/messages/message-content.tsx\<close>.
  \<^item> \<open>MessageCard\<close>: \<open>components/messages/message-card.tsx\<close>, \<open>message-detail.tsx\<close>.
  \<^item> \<open>Dialogs\<close>: \<open>hooks/use-modal-lifecycle.ts\<close>, \<open>move-dialog.tsx\<close>, \<open>tag-input.tsx\<close>.
  \<^item> \<open>ConnectPage\<close>: \<open>pages/connect-page.tsx\<close>, \<open>connect-form.tsx\<close>, \<open>verify-code.tsx\<close>.
  \<^item> \<open>AccountPages\<close>: \<open>login-page.tsx\<close>, \<open>register-page.tsx\<close>, \<open>account-settings-page.tsx\<close>,
    \<open>sessions-page.tsx\<close>. \<open>AccountMenu\<close>: \<open>components/account/account-menu.tsx\<close>, the dashboard's total,
    \<open>message-grid.tsx\<close>, \<open>route-error-page.tsx\<close>.
  \<^item> \<open>OrganizationPages\<close>: \<open>pages/tags-page.tsx\<close>, \<open>categories-page.tsx\<close> and their form dialogs.
  \<^item> \<open>WorkspaceLayout\<close>: \<open>components/layout/sidebar.tsx\<close>, \<open>app-layout.tsx\<close>, and the way of a dragged
    message from its card over the sidebar to the messages page.
  \<^item> \<open>Markup\<close>: what a component renders, a tree of elements with attributes and the actions of their
    handlers. \<open>AccountViews\<close>, \<open>ConnectViews\<close>, \<open>TagsView\<close>, \<open>CategoriesView\<close>, \<open>ScanView\<close>,
    \<open>MessageViews\<close> (content, card, detail), \<open>MessageDialogViews\<close> (bulk bar, move and tag dialogs),
    \<open>MessagesView\<close> and \<open>LayoutViews\<close> (bar, sidebar, account menu, dashboard, the screens of the
    guards) give the trees of the components above and, per component, a function from its actions to
    the events of its state machine. \<open>MessagesUse\<close> follows the controls of the messages page through
    all its states, \<open>OrganizationUse\<close> those of the tags page and the categories page.
  \<^item> \<open>AppRoutes\<close>: \<open>router.tsx\<close>, the routing table with its guards and redirects.
\<close>

text \<open>
  \<^bold>\<open>How code becomes definitions.\<close> A component's refs and React state are one record; a handler is a
  function on it with the name it has in the source. An asynchronous handler is cut at each
  \<open>await\<close>: \<open>f_start\<close> runs up to the request, \<open>f_reply\<close> from its settled value (\<open>Inl\<close> an error,
  \<open>Inr\<close> the value); what the function holds in local variables across the \<open>await\<close> (a request
  version, the state of its closure) is an argument of the reply. Effects of React are functions
  applied after a change. The events of a component form a step function or an \<open>inductive\<close> step
  relation, in which a reply may arrive at any time after its request and in any order, so that the
  invariants and the claims about late replies range over all interleavings.

  \<^bold>\<open>Interfaces\<close> (locales, each interpreted on the definitions of the model).
  \<^item> \<open>json_client\<close>: what the API modules rely on from \<open>requestJson\<close>; \<open>http\<close> in \<open>ApiClient\<close>.
  \<^item> \<open>js_comparator\<close>: a comparison function that sorts; \<open>by_position\<close> in \<open>Categories\<close>.
  \<^item> \<open>keyed_map\<close>: lookup after insertion; \<open>js_map\<close> in \<open>Prelude\<close>.
  \<^item> \<open>search_params\<close>: reading a query after writing it; \<open>url_params\<close> in \<open>SearchParams\<close>.
  \<^item> \<open>latest_wins\<close>: a version counter makes the replies of superseded requests harmless; interpreted
    for the session provider, the import panel, the listing of messages and the connection page.
  \<^item> \<open>dialog_host\<close>: the invariant that a page with a form dialog and a confirmation dialog keeps from
    the operations on them; interpreted for the tags page and the categories page. The specification
    of the dialogs is the machine \<open>dialog_next\<close> of \<open>OrganizationPages\<close>, stated without those operations;
    \<open>OrganizationUse\<close> shows that the pages implement it.
  \<^item> \<open>rendered_page\<close>: a user acts on a page only through its enabled controls, so what is shown of the
    controls of every reachable state holds of every use of the page; interpreted for the account
    settings, the sessions, the tags page, the categories page and the import panel.

  \<^bold>\<open>What the properties show.\<close> Messages page: consent, selection, exact effects of moves and deletes,
  late listings (C1 to C6). Filters and pagination (C7 to C9). Message text and links (C10 to C12).
  Requests: bounds on queries, the CSRF header, cookies, announcements (C13 to C16). Events: delivery
  exactly once in every tab (C17). State invariants and late replies: categories (C18, C19), session
  (C20 to C24, with C23 across the tabs), import panel (C25, C26), connection page against its abstract
  wizard (C27 to C29). Sign-in forms (C31), organization pages against the machine of their dialogs (C32),
  the document behind modals (C33), the drag of a message across three components (C34). Rendered controls
  (C30, C35 to C39): what each view offers, that an enabled control does what its handler's guards
  allow and sends exactly its request, and that links and media of a message lead only where they may.
  The redirects of the routing table end (C40).

  \<^bold>\<open>Termination and bounds.\<close> Every function is total; loops that are not structural (percent
  decoding, link search, punctuation trimming, the size units) are \<open>function\<close>s with a measure, so no
  fuel is used. Code units are naturals below 65536 where a claim needs it (\<open>wf_jstr\<close>); ids that pass
  through \<open>parseInt\<close> are bounded by 2^53 in the claims that need the number to be exact.

  \<^bold>\<open>Parameters.\<close> The server and the network (a function from requests to replies), the case mappings
  and the collation of the host (\<open>host\<close>), the browser's URL parser, the date parser, the clock,
  \<open>Intl\<close>, the text of a number, and how the router library matches
  a path against the table (\<open>matches_table\<close> says what is relied on). The claims hold for all of
  them, or name what they need of them.

  \<^bold>\<open>Not modelled.\<close> Class names, icons, colours, animation and scrolling; lazy loading of the pages; abort
  signals beyond their effect on a reply; \<open>main.tsx\<close> and \<open>App.tsx\<close>, which mount the providers of the
  libraries; \<open>lib/utils.ts\<close>, which joins class names; \<open>ModalPortal\<close>, which moves a dialog to the end of
  the document (the trees of the dialogs stand beside their page); the server, which is a Python program.
  Where the model is coarser than the code: cards that are being animated out of the grid count as gone
  (\<open>exiting_card_selected\<close> shows what they can do); numbers print as plain digits, so not as a browser
  prints those from 2^53 on, which only a page number that no page of the client sets could reach; while a
  modal is open the children of \<open>body\<close> stay the same ones, and \<open>focus\<close> succeeds on the element it is
  called on.
\<close>

end
